(* ===== verification/Prelude.thy ===== *)
theory Prelude
  imports Main "HOL-Library.Word"
begin

text \<open>
  Shared vocabulary of the development: the machine integers of the Rust host at their width,
  the results and panics of host functions, and the pieces of the Rust standard library the
  host calls (\<open>try_from\<close>, \<open>saturating_add\<close>, \<open>checked_add\<close>, slicing, byte encodings,
  \<open>split\<close>).  A signed value \<open>x :: i32\<close> is read with \<open>sint\<close>.  A \<open>usize\<close> is a natural
  number below \<open>2 ^ 64\<close>: every supported host (x86-64, ARM64) is a 64-bit little-endian machine,
  so the native-endian encodings of the source are the little-endian ones.
\<close>

unbundle bit_operations_syntax

subsection \<open>Types\<close>

type_synonym u8 = "8 word"
type_synonym i16 = "16 word"
type_synonym u16 = "16 word"
type_synonym i32 = "32 word"
type_synonym u32 = "32 word"
type_synonym i64 = "64 word"
type_synonym u64 = "64 word"
type_synonym usize = nat
type_synonym bytes = "u8 list"

text \<open>\<open>Result<T, i32>\<close>: an errno on the left, the value on the right.\<close>

type_synonym 'a errno_result = "i32 + 'a"

text \<open>A host function returns or panics (an out-of-range slice, an \<open>unwrap\<close> of an error).\<close>

datatype 'a outcome = Return 'a | Panic

named_theorems errno_consts \<open>the values of the guest errno constants\<close>
named_theorems import_defs \<open>the bodies of the host imports\<close>
named_theorems wf_intros \<open>preservation of well-formedness\<close>

subsection \<open>Integer conversions of the Rust standard library\<close>

definition i32_MAX :: i32 where
  "i32_MAX = 0x7fffffff"

definition usize_of_i32 :: "i32 \<Rightarrow> usize option" where
  "usize_of_i32 x = (if sint x < 0 then None else Some (nat (sint x)))"

definition i32_of_usize :: "usize \<Rightarrow> i32 option" where
  "i32_of_usize n = (if n < 2 ^ 31 then Some (of_nat n) else None)"

definition u64_of_i64 :: "i64 \<Rightarrow> u64 option" where
  "u64_of_i64 x = (if sint x < 0 then None else Some x)"

definition i64_of_u64 :: "u64 \<Rightarrow> i64 option" where
  "i64_of_u64 x = (if unat x < 2 ^ 63 then Some x else None)"

definition i32_of_i64 :: "i64 \<Rightarrow> i32 option" where
  "i32_of_i64 x = (if - (2 ^ 31) \<le> sint x \<and> sint x < 2 ^ 31 then Some (scast x) else None)"

definition u16_of_i32 :: "i32 \<Rightarrow> u16 option" where
  "u16_of_i32 x = (if 0 \<le> sint x \<and> sint x < 2 ^ 16 then Some (ucast x) else None)"

definition usize_checked_add :: "usize \<Rightarrow> usize \<Rightarrow> usize option" where
  "usize_checked_add a b = (if a + b < 2 ^ 64 then Some (a + b) else None)"

definition usize_saturating_add :: "usize \<Rightarrow> usize \<Rightarrow> usize" where
  "usize_saturating_add a b = (if a + b < 2 ^ 64 then a + b else 2 ^ 64 - 1)"

text \<open>\<open>x.saturating_add(1)\<close> on \<open>i32\<close>.\<close>

definition i32_saturating_succ :: "i32 \<Rightarrow> i32" where
  "i32_saturating_succ x = (if x = i32_MAX then i32_MAX else x + 1)"

subsection \<open>Slices\<close>

text \<open>\<open>&xs[..n]\<close>: \<open>None\<close> stands for the out-of-range panic.\<close>

definition slice_to :: "'a list \<Rightarrow> usize \<Rightarrow> 'a list option" where
  "slice_to xs n = (if n \<le> length xs then Some (take n xs) else None)"

text \<open>\<open>&xs[lo..hi]\<close> for a range already checked.\<close>

definition subslice :: "'a list \<Rightarrow> usize \<Rightarrow> usize \<Rightarrow> 'a list" where
  "subslice xs lo hi = take (hi - lo) (drop lo xs)"

text \<open>
  The content of a buffer of fixed length after foreign code stored \<open>ws\<close> at its front; the
  part of \<open>ws\<close> beyond the buffer is not stored.
\<close>

definition fill :: "'a list \<Rightarrow> 'a list \<Rightarrow> 'a list" where
  "fill buf ws = take (length buf) ws @ drop (length ws) buf"

text \<open>\<open>xs[lo..lo + ys.len()].copy_from_slice(ys)\<close>.\<close>

definition overwrite :: "'a list \<Rightarrow> usize \<Rightarrow> 'a list \<Rightarrow> 'a list" where
  "overwrite xs lo ys = take lo xs @ ys @ drop (lo + length ys) xs"

subsection \<open>Byte encodings\<close>

fun to_le_bytes :: "nat \<Rightarrow> 'a::len word \<Rightarrow> bytes" where
  "to_le_bytes 0 w = []"
| "to_le_bytes (Suc n) w = ucast w # to_le_bytes n (drop_bit 8 w)"

fun from_le_bytes :: "bytes \<Rightarrow> 'a::len word" where
  "from_le_bytes [] = 0"
| "from_le_bytes (b # bs) = ucast b OR push_bit 8 (from_le_bytes bs)"

subsection \<open>Strings\<close>

text \<open>\<open>s.split(c)\<close>: the pieces between the separators, at least one.\<close>

fun split_on :: "'a \<Rightarrow> 'a list \<Rightarrow> 'a list list" where
  "split_on c [] = [[]]"
| "split_on c (x # xs) =
     (if x = c then [] # split_on c xs
      else (case split_on c xs of [] \<Rightarrow> [[x]] | p # ps \<Rightarrow> (x # p) # ps))"

text \<open>\<open>parts.join(sep)\<close>.\<close>

fun join_with :: "'a list \<Rightarrow> 'a list list \<Rightarrow> 'a list" where
  "join_with sep [] = []"
| "join_with sep [p] = p"
| "join_with sep (p # q # ps) = p @ sep @ join_with sep (q # ps)"

text \<open>\<open>s.split_once(c)\<close>: around the first separator.\<close>

fun split_once :: "'a \<Rightarrow> 'a list \<Rightarrow> ('a list \<times> 'a list) option" where
  "split_once c [] = None"
| "split_once c (x # xs) =
     (if x = c then Some ([], xs)
      else map_option (\<lambda>(l, r). (x # l, r)) (split_once c xs))"

text \<open>\<open>xs.iter().position(P)\<close>.\<close>

fun position :: "('a \<Rightarrow> bool) \<Rightarrow> 'a list \<Rightarrow> usize option" where
  "position P [] = None"
| "position P (x # xs) = (if P x then Some 0 else map_option Suc (position P xs))"

text \<open>\<open>s.starts_with(p)\<close>.\<close>

definition starts_with :: "'a list \<Rightarrow> 'a list \<Rightarrow> bool" where
  "starts_with s p \<longleftrightarrow> take (length p) s = p"

subsection \<open>Signed words\<close>

lemma sint_i32_bounds [simp]:
  "- 2147483648 \<le> sint (x :: i32)" "sint (x :: i32) < 2147483648"
  using sint_ge [of x] sint_lt [of x] by simp_all

lemma nat_sint_i32_less [simp]: "nat (sint (x :: i32)) < 2147483648"
  using sint_i32_bounds(2) [of x] by linarith

lemma i32_eq_iff_sint: "x = y \<longleftrightarrow> sint x = sint (y :: i32)"
  by (auto intro: signed_word_eqI)

lemma sint_i32_of_int: "- 2147483648 \<le> n \<Longrightarrow> n < 2147483648 \<Longrightarrow> sint (word_of_int n :: i32) = n"
  by (simp add: signed_of_int signed_take_bit_int_eq_self)

lemma sint_i32_of_nat: "n < 2147483648 \<Longrightarrow> sint (of_nat n :: i32) = int n"
  using sint_i32_of_int [of "int n"] by simp

lemma sint_i32_add:
  assumes "- 2147483648 \<le> sint x + sint y" "sint x + sint y < 2147483648"
  shows "sint (x + y) = sint x + sint (y :: i32)"
proof -
  have "x + y = word_of_int (sint x + sint y)" by simp
  with assms show ?thesis by (metis sint_i32_of_int)
qed

lemma sint_i32_succ: "sint x < 2147483647 \<Longrightarrow> sint (x + 1 :: i32) = sint x + 1"
  using sint_i32_add [of x 1] sint_i32_bounds(1) [of x] by simp

lemma sint_i32_MAX [simp]: "sint i32_MAX = 2147483647"
  by (simp add: i32_MAX_def)

lemma sint_i32_uminus: "- 2147483648 < sint x \<Longrightarrow> sint (- x :: i32) = - sint x"
  using sint_i32_of_int [of "- sint x"] sint_i32_bounds(2) [of x] by simp

lemma i32_MAX_iff: "x = i32_MAX \<longleftrightarrow> \<not> sint x < 2147483647"
proof -
  have "sint x < 2147483648" by simp
  then have "sint x = 2147483647 \<longleftrightarrow> \<not> sint x < 2147483647" by linarith
  then show ?thesis by (simp add: i32_eq_iff_sint)
qed

lemma sint_saturating_succ:
  "sint (i32_saturating_succ x) = (if sint x < 2147483647 then sint x + 1 else 2147483647)"
  by (simp add: i32_saturating_succ_def i32_MAX_iff sint_i32_succ)

lemma usize_of_i32_Some [simp]: "usize_of_i32 x = Some n \<longleftrightarrow> 0 \<le> sint x \<and> n = nat (sint x)"
  by (auto simp: usize_of_i32_def)

lemma usize_of_i32_None [simp]: "usize_of_i32 x = None \<longleftrightarrow> sint x < 0"
  by (auto simp: usize_of_i32_def)

lemma i32_of_usize_roundtrip:
  "i32_of_usize n = Some x \<Longrightarrow> usize_of_i32 x = Some n"
  by (auto simp: i32_of_usize_def sint_i32_of_nat split: if_splits)

lemma and_push_bit_one: "(a :: 'a::len word) AND push_bit n 1 = push_bit n (of_bool (bit a n))"
  by (rule bit_word_eqI) (auto simp: bit_simps)

subsection \<open>Lists\<close>

lemma length_subslice [simp]: "hi \<le> length xs \<Longrightarrow> length (subslice xs lo hi) = hi - lo"
  by (simp add: subslice_def)

lemma length_fill [simp]: "length (fill buf ws) = length buf"
  by (simp add: fill_def)

lemma fill_nth:
  "i < length buf \<Longrightarrow> fill buf ws ! i = (if i < length ws then ws ! i else buf ! i)"
  by (auto simp: fill_def nth_append)

lemma length_overwrite [simp]:
  "lo + length ys \<le> length xs \<Longrightarrow> length (overwrite xs lo ys) = length xs"
  by (simp add: overwrite_def)

lemma overwrite_nth:
  "lo + length ys \<le> length xs \<Longrightarrow> i < length xs \<Longrightarrow>
   overwrite xs lo ys ! i = (if lo \<le> i \<and> i < lo + length ys then ys ! (i - lo) else xs ! i)"
  by (auto simp: overwrite_def nth_append)

lemma subslice_overwrite_same:
  "lo + length ys \<le> length xs \<Longrightarrow> subslice (overwrite xs lo ys) lo (lo + length ys) = ys"
  by (simp add: subslice_def overwrite_def)

lemma subslice_nth: "hi \<le> length xs \<Longrightarrow> i < hi - lo \<Longrightarrow> subslice xs lo hi ! i = xs ! (lo + i)"
  by (simp add: subslice_def)

lemma subslice_overwrite_disjoint:
  assumes "lo + length ys \<le> length xs" "hi' \<le> length xs" "hi' \<le> lo \<or> lo + length ys \<le> lo'"
  shows "subslice (overwrite xs lo ys) lo' hi' = subslice xs lo' hi'"
proof (rule nth_equalityI)
  show "length (subslice (overwrite xs lo ys) lo' hi') = length (subslice xs lo' hi')"
    using assms by simp
next
  fix i assume "i < length (subslice (overwrite xs lo ys) lo' hi')"
  then have "i < hi' - lo'" using assms by simp
  then show "subslice (overwrite xs lo ys) lo' hi' ! i = subslice xs lo' hi' ! i"
    using assms by (auto simp: subslice_nth overwrite_nth)
qed

text \<open>Storing the bytes one cell at a time is the block copy.\<close>

lemma fold_update_overwrite:
  "lo + length ys \<le> length xs \<Longrightarrow>
   fold (\<lambda>(i, b) d. d[i := b]) (zip [lo..<lo + length ys] ys) xs = overwrite xs lo ys"
proof (induction ys arbitrary: xs lo)
  case Nil
  then show ?case by (simp add: overwrite_def)
next
  case (Cons y ys)
  have "[lo..<lo + length (y # ys)] = lo # [Suc lo..<Suc lo + length ys]"
    using upt_conv_Cons [of lo "lo + length (y # ys)"] by simp
  with Cons.prems Cons.IH [of "Suc lo" "xs[lo := y]"]
  have "fold (\<lambda>(i, b) d. d[i := b]) (zip [lo..<lo + length (y # ys)] (y # ys)) xs
      = overwrite (xs[lo := y]) (Suc lo) ys" by simp
  also have "\<dots> = overwrite xs lo (y # ys)"
    using Cons.prems by (simp add: overwrite_def take_Suc_conv_app_nth)
  finally show ?case .
qed

lemma fold_push: "fold (\<lambda>x acc. acc @ [x]) xs ys = ys @ xs"
  by (induction xs arbitrary: ys) auto

subsection \<open>Round trips of the byte encodings\<close>

lemma length_to_le_bytes [simp]: "length (to_le_bytes n w) = n"
  by (induction n arbitrary: w) auto

lemma from_to_le_bytes: "from_le_bytes (to_le_bytes n w) = take_bit (8 * n) w"
proof (induction n arbitrary: w)
  case 0
  then show ?case by simp
next
  case (Suc n)
  show ?case
  proof (rule bit_word_eqI)
    fix m assume "m < LENGTH('a)"
    then show "bit (from_le_bytes (to_le_bytes (Suc n) w) :: 'a word) m = bit (take_bit (8 * Suc n) w) m"
      by (cases "m < 8") (auto simp: Suc bit_simps not_less)
  qed
qed

lemma from_to_le_bytes_word:
  "8 * n = LENGTH('a) \<Longrightarrow> from_le_bytes (to_le_bytes n w) = (w :: 'a::len word)"
  by (simp add: from_to_le_bytes)

end
