(* ===== verification/Guest_Errno.thy ===== *)
theory Guest_Errno
  imports Prelude
begin

text \<open>
  \<^verbatim>\<open>src/src/guest_errno.rs\<close>: the errno values of the guest ABI and the translations of host error codes
  into them.  The host's own numbers are those of the \<open>libc\<close> crate, different on every
  platform: they are the parameter \<open>libc :: libc_errno \<Rightarrow> i32\<close> of \<open>from_host_errno\<close>, of which
  \<open>errno_codes_ok\<close> states what POSIX promises (two names share a number only for the two
  documented pairs of aliases).
\<close>

subsection \<open>The guest's errno values\<close>

definition E2BIG :: i32 where
  [errno_consts]: "E2BIG = 1"

definition EACCES :: i32 where
  [errno_consts]: "EACCES = 2"

definition EADDRINUSE :: i32 where
  [errno_consts]: "EADDRINUSE = 3"

definition EADDRNOTAVAIL :: i32 where
  [errno_consts]: "EADDRNOTAVAIL = 4"

definition EAFNOSUPPORT :: i32 where
  [errno_consts]: "EAFNOSUPPORT = 5"

definition EAGAIN :: i32 where
  [errno_consts]: "EAGAIN = 6"

definition EALREADY :: i32 where
  [errno_consts]: "EALREADY = 7"

definition EBADF :: i32 where
  [errno_consts]: "EBADF = 8"

definition EBUSY :: i32 where
  [errno_consts]: "EBUSY = 10"

definition ECONNABORTED :: i32 where
  [errno_consts]: "ECONNABORTED = 13"

definition ECONNREFUSED :: i32 where
  [errno_consts]: "ECONNREFUSED = 14"

definition ECONNRESET :: i32 where
  [errno_consts]: "ECONNRESET = 15"

definition EDESTADDRREQ :: i32 where
  [errno_consts]: "EDESTADDRREQ = 17"

definition EEXIST :: i32 where
  [errno_consts]: "EEXIST = 20"

definition EFAULT :: i32 where
  [errno_consts]: "EFAULT = 21"

definition EFBIG :: i32 where
  [errno_consts]: "EFBIG = 22"

definition EHOSTUNREACH :: i32 where
  [errno_consts]: "EHOSTUNREACH = 23"

definition EINPROGRESS :: i32 where
  [errno_consts]: "EINPROGRESS = 26"

definition EINTR :: i32 where
  [errno_consts]: "EINTR = 27"

definition EINVAL :: i32 where
  [errno_consts]: "EINVAL = 28"

definition EIO :: i32 where
  [errno_consts]: "EIO = 29"

definition EISCONN :: i32 where
  [errno_consts]: "EISCONN = 30"

definition EISDIR :: i32 where
  [errno_consts]: "EISDIR = 31"

definition ELOOP :: i32 where
  [errno_consts]: "ELOOP = 32"

definition EMFILE :: i32 where
  [errno_consts]: "EMFILE = 33"

definition EMSGSIZE :: i32 where
  [errno_consts]: "EMSGSIZE = 35"

definition ENAMETOOLONG :: i32 where
  [errno_consts]: "ENAMETOOLONG = 37"

definition ENETDOWN :: i32 where
  [errno_consts]: "ENETDOWN = 38"

definition ENETRESET :: i32 where
  [errno_consts]: "ENETRESET = 39"

definition ENETUNREACH :: i32 where
  [errno_consts]: "ENETUNREACH = 40"

definition ENFILE :: i32 where
  [errno_consts]: "ENFILE = 41"

definition ENOBUFS :: i32 where
  [errno_consts]: "ENOBUFS = 42"

definition ENODEV :: i32 where
  [errno_consts]: "ENODEV = 43"

definition ENOENT :: i32 where
  [errno_consts]: "ENOENT = 44"

definition ENOMEM :: i32 where
  [errno_consts]: "ENOMEM = 48"

definition ENOPROTOOPT :: i32 where
  [errno_consts]: "ENOPROTOOPT = 50"

definition ENOSPC :: i32 where
  [errno_consts]: "ENOSPC = 51"

definition ENOSYS :: i32 where
  [errno_consts]: "ENOSYS = 52"

definition ENOTCONN :: i32 where
  [errno_consts]: "ENOTCONN = 53"

definition ENOTDIR :: i32 where
  [errno_consts]: "ENOTDIR = 54"

definition ENOTEMPTY :: i32 where
  [errno_consts]: "ENOTEMPTY = 55"

definition ENOTSOCK :: i32 where
  [errno_consts]: "ENOTSOCK = 57"

definition ENOTSUP :: i32 where
  [errno_consts]: "ENOTSUP = 58"

definition EOPNOTSUPP :: i32 where
  [errno_consts]: "EOPNOTSUPP = ENOTSUP"

definition EOVERFLOW :: i32 where
  [errno_consts]: "EOVERFLOW = 61"

definition EPERM :: i32 where
  [errno_consts]: "EPERM = 63"

definition EPIPE :: i32 where
  [errno_consts]: "EPIPE = 64"

definition EPROTONOSUPPORT :: i32 where
  [errno_consts]: "EPROTONOSUPPORT = 66"

definition EPROTOTYPE :: i32 where
  [errno_consts]: "EPROTOTYPE = 67"

definition ERANGE :: i32 where
  [errno_consts]: "ERANGE = 68"

definition EROFS :: i32 where
  [errno_consts]: "EROFS = 69"

definition ESPIPE :: i32 where
  [errno_consts]: "ESPIPE = 70"

definition ETIMEDOUT :: i32 where
  [errno_consts]: "ETIMEDOUT = 73"

definition ENOTCAPABLE :: i32 where
  [errno_consts]: "ENOTCAPABLE = 76"

subsection \<open>Host error codes\<close>

text \<open>The names of the \<open>libc\<close> crate's constants the translation compares with.\<close>

datatype libc_errno =
    H_E2BIG
  | H_EACCES
  | H_EADDRINUSE
  | H_EADDRNOTAVAIL
  | H_EAFNOSUPPORT
  | H_EAGAIN
  | H_EWOULDBLOCK
  | H_EALREADY
  | H_EBADF
  | H_EBUSY
  | H_ECONNABORTED
  | H_ECONNREFUSED
  | H_ECONNRESET
  | H_EDESTADDRREQ
  | H_EEXIST
  | H_EFAULT
  | H_EFBIG
  | H_EHOSTUNREACH
  | H_EINPROGRESS
  | H_EINTR
  | H_EINVAL
  | H_EISCONN
  | H_EISDIR
  | H_ELOOP
  | H_EMFILE
  | H_EMSGSIZE
  | H_ENAMETOOLONG
  | H_ENETDOWN
  | H_ENETRESET
  | H_ENETUNREACH
  | H_ENFILE
  | H_ENOBUFS
  | H_ENODEV
  | H_ENOENT
  | H_ENOMEM
  | H_ENOPROTOOPT
  | H_ENOSPC
  | H_ENOSYS
  | H_ENOTCONN
  | H_ENOTDIR
  | H_ENOTEMPTY
  | H_ENOTSOCK
  | H_EOPNOTSUPP
  | H_ENOTSUP
  | H_EOVERFLOW
  | H_EPERM
  | H_EPIPE
  | H_EPROTONOSUPPORT
  | H_EPROTOTYPE
  | H_ERANGE
  | H_EROFS
  | H_ESPIPE
  | H_ETIMEDOUT

definition from_host_errno :: "(libc_errno \<Rightarrow> i32) \<Rightarrow> i32 \<Rightarrow> i32" where
  "from_host_errno libc code =
     (if code = libc H_E2BIG then E2BIG
      else if code = libc H_EACCES then EACCES
      else if code = libc H_EADDRINUSE then EADDRINUSE
      else if code = libc H_EADDRNOTAVAIL then EADDRNOTAVAIL
      else if code = libc H_EAFNOSUPPORT then EAFNOSUPPORT
      else if code = libc H_EAGAIN \<or> code = libc H_EWOULDBLOCK then EAGAIN
      else if code = libc H_EALREADY then EALREADY
      else if code = libc H_EBADF then EBADF
      else if code = libc H_EBUSY then EBUSY
      else if code = libc H_ECONNABORTED then ECONNABORTED
      else if code = libc H_ECONNREFUSED then ECONNREFUSED
      else if code = libc H_ECONNRESET then ECONNRESET
      else if code = libc H_EDESTADDRREQ then EDESTADDRREQ
      else if code = libc H_EEXIST then EEXIST
      else if code = libc H_EFAULT then EFAULT
      else if code = libc H_EFBIG then EFBIG
      else if code = libc H_EHOSTUNREACH then EHOSTUNREACH
      else if code = libc H_EINPROGRESS then EINPROGRESS
      else if code = libc H_EINTR then EINTR
      else if code = libc H_EINVAL then EINVAL
      else if code = libc H_EISCONN then EISCONN
      else if code = libc H_EISDIR then EISDIR
      else if code = libc H_ELOOP then ELOOP
      else if code = libc H_EMFILE then EMFILE
      else if code = libc H_EMSGSIZE then EMSGSIZE
      else if code = libc H_ENAMETOOLONG then ENAMETOOLONG
      else if code = libc H_ENETDOWN then ENETDOWN
      else if code = libc H_ENETRESET then ENETRESET
      else if code = libc H_ENETUNREACH then ENETUNREACH
      else if code = libc H_ENFILE then ENFILE
      else if code = libc H_ENOBUFS then ENOBUFS
      else if code = libc H_ENODEV then ENODEV
      else if code = libc H_ENOENT then ENOENT
      else if code = libc H_ENOMEM then ENOMEM
      else if code = libc H_ENOPROTOOPT then ENOPROTOOPT
      else if code = libc H_ENOSPC then ENOSPC
      else if code = libc H_ENOSYS then ENOSYS
      else if code = libc H_ENOTCONN then ENOTCONN
      else if code = libc H_ENOTDIR then ENOTDIR
      else if code = libc H_ENOTEMPTY then ENOTEMPTY
      else if code = libc H_ENOTSOCK then ENOTSOCK
      else if code = libc H_EOPNOTSUPP \<or> code = libc H_ENOTSUP then ENOTSUP
      else if code = libc H_EOVERFLOW then EOVERFLOW
      else if code = libc H_EPERM then EPERM
      else if code = libc H_EPIPE then EPIPE
      else if code = libc H_EPROTONOSUPPORT then EPROTONOSUPPORT
      else if code = libc H_EPROTOTYPE then EPROTOTYPE
      else if code = libc H_ERANGE then ERANGE
      else if code = libc H_EROFS then EROFS
      else if code = libc H_ESPIPE then ESPIPE
      else if code = libc H_ETIMEDOUT then ETIMEDOUT
      else EIO)"

definition from_windows_error :: "i32 \<Rightarrow> i32" where
  "from_windows_error code =
     (if code = 2 \<or> code = 3 then ENOENT
      else if code = 5 then EACCES
      else if code = 6 then EBADF
      else if code = 8 \<or> code = 14 then ENOMEM
      else if code = 19 then EROFS
      else if code = 32 then EBUSY
      else if code = 33 then EAGAIN
      else if code = 80 \<or> code = 183 then EEXIST
      else if code = 87 then EINVAL
      else if code = 112 then ENOSPC
      else if code = 145 then ENOTEMPTY
      else if code = 267 then ENOTDIR
      else if code = 995 then EINTR
      else EIO)"

text \<open>\<open>neg_errno\<close>: the error convention of every import, a negated guest errno.\<close>

definition neg_errno :: "i32 \<Rightarrow> i32" where
  "neg_errno errno = - errno"

subsection \<open>The translation as a table\<close>

text \<open>The guest value each host name stands for, and the names in the order they are tried.\<close>

primrec guest_errno_of :: "libc_errno \<Rightarrow> i32" where
  "guest_errno_of H_E2BIG = E2BIG"
| "guest_errno_of H_EACCES = EACCES"
| "guest_errno_of H_EADDRINUSE = EADDRINUSE"
| "guest_errno_of H_EADDRNOTAVAIL = EADDRNOTAVAIL"
| "guest_errno_of H_EAFNOSUPPORT = EAFNOSUPPORT"
| "guest_errno_of H_EAGAIN = EAGAIN"
| "guest_errno_of H_EWOULDBLOCK = EAGAIN"
| "guest_errno_of H_EALREADY = EALREADY"
| "guest_errno_of H_EBADF = EBADF"
| "guest_errno_of H_EBUSY = EBUSY"
| "guest_errno_of H_ECONNABORTED = ECONNABORTED"
| "guest_errno_of H_ECONNREFUSED = ECONNREFUSED"
| "guest_errno_of H_ECONNRESET = ECONNRESET"
| "guest_errno_of H_EDESTADDRREQ = EDESTADDRREQ"
| "guest_errno_of H_EEXIST = EEXIST"
| "guest_errno_of H_EFAULT = EFAULT"
| "guest_errno_of H_EFBIG = EFBIG"
| "guest_errno_of H_EHOSTUNREACH = EHOSTUNREACH"
| "guest_errno_of H_EINPROGRESS = EINPROGRESS"
| "guest_errno_of H_EINTR = EINTR"
| "guest_errno_of H_EINVAL = EINVAL"
| "guest_errno_of H_EISCONN = EISCONN"
| "guest_errno_of H_EISDIR = EISDIR"
| "guest_errno_of H_ELOOP = ELOOP"
| "guest_errno_of H_EMFILE = EMFILE"
| "guest_errno_of H_EMSGSIZE = EMSGSIZE"
| "guest_errno_of H_ENAMETOOLONG = ENAMETOOLONG"
| "guest_errno_of H_ENETDOWN = ENETDOWN"
| "guest_errno_of H_ENETRESET = ENETRESET"
| "guest_errno_of H_ENETUNREACH = ENETUNREACH"
| "guest_errno_of H_ENFILE = ENFILE"
| "guest_errno_of H_ENOBUFS = ENOBUFS"
| "guest_errno_of H_ENODEV = ENODEV"
| "guest_errno_of H_ENOENT = ENOENT"
| "guest_errno_of H_ENOMEM = ENOMEM"
| "guest_errno_of H_ENOPROTOOPT = ENOPROTOOPT"
| "guest_errno_of H_ENOSPC = ENOSPC"
| "guest_errno_of H_ENOSYS = ENOSYS"
| "guest_errno_of H_ENOTCONN = ENOTCONN"
| "guest_errno_of H_ENOTDIR = ENOTDIR"
| "guest_errno_of H_ENOTEMPTY = ENOTEMPTY"
| "guest_errno_of H_ENOTSOCK = ENOTSOCK"
| "guest_errno_of H_EOPNOTSUPP = ENOTSUP"
| "guest_errno_of H_ENOTSUP = ENOTSUP"
| "guest_errno_of H_EOVERFLOW = EOVERFLOW"
| "guest_errno_of H_EPERM = EPERM"
| "guest_errno_of H_EPIPE = EPIPE"
| "guest_errno_of H_EPROTONOSUPPORT = EPROTONOSUPPORT"
| "guest_errno_of H_EPROTOTYPE = EPROTOTYPE"
| "guest_errno_of H_ERANGE = ERANGE"
| "guest_errno_of H_EROFS = EROFS"
| "guest_errno_of H_ESPIPE = ESPIPE"
| "guest_errno_of H_ETIMEDOUT = ETIMEDOUT"

definition libc_errnos :: "libc_errno list" where
  "libc_errnos =
    [H_E2BIG, H_EACCES, H_EADDRINUSE, H_EADDRNOTAVAIL, H_EAFNOSUPPORT, H_EAGAIN,
     H_EWOULDBLOCK, H_EALREADY, H_EBADF, H_EBUSY, H_ECONNABORTED, H_ECONNREFUSED,
     H_ECONNRESET, H_EDESTADDRREQ, H_EEXIST, H_EFAULT, H_EFBIG, H_EHOSTUNREACH,
     H_EINPROGRESS, H_EINTR, H_EINVAL, H_EISCONN, H_EISDIR, H_ELOOP,
     H_EMFILE, H_EMSGSIZE, H_ENAMETOOLONG, H_ENETDOWN, H_ENETRESET, H_ENETUNREACH,
     H_ENFILE, H_ENOBUFS, H_ENODEV, H_ENOENT, H_ENOMEM, H_ENOPROTOOPT,
     H_ENOSPC, H_ENOSYS, H_ENOTCONN, H_ENOTDIR, H_ENOTEMPTY, H_ENOTSOCK,
     H_EOPNOTSUPP, H_ENOTSUP, H_EOVERFLOW, H_EPERM, H_EPIPE, H_EPROTONOSUPPORT,
     H_EPROTOTYPE, H_ERANGE, H_EROFS, H_ESPIPE, H_ETIMEDOUT]"

text \<open>The guest errno values, as a range: the ABI's numbers are \<open>1\<close> to \<open>76\<close>.\<close>

definition is_guest_errno :: "i32 \<Rightarrow> bool" where
  "is_guest_errno e \<longleftrightarrow> 1 \<le> sint e \<and> sint e \<le> 76"

definition errno_codes_ok :: "(libc_errno \<Rightarrow> i32) \<Rightarrow> bool" where
  "errno_codes_ok libc \<longleftrightarrow>
     (\<forall>a b. libc a = libc b \<longrightarrow>
        a = b \<or> {a, b} = {H_EAGAIN, H_EWOULDBLOCK} \<or> {a, b} = {H_EOPNOTSUPP, H_ENOTSUP})"

lemma guest_errno_consts [simp]:

  "is_guest_errno E2BIG"
  "is_guest_errno EACCES"
  "is_guest_errno EADDRINUSE"
  "is_guest_errno EADDRNOTAVAIL"
  "is_guest_errno EAFNOSUPPORT"
  "is_guest_errno EAGAIN"
  "is_guest_errno EALREADY"
  "is_guest_errno EBADF"
  "is_guest_errno EBUSY"
  "is_guest_errno ECONNABORTED"
  "is_guest_errno ECONNREFUSED"
  "is_guest_errno ECONNRESET"
  "is_guest_errno EDESTADDRREQ"
  "is_guest_errno EEXIST"
  "is_guest_errno EFAULT"
  "is_guest_errno EFBIG"
  "is_guest_errno EHOSTUNREACH"
  "is_guest_errno EINPROGRESS"
  "is_guest_errno EINTR"
  "is_guest_errno EINVAL"
  "is_guest_errno EIO"
  "is_guest_errno EISCONN"
  "is_guest_errno EISDIR"
  "is_guest_errno ELOOP"
  "is_guest_errno EMFILE"
  "is_guest_errno EMSGSIZE"
  "is_guest_errno ENAMETOOLONG"
  "is_guest_errno ENETDOWN"
  "is_guest_errno ENETRESET"
  "is_guest_errno ENETUNREACH"
  "is_guest_errno ENFILE"
  "is_guest_errno ENOBUFS"
  "is_guest_errno ENODEV"
  "is_guest_errno ENOENT"
  "is_guest_errno ENOMEM"
  "is_guest_errno ENOPROTOOPT"
  "is_guest_errno ENOSPC"
  "is_guest_errno ENOSYS"
  "is_guest_errno ENOTCONN"
  "is_guest_errno ENOTDIR"
  "is_guest_errno ENOTEMPTY"
  "is_guest_errno ENOTSOCK"
  "is_guest_errno ENOTSUP"
  "is_guest_errno EOPNOTSUPP"
  "is_guest_errno EOVERFLOW"
  "is_guest_errno EPERM"
  "is_guest_errno EPIPE"
  "is_guest_errno EPROTONOSUPPORT"
  "is_guest_errno EPROTOTYPE"
  "is_guest_errno ERANGE"
  "is_guest_errno EROFS"
  "is_guest_errno ESPIPE"
  "is_guest_errno ETIMEDOUT"
  "is_guest_errno ENOTCAPABLE"
  by (simp_all add: is_guest_errno_def errno_consts)

lemma libc_errnos_complete: "e \<in> set libc_errnos"
  by (cases e) (simp_all add: libc_errnos_def)

lemma is_guest_errno_of [simp]: "is_guest_errno (guest_errno_of e)"
  by (cases e) simp_all

text \<open>The chain of comparisons is a search of the table.\<close>

lemma from_host_errno_find:
  "from_host_errno libc code =
     (case find (\<lambda>e. libc e = code) libc_errnos of Some e \<Rightarrow> guest_errno_of e | None \<Rightarrow> EIO)"
  unfolding from_host_errno_def libc_errnos_def
  by (simp add: eq_commute [of code])

lemma from_host_errno_range: "is_guest_errno (from_host_errno libc code)"
  by (simp add: from_host_errno_find split: option.split)

lemma from_host_errno_name:
  assumes "errno_codes_ok libc"
  shows "from_host_errno libc (libc e) = guest_errno_of e"
proof -
  obtain e' where e': "find (\<lambda>x. libc x = libc e) libc_errnos = Some e'"
    using libc_errnos_complete [of e] by (fastforce simp: find_None_iff)
  then have "libc e' = libc e" by (auto simp: find_Some_iff)
  then have "e' = e \<or> {e', e} = {H_EAGAIN, H_EWOULDBLOCK} \<or> {e', e} = {H_EOPNOTSUPP, H_ENOTSUP}"
    using assms unfolding errno_codes_ok_def by blast
  then have "guest_errno_of e' = guest_errno_of e"
    by (auto simp: doubleton_eq_iff)
  with e' show ?thesis by (simp add: from_host_errno_find)
qed

lemma from_host_errno_unknown:
  "code \<notin> range libc \<Longrightarrow> from_host_errno libc code = EIO"
  by (auto simp: from_host_errno_find find_Some_iff split: option.split)

lemma from_windows_error_range: "is_guest_errno (from_windows_error code)"
  by (simp add: from_windows_error_def)

subsection \<open>The error convention\<close>

lemma sint_neg_errno: "is_guest_errno e \<Longrightarrow> sint (neg_errno e) = - sint e"
  by (simp add: neg_errno_def is_guest_errno_def sint_i32_uminus)

lemma neg_errno_neg: "is_guest_errno e \<Longrightarrow> sint (neg_errno e) < 0"
  by (simp add: sint_neg_errno is_guest_errno_def)

lemma neg_errno_eq_iff [simp]: "neg_errno a = neg_errno b \<longleftrightarrow> a = b"
  by (simp add: neg_errno_def)

text \<open>
  What a client of a translation relies on: every genuine host error becomes one of the guest's
  errno values, so the negated code is negative and negating it again gives the guest errno back.
\<close>

locale errno_translation =
  fixes translate :: "i32 \<Rightarrow> i32"
  assumes translate_range: "c \<noteq> 0 \<Longrightarrow> is_guest_errno (translate c)"
begin

lemma reply_negative: "c \<noteq> 0 \<Longrightarrow> sint (neg_errno (translate c)) < 0"
  by (rule neg_errno_neg) (rule translate_range)

lemma reply_decodes: "c \<noteq> 0 \<Longrightarrow> is_guest_errno (- neg_errno (translate c))"
  using translate_range by (simp add: neg_errno_def)

lemma reply_small: "c \<noteq> 0 \<Longrightarrow> - 76 \<le> sint (neg_errno (translate c))"
  using translate_range [of c] by (simp add: sint_neg_errno is_guest_errno_def)

end

interpretation host_err: errno_translation "from_host_errno libc" for libc
  by unfold_locales (rule from_host_errno_range)

interpretation win_err: errno_translation from_windows_error
  by unfold_locales (rule from_windows_error_range)

text \<open>The constants that the module declares; \<open>EOPNOTSUPP\<close> is another name of \<open>ENOTSUP\<close>.\<close>

definition guest_errnos :: "i32 list" where
  "guest_errnos =
    [E2BIG, EACCES, EADDRINUSE, EADDRNOTAVAIL, EAFNOSUPPORT, EAGAIN, EALREADY, EBADF, EBUSY,
     ECONNABORTED, ECONNREFUSED, ECONNRESET, EDESTADDRREQ, EEXIST, EFAULT, EFBIG, EHOSTUNREACH,
     EINPROGRESS, EINTR, EINVAL, EIO, EISCONN, EISDIR, ELOOP, EMFILE, EMSGSIZE, ENAMETOOLONG, ENETDOWN,
     ENETRESET, ENETUNREACH, ENFILE, ENOBUFS, ENODEV, ENOENT, ENOMEM, ENOPROTOOPT, ENOSPC, ENOSYS,
     ENOTCONN, ENOTDIR, ENOTEMPTY, ENOTSOCK, ENOTSUP, EOVERFLOW, EPERM, EPIPE, EPROTONOSUPPORT,
     EPROTOTYPE, ERANGE, EROFS, ESPIPE, ETIMEDOUT, ENOTCAPABLE]"

lemma guest_errnos_named:
  assumes "g \<in> set guest_errnos" "g \<noteq> EIO" "g \<noteq> ENOTCAPABLE"
  shows "\<exists>h. guest_errno_of h = g"
proof -
  have "list_all (\<lambda>g. g = EIO \<or> g = ENOTCAPABLE \<or> list_ex (\<lambda>h. guest_errno_of h = g) libc_errnos) guest_errnos"
    by (simp add: guest_errnos_def libc_errnos_def)
  with assms show ?thesis by (auto simp: list_all_iff list_ex_iff)
qed

end
