(* ===== verification/Guest_Memory.thy ===== *)
theory Guest_Memory
  imports Guest_Errno
begin

text \<open>
  Access to the guest's linear memory: \<open>checked_len\<close>, \<open>checked_range\<close>, \<open>read_guest\<close>,
  \<open>write_guest\<close>, \<open>read_u32\<close>, \<open>write_u32\<close> of \<^verbatim>\<open>src/src/host_sockets.rs\<close> and the copies
  (prefix \<open>files_\<close>) and \<open>read_cstr\<close> of \<^verbatim>\<open>src/src/host_files.rs\<close>.  The export \<open>memory\<close> of the calling
  instance is a value of \<open>mem_export\<close>: missing, something else than a memory, an unshared memory
  or a shared one.  A host call sees one content of the memory; what other guest threads store
  between two host calls is a step of its own in the theory \<open>Host_Runtime\<close>.
\<close>

subsection \<open>The exported memory\<close>

datatype mem_export = NoExport | OtherExport | PlainMemory bytes | SharedMem bytes

fun mem_view :: "mem_export \<Rightarrow> bytes option" where
  "mem_view NoExport = None"
| "mem_view OtherExport = None"
| "mem_view (PlainMemory data) = Some data"
| "mem_view (SharedMem data) = Some data"

subsection \<open>Checked ranges\<close>

definition MAX_IO_LEN :: usize where
  "MAX_IO_LEN = 16 * 1024 * 1024"

definition MAX_POLL_FDS :: usize where
  "MAX_POLL_FDS = 16384"

definition checked_len :: "i32 \<Rightarrow> usize errno_result" where
  "checked_len len =
     (case usize_of_i32 len of
        None \<Rightarrow> Inl EINVAL
      | Some len \<Rightarrow> if len > MAX_IO_LEN then Inl EINVAL else Inr len)"

definition checked_poll_count :: "i32 \<Rightarrow> usize errno_result" where
  "checked_poll_count nfds =
     (case usize_of_i32 nfds of
        None \<Rightarrow> Inl EINVAL
      | Some nfds \<Rightarrow> if nfds > MAX_POLL_FDS then Inl EINVAL else Inr nfds)"

definition checked_range :: "i32 \<Rightarrow> i32 \<Rightarrow> usize \<Rightarrow> (usize \<times> usize) errno_result" where
  "checked_range ptr len memory_len =
     (case usize_of_i32 ptr of
        None \<Rightarrow> Inl EFAULT
      | Some ptr \<Rightarrow>
         (case checked_len len of
            Inl e \<Rightarrow> Inl e
          | Inr len \<Rightarrow>
             (case usize_checked_add ptr len of
                None \<Rightarrow> Inl EFAULT
              | Some end \<Rightarrow> if end > memory_len then Inl EFAULT else Inr (ptr, end))))"

subsection \<open>Reading and writing the guest's memory\<close>

definition read_guest :: "mem_export \<Rightarrow> i32 \<Rightarrow> i32 \<Rightarrow> bytes errno_result" where
  "read_guest export ptr len =
     (case export of
        NoExport \<Rightarrow> Inl EFAULT
      | PlainMemory data \<Rightarrow>
         (case checked_range ptr len (length data) of
            Inl e \<Rightarrow> Inl e
          | Inr (lo, hi) \<Rightarrow> Inr (subslice data lo hi))
      | SharedMem data \<Rightarrow>
         (case checked_range ptr len (length data) of
            Inl e \<Rightarrow> Inl e
          | Inr (lo, hi) \<Rightarrow> Inr (fold (\<lambda>cell bytes. bytes @ [cell]) (subslice data lo hi) []))
      | OtherExport \<Rightarrow> Inl EFAULT)"

definition write_guest :: "mem_export \<Rightarrow> i32 \<Rightarrow> bytes \<Rightarrow> mem_export errno_result" where
  "write_guest export ptr bytes =
     (case export of
        NoExport \<Rightarrow> Inl EFAULT
      | PlainMemory data \<Rightarrow>
         (case i32_of_usize (length bytes) of
            None \<Rightarrow> Inl EINVAL
          | Some len \<Rightarrow>
             (case checked_range ptr len (length data) of
                Inl e \<Rightarrow> Inl e
              | Inr (lo, hi) \<Rightarrow> Inr (PlainMemory (overwrite data lo bytes))))
      | SharedMem data \<Rightarrow>
         (case i32_of_usize (length bytes) of
            None \<Rightarrow> Inl EINVAL
          | Some len \<Rightarrow>
             (case checked_range ptr len (length data) of
                Inl e \<Rightarrow> Inl e
              | Inr (lo, hi) \<Rightarrow>
                  Inr (SharedMem (fold (\<lambda>(i, byte) d. d[i := byte]) (zip [lo..<hi] bytes) data))))
      | OtherExport \<Rightarrow> Inl EFAULT)"

definition read_u32 :: "mem_export \<Rightarrow> i32 \<Rightarrow> u32 errno_result" where
  "read_u32 export ptr =
     (case read_guest export ptr 4 of
        Inl e \<Rightarrow> Inl e
      | Inr bytes \<Rightarrow> Inr (from_le_bytes bytes))"

definition write_u32 :: "mem_export \<Rightarrow> i32 \<Rightarrow> u32 \<Rightarrow> mem_export errno_result" where
  "write_u32 export ptr value = write_guest export ptr (to_le_bytes 4 value)"

subsection \<open>The copies of the file imports\<close>

definition FILES_MAX_IO_LEN :: usize where
  "FILES_MAX_IO_LEN = 16 * 1024 * 1024"

definition files_checked_len :: "i32 \<Rightarrow> usize errno_result" where
  "files_checked_len len =
     (case usize_of_i32 len of
        None \<Rightarrow> Inl EINVAL
      | Some len \<Rightarrow> if len > FILES_MAX_IO_LEN then Inl EINVAL else Inr len)"

definition files_checked_range :: "i32 \<Rightarrow> i32 \<Rightarrow> usize \<Rightarrow> (usize \<times> usize) errno_result" where
  "files_checked_range ptr len memory_len =
     (case usize_of_i32 ptr of
        None \<Rightarrow> Inl EFAULT
      | Some ptr \<Rightarrow>
         (case files_checked_len len of
            Inl e \<Rightarrow> Inl e
          | Inr len \<Rightarrow>
             (case usize_checked_add ptr len of
                None \<Rightarrow> Inl EFAULT
              | Some end \<Rightarrow> if end > memory_len then Inl EFAULT else Inr (ptr, end))))"

definition files_read_guest :: "mem_export \<Rightarrow> i32 \<Rightarrow> i32 \<Rightarrow> bytes errno_result" where
  "files_read_guest export ptr len =
     (case export of
        NoExport \<Rightarrow> Inl EFAULT
      | PlainMemory data \<Rightarrow>
         (case files_checked_range ptr len (length data) of
            Inl e \<Rightarrow> Inl e
          | Inr (lo, hi) \<Rightarrow> Inr (subslice data lo hi))
      | SharedMem data \<Rightarrow>
         (case files_checked_range ptr len (length data) of
            Inl e \<Rightarrow> Inl e
          | Inr (lo, hi) \<Rightarrow> Inr (fold (\<lambda>cell bytes. bytes @ [cell]) (subslice data lo hi) []))
      | OtherExport \<Rightarrow> Inl EFAULT)"

definition files_write_guest :: "mem_export \<Rightarrow> i32 \<Rightarrow> bytes \<Rightarrow> mem_export errno_result" where
  "files_write_guest export ptr bytes =
     (case export of
        NoExport \<Rightarrow> Inl EFAULT
      | PlainMemory data \<Rightarrow>
         (case i32_of_usize (length bytes) of
            None \<Rightarrow> Inl EINVAL
          | Some len \<Rightarrow>
             (case files_checked_range ptr len (length data) of
                Inl e \<Rightarrow> Inl e
              | Inr (lo, hi) \<Rightarrow> Inr (PlainMemory (overwrite data lo bytes))))
      | SharedMem data \<Rightarrow>
         (case i32_of_usize (length bytes) of
            None \<Rightarrow> Inl EINVAL
          | Some len \<Rightarrow>
             (case files_checked_range ptr len (length data) of
                Inl e \<Rightarrow> Inl e
              | Inr (lo, hi) \<Rightarrow>
                  Inr (SharedMem (fold (\<lambda>(i, byte) d. d[i := byte]) (zip [lo..<hi] bytes) data))))
      | OtherExport \<Rightarrow> Inl EFAULT)"

subsection \<open>C strings\<close>

definition MAX_PATH_LEN :: usize where
  "MAX_PATH_LEN = 16 * 1024"

text \<open>
  \<open>str::from_utf8\<close>: the well-formed UTF-8 byte sequences (no overlong forms, no surrogates,
  nothing above U+10FFFF).
\<close>

definition utf8_cont :: "u8 \<Rightarrow> bool" where
  "utf8_cont b \<longleftrightarrow> 0x80 \<le> b \<and> b \<le> 0xBF"

fun utf8_valid :: "bytes \<Rightarrow> bool" where
  "utf8_valid [] = True"
| "utf8_valid (b # bs) =
     (if b < 0x80 then utf8_valid bs
      else if 0xC2 \<le> b \<and> b \<le> 0xDF then
        (case bs of c1 # r \<Rightarrow> utf8_cont c1 \<and> utf8_valid r | _ \<Rightarrow> False)
      else if 0xE0 \<le> b \<and> b \<le> 0xEF then
        (case bs of c1 # c2 # r \<Rightarrow>
             (if b = 0xE0 then 0xA0 \<le> c1 \<and> c1 \<le> 0xBF
              else if b = 0xED then 0x80 \<le> c1 \<and> c1 \<le> 0x9F
              else utf8_cont c1) \<and> utf8_cont c2 \<and> utf8_valid r
         | _ \<Rightarrow> False)
      else if 0xF0 \<le> b \<and> b \<le> 0xF4 then
        (case bs of c1 # c2 # c3 # r \<Rightarrow>
             (if b = 0xF0 then 0x90 \<le> c1 \<and> c1 \<le> 0xBF
              else if b = 0xF4 then 0x80 \<le> c1 \<and> c1 \<le> 0x8F
              else utf8_cont c1) \<and> utf8_cont c2 \<and> utf8_cont c3 \<and> utf8_valid r
         | _ \<Rightarrow> False)
      else False)"

text \<open>A Rust string is its UTF-8 bytes; the model writes them as characters.\<close>

definition string_of_bytes :: "bytes \<Rightarrow> string" where
  "string_of_bytes bs = map (\<lambda>b. char_of (unat b)) bs"

definition from_utf8 :: "bytes \<Rightarrow> string errno_result" where
  "from_utf8 bs = (if utf8_valid bs then Inr (string_of_bytes bs) else Inl EINVAL)"

fun read_cstr_cells :: "bytes \<Rightarrow> bytes \<Rightarrow> string errno_result" where
  "read_cstr_cells [] bytes = Inl ENAMETOOLONG"
| "read_cstr_cells (byte # cells) bytes =
     (if byte = 0 then from_utf8 bytes else read_cstr_cells cells (bytes @ [byte]))"

definition read_cstr :: "mem_export \<Rightarrow> i32 \<Rightarrow> string errno_result" where
  "read_cstr export ptr =
     (case usize_of_i32 ptr of
        None \<Rightarrow> Inl EFAULT
      | Some start \<Rightarrow>
         (case export of
            NoExport \<Rightarrow> Inl EFAULT
          | PlainMemory data \<Rightarrow>
             if start \<ge> length data then Inl EFAULT
             else
               (let max_end = min (usize_saturating_add start MAX_PATH_LEN) (length data)
                in case position (\<lambda>byte. byte = 0) (subslice data start max_end) of
                     None \<Rightarrow> Inl ENAMETOOLONG
                   | Some end \<Rightarrow> from_utf8 (subslice data start (start + end)))
          | SharedMem data \<Rightarrow>
             if start \<ge> length data then Inl EFAULT
             else
               (let max_end = min (usize_saturating_add start MAX_PATH_LEN) (length data)
                in read_cstr_cells (subslice data start max_end) [])
          | OtherExport \<Rightarrow> Inl EFAULT))"

subsection \<open>Facts about the checks\<close>

definition len_ok :: "i32 \<Rightarrow> bool" where
  "len_ok len \<longleftrightarrow> 0 \<le> sint len \<and> nat (sint len) \<le> MAX_IO_LEN"

lemma checked_len_eq: "checked_len len = (if len_ok len then Inr (nat (sint len)) else Inl EINVAL)"
  by (auto simp: checked_len_def usize_of_i32_def len_ok_def)

lemma checked_len_Inr:
  "checked_len len = Inr n \<longleftrightarrow> 0 \<le> sint len \<and> n = nat (sint len) \<and> n \<le> MAX_IO_LEN"
  by (auto simp: checked_len_eq len_ok_def)

lemma checked_len_Inl: "checked_len len = Inl e \<Longrightarrow> e = EINVAL"
  by (auto simp: checked_len_eq split: if_splits)

lemma checked_poll_count_Inr:
  "checked_poll_count n = Inr m \<longleftrightarrow> 0 \<le> sint n \<and> m = nat (sint n) \<and> m \<le> MAX_POLL_FDS"
  by (auto simp: checked_poll_count_def split: option.splits)

lemma checked_poll_count_Inl: "checked_poll_count n = Inl e \<Longrightarrow> e = EINVAL"
  by (auto simp: checked_poll_count_def split: option.splits if_splits)

text \<open>The addition never overflows: both operands are small.\<close>

lemma usize_checked_add_i32:
  "n \<le> MAX_IO_LEN \<Longrightarrow> usize_checked_add (nat (sint (p :: i32))) n = Some (nat (sint p) + n)"
proof -
  assume "n \<le> MAX_IO_LEN"
  then have "n \<le> 16777216" by (simp add: MAX_IO_LEN_def)
  with nat_sint_i32_less [of p] have "nat (sint p) + n < 2147483648 + 16777217" by linarith
  then have "nat (sint p) + n < 2 ^ 64" by simp
  then show ?thesis by (simp add: usize_checked_add_def)
qed

lemma checked_range_eq:
  "checked_range ptr len n =
     (if sint ptr < 0 then Inl EFAULT
      else if \<not> len_ok len then Inl EINVAL
      else if n < nat (sint ptr) + nat (sint len) then Inl EFAULT
      else Inr (nat (sint ptr), nat (sint ptr) + nat (sint len)))"
  by (simp add: checked_range_def usize_of_i32_def checked_len_eq len_ok_def usize_checked_add_i32)

lemma checked_range_Inl: "checked_range ptr len n = Inl e \<Longrightarrow> e = EFAULT \<or> e = EINVAL"
  by (auto simp: checked_range_eq split: if_splits)

lemma files_checked_len_eq: "files_checked_len = checked_len"
  unfolding fun_eq_iff files_checked_len_def checked_len_def MAX_IO_LEN_def FILES_MAX_IO_LEN_def
  by (rule allI) (rule refl)

lemma files_checked_range_eq: "files_checked_range = checked_range"
  unfolding fun_eq_iff files_checked_range_def checked_range_def files_checked_len_eq
  by (intro allI refl)

subsection \<open>One contract for both kinds of memory\<close>

text \<open>The abstract memory: a byte list, read and written at a checked range.\<close>

definition mem_load :: "bytes option \<Rightarrow> i32 \<Rightarrow> i32 \<Rightarrow> bytes errno_result" where
  "mem_load v ptr len =
     (case v of None \<Rightarrow> Inl EFAULT
      | Some data \<Rightarrow> map_sum id (\<lambda>(lo, hi). subslice data lo hi) (checked_range ptr len (length data)))"

definition mem_store :: "bytes option \<Rightarrow> i32 \<Rightarrow> bytes \<Rightarrow> bytes errno_result" where
  "mem_store v ptr bs =
     (case v of None \<Rightarrow> Inl EFAULT
      | Some data \<Rightarrow>
         (case i32_of_usize (length bs) of None \<Rightarrow> Inl EINVAL
          | Some len \<Rightarrow> map_sum id (\<lambda>(lo, hi). overwrite data lo bs) (checked_range ptr len (length data))))"

lemma len_ok_of_nat:
  assumes "n \<le> MAX_IO_LEN"
  shows "i32_of_usize n = Some (of_nat n)" "len_ok (of_nat n)" "nat (sint (of_nat n :: i32)) = n"
proof -
  from assms have "n < 2147483648" by (simp add: MAX_IO_LEN_def)
  with assms show "i32_of_usize n = Some (of_nat n)" "len_ok (of_nat n)"
    "nat (sint (of_nat n :: i32)) = n"
    by (simp_all add: i32_of_usize_def len_ok_def sint_i32_of_nat)
qed

lemma len_not_ok_of_nat: "\<not> n \<le> MAX_IO_LEN \<Longrightarrow> i32_of_usize n = Some len \<Longrightarrow> \<not> len_ok len"
  by (auto simp: i32_of_usize_def len_ok_def sint_i32_of_nat split: if_splits)

lemma mem_load_eq:
  "mem_load (Some data) ptr len =
     (if sint ptr < 0 then Inl EFAULT
      else if \<not> len_ok len then Inl EINVAL
      else if length data < nat (sint ptr) + nat (sint len) then Inl EFAULT
      else Inr (subslice data (nat (sint ptr)) (nat (sint ptr) + nat (sint len))))"
  by (simp add: mem_load_def checked_range_eq)

lemma mem_store_eq:
  "mem_store (Some data) ptr bs =
     (if \<not> length bs < 2 ^ 31 then Inl EINVAL
      else if sint ptr < 0 then Inl EFAULT
      else if \<not> length bs \<le> MAX_IO_LEN then Inl EINVAL
      else if length data < nat (sint ptr) + length bs then Inl EFAULT
      else Inr (overwrite data (nat (sint ptr)) bs))"
proof (cases "length bs \<le> MAX_IO_LEN")
  case True
  then show ?thesis
    using len_ok_of_nat [OF True] by (simp add: mem_store_def checked_range_eq MAX_IO_LEN_def)
next
  case False
  then show ?thesis
    using len_not_ok_of_nat [OF False]
    by (auto simp: mem_store_def checked_range_eq i32_of_usize_def)
qed

lemma mem_store_Inr:
  "mem_store v ptr bs = Inr d \<longleftrightarrow>
     (\<exists>data. v = Some data \<and> 0 \<le> sint ptr \<and> length bs \<le> MAX_IO_LEN \<and>
        nat (sint ptr) + length bs \<le> length data \<and> d = overwrite data (nat (sint ptr)) bs)"
proof (cases v)
  case None
  then show ?thesis by (simp add: mem_store_def)
next
  case (Some data)
  then show ?thesis by (auto simp: mem_store_eq MAX_IO_LEN_def not_less)
qed

lemma mem_load_Inr:
  "mem_load v ptr len = Inr bs \<longleftrightarrow>
     (\<exists>data. v = Some data \<and> 0 \<le> sint ptr \<and> len_ok len \<and>
        nat (sint ptr) + nat (sint len) \<le> length data \<and>
        bs = subslice data (nat (sint ptr)) (nat (sint ptr) + nat (sint len)))"
proof (cases v)
  case None
  then show ?thesis by (simp add: mem_load_def)
next
  case (Some data)
  then show ?thesis by (auto simp: mem_load_eq not_less)
qed

lemma mem_load_Inl: "mem_load v ptr len = Inl e \<Longrightarrow> e = EFAULT \<or> e = EINVAL"
  by (cases v) (auto simp: mem_load_def [of None] mem_load_eq split: if_splits)

lemma mem_store_Inl: "mem_store v ptr bs = Inl e \<Longrightarrow> e = EFAULT \<or> e = EINVAL"
  by (cases v) (auto simp: mem_store_eq mem_store_def [of None] split: if_splits)

text \<open>
  The interface of the memory as the imports use it: a read is a load from the viewed bytes, a
  write a store into them, and a write keeps the kind of export.
\<close>

locale guest_memory =
  fixes rd :: "mem_export \<Rightarrow> i32 \<Rightarrow> i32 \<Rightarrow> bytes errno_result"
    and wr :: "mem_export \<Rightarrow> i32 \<Rightarrow> bytes \<Rightarrow> mem_export errno_result"
  assumes rd_view: "rd m ptr len = mem_load (mem_view m) ptr len"
    and wr_view: "map_sum id mem_view (wr m ptr bs) = map_sum id Some (mem_store (mem_view m) ptr bs)"
begin

lemma wr_Inr_view: "wr m ptr bs = Inr m' \<Longrightarrow> \<exists>d. mem_store (mem_view m) ptr bs = Inr d \<and> mem_view m' = Some d"
  using wr_view [of m ptr bs] by (cases "mem_store (mem_view m) ptr bs") auto

lemma wr_Inl_errno: "wr m ptr bs = Inl e \<Longrightarrow> e = EFAULT \<or> e = EINVAL"
  using wr_view [of m ptr bs] mem_store_Inl [of "mem_view m" ptr bs e]
  by (cases "mem_store (mem_view m) ptr bs") auto

lemma rd_Inl_errno: "rd m ptr len = Inl e \<Longrightarrow> e = EFAULT \<or> e = EINVAL"
  by (auto simp: rd_view dest: mem_load_Inl)

lemma rd_length: "rd m ptr len = Inr bs \<Longrightarrow> length bs = nat (sint len)"
  by (auto simp: rd_view mem_load_Inr)

lemma wr_length: "wr m ptr bs = Inr m' \<Longrightarrow> map_option length (mem_view m') = map_option length (mem_view m)"
  by (auto dest!: wr_Inr_view simp: mem_store_Inr)

text \<open>What was written is read back.\<close>

lemma rd_after_wr: "wr m ptr bs = Inr m' \<Longrightarrow> rd m' ptr (of_nat (length bs)) = Inr bs"
  by (auto dest!: wr_Inr_view
      simp: rd_view mem_store_Inr mem_load_eq len_ok_of_nat subslice_overwrite_same)

text \<open>A read of a range the write does not touch is unchanged.\<close>

lemma rd_other_after_wr:
  assumes w: "wr m ptr bs = Inr m'"
    and disj: "sint q + sint len \<le> sint ptr \<or> sint ptr + int (length bs) \<le> sint q"
  shows "rd m' q len = rd m q len"
proof -
  from wr_Inr_view [OF w] obtain data where v: "mem_view m = Some data"
    and r: "0 \<le> sint ptr" "nat (sint ptr) + length bs \<le> length data"
    and v': "mem_view m' = Some (overwrite data (nat (sint ptr)) bs)"
    by (auto simp: mem_store_Inr)
  show ?thesis
  proof (cases "0 \<le> sint q \<and> len_ok len \<and> nat (sint q) + nat (sint len) \<le> length data")
    case True
    with disj r have "nat (sint q) + nat (sint len) \<le> nat (sint ptr) \<or>
        nat (sint ptr) + length bs \<le> nat (sint q)"
      by (auto simp: len_ok_def)
    with True r show ?thesis
      by (simp add: rd_view v v' mem_load_eq subslice_overwrite_disjoint)
  next
    case False
    then show ?thesis using r by (auto simp: rd_view v v' mem_load_eq)
  qed
qed

end

lemma read_guest_view: "read_guest m ptr len = mem_load (mem_view m) ptr len"
  by (cases m) (simp_all add: read_guest_def mem_load_def checked_range_eq fold_push)

lemma write_guest_view:
  "map_sum id mem_view (write_guest m ptr bs) = map_sum id Some (mem_store (mem_view m) ptr bs)"
proof (cases m)
  case (SharedMem data)
  have "fold (\<lambda>(i, b) d. d[i := b]) (zip [lo..<hi] bs) data = overwrite data lo bs"
    if "checked_range ptr len (length data) = Inr (lo, hi)" "i32_of_usize (length bs) = Some len"
    for len lo hi
    using that fold_update_overwrite [of lo bs data] i32_of_usize_roundtrip [of "length bs" len]
    by (auto simp: checked_range_eq split: if_splits)
  then show ?thesis
    by (auto simp: SharedMem write_guest_def mem_store_def split: option.splits sum.splits)
qed (auto simp: write_guest_def mem_store_def split: option.splits sum.splits)

lemma files_read_guest_eq: "files_read_guest = read_guest"
  unfolding fun_eq_iff files_read_guest_def read_guest_def files_checked_range_eq by (intro allI refl)

lemma files_write_guest_eq: "files_write_guest = write_guest"
  unfolding fun_eq_iff files_write_guest_def write_guest_def files_checked_range_eq by (intro allI refl)

interpretation smem: guest_memory read_guest write_guest
  by unfold_locales (rule read_guest_view, rule write_guest_view)

interpretation fmem: guest_memory files_read_guest files_write_guest
  unfolding files_read_guest_eq files_write_guest_eq by (rule smem.guest_memory_axioms)

subsection \<open>Facts about C strings\<close>

lemma position_Some:
  "position P xs = Some n \<Longrightarrow> n < length xs \<and> P (xs ! n) \<and> (\<forall>x \<in> set (take n xs). \<not> P x)"
  by (induction xs arbitrary: n) (auto split: if_splits)

text \<open>The byte-wise loop over a shared memory is the search and copy of the unshared one.\<close>

lemma read_cstr_cells_position:
  "read_cstr_cells cells acc =
     (case position (\<lambda>b. b = 0) cells of None \<Rightarrow> Inl ENAMETOOLONG
      | Some n \<Rightarrow> from_utf8 (acc @ take n cells))"
  by (induction cells acc rule: read_cstr_cells.induct) (auto split: option.split)

lemma take_subslice: "start + n \<le> hi \<Longrightarrow> take n (subslice xs start hi) = subslice xs start (start + n)"
  by (simp add: subslice_def min_def)

text \<open>The window of the memory \<open>read_cstr\<close> looks at, and what it finds there.\<close>

definition cstr_window :: "bytes \<Rightarrow> usize \<Rightarrow> bytes" where
  "cstr_window data start = take MAX_PATH_LEN (drop start data)"

lemma subslice_cstr_window:
  assumes "start < 2 ^ 31" "start < length data"
  shows "subslice data start (min (usize_saturating_add start MAX_PATH_LEN) (length data)) = cstr_window data start"
  using assms
  by (simp add: subslice_def cstr_window_def usize_saturating_add_def MAX_PATH_LEN_def min_def take_all)

lemma read_cstr_eq:
  "read_cstr m ptr =
     (case mem_view m of None \<Rightarrow> Inl EFAULT
      | Some data \<Rightarrow>
         if sint ptr < 0 \<or> length data \<le> nat (sint ptr) then Inl EFAULT
         else (case position (\<lambda>b. b = 0) (cstr_window data (nat (sint ptr))) of
                 None \<Rightarrow> Inl ENAMETOOLONG
               | Some n \<Rightarrow> from_utf8 (take n (cstr_window data (nat (sint ptr))))))"
proof -
  have lt: "nat (sint ptr) < 2 ^ 31" by simp
  let ?start = "nat (sint ptr)"
  have plain: "(case position (\<lambda>b. b = 0) (cstr_window data ?start) of None \<Rightarrow> Inl ENAMETOOLONG
       | Some n \<Rightarrow> from_utf8 (subslice data ?start (?start + n))) =
      (case position (\<lambda>b. b = 0) (cstr_window data ?start) of None \<Rightarrow> Inl ENAMETOOLONG
       | Some n \<Rightarrow> from_utf8 (take n (cstr_window data ?start)))" for data
  proof (cases "position (\<lambda>b. b = 0) (cstr_window data ?start)")
    case (Some n)
    then have "n < length (cstr_window data ?start)" by (auto dest: position_Some)
    then have "subslice data ?start (?start + n) = take n (cstr_window data ?start)"
      by (simp add: subslice_def cstr_window_def min_def split: if_splits)
    with Some show ?thesis by simp
  qed simp
  show ?thesis
    by (cases m)
      (auto simp: read_cstr_def usize_of_i32_def subslice_cstr_window [OF lt] plain Let_def
        read_cstr_cells_position split: option.split)
qed

lemma length_string_of_bytes [simp]: "length (string_of_bytes bs) = length bs"
  by (simp add: string_of_bytes_def)

lemma char_of_unat_NUL: "char_of (unat b) = CHR 0x00 \<Longrightarrow> b = (0 :: u8)"
proof -
  assume "char_of (unat b) = CHR 0x00"
  then have "(of_char (char_of (unat b)) :: nat) = of_char (CHR 0x00)" by (rule arg_cong)
  moreover have "unat b < 256" using unsigned_less [of b] by simp
  ultimately show ?thesis by (simp add: unat_eq_zero)
qed

lemma NUL_string_of_bytes:
  assumes "0 \<notin> set bs"
  shows "CHR 0x00 \<notin> set (string_of_bytes bs)"
proof
  assume "CHR 0x00 \<in> set (string_of_bytes bs)"
  then have "CHR 0x00 \<in> (\<lambda>b. char_of (unat b)) ` set bs"
    by (simp only: string_of_bytes_def set_map)
  then obtain b where b: "CHR 0x00 = char_of (unat b)" "b \<in> set bs" by (rule imageE)
  from b(1) [symmetric] have "b = 0" by (rule char_of_unat_NUL)
  with b(2) assms show False by simp
qed

lemma read_cstr_Inr:
  assumes "read_cstr m ptr = Inr s"
  obtains data bs where "mem_view m = Some data" "0 \<le> sint ptr"
    "utf8_valid bs" "s = string_of_bytes bs" "0 \<notin> set bs" "length bs < MAX_PATH_LEN"
    "nat (sint ptr) + length bs < length data"
    "subslice data (nat (sint ptr)) (nat (sint ptr) + length bs + 1) = bs @ [0]"
proof -
  from assms obtain data n where data: "mem_view m = Some data" "0 \<le> sint ptr"
      "nat (sint ptr) < length data"
    and n: "position (\<lambda>b. b = 0) (cstr_window data (nat (sint ptr))) = Some n"
    and u: "from_utf8 (take n (cstr_window data (nat (sint ptr)))) = Inr s"
    by (auto simp: read_cstr_eq split: option.splits if_splits)
  let ?w = "cstr_window data (nat (sint ptr))"
  from position_Some [OF n] have nw: "n < length ?w" "?w ! n = 0" "0 \<notin> set (take n ?w)" by auto
  have "subslice data (nat (sint ptr)) (nat (sint ptr) + n + 1) = take (Suc n) ?w"
    using nw(1) by (simp add: subslice_def cstr_window_def min_def split: if_splits)
  then have "subslice data (nat (sint ptr)) (nat (sint ptr) + n + 1) = take n ?w @ [0]"
    using nw by (simp add: take_Suc_conv_app_nth)
  with that [of data "take n ?w"] data nw u show thesis
    by (auto simp: from_utf8_def cstr_window_def split: if_splits)
qed

lemma read_u32_write_u32: "write_u32 m ptr v = Inr m' \<Longrightarrow> read_u32 m' ptr = Inr v"
  using smem.rd_after_wr [of m ptr "to_le_bytes 4 v" m']
  by (simp add: write_u32_def read_u32_def from_to_le_bytes_word)

subsection \<open>The size of a memory\<close>

definition mem_len :: "mem_export \<Rightarrow> nat option" where
  "mem_len m = map_option length (mem_view m)"

lemma write_guest_len: "write_guest m p bs = Inr m' \<Longrightarrow> mem_len m' = mem_len m"
  unfolding mem_len_def by (rule smem.wr_length)

lemma write_u32_len: "write_u32 m p v = Inr m' \<Longrightarrow> mem_len m' = mem_len m"
  unfolding write_u32_def by (rule write_guest_len)

lemma read_u32_other_after_write_u32:
  "write_u32 m p x = Inr m' \<Longrightarrow> sint q + 4 \<le> sint p \<or> sint p + 4 \<le> sint q \<Longrightarrow> read_u32 m' q = read_u32 m q"
  using smem.rd_other_after_wr [of m p "to_le_bytes 4 x" m' q 4]
  by (simp add: write_u32_def read_u32_def)

end
