(* ===== verification/Unix_Platform.thy ===== *)
theory Unix_Platform
  imports Guest_Errno
begin

text \<open>
  The Unix platform below the host: the constants and functions of the \<open>libc\<close> crate the source
  calls.  None of it is code of the repository, so it is a parameter: a record of constants and
  functions over a state \<open>'os\<close> of the operating system, which every function may change.  A
  function that fills a caller's buffer takes the buffer's capacity and returns the bytes it
  stored; \<open>errno\<close> is read from the state with \<open>sys_errno\<close>.

  \<open>raw_fd_laws\<close> states what POSIX documents about raw descriptors: \<open>socket\<close> and \<open>accept\<close> open a
  descriptor that was not open and return a negative number when they open none, \<open>close\<close>
  closes its argument, nothing else opens or closes one.
\<close>

datatype libc_const =
    L_AF_INET | L_AF_INET6 | L_SOCK_STREAM | L_SOCK_DGRAM | L_SOCK_CLOEXEC | L_SOCK_NONBLOCK
  | L_SOL_SOCKET | L_F_GETFD | L_F_SETFD | L_FD_CLOEXEC | L_F_GETFL | L_F_SETFL | L_O_NONBLOCK
  | L_SEEK_SET | L_SEEK_CUR | L_SEEK_END | L_F_WRLCK | L_F_SETLK

record pollfd =
  pfd_fd :: i32
  pfd_events :: i16
  pfd_revents :: i16

record 'os unix_sys =
  cfg_linux :: bool
  libc :: "libc_const \<Rightarrow> i32"
  libc_err :: "libc_errno \<Rightarrow> i32"
  sys_errno :: "'os \<Rightarrow> i32"
  sys_socket :: "i32 \<Rightarrow> i32 \<Rightarrow> i32 \<Rightarrow> 'os \<Rightarrow> i32 \<times> 'os"
  sys_bind :: "i32 \<Rightarrow> bytes \<Rightarrow> 'os \<Rightarrow> i32 \<times> 'os"
  sys_listen :: "i32 \<Rightarrow> i32 \<Rightarrow> 'os \<Rightarrow> i32 \<times> 'os"
  sys_accept :: "i32 \<Rightarrow> u32 \<Rightarrow> 'os \<Rightarrow> (i32 \<times> bytes \<times> u32) \<times> 'os"
  sys_connect :: "i32 \<Rightarrow> bytes \<Rightarrow> 'os \<Rightarrow> i32 \<times> 'os"
  sys_getsockname :: "i32 \<Rightarrow> u32 \<Rightarrow> 'os \<Rightarrow> (i32 \<times> bytes \<times> u32) \<times> 'os"
  sys_getpeername :: "i32 \<Rightarrow> u32 \<Rightarrow> 'os \<Rightarrow> (i32 \<times> bytes \<times> u32) \<times> 'os"
  sys_setsockopt :: "i32 \<Rightarrow> i32 \<Rightarrow> i32 \<Rightarrow> bytes \<Rightarrow> 'os \<Rightarrow> i32 \<times> 'os"
  sys_getsockopt :: "i32 \<Rightarrow> i32 \<Rightarrow> i32 \<Rightarrow> u32 \<Rightarrow> 'os \<Rightarrow> (i32 \<times> bytes \<times> u32) \<times> 'os"
  sys_send :: "i32 \<Rightarrow> bytes \<Rightarrow> i32 \<Rightarrow> 'os \<Rightarrow> i64 \<times> 'os"
  sys_recv :: "i32 \<Rightarrow> usize \<Rightarrow> i32 \<Rightarrow> 'os \<Rightarrow> (i64 \<times> bytes) \<times> 'os"
  sys_sendto :: "i32 \<Rightarrow> bytes \<Rightarrow> i32 \<Rightarrow> bytes \<Rightarrow> 'os \<Rightarrow> i64 \<times> 'os"
  sys_recvfrom :: "i32 \<Rightarrow> usize \<Rightarrow> i32 \<Rightarrow> u32 \<Rightarrow> 'os \<Rightarrow> (i64 \<times> bytes \<times> bytes \<times> u32) \<times> 'os"
  sys_shutdown :: "i32 \<Rightarrow> i32 \<Rightarrow> 'os \<Rightarrow> i32 \<times> 'os"
  sys_close :: "i32 \<Rightarrow> 'os \<Rightarrow> i32 \<times> 'os"
  sys_fcntl :: "i32 \<Rightarrow> i32 \<Rightarrow> i32 option \<Rightarrow> 'os \<Rightarrow> i32 \<times> 'os"
  sys_poll :: "pollfd list \<Rightarrow> i32 \<Rightarrow> 'os \<Rightarrow> (i32 \<times> i16 list) \<times> 'os"

text \<open>A call with result \<open>rc\<close> opened one new descriptor, or failed and opened none.\<close>

definition opens_one :: "('os \<Rightarrow> i32 set) \<Rightarrow> 'os \<Rightarrow> i32 \<Rightarrow> 'os \<Rightarrow> bool" where
  "opens_one opens s rc s' \<longleftrightarrow>
     (if sint rc < 0 then opens s' = opens s else rc \<notin> opens s \<and> opens s' = insert rc (opens s))"

definition raw_fd_laws :: "'os unix_sys \<Rightarrow> ('os \<Rightarrow> i32 set) \<Rightarrow> bool" where
  "raw_fd_laws sys opens \<longleftrightarrow>
     (\<forall>d t p s. opens_one opens s (fst (sys_socket sys d t p s)) (snd (sys_socket sys d t p s))) \<and>
     (\<forall>r n s. opens_one opens s (fst (fst (sys_accept sys r n s))) (snd (sys_accept sys r n s))) \<and>
     (\<forall>r s. opens (snd (sys_close sys r s)) = opens s - {r}) \<and>
     (\<forall>r a s. opens (snd (sys_bind sys r a s)) = opens s) \<and>
     (\<forall>r n s. opens (snd (sys_listen sys r n s)) = opens s) \<and>
     (\<forall>r a s. opens (snd (sys_connect sys r a s)) = opens s) \<and>
     (\<forall>r n s. opens (snd (sys_getsockname sys r n s)) = opens s) \<and>
     (\<forall>r n s. opens (snd (sys_getpeername sys r n s)) = opens s) \<and>
     (\<forall>r l n v s. opens (snd (sys_setsockopt sys r l n v s)) = opens s) \<and>
     (\<forall>r l n m s. opens (snd (sys_getsockopt sys r l n m s)) = opens s) \<and>
     (\<forall>r b f s. opens (snd (sys_send sys r b f s)) = opens s) \<and>
     (\<forall>r n f s. opens (snd (sys_recv sys r n f s)) = opens s) \<and>
     (\<forall>r b f a s. opens (snd (sys_sendto sys r b f a s)) = opens s) \<and>
     (\<forall>r n f m s. opens (snd (sys_recvfrom sys r n f m s)) = opens s) \<and>
     (\<forall>r h s. opens (snd (sys_shutdown sys r h s)) = opens s) \<and>
     (\<forall>r c a s. opens (snd (sys_fcntl sys r c a s)) = opens s) \<and>
     (\<forall>fds t s. opens (snd (sys_poll sys fds t s)) = opens s)"

lemma raw_fd_laws_frame:
  assumes "raw_fd_laws sys opens"
  shows "opens (snd (sys_close sys r s)) = opens s - {r}"
    "opens (snd (sys_bind sys r a s)) = opens s"
    "opens (snd (sys_listen sys r i s)) = opens s"
    "opens (snd (sys_connect sys r a s)) = opens s"
    "opens (snd (sys_getsockname sys r m s)) = opens s"
    "opens (snd (sys_getpeername sys r m s)) = opens s"
    "opens (snd (sys_setsockopt sys r l i a s)) = opens s"
    "opens (snd (sys_getsockopt sys r l i m s)) = opens s"
    "opens (snd (sys_send sys r a i s)) = opens s"
    "opens (snd (sys_recv sys r k i s)) = opens s"
    "opens (snd (sys_sendto sys r a i b s)) = opens s"
    "opens (snd (sys_recvfrom sys r k i m s)) = opens s"
    "opens (snd (sys_shutdown sys r i s)) = opens s"
    "opens (snd (sys_fcntl sys r i x s)) = opens s"
    "opens (snd (sys_poll sys fds i s)) = opens s"
  using assms unfolding raw_fd_laws_def by simp_all

lemma raw_fd_laws_socket:
  "raw_fd_laws sys opens \<Longrightarrow> sys_socket sys d t p s = (rc, s') \<Longrightarrow> opens_one opens s rc s'"
  unfolding raw_fd_laws_def by (metis fst_conv snd_conv)

lemma raw_fd_laws_accept:
  "raw_fd_laws sys opens \<Longrightarrow> sys_accept sys r n s = ((rc, ws, m), s') \<Longrightarrow> opens_one opens s rc s'"
  unfolding raw_fd_laws_def by (metis fst_conv snd_conv)

end
