(* ===== verification/Unix_Sample.thy ===== *)
theory Unix_Sample
  imports Unix_Platform
begin

text \<open>
  A small Linux host at which the hypotheses about the platform are discharged: the constants of
  Linux on x86-64 and an operating system whose state is the list of open raw descriptors, the
  status flags of each, the open file handles and the content of each file.  Nothing but the witnesses of the properties uses it.
\<close>

primrec linux_errno :: "libc_errno \<Rightarrow> i32" where
  "linux_errno H_E2BIG = 7"
| "linux_errno H_EACCES = 13"
| "linux_errno H_EADDRINUSE = 98"
| "linux_errno H_EADDRNOTAVAIL = 99"
| "linux_errno H_EAFNOSUPPORT = 97"
| "linux_errno H_EAGAIN = 11"
| "linux_errno H_EWOULDBLOCK = 11"
| "linux_errno H_EALREADY = 114"
| "linux_errno H_EBADF = 9"
| "linux_errno H_EBUSY = 16"
| "linux_errno H_ECONNABORTED = 103"
| "linux_errno H_ECONNREFUSED = 111"
| "linux_errno H_ECONNRESET = 104"
| "linux_errno H_EDESTADDRREQ = 89"
| "linux_errno H_EEXIST = 17"
| "linux_errno H_EFAULT = 14"
| "linux_errno H_EFBIG = 27"
| "linux_errno H_EHOSTUNREACH = 113"
| "linux_errno H_EINPROGRESS = 115"
| "linux_errno H_EINTR = 4"
| "linux_errno H_EINVAL = 22"
| "linux_errno H_EISCONN = 106"
| "linux_errno H_EISDIR = 21"
| "linux_errno H_ELOOP = 40"
| "linux_errno H_EMFILE = 24"
| "linux_errno H_EMSGSIZE = 90"
| "linux_errno H_ENAMETOOLONG = 36"
| "linux_errno H_ENETDOWN = 100"
| "linux_errno H_ENETRESET = 102"
| "linux_errno H_ENETUNREACH = 101"
| "linux_errno H_ENFILE = 23"
| "linux_errno H_ENOBUFS = 105"
| "linux_errno H_ENODEV = 19"
| "linux_errno H_ENOENT = 2"
| "linux_errno H_ENOMEM = 12"
| "linux_errno H_ENOPROTOOPT = 92"
| "linux_errno H_ENOSPC = 28"
| "linux_errno H_ENOSYS = 38"
| "linux_errno H_ENOTCONN = 107"
| "linux_errno H_ENOTDIR = 20"
| "linux_errno H_ENOTEMPTY = 39"
| "linux_errno H_ENOTSOCK = 88"
| "linux_errno H_EOPNOTSUPP = 95"
| "linux_errno H_ENOTSUP = 95"
| "linux_errno H_EOVERFLOW = 75"
| "linux_errno H_EPERM = 1"
| "linux_errno H_EPIPE = 32"
| "linux_errno H_EPROTONOSUPPORT = 93"
| "linux_errno H_EPROTOTYPE = 91"
| "linux_errno H_ERANGE = 34"
| "linux_errno H_EROFS = 30"
| "linux_errno H_ESPIPE = 29"
| "linux_errno H_ETIMEDOUT = 110"

primrec linux_const :: "libc_const \<Rightarrow> i32" where
  "linux_const L_AF_INET = 2"
| "linux_const L_AF_INET6 = 10"
| "linux_const L_SOCK_STREAM = 1"
| "linux_const L_SOCK_DGRAM = 2"
| "linux_const L_SOCK_CLOEXEC = 0x80000"
| "linux_const L_SOCK_NONBLOCK = 0x800"
| "linux_const L_SOL_SOCKET = 1"
| "linux_const L_F_GETFD = 1"
| "linux_const L_F_SETFD = 2"
| "linux_const L_FD_CLOEXEC = 1"
| "linux_const L_F_GETFL = 3"
| "linux_const L_F_SETFL = 4"
| "linux_const L_O_NONBLOCK = 0x800"
| "linux_const L_SEEK_SET = 0"
| "linux_const L_SEEK_CUR = 1"
| "linux_const L_SEEK_END = 2"
| "linux_const L_F_WRLCK = 1"
| "linux_const L_F_SETLK = 6"

record sample_os =
  so_open :: "i32 list"
  so_flags :: "i32 \<Rightarrow> i32"
  so_handles :: "nat list"
  so_data :: "nat \<Rightarrow> bytes"

text \<open>The lowest free descriptor of a small range, or \<open>-1\<close>.\<close>

definition fresh_fd :: "sample_os \<Rightarrow> i32" where
  "fresh_fd s = (case find (\<lambda>n. n \<notin> set (so_open s)) [3, 4, 5, 6, 7, 8] of None \<Rightarrow> -1 | Some n \<Rightarrow> n)"

definition open_fresh :: "sample_os \<Rightarrow> i32 \<times> sample_os" where
  "open_fresh s =
     (let n = fresh_fd s in if sint n < 0 then (n, s) else (n, s\<lparr>so_open := n # so_open s\<rparr>))"

definition sample_addr :: bytes where
  "sample_addr = [2, 0, 0x0c, 0xea, 127, 0, 0, 1, 0, 0, 0, 0, 0, 0, 0, 0]"

definition sample_fcntl :: "i32 \<Rightarrow> i32 \<Rightarrow> i32 option \<Rightarrow> sample_os \<Rightarrow> i32 \<times> sample_os" where
  "sample_fcntl raw cmd arg s =
     (if cmd = 3 then (so_flags s raw, s)
      else if cmd = 4 then
        (0, s\<lparr>so_flags := (so_flags s)
               (raw := (so_flags s raw AND NOT 0x800) OR ((case arg of None \<Rightarrow> 0 | Some a \<Rightarrow> a) AND 0x800))\<rparr>)
      else (0, s))"

definition sample_sys :: "sample_os unix_sys" where
  "sample_sys =
    \<lparr>cfg_linux = True, libc = linux_const, libc_err = linux_errno,
     sys_errno = (\<lambda>s. 24),
     sys_socket = (\<lambda>d t p. open_fresh),
     sys_bind = (\<lambda>r a s. (0, s)),
     sys_listen = (\<lambda>r b s. (0, s)),
     sys_accept = (\<lambda>r n s. case open_fresh s of (fd, s') \<Rightarrow> ((fd, sample_addr, 16), s')),
     sys_connect = (\<lambda>r a s. (0, s)),
     sys_getsockname = (\<lambda>r n s. ((0, sample_addr, 16), s)),
     sys_getpeername = (\<lambda>r n s. ((0, sample_addr, 16), s)),
     sys_setsockopt = (\<lambda>r l n v s. (0, s)),
     sys_getsockopt = (\<lambda>r l n m s. ((0, [0, 0, 0, 0], 4), s)),
     sys_send = (\<lambda>r b f s. (of_nat (length b), s)),
     sys_recv = (\<lambda>r n f s. ((3, [7, 8, 9]), s)),
     sys_sendto = (\<lambda>r b f a s. (of_nat (length b), s)),
     sys_recvfrom = (\<lambda>r n f m s. ((3, [7, 8, 9], sample_addr, 16), s)),
     sys_shutdown = (\<lambda>r h s. (0, s)),
     sys_close = (\<lambda>r s. (0, s\<lparr>so_open := removeAll r (so_open s)\<rparr>)),
     sys_fcntl = sample_fcntl,
     sys_poll = (\<lambda>fds t s. ((of_nat (length fds), map pfd_events fds), s))\<rparr>"

definition sample_opens :: "sample_os \<Rightarrow> i32 set" where
  "sample_opens s = set (so_open s)"

definition sample_init :: sample_os where
  "sample_init = \<lparr>so_open = [], so_flags = (\<lambda>_. 2), so_handles = [], so_data = (\<lambda>_. [])\<rparr>"

lemma linux_errno_codes_ok: "errno_codes_ok linux_errno"
proof -
  define es where "es = filter (\<lambda>e. e \<noteq> H_EWOULDBLOCK \<and> e \<noteq> H_ENOTSUP) libc_errnos"
  have "distinct (map linux_errno es)"
    by (simp add: es_def libc_errnos_def)
  then have inj: "inj_on linux_errno (set es)" by (simp add: distinct_map)
  have es: "e \<in> set es \<or> e = H_EWOULDBLOCK \<or> e = H_ENOTSUP" for e
    using libc_errnos_complete [of e] by (auto simp: es_def)
  define norm where "norm e = (if e = H_EWOULDBLOCK then H_EAGAIN else if e = H_ENOTSUP then H_EOPNOTSUPP else e)" for e
  have norm: "linux_errno (norm e) = linux_errno e" "norm e \<in> set es" for e
    using es [of e] by (auto simp: norm_def es_def libc_errnos_def)
  have "a = b \<or> {a, b} = {H_EAGAIN, H_EWOULDBLOCK} \<or> {a, b} = {H_EOPNOTSUPP, H_ENOTSUP}"
    if "linux_errno a = linux_errno b" for a b
  proof -
    have "norm a = norm b" using inj norm that by (metis inj_onD)
    then show ?thesis by (auto simp: norm_def split: if_splits)
  qed
  then show ?thesis by (simp add: errno_codes_ok_def)
qed

lemma linux_errno_nonzero: "0 \<notin> range linux_errno"
proof
  assume "0 \<in> range linux_errno"
  then obtain e where "linux_errno e = 0" by (metis imageE)
  then show False by (cases e) simp_all
qed

lemma open_fresh_one: "opens_one sample_opens s (fst (open_fresh s)) (snd (open_fresh s))"
  by (auto simp: opens_one_def open_fresh_def fresh_fd_def sample_opens_def Let_def find_Some_iff
      split: option.split)

lemma sample_raw_fd_laws: "raw_fd_laws sample_sys sample_opens"
  unfolding raw_fd_laws_def
  by (simp add: sample_sys_def open_fresh_one case_prod_beta sample_opens_def sample_fcntl_def
      set_eq_iff)

end
