(* ===== verification/Guest_Properties.thy ===== *)
theory Guest_Properties
  imports Guest_Memory Unix_Sample
begin

text \<open>
  The properties of the errno translation and of the access to the guest's memory.
\<close>

subsection \<open>Errno translation\<close>

text \<open>
  C29: on a host whose errno constants are pairwise distinct, except that \<open>EAGAIN\<close> and
  \<open>EWOULDBLOCK\<close>, and \<open>EOPNOTSUPP\<close> and \<open>ENOTSUP\<close>, may coincide, the code of each host name that
  \<^verbatim>\<open>guest_errno.rs\<close> knows is translated to the guest errno of that name, whatever the order of the
  comparisons, and every other code (that of \<open>EXDEV\<close> or \<open>EDQUOT\<close>, say) to \<open>EIO\<close>.  No constant of the
  module is forgotten: each but \<open>EIO\<close> and \<open>ENOTCAPABLE\<close>, which is no host errno, is the translation of
  the code of some name.
\<close>

theorem errno_by_name:
  assumes "errno_codes_ok codes"
  shows "from_host_errno codes (codes e) = guest_errno_of e \<and>
    (code \<notin> range codes \<longrightarrow> from_host_errno codes code = EIO) \<and>
    (\<forall>g \<in> set guest_errnos. g \<noteq> EIO \<and> g \<noteq> ENOTCAPABLE \<longrightarrow> (\<exists>h. from_host_errno codes (codes h) = g))"
proof -
  have "\<exists>h. from_host_errno codes (codes h) = g" if "g \<in> set guest_errnos" "g \<noteq> EIO" "g \<noteq> ENOTCAPABLE" for g
    using guest_errnos_named [OF that] from_host_errno_name [OF assms] by metis
  with from_host_errno_name [OF assms] from_host_errno_unknown show ?thesis by blast
qed

theorem errno_by_name_witness:
  "errno_codes_ok linux_errno \<and> from_host_errno linux_errno 111 = ECONNREFUSED \<and> (\<exists>h. from_host_errno linux_errno (linux_errno h) = ESPIPE)"
proof -
  have s: "ESPIPE \<in> set guest_errnos" by (simp add: guest_errnos_def)
  have "ESPIPE \<noteq> EIO" "ESPIPE \<noteq> ENOTCAPABLE" by (simp_all add: ESPIPE_def EIO_def ENOTCAPABLE_def)
  with s errno_by_name [OF linux_errno_codes_ok, of H_ECONNREFUSED] linux_errno_codes_ok show ?thesis by simp
qed

text \<open>
  Whatever code the operating system reports, on Unix or on Windows, the reply to the guest
  is negative and its negation is an errno of the guest's ABI: a translated error is never
  mistaken for a success.
\<close>

theorem errno_reply_decodes:
  "sint (neg_errno (from_host_errno codes code)) < 0 \<and> is_guest_errno (- neg_errno (from_host_errno codes code)) \<and>
   sint (neg_errno (from_windows_error code)) < 0 \<and> is_guest_errno (- neg_errno (from_windows_error code))"
  by (simp add: neg_errno_neg from_host_errno_range from_windows_error_range) (simp add: neg_errno_def from_host_errno_range from_windows_error_range)

subsection \<open>Guest memory\<close>

text \<open>
  C22: \<open>checked_range\<close> accepts a pointer and a length exactly when both are non-negative, the
  length is at most 16 MiB and the range lies inside the memory, and then returns that range;
  its 64-bit addition never overflows.
\<close>

theorem checked_range_iff:
  "checked_range ptr len memory_len = Inr (lo, hi) \<longleftrightarrow>
     0 \<le> sint ptr \<and> 0 \<le> sint len \<and> sint len \<le> 16777216 \<and>
     sint ptr + sint len \<le> int memory_len \<and> int lo = sint ptr \<and> int hi = sint ptr + sint len"
  by (auto simp: checked_range_eq len_ok_def MAX_IO_LEN_def)

text \<open>
  C21: the bytes \<open>write_guest\<close> stores are the bytes \<open>read_guest\<close> reads back at the same place, reads
  of ranges that do not overlap are unaffected, and the size of the memory does not change.
\<close>

theorem write_read_guest:
  assumes "write_guest m ptr bs = Inr m'"
  shows "read_guest m' ptr (of_nat (length bs)) = Inr bs \<and>
    (\<forall>q len. sint q + sint len \<le> sint ptr \<or> sint ptr + int (length bs) \<le> sint q \<longrightarrow>
       read_guest m' q len = read_guest m q len) \<and>
    map_option length (mem_view m') = map_option length (mem_view m)"
  using smem.rd_after_wr [OF assms] smem.rd_other_after_wr [OF assms] smem.wr_length [OF assms] by blast

theorem write_read_guest_witness:
  "write_guest (PlainMemory [1, 2, 3, 4]) 1 [9, 8] = Inr (PlainMemory [1, 9, 8, 4]) \<and>
   read_guest (PlainMemory [1, 9, 8, 4]) 1 2 = Inr [9, 8]"
proof -
  have w: "write_guest (PlainMemory [1, 2, 3, 4]) 1 [9, 8] = Inr (PlainMemory [1, 9, 8, 4])"
    by (simp add: write_guest_def checked_range_eq len_ok_def MAX_IO_LEN_def i32_of_usize_def overwrite_def)
  with write_read_guest [OF w] show ?thesis by simp
qed

text \<open>
  C23: a shared memory, read and written one cell at a time, behaves exactly as an unshared one,
  read and written as a block: the same errors, the same bytes.
\<close>

theorem shared_as_plain:
  "read_guest (SharedMem data) ptr len = read_guest (PlainMemory data) ptr len \<and>
   map_sum id mem_view (write_guest (SharedMem data) ptr bs) =
     map_sum id mem_view (write_guest (PlainMemory data) ptr bs) \<and>
   read_cstr (SharedMem data) ptr = read_cstr (PlainMemory data) ptr"
  by (simp add: read_guest_view write_guest_view read_cstr_eq)

text \<open>
  A path \<open>read_cstr\<close> returns is the valid UTF-8 before the first zero byte at the pointer, in
  bounds and shorter than 16 KiB; it contains no zero byte.
\<close>

theorem read_cstr_sound:
  assumes "read_cstr m ptr = Inr s"
  shows "\<exists>data bs. mem_view m = Some data \<and> 0 \<le> sint ptr \<and> utf8_valid bs \<and> s = string_of_bytes bs \<and>
    0 \<notin> set bs \<and> length bs < 16384 \<and> nat (sint ptr) + length bs < length data \<and>
    subslice data (nat (sint ptr)) (nat (sint ptr) + length bs + 1) = bs @ [0]"
  using assms by (rule read_cstr_Inr) (auto simp: MAX_PATH_LEN_def)

theorem read_cstr_sound_witness:
  "read_cstr (SharedMem [7, 47, 97, 0, 5]) 1 = Inr ''/a'' \<and>
   (\<exists>bs. ''/a'' = string_of_bytes bs \<and> 0 \<notin> set bs)"
proof -
  have ascii: "char_of (47 :: nat) = CHR ''/''" "char_of (97 :: nat) = CHR ''a''" by code_simp+
  have r: "read_cstr (SharedMem [7, 47, 97, 0, 5]) 1 = Inr ''/a''"
    by (simp add: read_cstr_eq cstr_window_def MAX_PATH_LEN_def from_utf8_def string_of_bytes_def ascii)
  with read_cstr_sound [OF r] show ?thesis by blast
qed

end
