(* ===== verification/Fd_Table.thy ===== *)
theory Fd_Table
  imports Guest_Errno
begin

text \<open>
  The interface of a guest descriptor table: \<open>HostSocketsInner\<close> (Unix and Windows) and
  \<open>HostFilesInner\<close> each hand out descriptors counting up from a base with a saturating
  successor, look descriptors up and remove them.  The locale \<open>fd_table\<close> states what the
  imports rely on; the tables of the two components interpret it.  \<open>fd_run\<close> is a sequence of
  insertions and removals by any guest threads (each is atomic under the table's mutex).
\<close>

subsection \<open>Well-formed tables\<close>

text \<open>
  Every live descriptor lies between the base and the next one to be handed out; only when the
  counter has saturated at \<open>i32::MAX\<close> may that value itself be live.
\<close>

definition fd_wf :: "i32 \<Rightarrow> i32 \<Rightarrow> (i32 \<rightharpoonup> 'v) \<Rightarrow> bool" where
  "fd_wf base nxt m \<longleftrightarrow>
     sint base \<le> sint nxt \<and>
     (\<forall>fd \<in> dom m. sint base \<le> sint fd \<and> (sint fd < sint nxt \<or> nxt = i32_MAX))"

text \<open>Only \<open>i32::MAX\<close>, which a saturated counter hands out again, may not lie below the counter.\<close>

lemma fd_wf_below: "fd_wf base nxt m \<Longrightarrow> m fd = Some v \<Longrightarrow> fd \<noteq> i32_MAX \<Longrightarrow> sint fd < sint nxt"
  by (auto simp: fd_wf_def i32_MAX_iff [of fd])

datatype 'v fd_op = FdInsert 'v | FdRemove i32

fun fd_run :: "('t \<Rightarrow> 'v \<Rightarrow> i32 \<times> 't) \<Rightarrow> ('t \<Rightarrow> i32 \<Rightarrow> ('v \<times> 't) errno_result) \<Rightarrow>
    't \<Rightarrow> 'v fd_op list \<Rightarrow> i32 list \<times> 't" where
  "fd_run ins del t [] = ([], t)"
| "fd_run ins del t (FdInsert v # ops) =
     (let (fd, t') = ins t v; (fds, t'') = fd_run ins del t' ops in (fd # fds, t''))"
| "fd_run ins del t (FdRemove fd # ops) =
     fd_run ins del (case del t fd of Inl e \<Rightarrow> t | Inr (v, t') \<Rightarrow> t') ops"

fun count_inserts :: "'v fd_op list \<Rightarrow> nat" where
  "count_inserts [] = 0"
| "count_inserts (FdInsert v # ops) = Suc (count_inserts ops)"
| "count_inserts (FdRemove fd # ops) = count_inserts ops"

lemma fd_wf_fresh: "fd_wf base nxt m \<Longrightarrow> nxt \<noteq> i32_MAX \<Longrightarrow> m nxt = None"
  by (fastforce simp: fd_wf_def dom_def)

lemma fd_wf_insert [wf_intros]:
  assumes "fd_wf base nxt m"
  shows "fd_wf base (i32_saturating_succ nxt) (m(nxt \<mapsto> v))"
proof (cases "nxt = i32_MAX")
  case True
  with assms show ?thesis by (auto simp: fd_wf_def i32_saturating_succ_def)
next
  case False
  then have "sint (i32_saturating_succ nxt) = sint nxt + 1"
    by (simp add: sint_saturating_succ i32_MAX_iff)
  moreover have "sint base \<le> sint fd \<and> sint fd < sint nxt + 1" if "fd \<in> dom (m(nxt \<mapsto> v))" for fd
  proof (cases "fd = nxt")
    case True
    with assms show ?thesis by (simp add: fd_wf_def)
  next
    case ne: False
    with that have "fd \<in> dom m" by simp
    with assms False have "sint base \<le> sint fd" "sint fd < sint nxt" unfolding fd_wf_def by blast+
    then show ?thesis by simp
  qed
  moreover have "sint base \<le> sint nxt + 1" using assms by (simp add: fd_wf_def)
  ultimately show ?thesis by (simp add: fd_wf_def)
qed

lemma fd_wf_delete [wf_intros]: "fd_wf base nxt m \<Longrightarrow> fd_wf base nxt (m(fd := None))"
  by (auto simp: fd_wf_def)

lemma fd_wf_update [wf_intros]: "fd_wf base nxt m \<Longrightarrow> m fd = Some v \<Longrightarrow> fd_wf base nxt (m(fd \<mapsto> w))"
  by (auto simp: fd_wf_def)

lemma fd_wf_empty [wf_intros]: "fd_wf base base Map.empty"
  by (simp add: fd_wf_def)

subsection \<open>The interface\<close>

locale fd_table =
  fixes base :: i32
    and nxt :: "'t \<Rightarrow> i32"
    and entries :: "'t \<Rightarrow> (i32 \<rightharpoonup> 'v)"
    and ins :: "'t \<Rightarrow> 'v \<Rightarrow> i32 \<times> 't"
    and look :: "'t \<Rightarrow> i32 \<Rightarrow> 'v errno_result"
    and del :: "'t \<Rightarrow> i32 \<Rightarrow> ('v \<times> 't) errno_result"
  assumes base_nonneg: "0 \<le> sint base"
    and ins_fd: "fst (ins t v) = nxt t"
    and ins_nxt: "nxt (snd (ins t v)) = i32_saturating_succ (nxt t)"
    and ins_entries: "entries (snd (ins t v)) = (entries t)(nxt t \<mapsto> v)"
    and look_entries: "look t fd = (case entries t fd of None \<Rightarrow> Inl EBADF | Some v \<Rightarrow> Inr v)"
    and del_None: "entries t fd = None \<Longrightarrow> del t fd = Inl EBADF"
    and del_Some: "entries t fd = Some v \<Longrightarrow>
      \<exists>t'. del t fd = Inr (v, t') \<and> nxt t' = nxt t \<and> entries t' = (entries t)(fd := None)"
begin

definition wf :: "'t \<Rightarrow> bool" where
  "wf t \<longleftrightarrow> fd_wf base (nxt t) (entries t)"

lemma wf_ins: "wf t \<Longrightarrow> wf (snd (ins t v))"
  by (simp add: wf_def ins_nxt ins_entries fd_wf_insert)

lemma del_Inr_effect:
  "del t fd = Inr (v, t') \<Longrightarrow> entries t fd = Some v \<and> nxt t' = nxt t \<and> entries t' = (entries t)(fd := None)"
  using del_None [of t fd] del_Some [of t fd] by (cases "entries t fd") auto

lemma del_Inl: "del t fd = Inl e \<Longrightarrow> e = EBADF \<and> entries t fd = None"
  using del_None [of t fd] del_Some [of t fd] by (cases "entries t fd") auto

lemma wf_del: "wf t \<Longrightarrow> del t fd = Inr (v, t') \<Longrightarrow> wf t'"
  by (auto dest!: del_Inr_effect simp: wf_def fd_wf_delete)

lemma look_ins: "look (snd (ins t v)) (fst (ins t v)) = Inr v"
  by (simp add: look_entries ins_fd ins_entries)

lemma look_ins_other: "fd \<noteq> nxt t \<Longrightarrow> look (snd (ins t v)) fd = look t fd"
  by (simp add: look_entries ins_entries)

lemma ins_fresh: "wf t \<Longrightarrow> nxt t \<noteq> i32_MAX \<Longrightarrow> look t (fst (ins t v)) = Inl EBADF"
  by (simp add: wf_def look_entries ins_fd fd_wf_fresh)

lemma ins_fd_nonneg: "wf t \<Longrightarrow> sint base \<le> sint (fst (ins t v)) \<and> 0 \<le> sint (fst (ins t v))"
  using base_nonneg by (simp add: wf_def fd_wf_def ins_fd)

lemma look_del: "del t fd = Inr (v, t') \<Longrightarrow> look t' fd = Inl EBADF"
  by (auto dest!: del_Inr_effect simp: look_entries)

lemma look_del_other: "del t fd = Inr (v, t') \<Longrightarrow> fd' \<noteq> fd \<Longrightarrow> look t' fd' = look t fd'"
  by (auto dest!: del_Inr_effect simp: look_entries)

lemma del_twice: "del t fd = Inr (v, t') \<Longrightarrow> del t' fd = Inl EBADF"
  by (auto dest!: del_Inr_effect intro: del_None)

text \<open>The state after a removal, whether it found the descriptor or not.\<close>

lemma remove_step:
  "nxt (case del t fd of Inl e \<Rightarrow> t | Inr (v, t') \<Rightarrow> t') = nxt t"
  "entries (case del t fd of Inl e \<Rightarrow> t | Inr (v, t') \<Rightarrow> t') = (entries t)(fd := None)"
  using del_None [of t fd] del_Some [of t fd] by (cases "entries t fd"; auto)+

lemma run_insert:
  "fd_run ins del t (FdInsert v # ops) =
     (nxt t # fst (fd_run ins del (snd (ins t v)) ops), snd (fd_run ins del (snd (ins t v)) ops))"
  using ins_fd [of t v] by (simp add: case_prod_beta)

lemma run_wf: "wf t \<Longrightarrow> wf (snd (fd_run ins del t ops))"
proof (induction ops arbitrary: t)
  case (Cons op ops)
  show ?case
  proof (cases op)
    case (FdInsert v)
    with Cons show ?thesis by (simp only: run_insert snd_conv wf_ins)
  next
    case (FdRemove fd)
    with Cons show ?thesis by (simp add: wf_def remove_step fd_wf_delete)
  qed
qed simp

text \<open>The descriptors handed out by a run count up from the next one: none is ever reused.\<close>

lemma run_issues:
  assumes "sint (nxt t) + int (count_inserts ops) \<le> 2147483647"
  shows "map sint (fst (fd_run ins del t ops)) = map (\<lambda>i. sint (nxt t) + int i) [0..<count_inserts ops]"
    and "sint (nxt (snd (fd_run ins del t ops))) = sint (nxt t) + int (count_inserts ops)"
  using assms
proof (induction ops arbitrary: t)
  case (Cons op ops)
  {
    case 1
    show ?case
    proof (cases op)
      case (FdInsert v)
      with 1 have "sint (nxt (snd (ins t v))) = sint (nxt t) + 1"
        by (simp add: ins_nxt sint_saturating_succ)
      with 1 FdInsert Cons.IH(1) [of "snd (ins t v)"] show ?thesis
        by (simp add: run_insert upt_conv_Cons map_Suc_upt [symmetric] del: upt_Suc fd_run.simps)
    next
      case (FdRemove fd)
      with 1 Cons.IH(1) show ?thesis by (simp add: remove_step)
    qed
  next
    case 2
    show ?case
    proof (cases op)
      case (FdInsert v)
      with 2 have "sint (nxt (snd (ins t v))) = sint (nxt t) + 1"
        by (simp add: ins_nxt sint_saturating_succ)
      with 2 FdInsert Cons.IH(2) [of "snd (ins t v)"] show ?thesis
        by (simp add: run_insert del: fd_run.simps)
    next
      case (FdRemove fd)
      with 2 Cons.IH(2) show ?thesis by (simp add: remove_step)
    qed
  }
qed simp_all

lemma run_distinct:
  assumes "sint (nxt t) + int (count_inserts ops) \<le> 2147483647"
  shows "distinct (fst (fd_run ins del t ops))"
proof -
  have "distinct (map sint (fst (fd_run ins del t ops)))"
    by (simp add: run_issues(1) [OF assms] distinct_map inj_on_def)
  then show ?thesis by (simp add: distinct_map)
qed

text \<open>A descriptor below the counter that is not live stays dead.\<close>

lemma run_dead:
  assumes "sint fd < sint (nxt t)" "entries t fd = None"
    "sint (nxt t) + int (count_inserts ops) \<le> 2147483647"
  shows "look (snd (fd_run ins del t ops)) fd = Inl EBADF"
  using assms
proof (induction ops arbitrary: t)
  case Nil
  then show ?case by (simp add: look_entries)
next
  case (Cons op ops)
  show ?case
  proof (cases op)
    case (FdInsert v)
    with Cons.prems have n: "sint (nxt (snd (ins t v))) = sint (nxt t) + 1" "fd \<noteq> nxt t"
      by (auto simp: ins_nxt sint_saturating_succ)
    with Cons.prems FdInsert Cons.IH [of "snd (ins t v)"] show ?thesis
      by (simp add: run_insert ins_entries del: fd_run.simps)
  next
    case (FdRemove fd')
    with Cons show ?thesis by (simp add: remove_step)
  qed
qed

end

end
