(* ===== verification/Socket_Table.thy ===== *)
theory Socket_Table
  imports Guest_Memory Fd_Table
begin

text \<open>
  \<open>HostSocketsInner\<close> of \<^verbatim>\<open>src/src/host_sockets.rs\<close>, the table of guest sockets behind its mutex.  The
  entry type \<open>'s\<close> differs between Unix and Windows and so do the functions that change the table,
  which are in \<open>Host_Sockets\<close> and \<open>Windows_Sockets\<close>; the state, its invariant and the effect of
  adding an entry are common to both.
\<close>

definition SOCKET_FD_BASE :: i32 where
  "SOCKET_FD_BASE = 10000"

definition WASI_SOL_SOCKET :: i32 where
  "WASI_SOL_SOCKET = 0x7fffffff"

record 's host_sockets =
  hs_next_fd :: i32
  hs_sockets :: "i32 \<rightharpoonup> 's"

definition hs_new :: "'s host_sockets" where
  "hs_new = \<lparr>hs_next_fd = SOCKET_FD_BASE, hs_sockets = Map.empty\<rparr>"

datatype name_kind = Local | Peer

subsection \<open>The invariant of the table\<close>

definition sockets_wf :: "'s host_sockets \<Rightarrow> bool" where
  "sockets_wf t \<longleftrightarrow> fd_wf SOCKET_FD_BASE (hs_next_fd t) (hs_sockets t)"

lemma sockets_wf_new [wf_intros]: "sockets_wf hs_new"
  by (simp add: sockets_wf_def hs_new_def fd_wf_empty)

lemma hs_new_unknown [simp]: "hs_sockets hs_new fd = None"
  by (simp add: hs_new_def)

subsection \<open>The effects on a table\<close>

text \<open>What both variants of \<open>insert\<close>, of \<open>remove\<close> and \<open>set_status_flags\<close> do to the table.\<close>

definition hs_put :: "'s host_sockets \<Rightarrow> 's \<Rightarrow> i32 \<times> 's host_sockets" where
  "hs_put t v = (hs_next_fd t,
     \<lparr>hs_next_fd = i32_saturating_succ (hs_next_fd t), hs_sockets = (hs_sockets t)(hs_next_fd t \<mapsto> v)\<rparr>)"

definition hs_assign :: "'s host_sockets \<Rightarrow> i32 \<Rightarrow> 's option \<Rightarrow> 's host_sockets" where
  "hs_assign t fd x = t\<lparr>hs_sockets := (hs_sockets t)(fd := x)\<rparr>"

lemma hs_put_table:
  "hs_put t v = (fd, t') \<Longrightarrow> fd = hs_next_fd t \<and> hs_next_fd t' = i32_saturating_succ (hs_next_fd t) \<and>
     hs_sockets t' = (hs_sockets t)(hs_next_fd t \<mapsto> v)"
  by (auto simp: hs_put_def)

lemma hs_assign_table [simp]:
  "hs_next_fd (hs_assign t fd x) = hs_next_fd t"
  "hs_sockets (hs_assign t fd x) = (hs_sockets t)(fd := x)"
  by (simp_all add: hs_assign_def)

lemma sockets_wf_put [wf_intros]: "sockets_wf t \<Longrightarrow> hs_put t v = (fd, t') \<Longrightarrow> sockets_wf t'"
  by (auto dest!: hs_put_table simp: sockets_wf_def fd_wf_insert)

lemma sockets_wf_clear [wf_intros]: "sockets_wf t \<Longrightarrow> sockets_wf (hs_assign t fd None)"
  by (simp add: sockets_wf_def fd_wf_delete)

lemma sockets_wf_update [wf_intros]:
  "sockets_wf t \<Longrightarrow> hs_sockets t fd = Some v \<Longrightarrow> sockets_wf (hs_assign t fd (Some w))"
  by (auto simp: sockets_wf_def intro: fd_wf_update)

lemma hs_put_nonneg: "sockets_wf t \<Longrightarrow> 0 \<le> sint (fst (hs_put t v))"
  by (simp add: hs_put_def sockets_wf_def fd_wf_def SOCKET_FD_BASE_def)

subsection \<open>Replies\<close>

text \<open>A result of an import: a non-negative value, or a negated guest errno.\<close>

definition reply_ok :: "i32 \<Rightarrow> bool" where
  "reply_ok r \<longleftrightarrow> 0 \<le> sint r \<or> is_guest_errno (- r)"

lemma reply_ok_neg_errno [simp]: "is_guest_errno e \<Longrightarrow> reply_ok (neg_errno e)"
  by (simp add: reply_ok_def neg_errno_def)

lemma reply_ok_nonneg: "0 \<le> sint r \<Longrightarrow> reply_ok r"
  by (simp add: reply_ok_def)

fun outcome_ok :: "i32 outcome \<Rightarrow> bool" where
  "outcome_ok (Return r) = reply_ok r"
| "outcome_ok Panic = True"

text \<open>A failure is told apart from every successful result by its sign.\<close>

lemma failure_negative: "is_guest_errno e \<Longrightarrow> \<not> 0 \<le> sint (neg_errno e)"
  by (simp add: neg_errno_neg not_le)

end
