(* ===== verification/App_State.thy ===== *)
theory App_State
  imports Socket_Table
begin

text \<open>
  What an import of the host can reach: \<open>AppState\<close> of \<^verbatim>\<open>src/src/main.rs\<close> (the file table, the socket
  table, the network permission, the shutdown flag) and, through its \<open>Caller\<close>, the memory the
  calling instance exports; and the state of the operating system below.  The WASI context of
  \<open>AppState\<close> is used only by the third-party WASI imports and has no field here.  The socket entry
  \<open>'s\<close> and the file table \<open>'f\<close> are type parameters, since they differ between platforms.
\<close>

record ('s, 'f, 'os) app_state =
  memory :: mem_export
  files :: 'f
  sockets :: "'s host_sockets"
  network_allowed :: bool
  shutdown_requested :: bool
  os :: 'os

text \<open>An import with its arguments applied: the result it returns to the guest, or a panic.\<close>

type_synonym ('s, 'f, 'os) import =
  "('s, 'f, 'os) app_state \<Rightarrow> i32 outcome \<times> ('s, 'f, 'os) app_state"

text \<open>An early return of an errno.\<close>

abbreviation fail :: "i32 \<Rightarrow> ('s, 'f, 'os) import" where
  "fail e st \<equiv> (Return (neg_errno e), st)"

end
