(* ===== verification/Host_Sockets.thy ===== *)
theory Host_Sockets
  imports Unix_Platform Socket_Table
begin

text \<open>
  The data and helper functions of \<^verbatim>\<open>src/src/host_sockets.rs\<close> on Unix: the table of guest sockets
  (\<open>HostSocketsInner\<close> behind its mutex), the translation of socket types, domains, option
  levels and address families between the guest ABI and the host's \<open>libc\<close>, and the conversion
  of system call results.  The imports built from them are in \<open>Socket_Imports\<close>.
\<close>

subsection \<open>The socket table\<close>

record host_socket =
  raw_fd :: i32
  guest_domain :: i32
  host_domain :: i32

definition hs_insert :: "host_socket host_sockets \<Rightarrow> i32 \<Rightarrow> i32 \<Rightarrow> i32 \<Rightarrow> i32 \<times> host_socket host_sockets" where
  "hs_insert inner raw guest_dom host_dom =
     (let guest_fd = hs_next_fd inner;
          inner = inner\<lparr>hs_next_fd := i32_saturating_succ (hs_next_fd inner)\<rparr>;
          inner = inner\<lparr>hs_sockets := (hs_sockets inner)
                     (guest_fd \<mapsto> \<lparr>raw_fd = raw, guest_domain = guest_dom, host_domain = host_dom\<rparr>)\<rparr>
      in (guest_fd, inner))"

definition hs_get :: "host_socket host_sockets \<Rightarrow> i32 \<Rightarrow> host_socket errno_result" where
  "hs_get inner guest_fd =
     (case hs_sockets inner guest_fd of None \<Rightarrow> Inl EBADF | Some socket \<Rightarrow> Inr socket)"

definition hs_remove :: "host_socket host_sockets \<Rightarrow> i32 \<Rightarrow> (host_socket \<times> host_socket host_sockets) errno_result" where
  "hs_remove inner guest_fd =
     (case hs_sockets inner guest_fd of
        None \<Rightarrow> Inl EBADF
      | Some socket \<Rightarrow> Inr (socket, inner\<lparr>hs_sockets := (hs_sockets inner)(guest_fd := None)\<rparr>))"

text \<open>\<open>Drop for HostSocketsInner\<close>: \<open>drain\<close> yields the entries in some order, each is closed.\<close>

definition hs_drop :: "'os unix_sys \<Rightarrow> (i32 \<times> host_socket) list \<Rightarrow> 'os \<Rightarrow> 'os" where
  "hs_drop sys drained s = fold (\<lambda>(_, socket) s. snd (sys_close sys (raw_fd socket) s)) drained s"

subsection \<open>Results of system calls\<close>

text \<open>\<open>Error::last_os_error().raw_os_error()\<close> always has a code.\<close>

definition last_os_error :: "'os unix_sys \<Rightarrow> 'os \<Rightarrow> i32 option" where
  "last_os_error sys s = Some (sys_errno sys s)"

definition last_errno :: "'os unix_sys \<Rightarrow> 'os \<Rightarrow> i32" where
  "last_errno sys s =
     (case last_os_error sys s of
        Some code \<Rightarrow> from_host_errno (libc_err sys) code
      | None \<Rightarrow> EIO)"

definition neg_last_errno :: "'os unix_sys \<Rightarrow> 'os \<Rightarrow> i32" where
  "neg_last_errno sys s = neg_errno (last_errno sys s)"

definition cvt_i32 :: "'os unix_sys \<Rightarrow> 'os \<Rightarrow> i32 \<Rightarrow> i32" where
  "cvt_i32 sys s rc = (if sint rc < 0 then neg_last_errno sys s else rc)"

definition cvt_ssize :: "'os unix_sys \<Rightarrow> 'os \<Rightarrow> i64 \<Rightarrow> i32" where
  "cvt_ssize sys s rc =
     (if sint rc < 0 then neg_last_errno sys s
      else (case i32_of_i64 rc of Some n \<Rightarrow> n | None \<Rightarrow> neg_errno EOVERFLOW))"

subsection \<open>Socket types, domains, levels\<close>

definition WASI_ALT_AF_INET :: i32 where
  "WASI_ALT_AF_INET = 1"
definition WASI_ALT_SOCK_DGRAM :: i32 where
  "WASI_ALT_SOCK_DGRAM = 5"
definition WASI_ALT_SOCK_STREAM :: i32 where
  "WASI_ALT_SOCK_STREAM = 6"
definition WASI_ALT_SOCK_CLOEXEC :: i32 where
  "WASI_ALT_SOCK_CLOEXEC = 0x2000"
definition WASI_ALT_SOCK_NONBLOCK :: i32 where
  "WASI_ALT_SOCK_NONBLOCK = 0x4000"
definition WASI_F_GETFL :: i32 where
  "WASI_F_GETFL = 3"
definition WASI_F_SETFL :: i32 where
  "WASI_F_SETFL = 4"
definition WASI_O_NONBLOCK :: i32 where
  "WASI_O_NONBLOCK = 0x0004"
definition WASI_SO_ERROR :: i32 where
  "WASI_SO_ERROR = 4"

lemmas wasi_socket_consts =
  WASI_ALT_AF_INET_def WASI_ALT_SOCK_DGRAM_def WASI_ALT_SOCK_STREAM_def WASI_ALT_SOCK_CLOEXEC_def
  WASI_ALT_SOCK_NONBLOCK_def WASI_SOL_SOCKET_def WASI_F_GETFL_def WASI_F_SETFL_def
  WASI_O_NONBLOCK_def WASI_SO_ERROR_def

record normalized_socket_type =
  nst_ty :: i32
  nst_close_on_exec :: bool
  nst_nonblocking :: bool

definition host_socket_flag_mask :: "'os unix_sys \<Rightarrow> i32" where
  "host_socket_flag_mask sys =
     (if cfg_linux sys then libc sys L_SOCK_CLOEXEC OR libc sys L_SOCK_NONBLOCK else 0)"

definition has_host_sock_cloexec :: "'os unix_sys \<Rightarrow> i32 \<Rightarrow> bool" where
  "has_host_sock_cloexec sys flags =
     (if cfg_linux sys then flags AND libc sys L_SOCK_CLOEXEC \<noteq> 0 else False)"

definition has_host_sock_nonblock :: "'os unix_sys \<Rightarrow> i32 \<Rightarrow> bool" where
  "has_host_sock_nonblock sys flags =
     (if cfg_linux sys then flags AND libc sys L_SOCK_NONBLOCK \<noteq> 0 else False)"

definition normalize_socket_type :: "'os unix_sys \<Rightarrow> i32 \<Rightarrow> normalized_socket_type errno_result" where
  "normalize_socket_type sys ty =
     (let flag_mask = host_socket_flag_mask sys OR WASI_ALT_SOCK_CLOEXEC OR WASI_ALT_SOCK_NONBLOCK;
          base = ty AND NOT flag_mask;
          flags = ty AND flag_mask;
          found = (if base = libc sys L_SOCK_STREAM \<or> base = WASI_ALT_SOCK_STREAM
                     then Inr (libc sys L_SOCK_STREAM)
                   else if base = libc sys L_SOCK_DGRAM \<or> base = WASI_ALT_SOCK_DGRAM
                     then Inr (libc sys L_SOCK_DGRAM)
                   else Inl EOPNOTSUPP)
      in case found of
           Inl e \<Rightarrow> Inl e
         | Inr ty \<Rightarrow> Inr \<lparr>nst_ty = ty,
             nst_close_on_exec =
               (has_host_sock_cloexec sys flags \<or> flags AND WASI_ALT_SOCK_CLOEXEC \<noteq> 0),
             nst_nonblocking =
               (has_host_sock_nonblock sys flags \<or> flags AND WASI_ALT_SOCK_NONBLOCK \<noteq> 0)\<rparr>)"

definition configure_socket_type_flags ::
    "'os unix_sys \<Rightarrow> i32 \<Rightarrow> normalized_socket_type \<Rightarrow> 'os \<Rightarrow> unit errno_result \<times> 'os" where
  "configure_socket_type_flags sys raw socket_type s =
     (let (done, s) =
        (if nst_close_on_exec socket_type then
           (let (flags, s) = sys_fcntl sys raw (libc sys L_F_GETFD) None s
            in if sint flags < 0 then (Inl (last_errno sys s), s)
               else
                 (let (rc, s) = sys_fcntl sys raw (libc sys L_F_SETFD)
                                  (Some (flags OR libc sys L_FD_CLOEXEC)) s
                  in if sint rc < 0 then (Inl (last_errno sys s), s) else (Inr (), s)))
         else (Inr (), s))
      in case done of
           Inl e \<Rightarrow> (Inl e, s)
         | Inr _ \<Rightarrow>
            (if nst_nonblocking socket_type then
               (let (flags, s) = sys_fcntl sys raw (libc sys L_F_GETFL) None s
                in if sint flags < 0 then (Inl (last_errno sys s), s)
                   else
                     (let (rc, s) = sys_fcntl sys raw (libc sys L_F_SETFL)
                                      (Some (flags OR libc sys L_O_NONBLOCK)) s
                      in if sint rc < 0 then (Inl (last_errno sys s), s) else (Inr (), s)))
             else (Inr (), s)))"

definition normalize_socket_domain :: "'os unix_sys \<Rightarrow> i32 \<Rightarrow> i32" where
  "normalize_socket_domain sys domain =
     (if domain = WASI_ALT_AF_INET then libc sys L_AF_INET
      else if domain = libc sys L_AF_INET then libc sys L_AF_INET
      else if domain = libc sys L_AF_INET6 then libc sys L_AF_INET6
      else domain)"

definition is_guest_socket_level :: "i32 \<Rightarrow> bool" where
  "is_guest_socket_level level \<longleftrightarrow> level = 1 \<or> level = WASI_SOL_SOCKET"

definition normalize_socket_level :: "'os unix_sys \<Rightarrow> i32 \<Rightarrow> i32" where
  "normalize_socket_level sys level =
     (if is_guest_socket_level level then libc sys L_SOL_SOCKET else level)"

definition socket_fcntl :: "'os unix_sys \<Rightarrow> i32 \<Rightarrow> i32 \<Rightarrow> i32 \<Rightarrow> 'os \<Rightarrow> i32 \<times> 'os" where
  "socket_fcntl sys raw cmd arg s =
     (if cmd = WASI_F_GETFL then
        (let (flags, s) = sys_fcntl sys raw (libc sys L_F_GETFL) None s
         in if sint flags < 0 then (neg_last_errno sys s, s)
            else if flags AND libc sys L_O_NONBLOCK \<noteq> 0 then (WASI_O_NONBLOCK, s)
            else (0, s))
      else if cmd = WASI_F_SETFL then
        (let (flags, s) = sys_fcntl sys raw (libc sys L_F_GETFL) None s
         in if sint flags < 0 then (neg_last_errno sys s, s)
            else
              (let flags = (if arg AND WASI_O_NONBLOCK \<noteq> 0 then flags OR libc sys L_O_NONBLOCK
                            else flags AND NOT (libc sys L_O_NONBLOCK));
                   (rc, s) = sys_fcntl sys raw (libc sys L_F_SETFL) (Some flags) s
               in (cvt_i32 sys s rc, s)))
      else (neg_errno EINVAL, s))"

subsection \<open>Socket addresses\<close>

definition write_sockaddr_family :: "bytes \<Rightarrow> i32 \<Rightarrow> bytes" where
  "write_sockaddr_family addr family =
     (if length addr < 2 then addr
      else (case u16_of_i32 family of
              None \<Rightarrow> addr
            | Some family \<Rightarrow> overwrite addr 0 (to_le_bytes 2 family)))"

definition normalize_sockaddr_for_host :: "bytes \<Rightarrow> i32 \<Rightarrow> bytes" where
  "normalize_sockaddr_for_host addr host_dom = write_sockaddr_family addr host_dom"

definition denormalize_sockaddr_for_guest :: "bytes \<Rightarrow> i32 \<Rightarrow> bytes" where
  "denormalize_sockaddr_for_guest addr guest_dom = write_sockaddr_family addr guest_dom"

subsection \<open>Facts about the table\<close>

text \<open>The table as an instance of the descriptor-table interface, with entries as values.\<close>

definition hs_insert_socket :: "host_socket host_sockets \<Rightarrow> host_socket \<Rightarrow> i32 \<times> host_socket host_sockets" where
  "hs_insert_socket t v = hs_insert t (raw_fd v) (guest_domain v) (host_domain v)"

interpretation sockt: fd_table SOCKET_FD_BASE hs_next_fd hs_sockets hs_insert_socket hs_get hs_remove
  by unfold_locales
    (auto simp: SOCKET_FD_BASE_def hs_insert_socket_def hs_insert_def hs_get_def hs_remove_def Let_def)

lemma hs_insert_put: "hs_insert t raw g h = hs_put t \<lparr>raw_fd = raw, guest_domain = g, host_domain = h\<rparr>"
  by (simp add: hs_insert_def hs_put_def Let_def)

lemma hs_remove_Inr:
  "hs_remove t fd = Inr (v, t') \<longleftrightarrow> hs_sockets t fd = Some v \<and> t' = hs_assign t fd None"
  by (auto simp: hs_remove_def hs_assign_def split: option.splits)

lemma sockt_wf_iff: "sockt.wf t = sockets_wf t"
  by (simp add: sockt.wf_def sockets_wf_def)

lemma hs_get_Inr: "hs_get t fd = Inr v \<longleftrightarrow> hs_sockets t fd = Some v"
  by (auto simp: hs_get_def split: option.splits)

lemma hs_get_Inl: "hs_get t fd = Inl e \<longleftrightarrow> hs_sockets t fd = None \<and> e = EBADF"
  by (auto simp: hs_get_def split: option.splits)

subsection \<open>Facts about results\<close>

lemma is_guest_last_errno [simp]: "is_guest_errno (last_errno sys s)"
  by (simp add: last_errno_def last_os_error_def from_host_errno_range)

lemma neg_last_errno_neg [simp]: "sint (neg_last_errno sys s) < 0"
  by (simp add: neg_last_errno_def neg_errno_neg)

lemma reply_ok_neg_last_errno [simp]: "reply_ok (neg_last_errno sys s)"
  by (simp add: neg_last_errno_def)

lemma reply_ok_cvt_i32 [simp]: "reply_ok (cvt_i32 sys s rc)"
  by (simp add: cvt_i32_def reply_ok_nonneg)

lemma sint_i32_of_i64: "i32_of_i64 x = Some y \<Longrightarrow> sint y = sint x"
  by (auto simp: i32_of_i64_def signed_take_bit_int_eq_self_iff split: if_splits)
    (simp add: signed_scast_eq signed_take_bit_int_eq_self)

lemma reply_ok_cvt_ssize [simp]: "reply_ok (cvt_ssize sys s rc)"
  by (auto simp: cvt_ssize_def reply_ok_nonneg sint_i32_of_i64 split: option.split)

end
