(* ===== verification/Poll_Array.thy ===== *)
theory Poll_Array
  imports Guest_Memory
begin

text \<open>
  The guest's array of \<open>pollfd\<close> structures, eight bytes each: cutting it into entries, and storing
  the returned events into the entries, which both variants of \<open>poll\<close> do with the same arithmetic.
\<close>

subsection \<open>The loops\<close>

text \<open>\<open>bytes.chunks_exact(8)\<close>: the full chunks, a shorter rest is left out.\<close>

fun chunks_exact8 :: "'a list \<Rightarrow> 'a list list" where
  "chunks_exact8 (a # b # c # d # e # f # g # h # rest) = [a, b, c, d, e, f, g, h] # chunks_exact8 rest"
| "chunks_exact8 _ = []"

text \<open>The loop that stores the returned events; \<open>index\<close> counts the entries already done.\<close>

fun poll_write_revents :: "mem_export \<Rightarrow> i32 \<Rightarrow> nat \<Rightarrow> i16 list \<Rightarrow> unit errno_result \<times> mem_export" where
  "poll_write_revents mem fds_ptr index [] = (Inr (), mem)"
| "poll_write_revents mem fds_ptr index (revents # rest) =
     (case write_guest mem (fds_ptr + of_nat index * 8 + 6) (to_le_bytes 2 revents) of
        Inl e \<Rightarrow> (Inl e, mem)
      | Inr mem \<Rightarrow> poll_write_revents mem fds_ptr (Suc index) rest)"

lemma poll_write_revents_len: "poll_write_revents m p i rs = (x, m') \<Longrightarrow> mem_len m' = mem_len m"
  by (induction m p i rs rule: poll_write_revents.induct)
    (auto split: sum.splits dest: write_guest_len)

subsection \<open>Entries\<close>

lemma length_chunks_exact8: "length (chunks_exact8 xs) = length xs div 8"
  by (induction xs rule: chunks_exact8.induct) simp_all

lemma chunks_exact8_nth:
  "i < length xs div 8 \<Longrightarrow> chunks_exact8 xs ! i = subslice xs (8 * i) (8 * i + 8)"
proof (induction xs arbitrary: i rule: chunks_exact8.induct)
  case (1 a b c d e f g h rest)
  have "drop (8 + n) (a # b # c # d # e # f # g # h # rest) = drop n rest" for n
    by (simp add: numeral_eq_Suc)
  with 1 show ?case by (cases i) (simp_all add: subslice_def)
qed simp_all

subsection \<open>Storing the returned events\<close>

fun store_revents :: "bytes \<Rightarrow> usize \<Rightarrow> i16 list \<Rightarrow> bytes" where
  "store_revents data at [] = data"
| "store_revents data at (r # rs) = store_revents (overwrite data (at + 6) (to_le_bytes 2 r)) (at + 8) rs"

lemma length_store_revents [simp]:
  "at + 8 * length rs \<le> length data \<Longrightarrow> length (store_revents data at rs) = length data"
  by (induction data at rs rule: store_revents.induct) simp_all

lemma sint_poll_ptr:
  assumes "0 \<le> sint p" "nat (sint p) + 8 * i + 8 \<le> 2147483648"
  shows "sint (p + of_nat i * 8 + 6 :: i32) = sint p + 8 * int i + 6"
proof -
  have e: "(of_nat i * 8 + 6 :: i32) = of_nat (8 * i + 6)" by (simp add: mult.commute)
  have "sint (of_nat (8 * i + 6) :: i32) = int (8 * i + 6)"
    using assms by (intro sint_i32_of_nat) linarith
  then have s: "sint (of_nat i * 8 + 6 :: i32) = 8 * int i + 6" unfolding e by simp
  have "sint p + (8 * int i + 6) < 2147483648" using assms by linarith
  with assms(1) show ?thesis
    using sint_i32_add [of p "of_nat i * 8 + 6"] unfolding add.assoc s by simp
qed

lemma poll_write_revents_ok:
  assumes "mem_view m = Some data" "0 \<le> sint p"
    "nat (sint p) + 8 * (i + length rs) \<le> length data" "length data \<le> 2147483648"
  shows "fst (poll_write_revents m p i rs) = Inr () \<and>
         mem_view (snd (poll_write_revents m p i rs)) = Some (store_revents data (nat (sint p) + 8 * i) rs)"
  using assms
proof (induction rs arbitrary: m data i)
  case (Cons r rs)
  let ?q = "p + of_nat i * 8 + 6 :: i32"
  have q: "sint ?q = sint p + 8 * int i + 6" using Cons.prems by (intro sint_poll_ptr) auto
  then have nq: "nat (sint ?q) = nat (sint p) + 8 * i + 6" using Cons.prems(2) by simp
  have "mem_store (Some data) ?q (to_le_bytes 2 r) =
      Inr (overwrite data (nat (sint p) + 8 * i + 6) (to_le_bytes 2 r))"
    using Cons.prems q nq by (simp add: mem_store_eq MAX_IO_LEN_def)
  with Cons.prems(1) obtain m' where m': "write_guest m ?q (to_le_bytes 2 r) = Inr m'"
      "mem_view m' = Some (overwrite data (nat (sint p) + 8 * i + 6) (to_le_bytes 2 r))"
    using smem.wr_view [of m ?q "to_le_bytes 2 r"] by (cases "write_guest m ?q (to_le_bytes 2 r)") auto
  have "nat (sint p) + 8 * (Suc i + length rs) \<le> length (overwrite data (nat (sint p) + 8 * i + 6) (to_le_bytes 2 r))"
    using Cons.prems by simp
  with m' Cons.IH [OF m'(2) Cons.prems(2), of "Suc i"] Cons.prems show ?case
    by (simp add: algebra_simps)
qed simp

lemma store_revents_outside:
  "at + 8 * length rs \<le> length data \<Longrightarrow> j < length data \<Longrightarrow>
   (\<And>k. k < length rs \<Longrightarrow> j \<noteq> at + 8 * k + 6 \<and> j \<noteq> at + 8 * k + 7) \<Longrightarrow>
   store_revents data at rs ! j = data ! j"
proof (induction data at rs rule: store_revents.induct)
  case (2 data at r rs)
  have "j \<noteq> at + 6" "j \<noteq> at + 7" using "2.prems"(3) [of 0] by simp_all
  then have here: "\<not> (at + 6 \<le> j \<and> j < 8 + at)" by linarith
  have later: "j \<noteq> at + 8 + 8 * k + 6 \<and> j \<noteq> at + 8 + 8 * k + 7" if "k < length rs" for k
    using "2.prems"(3) [of "Suc k"] that by simp
  have "store_revents (overwrite data (at + 6) (to_le_bytes 2 r)) (at + 8) rs ! j =
      overwrite data (at + 6) (to_le_bytes 2 r) ! j"
    using "2.prems" later by (intro "2.IH") simp_all
  then show ?case using "2.prems"(1,2) here by (auto simp: overwrite_nth)
qed simp

lemma store_revents_inside:
  "at + 8 * length rs \<le> length data \<Longrightarrow> k < length rs \<Longrightarrow>
   subslice (store_revents data at rs) (at + 8 * k + 6) (at + 8 * k + 8) = to_le_bytes 2 (rs ! k)"
proof (induction data at rs arbitrary: k rule: store_revents.induct)
  case (2 data at r rs)
  let ?d = "overwrite data (at + 6) (to_le_bytes 2 r)"
  show ?case
  proof (cases k)
    case 0
    have "subslice (store_revents ?d (at + 8) rs) (at + 6) (at + 8) = subslice ?d (at + 6) (at + 8)"
    proof (rule nth_equalityI)
      fix j assume "j < length (subslice (store_revents ?d (at + 8) rs) (at + 6) (at + 8))"
      then show "subslice (store_revents ?d (at + 8) rs) (at + 6) (at + 8) ! j = subslice ?d (at + 6) (at + 8) ! j"
        using "2.prems" by (simp add: subslice_nth store_revents_outside)
    qed (use "2.prems" in simp)
    also have "\<dots> = to_le_bytes 2 r"
      using "2.prems" subslice_overwrite_same [of "at + 6" "to_le_bytes 2 r" data]
      by (simp add: add.commute [of 8 at])
    finally show ?thesis using 0 by simp
  next
    case (Suc k')
    with "2.prems" "2.IH" [of k'] show ?thesis by (simp add: algebra_simps)
  qed
qed simp

text \<open>An entry with a non-negative descriptor; the others are ignored.\<close>

definition names_descriptor :: "bytes \<Rightarrow> bool" where
  "names_descriptor chunk \<longleftrightarrow> 0 \<le> sint (from_le_bytes (subslice chunk 0 4) :: i32)"

text \<open>The bytes that both variants of \<open>poll\<close> cut into entries.\<close>

lemma poll_array_read:
  assumes "checked_poll_count n = Inr k" "read_guest mem p (of_nat (k * 8)) = Inr bs" "mem_view mem = Some data"
  shows "k = nat (sint n)" "k \<le> MAX_POLL_FDS" "0 \<le> sint p" "nat (sint p) + 8 * k \<le> length data"
    "bs = subslice data (nat (sint p)) (nat (sint p) + 8 * k)"
proof -
  show k: "k = nat (sint n)" "k \<le> MAX_POLL_FDS" using assms(1) by (auto simp: checked_poll_count_Inr)
  have "nat (sint (of_nat (k * 8) :: i32)) = 8 * k"
    using k(2) by (subst sint_i32_of_nat) (auto simp: MAX_POLL_FDS_def)
  then have "nat (sint (of_nat k * 8 :: i32)) = 8 * k" by simp
  with assms(2,3) show "0 \<le> sint p" "nat (sint p) + 8 * k \<le> length data"
    "bs = subslice data (nat (sint p)) (nat (sint p) + 8 * k)"
    by (simp_all add: smem.rd_view mem_load_Inr)
qed

text \<open>
  The array after a call: entry \<open>k\<close> holds the events \<open>rs ! k\<close> in its last two bytes, nothing else
  has changed.
\<close>

definition revents_stored :: "bytes \<Rightarrow> usize \<Rightarrow> i16 list \<Rightarrow> bytes \<Rightarrow> bool" where
  "revents_stored data at rs data' \<longleftrightarrow>
     length data' = length data \<and>
     (\<forall>k < length rs. from_le_bytes (subslice data' (at + 8 * k + 6) (at + 8 * k + 8)) = rs ! k) \<and>
     (\<forall>j < length data. (\<forall>k < length rs. j \<noteq> at + 8 * k + 6 \<and> j \<noteq> at + 8 * k + 7) \<longrightarrow> data' ! j = data ! j)"

lemma store_revents_stored:
  "at + 8 * length rs \<le> length data \<Longrightarrow> revents_stored data at rs (store_revents data at rs)"
  by (auto simp: revents_stored_def store_revents_inside store_revents_outside from_to_le_bytes_word)

end
