(* ===== verification/Socket_Imports.thy ===== *)
theory Socket_Imports
  imports App_State Host_Sockets Poll_Array
begin

text \<open>
  The imports of the module \<^verbatim>\<open>waasmtime_mysql_sockets\<close> on Unix, the closures that \<open>add_to_linker\<close> of
  \<^verbatim>\<open>src/src/host_sockets.rs\<close> registers, one definition each, and \<open>sock_name\<close>.  Every early return is
  a branch; an out-of-range slice of a buffer by a length the kernel reported is a \<open>Panic\<close>.
\<close>

subsection \<open>Creating and naming sockets\<close>

definition import_socket :: "'os unix_sys \<Rightarrow> i32 \<Rightarrow> i32 \<Rightarrow> i32 \<Rightarrow> (host_socket, 'f, 'os) import" where
  [import_defs]: "import_socket sys domain ty protocol st =
     (if \<not> network_allowed st then fail ENETDOWN st
      else case normalize_socket_type sys ty of
        Inl e \<Rightarrow> fail e st
      | Inr socket_type \<Rightarrow>
         (let host_dom = normalize_socket_domain sys domain;
              (raw, s) = sys_socket sys host_dom (nst_ty socket_type) protocol (os st)
          in if sint raw < 0 then (Return (neg_last_errno sys s), st\<lparr>os := s\<rparr>)
             else case configure_socket_type_flags sys raw socket_type s of
               (Inl e, s) \<Rightarrow>
                 (let (_, s) = sys_close sys raw s in (Return (neg_errno e), st\<lparr>os := s\<rparr>))
             | (Inr _, s) \<Rightarrow>
                 (let (fd, t) = hs_insert (sockets st) raw domain host_dom
                  in (Return fd, st\<lparr>sockets := t, os := s\<rparr>))))"

definition import_bind :: "'os unix_sys \<Rightarrow> i32 \<Rightarrow> i32 \<Rightarrow> i32 \<Rightarrow> (host_socket, 'f, 'os) import" where
  [import_defs]: "import_bind sys fd addr_ptr addr_len st =
     (case hs_get (sockets st) fd of
        Inl e \<Rightarrow> fail e st
      | Inr socket \<Rightarrow>
         (case read_guest (memory st) addr_ptr addr_len of
            Inl e \<Rightarrow> fail e st
          | Inr addr \<Rightarrow>
             (let addr = normalize_sockaddr_for_host addr (host_domain socket);
                  (rc, s) = sys_bind sys (raw_fd socket) addr (os st)
              in (Return (cvt_i32 sys s rc), st\<lparr>os := s\<rparr>))))"

definition import_listen :: "'os unix_sys \<Rightarrow> i32 \<Rightarrow> i32 \<Rightarrow> (host_socket, 'f, 'os) import" where
  [import_defs]: "import_listen sys fd backlog st =
     (case hs_get (sockets st) fd of
        Inl e \<Rightarrow> fail e st
      | Inr socket \<Rightarrow>
         (let (rc, s) = sys_listen sys (raw_fd socket) backlog (os st)
          in (Return (cvt_i32 sys s rc), st\<lparr>os := s\<rparr>)))"

definition import_accept :: "'os unix_sys \<Rightarrow> i32 \<Rightarrow> i32 \<Rightarrow> i32 \<Rightarrow> (host_socket, 'f, 'os) import" where
  [import_defs]: "import_accept sys fd addr_ptr addr_len_ptr st =
     (case hs_get (sockets st) fd of
        Inl e \<Rightarrow> fail e st
      | Inr socket \<Rightarrow>
         (case read_u32 (memory st) addr_len_ptr of
            Inl e \<Rightarrow> fail e st
          | Inr addr_len \<Rightarrow>
             (let addr = replicate (unat addr_len) 0;
                  ((accepted, stored, addr_len), s) = sys_accept sys (raw_fd socket) addr_len (os st);
                  addr = fill addr stored
              in if sint accepted < 0 then (Return (neg_last_errno sys s), st\<lparr>os := s\<rparr>)
                 else
                   (let addr = denormalize_sockaddr_for_guest addr (guest_domain socket)
                    in case slice_to addr (unat addr_len) of
                         None \<Rightarrow> (Panic, st\<lparr>os := s\<rparr>)
                       | Some out \<Rightarrow>
                          (case write_guest (memory st) addr_ptr out of
                             Inl e \<Rightarrow>
                               (let (_, s) = sys_close sys accepted s
                                in (Return (neg_errno e), st\<lparr>os := s\<rparr>))
                           | Inr mem \<Rightarrow>
                              (case write_u32 mem addr_len_ptr addr_len of
                                 Inl e \<Rightarrow>
                                   (let (_, s) = sys_close sys accepted s
                                    in (Return (neg_errno e), st\<lparr>memory := mem, os := s\<rparr>))
                               | Inr mem \<Rightarrow>
                                   (let (fd, t) = hs_insert (sockets st) accepted
                                                    (guest_domain socket) (host_domain socket)
                                    in (Return fd, st\<lparr>memory := mem, sockets := t, os := s\<rparr>))))))))"

definition import_connect :: "'os unix_sys \<Rightarrow> i32 \<Rightarrow> i32 \<Rightarrow> i32 \<Rightarrow> (host_socket, 'f, 'os) import" where
  [import_defs]: "import_connect sys fd addr_ptr addr_len st =
     (case hs_get (sockets st) fd of
        Inl e \<Rightarrow> fail e st
      | Inr socket \<Rightarrow>
         (case read_guest (memory st) addr_ptr addr_len of
            Inl e \<Rightarrow> fail e st
          | Inr addr \<Rightarrow>
             (let addr = normalize_sockaddr_for_host addr (host_domain socket);
                  (rc, s) = sys_connect sys (raw_fd socket) addr (os st)
              in (Return (cvt_i32 sys s rc), st\<lparr>os := s\<rparr>))))"

definition sock_name :: "'os unix_sys \<Rightarrow> i32 \<Rightarrow> i32 \<Rightarrow> i32 \<Rightarrow> name_kind \<Rightarrow> (host_socket, 'f, 'os) import" where
  [import_defs]: "sock_name sys fd addr_ptr addr_len_ptr kind st =
     (case hs_get (sockets st) fd of
        Inl e \<Rightarrow> fail e st
      | Inr socket \<Rightarrow>
         (case read_u32 (memory st) addr_len_ptr of
            Inl e \<Rightarrow> fail e st
          | Inr addr_len \<Rightarrow>
             (let addr = replicate (unat addr_len) 0;
                  ((rc, stored, addr_len), s) =
                    (case kind of
                       Local \<Rightarrow> sys_getsockname sys (raw_fd socket) addr_len (os st)
                     | Peer \<Rightarrow> sys_getpeername sys (raw_fd socket) addr_len (os st));
                  addr = fill addr stored
              in if sint rc < 0 then (Return (neg_last_errno sys s), st\<lparr>os := s\<rparr>)
                 else
                   (let addr = denormalize_sockaddr_for_guest addr (guest_domain socket)
                    in case slice_to addr (unat addr_len) of
                         None \<Rightarrow> (Panic, st\<lparr>os := s\<rparr>)
                       | Some out \<Rightarrow>
                          (case write_guest (memory st) addr_ptr out of
                             Inl e \<Rightarrow> (Return (neg_errno e), st\<lparr>os := s\<rparr>)
                           | Inr mem \<Rightarrow>
                              (case write_u32 mem addr_len_ptr addr_len of
                                 Inl e \<Rightarrow> (Return (neg_errno e), st\<lparr>memory := mem, os := s\<rparr>)
                               | Inr mem \<Rightarrow> (Return 0, st\<lparr>memory := mem, os := s\<rparr>)))))))"

definition import_getsockname :: "'os unix_sys \<Rightarrow> i32 \<Rightarrow> i32 \<Rightarrow> i32 \<Rightarrow> (host_socket, 'f, 'os) import" where
  [import_defs]: "import_getsockname sys fd addr_ptr addr_len_ptr st =
     sock_name sys fd addr_ptr addr_len_ptr Local st"

definition import_getpeername :: "'os unix_sys \<Rightarrow> i32 \<Rightarrow> i32 \<Rightarrow> i32 \<Rightarrow> (host_socket, 'f, 'os) import" where
  [import_defs]: "import_getpeername sys fd addr_ptr addr_len_ptr st =
     sock_name sys fd addr_ptr addr_len_ptr Peer st"

subsection \<open>Socket options\<close>

definition import_setsockopt ::
    "'os unix_sys \<Rightarrow> i32 \<Rightarrow> i32 \<Rightarrow> i32 \<Rightarrow> i32 \<Rightarrow> i32 \<Rightarrow> (host_socket, 'f, 'os) import" where
  [import_defs]: "import_setsockopt sys fd level optname optval_ptr optlen st =
     (case hs_get (sockets st) fd of
        Inl e \<Rightarrow> fail e st
      | Inr socket \<Rightarrow>
         (case read_guest (memory st) optval_ptr optlen of
            Inl e \<Rightarrow> fail e st
          | Inr optval \<Rightarrow>
             (let (rc, s) = sys_setsockopt sys (raw_fd socket) (normalize_socket_level sys level)
                              optname optval (os st)
              in (Return (cvt_i32 sys s rc), st\<lparr>os := s\<rparr>))))"

text \<open>The translation of a pending socket error in the first four bytes of the option value.\<close>

definition translate_so_error :: "'os unix_sys \<Rightarrow> bytes \<Rightarrow> bytes option" where
  "translate_so_error sys optval =
     (case slice_to optval 4 of
        None \<Rightarrow> None
      | Some first \<Rightarrow>
         (let host_error = from_le_bytes first :: i32
          in Some (overwrite optval 0 (to_le_bytes 4 (from_host_errno (libc_err sys) host_error)))))"

definition import_getsockopt ::
    "'os unix_sys \<Rightarrow> i32 \<Rightarrow> i32 \<Rightarrow> i32 \<Rightarrow> i32 \<Rightarrow> i32 \<Rightarrow> (host_socket, 'f, 'os) import" where
  [import_defs]: "import_getsockopt sys fd level optname optval_ptr optlen_ptr st =
     (case hs_get (sockets st) fd of
        Inl e \<Rightarrow> fail e st
      | Inr socket \<Rightarrow>
         (case read_u32 (memory st) optlen_ptr of
            Inl e \<Rightarrow> fail e st
          | Inr optlen \<Rightarrow>
             (let optval = replicate (unat optlen) 0;
                  ((rc, stored, optlen), s) =
                    sys_getsockopt sys (raw_fd socket) (normalize_socket_level sys level) optname
                      optlen (os st);
                  optval = fill optval stored
              in if sint rc < 0 then (Return (neg_last_errno sys s), st\<lparr>os := s\<rparr>)
                 else case (if is_guest_socket_level level \<and> optname = WASI_SO_ERROR \<and> unat optlen \<ge> 4
                            then translate_so_error sys optval else Some optval) of
                   None \<Rightarrow> (Panic, st\<lparr>os := s\<rparr>)
                 | Some optval \<Rightarrow>
                    (case slice_to optval (unat optlen) of
                       None \<Rightarrow> (Panic, st\<lparr>os := s\<rparr>)
                     | Some out \<Rightarrow>
                        (case write_guest (memory st) optval_ptr out of
                           Inl e \<Rightarrow> (Return (neg_errno e), st\<lparr>os := s\<rparr>)
                         | Inr mem \<Rightarrow>
                            (case write_u32 mem optlen_ptr optlen of
                               Inl e \<Rightarrow> (Return (neg_errno e), st\<lparr>memory := mem, os := s\<rparr>)
                             | Inr mem \<Rightarrow> (Return 0, st\<lparr>memory := mem, os := s\<rparr>)))))))"

subsection \<open>Transfer\<close>

definition import_send :: "'os unix_sys \<Rightarrow> i32 \<Rightarrow> i32 \<Rightarrow> i32 \<Rightarrow> i32 \<Rightarrow> (host_socket, 'f, 'os) import" where
  [import_defs]: "import_send sys fd buf_ptr len flags st =
     (case hs_get (sockets st) fd of
        Inl e \<Rightarrow> fail e st
      | Inr socket \<Rightarrow>
         (case read_guest (memory st) buf_ptr len of
            Inl e \<Rightarrow> fail e st
          | Inr buf \<Rightarrow>
             (let (rc, s) = sys_send sys (raw_fd socket) buf flags (os st)
              in (Return (cvt_ssize sys s rc), st\<lparr>os := s\<rparr>))))"

definition import_recv :: "'os unix_sys \<Rightarrow> i32 \<Rightarrow> i32 \<Rightarrow> i32 \<Rightarrow> i32 \<Rightarrow> (host_socket, 'f, 'os) import" where
  [import_defs]: "import_recv sys fd buf_ptr len flags st =
     (case hs_get (sockets st) fd of
        Inl e \<Rightarrow> fail e st
      | Inr socket \<Rightarrow>
         (case checked_len len of
            Inl e \<Rightarrow> fail e st
          | Inr len \<Rightarrow>
             (let buf = replicate len 0;
                  ((rc, stored), s) = sys_recv sys (raw_fd socket) len flags (os st);
                  buf = fill buf stored
              in if sint rc < 0 then (Return (neg_last_errno sys s), st\<lparr>os := s\<rparr>)
                 else
                   (case slice_to buf (unat rc) of
                      None \<Rightarrow> (Panic, st\<lparr>os := s\<rparr>)
                    | Some out \<Rightarrow>
                       (case write_guest (memory st) buf_ptr out of
                          Inl e \<Rightarrow> (Return (neg_errno e), st\<lparr>os := s\<rparr>)
                        | Inr mem \<Rightarrow> (Return (ucast rc), st\<lparr>memory := mem, os := s\<rparr>))))))"

definition import_sendto ::
    "'os unix_sys \<Rightarrow> i32 \<Rightarrow> i32 \<Rightarrow> i32 \<Rightarrow> i32 \<Rightarrow> i32 \<Rightarrow> i32 \<Rightarrow> (host_socket, 'f, 'os) import" where
  [import_defs]: "import_sendto sys fd buf_ptr len flags addr_ptr addr_len st =
     (case hs_get (sockets st) fd of
        Inl e \<Rightarrow> fail e st
      | Inr socket \<Rightarrow>
         (case read_guest (memory st) buf_ptr len of
            Inl e \<Rightarrow> fail e st
          | Inr buf \<Rightarrow>
             (case read_guest (memory st) addr_ptr addr_len of
                Inl e \<Rightarrow> fail e st
              | Inr addr \<Rightarrow>
                 (let addr = normalize_sockaddr_for_host addr (host_domain socket);
                      (rc, s) = sys_sendto sys (raw_fd socket) buf flags addr (os st)
                  in (Return (cvt_ssize sys s rc), st\<lparr>os := s\<rparr>)))))"

definition import_recvfrom ::
    "'os unix_sys \<Rightarrow> i32 \<Rightarrow> i32 \<Rightarrow> i32 \<Rightarrow> i32 \<Rightarrow> i32 \<Rightarrow> i32 \<Rightarrow> (host_socket, 'f, 'os) import" where
  [import_defs]: "import_recvfrom sys fd buf_ptr len flags addr_ptr addr_len_ptr st =
     (case hs_get (sockets st) fd of
        Inl e \<Rightarrow> fail e st
      | Inr socket \<Rightarrow>
         (case checked_len len of
            Inl e \<Rightarrow> fail e st
          | Inr len \<Rightarrow>
             (case read_u32 (memory st) addr_len_ptr of
                Inl e \<Rightarrow> fail e st
              | Inr addr_len \<Rightarrow>
                 (let buf = replicate len 0;
                      addr = replicate (unat addr_len) 0;
                      ((rc, stored, stored_addr, addr_len), s) =
                        sys_recvfrom sys (raw_fd socket) len flags addr_len (os st);
                      buf = fill buf stored;
                      addr = fill addr stored_addr
                  in if sint rc < 0 then (Return (neg_last_errno sys s), st\<lparr>os := s\<rparr>)
                     else
                       (case slice_to buf (unat rc) of
                          None \<Rightarrow> (Panic, st\<lparr>os := s\<rparr>)
                        | Some out \<Rightarrow>
                           (case write_guest (memory st) buf_ptr out of
                              Inl e \<Rightarrow> (Return (neg_errno e), st\<lparr>os := s\<rparr>)
                            | Inr mem \<Rightarrow>
                               (let addr = denormalize_sockaddr_for_guest addr (guest_domain socket)
                                in case slice_to addr (unat addr_len) of
                                     None \<Rightarrow> (Panic, st\<lparr>memory := mem, os := s\<rparr>)
                                   | Some out \<Rightarrow>
                                      (case write_guest mem addr_ptr out of
                                         Inl e \<Rightarrow> (Return (neg_errno e), st\<lparr>memory := mem, os := s\<rparr>)
                                       | Inr mem \<Rightarrow>
                                          (case write_u32 mem addr_len_ptr addr_len of
                                             Inl e \<Rightarrow> (Return (neg_errno e), st\<lparr>memory := mem, os := s\<rparr>)
                                           | Inr mem \<Rightarrow>
                                               (Return (ucast rc), st\<lparr>memory := mem, os := s\<rparr>))))))))))"

subsection \<open>Shutdown, close, flags\<close>

definition import_shutdown :: "'os unix_sys \<Rightarrow> i32 \<Rightarrow> i32 \<Rightarrow> (host_socket, 'f, 'os) import" where
  [import_defs]: "import_shutdown sys fd how st =
     (case hs_get (sockets st) fd of
        Inl e \<Rightarrow> fail e st
      | Inr socket \<Rightarrow>
         (let (rc, s) = sys_shutdown sys (raw_fd socket) how (os st)
          in (Return (cvt_i32 sys s rc), st\<lparr>os := s\<rparr>)))"

definition import_close :: "'os unix_sys \<Rightarrow> i32 \<Rightarrow> (host_socket, 'f, 'os) import" where
  [import_defs]: "import_close sys fd st =
     (case hs_remove (sockets st) fd of
        Inl e \<Rightarrow> fail e st
      | Inr (socket, t) \<Rightarrow>
         (let (rc, s) = sys_close sys (raw_fd socket) (os st)
          in (Return (cvt_i32 sys s rc), st\<lparr>sockets := t, os := s\<rparr>)))"

definition import_fcntl :: "'os unix_sys \<Rightarrow> i32 \<Rightarrow> i32 \<Rightarrow> i32 \<Rightarrow> (host_socket, 'f, 'os) import" where
  [import_defs]: "import_fcntl sys fd cmd arg st =
     (case hs_get (sockets st) fd of
        Inl e \<Rightarrow> fail e st
      | Inr socket \<Rightarrow>
         (let (r, s) = socket_fcntl sys (raw_fd socket) cmd arg (os st)
          in (Return r, st\<lparr>os := s\<rparr>)))"

subsection \<open>Polling\<close>

text \<open>The loop that builds the host's poll set; an unknown descriptor ends it.\<close>

fun poll_host_fds :: "host_socket host_sockets \<Rightarrow> bytes list \<Rightarrow> pollfd list errno_result" where
  "poll_host_fds t [] = Inr []"
| "poll_host_fds t (chunk # chunks) =
     (let guest_fd = from_le_bytes (subslice chunk 0 4) :: i32;
          events = from_le_bytes (subslice chunk 4 6) :: i16;
          found = (if sint guest_fd < 0 then Inr guest_fd
                   else case hs_get t guest_fd of Inl e \<Rightarrow> Inl e | Inr socket \<Rightarrow> Inr (raw_fd socket))
      in case found of
           Inl e \<Rightarrow> Inl e
         | Inr raw \<Rightarrow>
            (case poll_host_fds t chunks of
               Inl e \<Rightarrow> Inl e
             | Inr fds \<Rightarrow> Inr (\<lparr>pfd_fd = raw, pfd_events = events, pfd_revents = 0\<rparr> # fds)))"

definition import_poll :: "'os unix_sys \<Rightarrow> i32 \<Rightarrow> i32 \<Rightarrow> i32 \<Rightarrow> (host_socket, 'f, 'os) import" where
  [import_defs]: "import_poll sys fds_ptr nfds timeout st =
     (case checked_poll_count nfds of
        Inl e \<Rightarrow> fail e st
      | Inr nfds \<Rightarrow>
         (case read_guest (memory st) fds_ptr (of_nat (nfds * 8)) of
            Inl e \<Rightarrow> fail e st
          | Inr bytes \<Rightarrow>
             (case poll_host_fds (sockets st) (chunks_exact8 bytes) of
                Inl e \<Rightarrow> fail e st
              | Inr host_fds \<Rightarrow>
                 (let ((rc, stored), s) = sys_poll sys host_fds timeout (os st);
                      revents = fill (map pfd_revents host_fds) stored
                  in if sint rc < 0 then (Return (neg_last_errno sys s), st\<lparr>os := s\<rparr>)
                     else
                       (case poll_write_revents (memory st) fds_ptr 0 revents of
                          (Inl e, mem) \<Rightarrow> (Return (neg_errno e), st\<lparr>memory := mem, os := s\<rparr>)
                        | (Inr _, mem) \<Rightarrow> (Return rc, st\<lparr>memory := mem, os := s\<rparr>))))))"

end
