(* ===== verification/Socket_Steps.thy ===== *)
theory Socket_Steps
  imports App_State
begin

text \<open>
  What the two variants of the socket imports have in common: the calls, the kinds of effect a call
  may have on the socket table and on the open raw sockets (\<open>table_step\<close>), and what follows from
  the kinds alone: the invariant \<open>sock_inv\<close>, the accounting of raw sockets, descriptors that stay
  closed.  The raw socket of a table entry is given by a function \<open>raw\<close>.
\<close>

subsection \<open>The imports as calls\<close>

datatype sock_call =
    C_socket i32 i32 i32
  | C_bind i32 i32 i32
  | C_listen i32 i32
  | C_accept i32 i32 i32
  | C_connect i32 i32 i32
  | C_getsockname i32 i32 i32
  | C_getpeername i32 i32 i32
  | C_setsockopt i32 i32 i32 i32 i32
  | C_getsockopt i32 i32 i32 i32 i32
  | C_send i32 i32 i32 i32
  | C_recv i32 i32 i32 i32
  | C_sendto i32 i32 i32 i32 i32 i32
  | C_recvfrom i32 i32 i32 i32 i32 i32
  | C_shutdown i32 i32
  | C_close i32
  | C_fcntl i32 i32 i32
  | C_poll i32 i32 i32

text \<open>The descriptor a call names, if it names one.\<close>

fun call_fd :: "sock_call \<Rightarrow> i32 option" where
  "call_fd (C_socket d t p) = None"
| "call_fd (C_bind fd a l) = Some fd"
| "call_fd (C_listen fd b) = Some fd"
| "call_fd (C_accept fd a l) = Some fd"
| "call_fd (C_connect fd a l) = Some fd"
| "call_fd (C_getsockname fd a l) = Some fd"
| "call_fd (C_getpeername fd a l) = Some fd"
| "call_fd (C_setsockopt fd l n p k) = Some fd"
| "call_fd (C_getsockopt fd l n p k) = Some fd"
| "call_fd (C_send fd b l f) = Some fd"
| "call_fd (C_recv fd b l f) = Some fd"
| "call_fd (C_sendto fd b l f a k) = Some fd"
| "call_fd (C_recvfrom fd b l f a k) = Some fd"
| "call_fd (C_shutdown fd h) = Some fd"
| "call_fd (C_close fd) = Some fd"
| "call_fd (C_fcntl fd c a) = Some fd"
| "call_fd (C_poll p n t) = None"

subsection \<open>Kinds of effects\<close>

definition import_frame :: "('s, 'f, 'os) app_state \<Rightarrow> ('s, 'f, 'os) app_state \<Rightarrow> bool" where
  "import_frame st st' \<longleftrightarrow>
     files st' = files st \<and> network_allowed st' = network_allowed st \<and>
     shutdown_requested st' = shutdown_requested st \<and> mem_len (memory st') = mem_len (memory st)"

lemma import_frame_refl [simp]: "import_frame st st"
  by (simp add: import_frame_def)

lemma import_frame_upd:
  "import_frame st (st\<lparr>os := s\<rparr>)" "import_frame st (st\<lparr>sockets := t, os := s\<rparr>)"
  "mem_len m = mem_len (memory st) \<Longrightarrow> import_frame st (st\<lparr>memory := m, os := s\<rparr>)"
  "mem_len m = mem_len (memory st) \<Longrightarrow> import_frame st (st\<lparr>memory := m, sockets := t, os := s\<rparr>)"
  by (simp_all add: import_frame_def)

text \<open>
  A call leaves the table as it is; adds an entry for a raw socket it opened; removes an entry and
  closes its raw socket; changes an entry without changing its raw socket; or panics with a raw
  socket it opened and did not add.
\<close>

inductive table_step :: "('s \<Rightarrow> 'r) \<Rightarrow> ('os \<Rightarrow> 'r set) \<Rightarrow> ('s, 'f, 'os) app_state \<Rightarrow> i32 outcome \<Rightarrow>
    ('s, 'f, 'os) app_state \<Rightarrow> bool"
  for raw opens where
  keep: "sockets st' = sockets st \<Longrightarrow> opens (os st') = opens (os st) \<Longrightarrow> table_step raw opens st r st'"
| add: "raw v \<notin> opens (os st) \<Longrightarrow> opens (os st') = insert (raw v) (opens (os st)) \<Longrightarrow>
     hs_put (sockets st) v = (fd, sockets st') \<Longrightarrow> table_step raw opens st (Return fd) st'"
| drop: "hs_sockets (sockets st) fd = Some v \<Longrightarrow> sockets st' = hs_assign (sockets st) fd None \<Longrightarrow>
     opens (os st') = opens (os st) - {raw v} \<Longrightarrow> table_step raw opens st r st'"
| change: "hs_sockets (sockets st) fd = Some v \<Longrightarrow> raw w = raw v \<Longrightarrow>
     sockets st' = hs_assign (sockets st) fd (Some w) \<Longrightarrow>
     opens (os st') = opens (os st) \<Longrightarrow> table_step raw opens st r st'"
| leak: "x \<notin> opens (os st) \<Longrightarrow> opens (os st') = insert x (opens (os st)) \<Longrightarrow>
     sockets st' = sockets st \<Longrightarrow> table_step raw opens st Panic st'"

abbreviation keeps :: "('os \<Rightarrow> 'r set) \<Rightarrow> ('s, 'f, 'os) app_state \<Rightarrow> ('s, 'f, 'os) app_state \<Rightarrow> bool" where
  "keeps opens st st' \<equiv> sockets st' = sockets st \<and> opens (os st') = opens (os st)"

subsection \<open>The invariant\<close>

text \<open>The raw sockets the table owns.\<close>

definition owned :: "('s \<Rightarrow> 'r) \<Rightarrow> 's host_sockets \<Rightarrow> 'r set" where
  "owned raw t = raw ` ran (hs_sockets t)"

definition sock_inv :: "('s \<Rightarrow> 'r) \<Rightarrow> ('os \<Rightarrow> 'r set) \<Rightarrow> ('s, 'f, 'os) app_state \<Rightarrow> bool" where
  "sock_inv raw opens st \<longleftrightarrow>
     sockets_wf (sockets st) \<and>
     owned raw (sockets st) \<subseteq> opens (os st) \<and>
     (\<forall>a b v w. hs_sockets (sockets st) a = Some v \<longrightarrow> hs_sockets (sockets st) b = Some w \<longrightarrow>
        raw v = raw w \<longrightarrow> a = b)"

lemma ownedI: "hs_sockets t fd = Some v \<Longrightarrow> raw v \<in> owned raw t"
  by (auto simp: owned_def ran_def)

lemma ownedE: "x \<in> owned raw t \<Longrightarrow> \<exists>fd v. hs_sockets t fd = Some v \<and> raw v = x"
  by (auto simp: owned_def ran_def)

lemma owned_put:
  assumes "hs_put t v = (fd, t')" "sockets_wf t"
  shows "owned raw t' \<subseteq> insert (raw v) (owned raw t)"
    and "hs_next_fd t \<noteq> i32_MAX \<Longrightarrow> owned raw t' = insert (raw v) (owned raw t)"
proof -
  note t' = hs_put_table [OF assms(1)]
  show "owned raw t' \<subseteq> insert (raw v) (owned raw t)"
    using t' by (auto simp: owned_def ran_def split: if_splits)
  assume "hs_next_fd t \<noteq> i32_MAX"
  then have "hs_sockets t (hs_next_fd t) = None"
    using assms(2) by (simp add: sockets_wf_def fd_wf_fresh)
  with t' show "owned raw t' = insert (raw v) (owned raw t)" by (simp add: owned_def)
qed

text \<open>In a table without duplicates, removing an entry removes its raw socket and nothing else.\<close>

lemma owned_clear:
  assumes "hs_sockets t fd = Some v"
    "\<And>a w. hs_sockets t a = Some w \<Longrightarrow> raw w = raw v \<Longrightarrow> a = fd"
  shows "owned raw (hs_assign t fd None) = owned raw t - {raw v}"
proof (intro set_eqI iffI)
  fix x assume "x \<in> owned raw (hs_assign t fd None)"
  then obtain a w where "hs_sockets t a = Some w" "raw w = x" "a \<noteq> fd"
    by (auto dest!: ownedE split: if_splits)
  with assms(2) show "x \<in> owned raw t - {raw v}" by (auto intro: ownedI)
next
  fix x assume "x \<in> owned raw t - {raw v}"
  then obtain a w where w: "hs_sockets t a = Some w" "raw w = x" "x \<noteq> raw v" by (auto dest!: ownedE)
  with assms(1) have "hs_sockets (hs_assign t fd None) a = Some w" by auto
  with w show "x \<in> owned raw (hs_assign t fd None)" using ownedI by metis
qed

lemma owned_change:
  assumes "hs_sockets t fd = Some v" "raw w = raw v"
  shows "owned raw (hs_assign t fd (Some w)) = owned raw t"
proof (intro set_eqI iffI)
  fix x assume "x \<in> owned raw (hs_assign t fd (Some w))"
  then obtain a y where "((hs_sockets t)(fd \<mapsto> w)) a = Some y" "raw y = x" by (auto dest!: ownedE)
  with assms show "x \<in> owned raw t" by (auto split: if_splits intro: ownedI)
next
  fix x assume "x \<in> owned raw t"
  then obtain a y where y: "hs_sockets t a = Some y" "raw y = x" by (auto dest!: ownedE)
  with assms have "\<exists>z. hs_sockets (hs_assign t fd (Some w)) a = Some z \<and> raw z = x" by auto
  then show "x \<in> owned raw (hs_assign t fd (Some w))" using ownedI by metis
qed

lemma sock_inv_unique:
  "sock_inv raw opens st \<Longrightarrow> hs_sockets (sockets st) a = Some v \<Longrightarrow> hs_sockets (sockets st) b = Some w \<Longrightarrow>
   raw v = raw w \<Longrightarrow> a = b"
  by (auto simp: sock_inv_def)

lemma sock_inv_step:
  assumes "table_step raw opens st r st'" "sock_inv raw opens st"
  shows "sock_inv raw opens st'"
  using assms(1)
proof cases
  case keep
  with assms(2) show ?thesis by (simp add: sock_inv_def)
next
  case (add v fd)
  from assms(2) add(2) have "raw v \<notin> owned raw (sockets st)" by (auto simp: sock_inv_def)
  then have "raw w \<noteq> raw v" if "hs_sockets (sockets st) a = Some w" for a w
    using that ownedI by metis
  note other = this
  have wf: "sockets_wf (sockets st)" using assms(2) by (simp add: sock_inv_def)
  have "owned raw (sockets st') \<subseteq> opens (os st')"
    using owned_put(1) [OF add(4) wf, of raw] assms(2) add(3) by (auto simp: sock_inv_def)
  moreover have "a = b" if "hs_sockets (sockets st') a = Some x" "hs_sockets (sockets st') b = Some y" "raw x = raw y"
    for a b x y
    using that other [of a x] other [of b y] sock_inv_unique [OF assms(2), of a x b y]
    by (auto simp: hs_put_table [OF add(4)] split: if_splits)
  ultimately show ?thesis using sockets_wf_put [OF wf add(4)] unfolding sock_inv_def by blast
next
  case (drop fd v)
  have "owned raw (sockets st') = owned raw (sockets st) - {raw v}"
    unfolding drop(2) using sock_inv_unique [OF assms(2) _ drop(1)] by (intro owned_clear [OF drop(1)]) blast
  with assms(2) drop show ?thesis
    by (auto simp: sock_inv_def intro: sockets_wf_clear split: if_splits)
next
  case (change fd v w)
  have old: "\<exists>z. hs_sockets (sockets st) a = Some z \<and> raw z = raw x"
    if "((hs_sockets (sockets st))(fd \<mapsto> w)) a = Some x" for a x
    using that change(1,2) by (cases "a = fd") auto
  have "a = b" if "((hs_sockets (sockets st))(fd \<mapsto> w)) a = Some x" "((hs_sockets (sockets st))(fd \<mapsto> w)) b = Some y"
    "raw x = raw y" for a b x y
    using old [OF that(1)] old [OF that(2)] that(3) sock_inv_unique [OF assms(2)] by metis
  moreover have "sockets_wf (sockets st')" "owned raw (sockets st') \<subseteq> opens (os st')"
    using assms(2) change owned_change [OF change(1,2)] by (simp_all add: sock_inv_def sockets_wf_update)
  ultimately show ?thesis unfolding sock_inv_def by (simp only: change(3) hs_assign_table) blast
next
  case (leak x)
  with assms(2) show ?thesis by (auto simp: sock_inv_def)
qed

text \<open>Raw sockets that are open but not owned: unchanged unless the import panics.\<close>

lemma no_leak_step:
  assumes "table_step raw opens st r st'" "r \<noteq> Panic" "sock_inv raw opens st" "hs_next_fd (sockets st) \<noteq> i32_MAX"
  shows "opens (os st') - owned raw (sockets st') = opens (os st) - owned raw (sockets st)"
  using assms(1)
proof cases
  case (add v fd)
  have "sockets_wf (sockets st)" using assms(3) by (simp add: sock_inv_def)
  with add assms(3,4) show ?thesis by (auto simp: sock_inv_def owned_put(2) [OF add(4)])
next
  case (drop fd v)
  have "owned raw (sockets st') = owned raw (sockets st) - {raw v}"
    unfolding drop(2) using sock_inv_unique [OF assms(3) _ drop(1)] by (intro owned_clear [OF drop(1)]) blast
  with drop ownedI [OF drop(1), of raw] show ?thesis by auto
next
  case (change fd v w)
  then show ?thesis by (simp add: owned_change [OF change(1,2)])
qed (use assms(2) in simp_all)

subsection \<open>Descriptors over time\<close>

lemma saturating_succ_ge: "sint x \<le> sint (i32_saturating_succ x)"
  using sint_i32_bounds(2) [of x] by (auto simp: sint_saturating_succ simp del: sint_i32_bounds)

lemma table_step_next:
  assumes "table_step raw opens st r st'"
  shows "sint (hs_next_fd (sockets st)) \<le> sint (hs_next_fd (sockets st'))"
  using assms
proof cases
  case (add v fd)
  show ?thesis using hs_put_table [OF add(4)] saturating_succ_ge by metis
qed simp_all

definition dead_socket :: "i32 \<Rightarrow> ('s, 'f, 'os) app_state \<Rightarrow> bool" where
  "dead_socket fd st \<longleftrightarrow> sint fd < sint (hs_next_fd (sockets st)) \<and> hs_sockets (sockets st) fd = None"

lemma dead_socket_step:
  assumes "table_step raw opens st r st'" "dead_socket fd st"
  shows "dead_socket fd st'"
proof -
  from assms(2) have d: "sint fd < sint (hs_next_fd (sockets st))" "hs_sockets (sockets st) fd = None"
    by (simp_all add: dead_socket_def)
  have "hs_sockets (sockets st') fd = None"
    using assms(1)
  proof cases
    case (add v fd')
    from d have "fd \<noteq> hs_next_fd (sockets st)" by auto
    then show ?thesis using hs_put_table [OF add(4)] d by simp
  qed (use d in auto)
  with d(1) table_step_next [OF assms(1)] show ?thesis by (simp add: dead_socket_def)
qed

subsection \<open>No network\<close>

text \<open>Without the network permission no socket ever enters the table.\<close>

definition offline :: "('s, 'f, 'os) app_state \<Rightarrow> bool" where
  "offline st \<longleftrightarrow> \<not> network_allowed st \<and> sockets st = hs_new"

end
