(* ===== verification/Socket_Safety.thy ===== *)
theory Socket_Safety
  imports Socket_Imports Socket_Steps
begin

text \<open>
  What the Unix socket imports keep: every import's effect on the socket table and on the open
  raw descriptors is one of the kinds of \<open>table_step\<close>, its effect on everything else is
  bounded by \<open>import_frame\<close>, and its result is a \<open>reply_ok\<close>.
\<close>

subsection \<open>The imports as calls\<close>

text \<open>\<open>add_to_linker\<close>: the import each name of the module is bound to.\<close>

fun exec_sock :: "'os unix_sys \<Rightarrow> sock_call \<Rightarrow> (host_socket, 'f, 'os) import" where
  "exec_sock sys (C_socket d t p) = import_socket sys d t p"
| "exec_sock sys (C_bind fd a l) = import_bind sys fd a l"
| "exec_sock sys (C_listen fd b) = import_listen sys fd b"
| "exec_sock sys (C_accept fd a l) = import_accept sys fd a l"
| "exec_sock sys (C_connect fd a l) = import_connect sys fd a l"
| "exec_sock sys (C_getsockname fd a l) = import_getsockname sys fd a l"
| "exec_sock sys (C_getpeername fd a l) = import_getpeername sys fd a l"
| "exec_sock sys (C_setsockopt fd l n p k) = import_setsockopt sys fd l n p k"
| "exec_sock sys (C_getsockopt fd l n p k) = import_getsockopt sys fd l n p k"
| "exec_sock sys (C_send fd b l f) = import_send sys fd b l f"
| "exec_sock sys (C_recv fd b l f) = import_recv sys fd b l f"
| "exec_sock sys (C_sendto fd b l f a k) = import_sendto sys fd b l f a k"
| "exec_sock sys (C_recvfrom fd b l f a k) = import_recvfrom sys fd b l f a k"
| "exec_sock sys (C_shutdown fd h) = import_shutdown sys fd h"
| "exec_sock sys (C_close fd) = import_close sys fd"
| "exec_sock sys (C_fcntl fd c a) = import_fcntl sys fd c a"
| "exec_sock sys (C_poll p n t) = import_poll sys p n t"

subsection \<open>Every import is a table step\<close>

lemmas mem_lens = write_guest_len write_u32_len poll_write_revents_len

lemma configure_opens:
  assumes "raw_fd_laws sys opens"
  shows "opens (snd (configure_socket_type_flags sys raw ty s)) = opens s"
  by (simp add: configure_socket_type_flags_def Let_def case_prod_beta raw_fd_laws_frame [OF assms]
      split: sum.split)

lemma socket_fcntl_opens:
  assumes "raw_fd_laws sys opens"
  shows "opens (snd (socket_fcntl sys raw cmd arg s)) = opens s"
  by (simp add: socket_fcntl_def Let_def case_prod_beta raw_fd_laws_frame [OF assms])

lemma opens_oneD:
  "opens_one opens s rc s' \<Longrightarrow> sint rc < 0 \<Longrightarrow> opens s' = opens s"
  "opens_one opens s rc s' \<Longrightarrow> \<not> sint rc < 0 \<Longrightarrow> rc \<notin> opens s"
  "opens_one opens s rc s' \<Longrightarrow> \<not> sint rc < 0 \<Longrightarrow> opens s' = insert rc (opens s)"
  by (simp_all add: opens_one_def)

lemma table_step_insert:
  "hs_insert (sockets st) x g h = (fd, sockets st') \<Longrightarrow> x \<notin> opens (os st) \<Longrightarrow>
   opens (os st') = insert x (opens (os st)) \<Longrightarrow> table_step raw_fd opens st (Return fd) st'"
  by (rule table_step.add [of raw_fd "\<lparr>raw_fd = x, guest_domain = g, host_domain = h\<rparr>"])
    (simp_all add: hs_insert_put)

lemma table_step_remove:
  "hs_remove (sockets st) fd = Inr (v, sockets st') \<Longrightarrow> opens (os st') = opens (os st) - {raw_fd v} \<Longrightarrow>
   table_step raw_fd opens st r st'"
  by (rule table_step.drop) (auto simp: hs_remove_Inr)

lemma import_socket_step:
  assumes L: "raw_fd_laws sys opens"
  shows "table_step raw_fd opens st (fst (import_socket sys d t p st)) (snd (import_socket sys d t p st))"
proof (cases "network_allowed st")
  case True
  show ?thesis
  proof (cases "normalize_socket_type sys t")
    case (Inl e)
    with True show ?thesis by (auto simp: import_socket_def intro: table_step.keep)
  next
    case (Inr ty)
    obtain raw s where k: "sys_socket sys (normalize_socket_domain sys d) (nst_ty ty) p (os st) = (raw, s)"
      by (rule prod.exhaust)
    note one = raw_fd_laws_socket [OF L k]
    obtain x s' where c: "configure_socket_type_flags sys raw ty s = (x, s')" by (rule prod.exhaust)
    then have o': "opens s' = opens s" using configure_opens [OF L, of raw ty s] by simp
    show ?thesis
      using True Inr k c o' opens_oneD [OF one]
      by (auto simp: import_socket_def Let_def case_prod_beta raw_fd_laws_frame [OF L]
          split: sum.split intro: table_step.keep table_step_insert)
  qed
qed (auto simp: import_socket_def intro: table_step.keep)

lemma import_accept_step:
  assumes L: "raw_fd_laws sys opens"
  shows "table_step raw_fd opens st (fst (import_accept sys fd a l st)) (snd (import_accept sys fd a l st))"
proof (cases "hs_get (sockets st) fd")
  case (Inl e)
  then show ?thesis by (auto simp: import_accept_def intro: table_step.keep)
next
  case (Inr v)
  show ?thesis
  proof (cases "read_u32 (memory st) l")
    case (Inl e)
    with Inr show ?thesis by (auto simp: import_accept_def intro: table_step.keep)
  next
    case r: (Inr n)
    obtain raw ws m s where k: "sys_accept sys (raw_fd v) n (os st) = ((raw, ws, m), s)"
      by (metis prod.exhaust)
    note one = raw_fd_laws_accept [OF L k]
    show ?thesis
      using Inr r k opens_oneD [OF one]
      by (auto simp: import_accept_def Let_def case_prod_beta raw_fd_laws_frame [OF L]
          split: sum.split option.split intro: table_step.keep table_step_insert table_step.leak)
  qed
qed

lemma import_close_step:
  assumes L: "raw_fd_laws sys opens"
  shows "table_step raw_fd opens st (fst (import_close sys fd st)) (snd (import_close sys fd st))"
proof (cases "hs_remove (sockets st) fd")
  case (Inl e)
  then show ?thesis by (auto simp: import_close_def intro: table_step.keep)
next
  case (Inr vt)
  then show ?thesis
    by (cases vt) (auto simp: import_close_def Let_def case_prod_beta raw_fd_laws_frame [OF L]
        intro: table_step_remove)
qed

lemma sock_name_keeps:
  assumes L: "raw_fd_laws sys opens"
  shows "keeps opens st (snd (sock_name sys fd a l k st))"
  by (cases k) (simp_all add: sock_name_def Let_def case_prod_beta raw_fd_laws_frame [OF L]
      split: sum.split option.split)

lemma import_getsockopt_keeps:
  assumes L: "raw_fd_laws sys opens"
  shows "keeps opens st (snd (import_getsockopt sys fd l n p k st))"
  by (simp add: import_getsockopt_def Let_def case_prod_beta raw_fd_laws_frame [OF L]
      split: sum.split option.split)

lemma import_recvfrom_keeps:
  assumes L: "raw_fd_laws sys opens"
  shows "keeps opens st (snd (import_recvfrom sys fd b l f a k st))"
  by (simp add: import_recvfrom_def Let_def case_prod_beta raw_fd_laws_frame [OF L]
      split: sum.split option.split)

lemma import_poll_keeps:
  assumes L: "raw_fd_laws sys opens"
  shows "keeps opens st (snd (import_poll sys p n t st))"
  by (simp add: import_poll_def Let_def case_prod_beta raw_fd_laws_frame [OF L]
      split: sum.split option.split)

lemma plain_imports_keep:
  assumes L: "raw_fd_laws sys opens"
  shows "keeps opens st (snd (import_bind sys fd a l st))"
    "keeps opens st (snd (import_listen sys fd b st))"
    "keeps opens st (snd (import_connect sys fd a l st))"
    "keeps opens st (snd (import_setsockopt sys fd a b c l st))"
    "keeps opens st (snd (import_send sys fd b l f st))"
    "keeps opens st (snd (import_recv sys fd b l f st))"
    "keeps opens st (snd (import_sendto sys fd b l f a c st))"
    "keeps opens st (snd (import_shutdown sys fd b st))"
    "keeps opens st (snd (import_fcntl sys fd b c st))"
  by (simp_all add: import_bind_def import_listen_def import_connect_def import_setsockopt_def
      import_send_def import_recv_def import_sendto_def import_shutdown_def import_fcntl_def
      Let_def case_prod_beta raw_fd_laws_frame [OF L] socket_fcntl_opens [OF L]
      split: sum.split option.split)

lemmas keep_imports =
  sock_name_keeps import_getsockopt_keeps import_recvfrom_keeps import_poll_keeps plain_imports_keep

lemma exec_sock_step:
  assumes L: "raw_fd_laws sys opens"
  shows "table_step raw_fd opens st (fst (exec_sock sys c st)) (snd (exec_sock sys c st))"
  by (cases c)
    (simp_all add: import_socket_step [OF L] import_accept_step [OF L] import_close_step [OF L]
      table_step.keep keep_imports [OF L] import_getsockname_def import_getpeername_def)

subsection \<open>Everything else an import can touch\<close>

lemma import_accept_frame: "import_frame st (snd (import_accept sys fd a l st))"
  by (auto simp: import_accept_def Let_def case_prod_beta mem_lens import_frame_upd
      split: sum.split option.split)

lemma sock_name_frame: "import_frame st (snd (sock_name sys fd a l k st))"
  by (auto simp: sock_name_def Let_def case_prod_beta mem_lens import_frame_upd
      split: sum.split option.split)

lemma import_getsockopt_frame: "import_frame st (snd (import_getsockopt sys fd l n p k st))"
  by (auto simp: import_getsockopt_def Let_def case_prod_beta mem_lens import_frame_upd
      split: sum.split option.split)

lemma import_recvfrom_frame: "import_frame st (snd (import_recvfrom sys fd b l f a k st))"
  by (auto simp: import_recvfrom_def Let_def case_prod_beta mem_lens import_frame_upd
      split: sum.split option.split)

lemma import_poll_frame: "import_frame st (snd (import_poll sys p n t st))"
proof -
  have "mem_len (snd (poll_write_revents m p i rs)) = mem_len m" for m i rs
    by (rule poll_write_revents_len) (rule prod.collapse [symmetric])
  then show ?thesis
    by (auto simp: import_poll_def Let_def case_prod_beta import_frame_upd
        split: sum.split option.split)
qed

lemma plain_imports_frame:
  "import_frame st (snd (import_socket sys d t p st))"
  "import_frame st (snd (import_bind sys fd a l st))"
  "import_frame st (snd (import_listen sys fd b st))"
  "import_frame st (snd (import_connect sys fd a l st))"
  "import_frame st (snd (import_setsockopt sys fd a b c l st))"
  "import_frame st (snd (import_send sys fd b l f st))"
  "import_frame st (snd (import_recv sys fd b l f st))"
  "import_frame st (snd (import_sendto sys fd b l f a c st))"
  "import_frame st (snd (import_shutdown sys fd b st))"
  "import_frame st (snd (import_close sys fd st))"
  "import_frame st (snd (import_fcntl sys fd b c st))"
  by (auto simp: import_socket_def import_bind_def import_listen_def import_connect_def
      import_setsockopt_def import_send_def import_recv_def import_sendto_def import_shutdown_def
      import_close_def import_fcntl_def Let_def case_prod_beta mem_lens import_frame_upd
      split: sum.split option.split)

lemmas frame_imports =
  import_accept_frame sock_name_frame import_getsockopt_frame import_recvfrom_frame import_poll_frame
  plain_imports_frame

lemma exec_sock_frame: "import_frame st (snd (exec_sock sys c st))"
  by (cases c) (simp_all add: frame_imports import_getsockname_def import_getpeername_def)

subsection \<open>Results\<close>

lemma normalize_socket_type_Inl: "normalize_socket_type sys ty = Inl e \<Longrightarrow> e = EOPNOTSUPP"
  by (auto simp: normalize_socket_type_def Let_def split: if_splits)

lemma configure_Inl: "fst (configure_socket_type_flags sys raw ty s) = Inl e \<Longrightarrow> is_guest_errno e"
  by (auto simp: configure_socket_type_flags_def Let_def split: prod.splits if_splits sum.splits)

lemma errno_of_failures:
  "hs_get t fd = Inl e \<Longrightarrow> is_guest_errno e"
  "hs_remove t fd = Inl e \<Longrightarrow> is_guest_errno e"
  "read_guest m p l = Inl e \<Longrightarrow> is_guest_errno e"
  "write_guest m p bs = Inl e \<Longrightarrow> is_guest_errno e"
  "read_u32 m p = Inl e \<Longrightarrow> is_guest_errno e"
  "write_u32 m p w = Inl e \<Longrightarrow> is_guest_errno e"
  "checked_len l = Inl e \<Longrightarrow> is_guest_errno e"
  "checked_poll_count l = Inl e \<Longrightarrow> is_guest_errno e"
  "normalize_socket_type sys ty = Inl e \<Longrightarrow> is_guest_errno e"
  by (auto simp: hs_get_Inl hs_remove_def read_u32_def write_u32_def
      split: option.splits sum.splits
      dest!: smem.rd_Inl_errno smem.wr_Inl_errno checked_len_Inl checked_poll_count_Inl
        normalize_socket_type_Inl)

lemma poll_host_fds_Inl: "poll_host_fds t cs = Inl e \<Longrightarrow> is_guest_errno e"
  by (induction t cs rule: poll_host_fds.induct)
    (auto simp: Let_def hs_get_Inl split: if_splits sum.splits)

lemma poll_write_revents_Inl: "fst (poll_write_revents m p i rs) = Inl e \<Longrightarrow> is_guest_errno e"
  by (induction m p i rs rule: poll_write_revents.induct)
    (auto split: sum.splits dest: errno_of_failures)

lemmas failures = errno_of_failures configure_Inl poll_host_fds_Inl poll_write_revents_Inl

lemma neg_last_errno_not_nonneg [simp]: "\<not> 0 \<le> sint (neg_last_errno sys s)"
  using neg_last_errno_neg [of sys s] by linarith

lemma hs_insert_reply: "sockets_wf t \<Longrightarrow> reply_ok (fst (hs_insert t raw g h))"
  by (simp add: hs_insert_put hs_put_nonneg reply_ok_nonneg)

lemma sint_ucast_small:
  fixes rc :: i64
  assumes "unat rc \<le> MAX_IO_LEN"
  shows "sint (ucast rc :: i32) = int (unat rc)"
proof -
  from assms have "unat rc < 2147483648" by (simp add: MAX_IO_LEN_def)
  then have "sint (of_nat (unat rc) :: i32) = int (unat rc)" by (rule sint_i32_of_nat)
  then show ?thesis unfolding of_nat_unat [of rc, where 'a = "32 word"] .
qed

lemma import_socket_reply: "sockets_wf (sockets st) \<Longrightarrow> outcome_ok (fst (import_socket sys d t p st))"
  using hs_insert_reply [of "sockets st"]
  by (auto simp: import_socket_def Let_def case_prod_beta dest: failures split: sum.split)

lemma import_accept_reply: "sockets_wf (sockets st) \<Longrightarrow> outcome_ok (fst (import_accept sys fd a l st))"
  using hs_insert_reply [of "sockets st"]
  by (auto simp: import_accept_def Let_def case_prod_beta dest: failures
      split: sum.split option.split)

lemma sock_name_reply: "outcome_ok (fst (sock_name sys fd a l k st))"
  by (auto simp: sock_name_def Let_def case_prod_beta reply_ok_nonneg dest: failures
      split: sum.split option.split)

lemma import_getsockopt_reply: "outcome_ok (fst (import_getsockopt sys fd l n p k st))"
  by (auto simp: import_getsockopt_def Let_def case_prod_beta reply_ok_nonneg dest: failures
      split: sum.split option.split)

lemma ucast_rc_reply:
  fixes rc :: i64
  assumes "checked_len l = Inr n" "slice_to (fill (replicate n (0::u8)) ws) (unat rc) = Some out"
  shows "reply_ok (ucast rc)"
proof -
  from assms(1) have "n \<le> MAX_IO_LEN" by (simp add: checked_len_Inr)
  with assms(2) have "unat rc \<le> MAX_IO_LEN" by (simp add: slice_to_def split: if_splits)
  then have "sint (ucast rc :: i32) = int (unat rc)" by (rule sint_ucast_small)
  then show ?thesis by (simp add: reply_ok_nonneg)
qed

lemma import_recv_reply: "outcome_ok (fst (import_recv sys fd b l f st))"
  by (auto simp: import_recv_def Let_def case_prod_beta dest: failures ucast_rc_reply
      split: sum.split option.split)

lemma import_recvfrom_reply: "outcome_ok (fst (import_recvfrom sys fd b l f a k st))"
  by (auto simp: import_recvfrom_def Let_def case_prod_beta dest: failures ucast_rc_reply
      split: sum.split option.split)

lemma import_poll_reply: "outcome_ok (fst (import_poll sys p n t st))"
  by (auto simp: import_poll_def Let_def case_prod_beta reply_ok_nonneg dest: failures
      split: sum.split option.split)

lemma socket_fcntl_reply: "reply_ok (fst (socket_fcntl sys raw cmd arg s))"
  by (auto simp: socket_fcntl_def Let_def case_prod_beta reply_ok_nonneg WASI_O_NONBLOCK_def)

lemma plain_imports_reply:
  "outcome_ok (fst (import_bind sys fd a l st))"
  "outcome_ok (fst (import_listen sys fd b st))"
  "outcome_ok (fst (import_connect sys fd a l st))"
  "outcome_ok (fst (import_setsockopt sys fd a b c l st))"
  "outcome_ok (fst (import_send sys fd b l f st))"
  "outcome_ok (fst (import_sendto sys fd b l f a c st))"
  "outcome_ok (fst (import_shutdown sys fd b st))"
  "outcome_ok (fst (import_close sys fd st))"
  "outcome_ok (fst (import_fcntl sys fd b c st))"
  by (auto simp: import_bind_def import_listen_def import_connect_def import_setsockopt_def
      import_send_def import_sendto_def import_shutdown_def import_close_def import_fcntl_def
      Let_def case_prod_beta socket_fcntl_reply dest: failures split: sum.split option.split)

lemmas reply_imports =
  import_socket_reply import_accept_reply sock_name_reply import_getsockopt_reply
  import_recv_reply import_recvfrom_reply import_poll_reply plain_imports_reply

lemma exec_sock_reply: "sockets_wf (sockets st) \<Longrightarrow> outcome_ok (fst (exec_sock sys c st))"
  by (cases c) (simp_all add: reply_imports import_getsockname_def import_getpeername_def)

subsection \<open>Unknown descriptors\<close>

lemma exec_sock_unknown:
  assumes "call_fd c = Some fd" "hs_sockets (sockets st) fd = None"
  shows "exec_sock sys c st = fail EBADF st"
  using assms
  by (cases c)
    (simp_all add: import_defs hs_get_def hs_remove_def)

lemma offline_poll: "sockets (snd (import_poll sys p n t st)) = sockets st"
  by (simp add: import_poll_def Let_def case_prod_beta split: sum.split option.split)

lemma offline_step: "offline st \<Longrightarrow> offline (snd (exec_sock sys c st))"
proof (cases "call_fd c")
  case (Some fd)
  assume "offline st"
  then have "hs_sockets (sockets st) fd = None" by (simp add: offline_def)
  with Some \<open>offline st\<close> show ?thesis by (simp add: exec_sock_unknown)
next
  case None
  assume "offline st"
  with None show ?thesis
    using exec_sock_frame [of st sys c]
    by (cases c) (auto simp: offline_def import_socket_def offline_poll import_frame_def)
qed

subsection \<open>Dropping the table\<close>

lemma hs_drop_opens:
  assumes "raw_fd_laws sys opens"
  shows "opens (hs_drop sys drained s) = opens s - (raw_fd \<circ> snd) ` set drained"
  unfolding hs_drop_def
  by (induction drained arbitrary: s) (auto simp: raw_fd_laws_frame [OF assms])

end
