(* ===== verification/Socket_Function.thy ===== *)
theory Socket_Function
  imports Socket_Safety Unix_Sample
begin

text \<open>
  What the Unix socket imports compute: the poll set built from the guest's array and the events
  stored back into it, address families, the socket flags, the option values and received data
  as the guest then reads them.
\<close>

subsection \<open>The poll set\<close>

text \<open>The host entry a guest entry asks for, given the socket table.\<close>

definition poll_entry :: "host_socket host_sockets \<Rightarrow> bytes \<Rightarrow> pollfd \<Rightarrow> bool" where
  "poll_entry t chunk pfd \<longleftrightarrow>
     (let guest_fd = from_le_bytes (take 4 chunk) :: i32
      in pfd_fd pfd = (if sint guest_fd < 0 then guest_fd else raw_fd (the (hs_sockets t guest_fd))) \<and>
         (sint guest_fd < 0 \<or> hs_sockets t guest_fd \<noteq> None) \<and>
         pfd_events pfd = from_le_bytes (take 2 (drop 4 chunk)) \<and> pfd_revents pfd = 0)"

lemma poll_host_fds_Inr:
  "poll_host_fds t cs = Inr fds \<Longrightarrow> list_all2 (poll_entry t) cs fds"
proof (induction cs arbitrary: fds)
  case (Cons c cs)
  from Cons show ?case
    by (auto simp: Let_def poll_entry_def subslice_def hs_get_def
        split: sum.splits if_splits option.splits)
qed simp

subsection \<open>What poll does to the guest's array\<close>

lemma import_poll_Return:
  assumes "import_poll sys p n t st = (Return r, st')" "0 \<le> sint r"
    "mem_view (memory st) = Some data" "length data \<le> 2147483648"
  obtains host_fds stored s where
    "nat (sint n) \<le> MAX_POLL_FDS" "0 \<le> sint p" "nat (sint p) + 8 * nat (sint n) \<le> length data"
    "poll_host_fds (sockets st) (chunks_exact8 (subslice data (nat (sint p)) (nat (sint p) + 8 * nat (sint n)))) = Inr host_fds"
    "length host_fds = nat (sint n)"
    "sys_poll sys host_fds t (os st) = ((r, stored), s)" "os st' = s"
    "mem_view (memory st') = Some (store_revents data (nat (sint p)) (fill (map pfd_revents host_fds) stored))"
proof -
  note call = assms(1) [unfolded import_poll_def]
  obtain k where k: "checked_poll_count n = Inr k"
    using call assms(2) failure_negative [OF errno_of_failures(8)]
    by (cases "checked_poll_count n") auto
  obtain bs where bs: "read_guest (memory st) p (of_nat (k * 8)) = Inr bs"
    using call assms(2) k failure_negative [OF errno_of_failures(3)]
    by (cases "read_guest (memory st) p (of_nat (k * 8))") auto
  obtain host_fds where h: "poll_host_fds (sockets st) (chunks_exact8 bs) = Inr host_fds"
    using call assms(2) k bs failure_negative [OF poll_host_fds_Inl]
    by (cases "poll_host_fds (sockets st) (chunks_exact8 bs)") auto
  obtain rc stored s where sp: "sys_poll sys host_fds t (os st) = ((rc, stored), s)"
    by (metis prod.exhaust)
  let ?w = "poll_write_revents (memory st) p 0 (fill (map pfd_revents host_fds) stored)"
  have nneg: "\<not> sint rc < 0" and w: "fst ?w = Inr ()"
    using call assms(2) k bs h sp poll_write_revents_Inl [THEN failure_negative, of "memory st" p 0]
    by (auto simp: case_prod_beta split: if_splits sum.splits)
  with call k bs h sp have st': "rc = r" "st' = st\<lparr>memory := snd ?w, os := s\<rparr>"
    by (auto simp: case_prod_beta)
  note arr = poll_array_read [OF k bs assms(3)]
  note k' = arr(1,2) and r = arr(3-5)
  have lh: "length host_fds = k"
    using list_all2_lengthD [OF poll_host_fds_Inr [OF h]] r by (simp add: length_chunks_exact8)
  then have "mem_view (memory st') = Some (store_revents data (nat (sint p)) (fill (map pfd_revents host_fds) stored))"
    using poll_write_revents_ok [OF assms(3) r(1), of 0 "fill (map pfd_revents host_fds) stored"] r assms(4)
    by (simp add: st')
  with that [of host_fds stored s] k' r lh h sp st' show thesis by simp
qed

text \<open>Without sockets, an array that names a descriptor is refused, and any other asks for none.\<close>

lemma poll_host_fds_none:
  "list_ex names_descriptor chunks \<Longrightarrow> poll_host_fds hs_new chunks = Inl EBADF"
  "poll_host_fds hs_new chunks = Inr fds \<Longrightarrow> list_all (\<lambda>f. sint (pfd_fd f) < 0) fds"
proof (induction chunks arbitrary: fds)
  case (Cons chunk chunks)
  {
    case 1
    with Cons.IH(1) show ?case by (auto simp: names_descriptor_def hs_get_def Let_def)
  next
    case 2
    with Cons.IH(2) show ?case by (auto simp: hs_get_def Let_def split: if_splits sum.splits)
  }
qed simp_all

subsection \<open>Address families\<close>

lemma length_write_sockaddr_family [simp]: "length (write_sockaddr_family a f) = length a"
  by (simp add: write_sockaddr_family_def split: option.split)

lemma drop_write_sockaddr_family: "drop 2 (write_sockaddr_family a f) = drop 2 a"
  by (simp add: write_sockaddr_family_def overwrite_def numeral_2_eq_2 split: option.split)

lemma write_sockaddr_family_twice:
  "u16_of_i32 g \<noteq> None \<Longrightarrow> write_sockaddr_family (write_sockaddr_family a h) g = write_sockaddr_family a g"
  by (auto simp: write_sockaddr_family_def overwrite_def split: option.split)

lemma ucast_u16_roundtrip: "u16_of_i32 f = Some x \<Longrightarrow> ucast x = f"
proof -
  assume "u16_of_i32 f = Some x"
  then have b: "0 \<le> sint f" "sint f < 65536" "x = ucast f" by (auto simp: u16_of_i32_def split: if_splits)
  then have "f = of_nat (nat (sint f))" by simp
  moreover define n where "n = nat (sint f)"
  ultimately have "f = of_nat n" "n < 65536" using b by auto
  then show "ucast x = f" using b by (simp add: unsigned_of_nat take_bit_nat_eq_self)
qed

lemma family_write_sockaddr_family:
  assumes "2 \<le> length a" "0 \<le> sint f" "sint f < 65536"
  shows "ucast (from_le_bytes (take 2 (write_sockaddr_family a f)) :: u16) = f"
proof -
  from assms obtain x where x: "u16_of_i32 f = Some x" by (simp add: u16_of_i32_def)
  have "take 2 (write_sockaddr_family a f) = to_le_bytes 2 x"
    using assms(1) x by (simp add: write_sockaddr_family_def overwrite_def)
  then show ?thesis using ucast_u16_roundtrip [OF x] by (simp add: from_to_le_bytes_word)
qed

subsection \<open>Status flags\<close>

text \<open>The flags the kernel is asked to set differ from the current ones in \<open>O_NONBLOCK\<close> only.\<close>

definition setfl_flags :: "'os unix_sys \<Rightarrow> i32 \<Rightarrow> i32 \<Rightarrow> i32" where
  "setfl_flags sys flags arg =
     (if arg AND WASI_O_NONBLOCK \<noteq> 0 then flags OR libc sys L_O_NONBLOCK
      else flags AND NOT (libc sys L_O_NONBLOCK))"

lemma setfl_flags_other: "setfl_flags sys flags arg AND NOT (libc sys L_O_NONBLOCK) = flags AND NOT (libc sys L_O_NONBLOCK)"
  by (auto simp: setfl_flags_def bit_eq_iff bit_simps)

lemma setfl_flags_nonblock:
  "setfl_flags sys flags arg AND libc sys L_O_NONBLOCK =
     (if arg AND WASI_O_NONBLOCK \<noteq> 0 then libc sys L_O_NONBLOCK else 0)"
  by (auto simp: setfl_flags_def bit_eq_iff bit_simps)

lemma socket_fcntl_setfl:
  assumes "sys_fcntl sys raw (libc sys L_F_GETFL) None s = (flags, s1)" "0 \<le> sint flags"
    "sys_fcntl sys raw (libc sys L_F_SETFL) (Some (setfl_flags sys flags arg)) s1 = (rc, s2)"
  shows "socket_fcntl sys raw WASI_F_SETFL arg s = (cvt_i32 sys s2 rc, s2)"
  using assms by (simp add: socket_fcntl_def setfl_flags_def WASI_F_GETFL_def WASI_F_SETFL_def Let_def)

lemma socket_fcntl_getfl:
  assumes "sys_fcntl sys raw (libc sys L_F_GETFL) None s = (flags, s1)" "0 \<le> sint flags"
  shows "socket_fcntl sys raw WASI_F_GETFL arg s =
     (if flags AND libc sys L_O_NONBLOCK \<noteq> 0 then WASI_O_NONBLOCK else 0, s1)"
  using assms by (simp add: socket_fcntl_def)

subsection \<open>Pending socket errors\<close>

lemma translate_so_error_word:
  "translate_so_error sys (to_le_bytes 4 code) = Some (to_le_bytes 4 (from_host_errno (libc_err sys) (code :: i32)))"
  by (simp add: translate_so_error_def slice_to_def overwrite_def from_to_le_bytes_word)

lemma fill_exact: "length ws = length buf \<Longrightarrow> fill buf ws = ws"
  by (simp add: fill_def)

lemma getsockopt_so_error_value:
  assumes call: "import_getsockopt sys fd level WASI_SO_ERROR vp lp st = (Return 0, st')"
    and v: "hs_sockets (sockets st) fd = Some v" and lvl: "is_guest_socket_level level"
    and n: "read_u32 (memory st) lp = Inr 4"
    and k: "sys_getsockopt sys (raw_fd v) (normalize_socket_level sys level) WASI_SO_ERROR 4 (os st)
              = ((rc, to_le_bytes 4 code, 4), s)"
    and rc: "0 \<le> sint rc"
    and disj: "sint vp + 4 \<le> sint lp \<or> sint lp + 4 \<le> sint vp"
  shows "read_u32 (memory st') vp = Inr (from_host_errno (libc_err sys) code)"
proof -
  let ?e = "from_host_errno (libc_err sys) code"
  have g: "hs_get (sockets st) fd = Inr v" using v by (simp add: hs_get_Inr)
  have "slice_to (to_le_bytes 4 ?e) (unat (4 :: u32)) = Some (to_le_bytes 4 ?e)"
    by (simp add: slice_to_def)
  with call g n k lvl rc obtain m1 m2 where
      w1: "write_guest (memory st) vp (to_le_bytes 4 ?e) = Inr m1"
    and w2: "write_u32 m1 lp 4 = Inr m2" and st': "memory st' = m2"
    by (auto simp: import_getsockopt_def Let_def fill_exact translate_so_error_word
        neg_errno_def is_guest_errno_def dest: errno_of_failures(4,6) split: sum.splits if_splits)
  have "read_u32 m1 vp = Inr ?e"
    by (rule read_u32_write_u32 [of "memory st"]) (simp add: write_u32_def w1)
  then show ?thesis using read_u32_other_after_write_u32 [OF w2, of vp] disj st' by auto
qed

subsection \<open>Accepted connections and received data\<close>

lemma hs_insert_unfold:
  "fst (hs_insert t raw g h) = hs_next_fd t"
  "hs_sockets (snd (hs_insert t raw g h)) =
     (hs_sockets t)(hs_next_fd t \<mapsto> \<lparr>raw_fd = raw, guest_domain = g, host_domain = h\<rparr>)"
  by (simp_all add: hs_insert_def Let_def)

lemma accept_success:
  assumes call: "import_accept sys fd ap lp st = (Return r, st')" and r: "0 \<le> sint r"
    and v: "hs_sockets (sockets st) fd = Some v" and n: "read_u32 (memory st) lp = Inr n"
    and k: "sys_accept sys (raw_fd v) n (os st) = ((raw, ws, m), s)"
  shows "unat m \<le> unat n" "0 \<le> sint raw" "r = hs_next_fd (sockets st)"
    "hs_sockets (sockets st') r = Some \<lparr>raw_fd = raw, guest_domain = guest_domain v, host_domain = host_domain v\<rparr>"
    "read_u32 (memory st') lp = Inr m"
    "\<exists>m1. write_guest (memory st) ap
             (take (unat m) (denormalize_sockaddr_for_guest (fill (replicate (unat n) 0) ws) (guest_domain v))) = Inr m1 \<and>
           write_u32 m1 lp m = Inr (memory st')"
proof -
  let ?a = "denormalize_sockaddr_for_guest (fill (replicate (unat n) 0) ws) (guest_domain v)"
  have g: "hs_get (sockets st) fd = Inr v" using v by (simp add: hs_get_Inr)
  have raw: "\<not> sint raw < 0" using call r g n k by (auto simp: import_accept_def Let_def split: if_splits)
  note call' = call [unfolded import_accept_def g n sum.case Let_def k prod.case if_not_P [OF raw]]
  obtain out where out: "slice_to ?a (unat m) = Some out" using call' by (cases "slice_to ?a (unat m)") auto
  then have o': "unat m \<le> unat n" "out = take (unat m) ?a"
    by (auto simp: slice_to_def denormalize_sockaddr_for_guest_def split: if_splits)
  obtain m1 where w1: "write_guest (memory st) ap out = Inr m1"
    using call' out r failure_negative [OF errno_of_failures(4)]
    by (cases "write_guest (memory st) ap out") (auto simp: case_prod_beta)
  obtain m2 where w2: "write_u32 m1 lp m = Inr m2"
    using call' out w1 r failure_negative [OF errno_of_failures(6)]
    by (cases "write_u32 m1 lp m") (auto simp: case_prod_beta)
  have res: "r = hs_next_fd (sockets st)" "memory st' = m2"
      "sockets st' = snd (hs_insert (sockets st) raw (guest_domain v) (host_domain v))"
    using call' out w1 w2 by (auto simp: case_prod_beta hs_insert_unfold(1))
  show "unat m \<le> unat n" "0 \<le> sint raw" "r = hs_next_fd (sockets st)"
    using o' raw res by simp_all
  show "hs_sockets (sockets st') r = Some \<lparr>raw_fd = raw, guest_domain = guest_domain v, host_domain = host_domain v\<rparr>"
    using res by (simp add: hs_insert_unfold(2))
  show "read_u32 (memory st') lp = Inr m" using read_u32_write_u32 [OF w2] res by simp
  show "\<exists>m1. write_guest (memory st) ap (take (unat m) ?a) = Inr m1 \<and> write_u32 m1 lp m = Inr (memory st')"
    using w1 w2 res o' by auto
qed

lemma accept_truncated:
  assumes "hs_sockets (sockets st) fd = Some v" "read_u32 (memory st) lp = Inr n"
    "sys_accept sys (raw_fd v) n (os st) = ((raw, ws, m), s)" "0 \<le> sint raw" "unat n < unat m"
  shows "import_accept sys fd ap lp st = (Panic, st\<lparr>os := s\<rparr>)"
  using assms
  by (simp add: import_accept_def hs_get_def Let_def slice_to_def denormalize_sockaddr_for_guest_def)

lemma recv_success:
  assumes call: "import_recv sys fd bp len flags st = (Return r, st')" and r: "0 \<le> sint r"
    and v: "hs_sockets (sockets st) fd = Some v"
    and k: "sys_recv sys (raw_fd v) (nat (sint len)) flags (os st) = ((rc, ws), s)"
  shows "sint r = int (unat rc)" "unat rc \<le> nat (sint len)"
    "read_guest (memory st') bp r = Inr (take (unat rc) (fill (replicate (nat (sint len)) 0) ws))"
proof -
  have g: "hs_get (sockets st) fd = Inr v" using v by (simp add: hs_get_Inr)
  obtain n where n: "checked_len len = Inr n"
    using call r g failure_negative [OF errno_of_failures(7)]
    by (cases "checked_len len") (auto simp: import_recv_def)
  then have n': "n = nat (sint len)" "n \<le> MAX_IO_LEN" by (auto simp: checked_len_Inr)
  let ?buf = "fill (replicate n 0) ws"
  have rc: "\<not> sint rc < 0"
    using call r g n n' k by (auto simp: import_recv_def Let_def split: if_splits)
  note call' = call [unfolded import_recv_def g n sum.case Let_def k [folded n'(1)] prod.case if_not_P [OF rc]]
  obtain out where out: "slice_to ?buf (unat rc) = Some out" using call' by (cases "slice_to ?buf (unat rc)") auto
  then have o': "unat rc \<le> n" "out = take (unat rc) ?buf" by (auto simp: slice_to_def split: if_splits)
  obtain m1 where w1: "write_guest (memory st) bp out = Inr m1"
    using call' out r failure_negative [OF errno_of_failures(4)]
    by (cases "write_guest (memory st) bp out") auto
  have res: "r = ucast rc" "memory st' = m1" using call' out w1 by auto
  from o' n' have "unat rc \<le> MAX_IO_LEN" by simp
  then show s: "sint r = int (unat rc)" unfolding res by (rule sint_ucast_small)
  show "unat rc \<le> nat (sint len)" using o' n' by simp
  have "of_nat (length out) = r" using o' res by simp
  then show "read_guest (memory st') bp r = Inr (take (unat rc) (fill (replicate (nat (sint len)) 0) ws))"
    using smem.rd_after_wr [OF w1] res o' n' by simp
qed

end
