(* ===== verification/Socket_Properties.thy ===== *)
theory Socket_Properties
  imports Socket_Function
begin

text \<open>
  The properties of the Unix socket imports.
\<close>

subsection \<open>A sample host\<close>

text \<open>One connected socket, guest descriptor 10000 on raw descriptor 3, and the memory given.\<close>

definition sample_table :: "host_socket host_sockets" where
  "sample_table = \<lparr>hs_next_fd = 10001,
     hs_sockets = [10000 \<mapsto> \<lparr>raw_fd = 3, guest_domain = 1, host_domain = 2\<rparr>]\<rparr>"

definition sample_app :: "bytes \<Rightarrow> (host_socket, unit, sample_os) app_state" where
  "sample_app data = \<lparr>memory = PlainMemory data, files = (), sockets = sample_table,
     network_allowed = True, shutdown_requested = False, os = sample_init\<lparr>so_open := [3]\<rparr>\<rparr>"

lemma sample_app_simps [simp]:
  "memory (sample_app data) = PlainMemory data" "sockets (sample_app data) = sample_table"
  "os (sample_app data) = sample_init\<lparr>so_open := [3]\<rparr>" "network_allowed (sample_app data)"
  "hs_sockets sample_table 10000 = Some \<lparr>raw_fd = 3, guest_domain = 1, host_domain = 2\<rparr>"
  "hs_next_fd sample_table = 10001"
  by (simp_all add: sample_app_def sample_table_def)

lemma sample_table_wf: "sockets_wf sample_table"
  by (simp add: sockets_wf_def fd_wf_def sample_table_def SOCKET_FD_BASE_def)

lemma read_u32_sample:
  "0 \<le> sint p \<Longrightarrow> nat (sint p) + 4 \<le> length data \<Longrightarrow>
   read_u32 (PlainMemory data) p = Inr (from_le_bytes (subslice data (nat (sint p)) (nat (sint p) + 4)))"
  by (simp add: read_u32_def smem.rd_view mem_load_eq len_ok_def MAX_IO_LEN_def)

subsection \<open>Descriptors\<close>

text \<open>
  A call that names a descriptor that is not in the table returns \<open>-EBADF\<close> and changes
  nothing, neither the guest's memory nor the operating system.
\<close>

theorem unknown_socket_is_EBADF:
  assumes "call_fd c = Some fd" "hs_sockets (sockets st) fd = None"
  shows "exec_sock sys c st = (Return (neg_errno EBADF), st)"
  using assms by (rule exec_sock_unknown)

theorem unknown_socket_is_EBADF_witness:
  "exec_sock sample_sys (C_send 10007 0 4 0) (sample_app [1, 2, 3, 4]) =
     (Return (neg_errno EBADF), sample_app [1, 2, 3, 4])"
  by (rule unknown_socket_is_EBADF [of _ 10007]) (simp_all add: sample_table_def)

text \<open>
  C30: every socket import that returns answers with a non-negative value or with the negation of
  an errno of the guest's ABI.
\<close>

theorem socket_replies:
  assumes "sockets_wf (sockets st)" "exec_sock sys c st = (Return r, st')"
  shows "0 \<le> sint r \<or> is_guest_errno (- r)"
  using exec_sock_reply [OF assms(1), of sys c] assms(2) by (simp add: reply_ok_def)

theorem socket_replies_witness:
  "exec_sock sample_sys (C_listen 10000 5) (sample_app []) = (Return 0, sample_app []) \<and>
   (0 \<le> sint (0 :: i32) \<or> is_guest_errno (- 0))"
proof -
  have e: "exec_sock sample_sys (C_listen 10000 5) (sample_app []) = (Return 0, sample_app [])"
    by (simp add: import_listen_def hs_get_def sample_sys_def cvt_i32_def sample_app_def sample_table_def)
  with socket_replies [OF _ e] sample_table_wf show ?thesis by simp
qed

text \<open>
  Dropping the socket table closes exactly the raw descriptors its entries own, in whatever
  order the hash map is drained.
\<close>

theorem drop_closes_owned:
  assumes "raw_fd_laws sys opens" "set drained = {(fd, v). hs_sockets t fd = Some v}"
  shows "opens (hs_drop sys drained s) = opens s - owned raw_fd t"
proof -
  have "(raw_fd \<circ> snd) ` set drained = owned raw_fd t"
    unfolding assms(2) by (force simp: owned_def ran_def image_iff)
  then show ?thesis using hs_drop_opens [OF assms(1)] by simp
qed

theorem drop_closes_owned_witness:
  "sample_opens (hs_drop sample_sys [(10000, \<lparr>raw_fd = 3, guest_domain = 1, host_domain = 2\<rparr>)]
     (sample_init\<lparr>so_open := [3, 4]\<rparr>)) = {3, 4} - owned raw_fd sample_table"
proof -
  have "set [(10000, \<lparr>raw_fd = 3, guest_domain = 1, host_domain = 2\<rparr>)] =
      {(fd, v). hs_sockets sample_table fd = Some v}"
    by (auto simp: sample_table_def split: if_splits)
  from drop_closes_owned [OF sample_raw_fd_laws this, of "sample_init\<lparr>so_open := [3, 4]\<rparr>"]
  show ?thesis by (simp add: sample_opens_def)
qed

subsection \<open>Accepting and receiving\<close>

text \<open>
  A successful \<open>accept\<close> returns the next guest descriptor, maps it to the accepted raw
  descriptor with the domains of the listening socket, and leaves at the length pointer the
  length the kernel reported, which did not exceed the guest's buffer.
\<close>

theorem accept_registers:
  assumes "import_accept sys fd ap lp st = (Return r, st')" "0 \<le> sint r"
    "hs_sockets (sockets st) fd = Some v" "read_u32 (memory st) lp = Inr n"
    "sys_accept sys (raw_fd v) n (os st) = ((raw, ws, m), s)"
  shows "r = hs_next_fd (sockets st) \<and> 0 \<le> sint raw \<and>
    hs_sockets (sockets st') r = Some \<lparr>raw_fd = raw, guest_domain = guest_domain v, host_domain = host_domain v\<rparr> \<and>
    unat m \<le> unat n \<and> read_u32 (memory st') lp = Inr m"
  using accept_success [OF assms] by blast

definition sample_accept_memory :: bytes where
  "sample_accept_memory = [16, 0, 0, 0] @ replicate 16 0"

definition sample_accepted :: "i32 outcome \<times> (host_socket, unit, sample_os) app_state" where
  "sample_accepted = import_accept sample_sys 10000 4 0 (sample_app sample_accept_memory)"

lemma sample_accept_len: "read_u32 (PlainMemory sample_accept_memory) 0 = Inr 16"
  by (simp add: read_u32_sample sample_accept_memory_def subslice_def)

lemma length_sample_accept_memory: "length sample_accept_memory = 20"
  by (simp add: sample_accept_memory_def)

lemma sample_accept_sys:
  "sys_accept sample_sys 3 16 (sample_init\<lparr>so_open := [3]\<rparr>) =
     ((4, sample_addr, 16), sample_init\<lparr>so_open := [4, 3]\<rparr>)"
  by (simp add: sample_sys_def open_fresh_def fresh_fd_def)

lemma sample_accepted_Return: "fst sample_accepted = Return 10001"
  by (simp add: sample_accepted_def import_accept_def hs_get_def sample_accept_len sample_accept_sys
      denormalize_sockaddr_for_guest_def write_sockaddr_family_def u16_of_i32_def slice_to_def fill_def
      sample_addr_def length_sample_accept_memory write_guest_def checked_range_eq len_ok_def MAX_IO_LEN_def
      i32_of_usize_def write_u32_def hs_insert_def Let_def)

theorem accept_registers_witness:
  "hs_sockets (sockets (snd sample_accepted)) 10001 = Some \<lparr>raw_fd = 4, guest_domain = 1, host_domain = 2\<rparr> \<and>
   read_u32 (memory (snd sample_accepted)) 0 = Inr 16"
proof -
  have e: "import_accept sample_sys 10000 4 0 (sample_app sample_accept_memory) = (Return 10001, snd sample_accepted)"
    using sample_accepted_Return unfolding sample_accepted_def by (simp add: prod_eq_iff)
  from accept_registers [OF e, of "\<lparr>raw_fd = 3, guest_domain = 1, host_domain = 2\<rparr>" 16]
  show ?thesis by (simp add: sample_accept_len sample_accept_sys)
qed

text \<open>
  C33: when the kernel reports an address longer than the guest's buffer, as \<open>accept(2)\<close> documents
  it does for a truncated address, the import panics instead of answering, and the accepted
  connection stays open outside the table.
\<close>

theorem accept_truncated_panics:
  assumes "hs_sockets (sockets st) fd = Some v" "read_u32 (memory st) lp = Inr n"
    "sys_accept sys (raw_fd v) n (os st) = ((raw, ws, m), s)" "0 \<le> sint raw" "unat n < unat m"
  shows "import_accept sys fd ap lp st = (Panic, st\<lparr>os := s\<rparr>)"
  using assms by (rule accept_truncated)

theorem accept_truncated_panics_witness:
  "fst (import_accept sample_sys 10000 4 0 (sample_app [4, 0, 0, 0, 0, 0, 0, 0])) = Panic"
proof -
  have l: "read_u32 (PlainMemory [4, 0, 0, 0, 0, 0, 0, 0]) 0 = Inr 4"
    by (simp add: read_u32_sample subslice_def)
  have k: "sys_accept sample_sys 3 4 (sample_init\<lparr>so_open := [3]\<rparr>) =
      ((4, sample_addr, 16), sample_init\<lparr>so_open := [4, 3]\<rparr>)"
    by (simp add: sample_sys_def open_fresh_def fresh_fd_def)
  show ?thesis
    using accept_truncated_panics [of "sample_app [4, 0, 0, 0, 0, 0, 0, 0]" 10000
        "\<lparr>raw_fd = 3, guest_domain = 1, host_domain = 2\<rparr>" 0 4 sample_sys 4 sample_addr 16
        "sample_init\<lparr>so_open := [4, 3]\<rparr>" 4]
    by (simp add: l k)
qed

text \<open>
  The data a successful \<open>recv\<close> leaves in the guest's buffer is what the kernel stored, as many
  bytes as the result says and no more than the guest asked for.
\<close>

theorem recv_delivers:
  assumes "import_recv sys fd bp len flags st = (Return r, st')" "0 \<le> sint r"
    "hs_sockets (sockets st) fd = Some v"
    "sys_recv sys (raw_fd v) (nat (sint len)) flags (os st) = ((rc, ws), s)" "unat rc \<le> length ws"
  shows "sint r = int (unat rc) \<and> unat rc \<le> nat (sint len) \<and> read_guest (memory st') bp r = Inr (take (unat rc) ws)"
proof -
  note r = recv_success [OF assms(1-4)]
  have "take (unat rc) (fill (replicate (nat (sint len)) 0) ws) = take (unat rc) ws"
    using assms(5) r(2) by (simp add: fill_def)
  with r show ?thesis by simp
qed

theorem recv_delivers_witness:
  "\<exists>st'. import_recv sample_sys 10000 1 8 0 (sample_app (replicate 10 0)) = (Return 3, st') \<and>
     read_guest (memory st') 1 3 = Inr [7, 8, 9]"
proof -
  let ?st = "sample_app (replicate 10 0)"
  have k: "sys_recv sample_sys 3 8 0 (sample_init\<lparr>so_open := [3]\<rparr>) = ((3, [7, 8, 9]), sample_init\<lparr>so_open := [3]\<rparr>)"
    by (simp add: sample_sys_def)
  have "fst (import_recv sample_sys 10000 1 8 0 ?st) = Return 3"
    by (simp add: import_recv_def hs_get_def k checked_len_eq len_ok_def MAX_IO_LEN_def fill_def slice_to_def
        write_guest_def checked_range_eq i32_of_usize_def Let_def)
  then have e: "import_recv sample_sys 10000 1 8 0 ?st = (Return 3, snd (import_recv sample_sys 10000 1 8 0 ?st))"
    by (simp add: prod_eq_iff)
  have "read_guest (memory (snd (import_recv sample_sys 10000 1 8 0 ?st))) 1 3 = Inr [7, 8, 9]"
    using recv_delivers [OF e, of "\<lparr>raw_fd = 3, guest_domain = 1, host_domain = 2\<rparr>" 3 "[7, 8, 9]"]
    by (simp add: k)
  with e show ?thesis by blast
qed

subsection \<open>Options, flags, addresses\<close>

text \<open>
  C34: asked for \<open>SO_ERROR\<close> on a socket without a pending error (the kernel stores 0), \<open>getsockopt\<close>
  tells the guest \<open>EIO\<close>: the code 0 is no host errno and falls into the default of the
  translation, although the guest takes any non-zero value for a failure.
\<close>

theorem so_error_none_reads_EIO:
  assumes "import_getsockopt sys fd level WASI_SO_ERROR vp lp st = (Return 0, st')"
    "hs_sockets (sockets st) fd = Some v" "is_guest_socket_level level" "read_u32 (memory st) lp = Inr 4"
    "sys_getsockopt sys (raw_fd v) (normalize_socket_level sys level) WASI_SO_ERROR 4 (os st)
       = ((rc, to_le_bytes 4 (0 :: i32), 4), s)"
    "0 \<le> sint rc" "sint vp + 4 \<le> sint lp \<or> sint lp + 4 \<le> sint vp" "0 \<notin> range (libc_err sys)"
  shows "read_u32 (memory st') vp = Inr EIO"
  using getsockopt_so_error_value [OF assms(1-7)] from_host_errno_unknown [OF assms(8)] by simp

theorem so_error_none_reads_EIO_witness:
  "\<exists>st'. import_getsockopt sample_sys 10000 1 WASI_SO_ERROR 4 0 (sample_app [4, 0, 0, 0, 1, 1, 1, 1]) = (Return 0, st') \<and>
     read_u32 (memory st') 4 = Inr EIO"
proof -
  let ?st = "sample_app [4, 0, 0, 0, 1, 1, 1, 1]"
  let ?call = "import_getsockopt sample_sys 10000 1 WASI_SO_ERROR 4 0 ?st"
  have z: "to_le_bytes 4 (0 :: i32) = [0, 0, 0, 0]" by (simp add: numeral_eq_Suc)
  have lvl: "is_guest_socket_level 1" by (simp add: is_guest_socket_level_def)
  have l: "read_u32 (PlainMemory [4, 0, 0, 0, 1, 1, 1, 1]) 0 = Inr 4"
    by (simp add: read_u32_sample subslice_def)
  have k: "sys_getsockopt sample_sys 3 lv WASI_SO_ERROR 4 s = ((0, [0, 0, 0, 0], 4), s)" for lv s
    by (simp add: sample_sys_def)
  have tr: "translate_so_error sample_sys [0, 0, 0, 0] = Some (to_le_bytes 4 EIO)"
    using translate_so_error_word [of sample_sys 0] from_host_errno_unknown [OF linux_errno_nonzero]
    by (simp add: z sample_sys_def)
  have "fst ?call = Return 0"
    by (simp add: import_getsockopt_def hs_get_def l k lvl tr fill_def slice_to_def write_guest_def write_u32_def
        checked_range_eq len_ok_def MAX_IO_LEN_def i32_of_usize_def Let_def)
  then have e: "?call = (Return 0, snd ?call)" by (simp add: prod_eq_iff)
  have "0 \<notin> range (libc_err sample_sys)" by (simp add: sample_sys_def linux_errno_nonzero)
  with so_error_none_reads_EIO [OF e, of "\<lparr>raw_fd = 3, guest_domain = 1, host_domain = 2\<rparr>" 0]
  have "read_u32 (memory (snd ?call)) 4 = Inr EIO" by (simp add: k l lvl z)
  with e show ?thesis by blast
qed

text \<open>
  What POSIX documents about the status flags of an open descriptor: \<open>F_GETFL\<close> returns them, as a
  value that is not negative; \<open>F_SETFL\<close> may fail and then changes nothing; when it succeeds it sets the
  flags of a mask \<open>settable\<close>, \<open>O_NONBLOCK\<close> among them, to those of its argument and ignores the other
  bits (the access mode, the creation flags).  \<open>live\<close> holds as long as the descriptor is open.
\<close>

definition fcntl_flags_law :: "'os unix_sys \<Rightarrow> i32 \<Rightarrow> ('os \<Rightarrow> bool) \<Rightarrow> ('os \<Rightarrow> i32) \<Rightarrow> i32 \<Rightarrow> bool" where
  "fcntl_flags_law sys raw live fl settable \<longleftrightarrow>
     libc sys L_O_NONBLOCK \<noteq> 0 \<and> libc sys L_O_NONBLOCK AND NOT settable = 0 \<and>
     (\<forall>s. live s \<longrightarrow> 0 \<le> sint (fl s) \<and> sys_fcntl sys raw (libc sys L_F_GETFL) None s = (fl s, s)) \<and>
     (\<forall>s x rc s'. live s \<and> sys_fcntl sys raw (libc sys L_F_SETFL) (Some x) s = (rc, s') \<longrightarrow> live s' \<and>
        (if sint rc < 0 then fl s' = fl s
         else fl s' AND settable = x AND settable \<and> fl s' AND NOT settable = fl s AND NOT settable))"

lemma setfl_keeps:
  fixes x y z m :: i32
  assumes "y AND m = z AND m" "y AND NOT m = x AND NOT m" "z AND NOT n = x AND NOT n" "n AND NOT m = 0"
  shows "y = z"
proof (rule bit_eqI)
  fix i
  from assms have "bit (y AND m) i = bit (z AND m) i" "bit (y AND NOT m) i = bit (x AND NOT m) i"
    "bit (z AND NOT n) i = bit (x AND NOT n) i" "bit (n AND NOT m) i = bit (0 :: i32) i" by simp_all
  then show "bit y i \<longleftrightarrow> bit z i" by (auto simp: bit_simps dest: bit_imp_le_length)
qed

text \<open>
  C27: after \<open>fcntl(F_SETFL, arg)\<close> on an open descriptor succeeds, the guest reads back with \<open>F_GETFL\<close>
  exactly whether it asked for \<open>O_NONBLOCK\<close>, in its own encoding, and no other status flag of the host
  descriptor has changed; if it fails, no flag has changed.
\<close>

theorem fcntl_setfl_getfl:
  assumes law: "fcntl_flags_law sys raw live fl settable" and live: "live s"
    and set: "socket_fcntl sys raw WASI_F_SETFL arg s = (r, s')"
  shows "(0 \<le> sint r \<longrightarrow>
      fst (socket_fcntl sys raw WASI_F_GETFL any s') = (if arg AND WASI_O_NONBLOCK \<noteq> 0 then WASI_O_NONBLOCK else 0) \<and>
      fl s' AND NOT (libc sys L_O_NONBLOCK) = fl s AND NOT (libc sys L_O_NONBLOCK)) \<and>
    (sint r < 0 \<longrightarrow> fl s' = fl s)"
proof -
  let ?x = "setfl_flags sys (fl s) arg" and ?nb = "libc sys L_O_NONBLOCK"
  have get: "sys_fcntl sys raw (libc sys L_F_GETFL) None u = (fl u, u)" "0 \<le> sint (fl u)" if "live u" for u
    using law that by (simp_all add: fcntl_flags_law_def)
  have nb: "?nb \<noteq> 0" "?nb AND NOT settable = 0" using law by (simp_all add: fcntl_flags_law_def)
  obtain rc s2 where st: "sys_fcntl sys raw (libc sys L_F_SETFL) (Some ?x) s = (rc, s2)" by (rule prod.exhaust)
  from socket_fcntl_setfl [OF get [OF live] st] set have r: "r = cvt_i32 sys s2 rc" "s' = s2" by simp_all
  from law live st have new: "live s'" "sint rc < 0 \<Longrightarrow> fl s' = fl s"
    "\<not> sint rc < 0 \<Longrightarrow> fl s' AND settable = ?x AND settable \<and> fl s' AND NOT settable = fl s AND NOT settable"
    unfolding fcntl_flags_law_def r(2) by (meson, metis, metis)
  have ok: "0 \<le> sint r \<longleftrightarrow> \<not> sint rc < 0"
    by (simp add: r cvt_i32_def not_le)
  have "fl s' = ?x" if "\<not> sint rc < 0"
    using new(3) [OF that] nb(2) setfl_flags_other [of sys "fl s" arg] by (blast intro: setfl_keeps)
  moreover have "fst (socket_fcntl sys raw WASI_F_GETFL any s') = (if fl s' AND ?nb \<noteq> 0 then WASI_O_NONBLOCK else 0)"
    by (simp only: socket_fcntl_getfl [OF get [OF new(1)]] fst_conv)
  ultimately show ?thesis
    using ok nb(1) new(2) setfl_flags_nonblock [of sys "fl s" arg] setfl_flags_other [of sys "fl s" arg] by (metis not_le)
qed

lemma sample_flags_law: "fcntl_flags_law sample_sys 3 (\<lambda>s. \<not> bit (so_flags s 3) 31) (\<lambda>s. so_flags s 3) 0x800"
proof -
  have sign: "0 \<le> sint x \<longleftrightarrow> \<not> bit x 31" for x :: i32 using bit_last_iff [of x] by (simp add: not_less)
  have [simp]: "\<not> bit (2048 :: i32) 31" by simp
  have "(a AND NOT 2048 OR x AND 2048) AND 2048 = x AND 2048"
    "(a AND NOT 2048 OR x AND 2048) AND NOT 2048 = a AND NOT 2048" for a x :: i32
    by (auto simp: bit_eq_iff bit_simps)
  then show ?thesis by (auto simp: fcntl_flags_law_def sample_sys_def sample_fcntl_def sign bit_simps)
qed

theorem fcntl_setfl_getfl_witness:
  "fst (socket_fcntl sample_sys 3 WASI_F_GETFL 0 (snd (socket_fcntl sample_sys 3 WASI_F_SETFL 4 sample_init))) = 4"
proof -
  let ?c = "socket_fcntl sample_sys 3 WASI_F_SETFL 4 sample_init"
  have c: "?c = (fst ?c, snd ?c)" by simp
  have l: "\<not> bit (so_flags sample_init 3) 31" by (simp add: sample_init_def)
  have "0 \<le> sint (fst ?c)"
    by (simp add: socket_fcntl_def WASI_F_GETFL_def WASI_F_SETFL_def sample_sys_def sample_fcntl_def sample_init_def
        cvt_i32_def Let_def)
  with fcntl_setfl_getfl [OF sample_flags_law l c, of 0] show ?thesis by (simp add: WASI_O_NONBLOCK_def)
qed

text \<open>
  The address the host passes on carries the host's family and the guest's bytes otherwise, and
  turning a host address back gives the guest's family: for an address whose family is the
  guest's, both conversions together are the identity.
\<close>

theorem sockaddr_round_trip:
  assumes "2 \<le> length addr" "0 \<le> sint host_dom" "sint host_dom < 65536" "0 \<le> sint guest_dom" "sint guest_dom < 65536"
    "take 2 addr = to_le_bytes 2 (ucast guest_dom :: u16)"
  shows "length (normalize_sockaddr_for_host addr host_dom) = length addr \<and>
    drop 2 (normalize_sockaddr_for_host addr host_dom) = drop 2 addr \<and>
    ucast (from_le_bytes (take 2 (normalize_sockaddr_for_host addr host_dom)) :: u16) = host_dom \<and>
    denormalize_sockaddr_for_guest (normalize_sockaddr_for_host addr host_dom) guest_dom = addr"
proof -
  have u: "u16_of_i32 guest_dom = Some (ucast guest_dom)" using assms by (simp add: u16_of_i32_def)
  have "write_sockaddr_family addr guest_dom = take 2 addr @ drop 2 addr"
    using assms(1,6) u by (simp add: write_sockaddr_family_def overwrite_def numeral_2_eq_2)
  moreover have "denormalize_sockaddr_for_guest (normalize_sockaddr_for_host addr host_dom) guest_dom =
      write_sockaddr_family addr guest_dom"
    using u by (simp add: denormalize_sockaddr_for_guest_def normalize_sockaddr_for_host_def write_sockaddr_family_twice)
  ultimately show ?thesis
    using assms(1-3) by (simp add: normalize_sockaddr_for_host_def drop_write_sockaddr_family family_write_sockaddr_family)
qed

theorem sockaddr_round_trip_witness:
  "denormalize_sockaddr_for_guest (normalize_sockaddr_for_host [1, 0, 0x0c, 0xea, 127, 0, 0, 1] 2) 1 =
     [1, 0, 0x0c, 0xea, 127, 0, 0, 1]"
  using sockaddr_round_trip [of "[1, 0, 0x0c, 0xea, 127, 0, 0, 1]" 2 1] by (simp add: numeral_2_eq_2)

subsection \<open>Polling\<close>

text \<open>
  C17: a successful \<open>poll\<close> asked the kernel for exactly the sockets and events of the guest's array,
  entry by entry (a negative descriptor stays as it is), and has stored the kernel's answer in the
  \<open>revents\<close> field of each entry and changed no other byte of the guest's memory, which is at most
  2 GiB large, so that no pointer of the array is negative.
\<close>

theorem poll_reports:
  assumes "import_poll sys p n t st = (Return r, st')" "0 \<le> sint r"
    "mem_view (memory st) = Some data" "length data \<le> 2147483648"
  shows "\<exists>host_fds stored s data'. sys_poll sys host_fds t (os st) = ((r, stored), s) \<and>
    list_all2 (poll_entry (sockets st))
      (chunks_exact8 (subslice data (nat (sint p)) (nat (sint p) + 8 * nat (sint n)))) host_fds \<and>
    length host_fds = nat (sint n) \<and> mem_view (memory st') = Some data' \<and> length data' = length data \<and>
    (\<forall>k < nat (sint n). from_le_bytes (subslice data' (nat (sint p) + 8 * k + 6) (nat (sint p) + 8 * k + 8)) =
       fill (map pfd_revents host_fds) stored ! k) \<and>
    (\<forall>j < length data. (\<forall>k < nat (sint n). j \<noteq> nat (sint p) + 8 * k + 6 \<and> j \<noteq> nat (sint p) + 8 * k + 7) \<longrightarrow>
       data' ! j = data ! j)"
proof -
  obtain host_fds stored s where
    r: "nat (sint p) + 8 * nat (sint n) \<le> length data" "length host_fds = nat (sint n)"
      "poll_host_fds (sockets st) (chunks_exact8 (subslice data (nat (sint p)) (nat (sint p) + 8 * nat (sint n)))) = Inr host_fds"
      "sys_poll sys host_fds t (os st) = ((r, stored), s)"
      "mem_view (memory st') = Some (store_revents data (nat (sint p)) (fill (map pfd_revents host_fds) stored))"
    using import_poll_Return [OF assms] by metis
  let ?rs = "fill (map pfd_revents host_fds) stored"
  let ?d = "store_revents data (nat (sint p)) ?rs"
  have fits: "nat (sint p) + 8 * length ?rs \<le> length data" using r by simp
  have in_ok: "from_le_bytes (subslice ?d (nat (sint p) + 8 * k + 6) (nat (sint p) + 8 * k + 8)) = ?rs ! k"
    if "k < nat (sint n)" for k
    using store_revents_inside [OF fits, of k] that r(2) by (simp add: from_to_le_bytes_word)
  have out_ok: "?d ! j = data ! j"
    if "j < length data" "\<forall>k < nat (sint n). j \<noteq> nat (sint p) + 8 * k + 6 \<and> j \<noteq> nat (sint p) + 8 * k + 7" for j
    using that r(2) by (intro store_revents_outside [OF fits]) auto
  show ?thesis
    by (intro exI [of _ host_fds] exI [of _ stored] exI [of _ s] exI [of _ ?d] conjI allI impI)
      (use r fits in_ok out_ok poll_host_fds_Inr [OF r(3)] in simp_all)
qed

theorem poll_reports_witness:
  "\<exists>st'. import_poll sample_sys 0 1 0 (sample_app [0x10, 0x27, 0, 0, 1, 0, 9, 9]) = (Return 1, st') \<and>
     (\<exists>data'. mem_view (memory st') = Some data' \<and> length data' = 8)"
proof -
  let ?st = "sample_app [0x10, 0x27, 0, 0, 1, 0, 9, 9]"
  let ?call = "import_poll sample_sys 0 1 0 ?st"
  have "fst ?call = Return 1"
    by (simp add: import_poll_def checked_poll_count_def usize_of_i32_def MAX_POLL_FDS_def read_guest_def checked_range_eq
        len_ok_def MAX_IO_LEN_def subslice_def hs_get_def sample_sys_def fill_def write_guest_def i32_of_usize_def
        Let_def sample_table_def)
  then have e: "?call = (Return 1, snd ?call)" by (simp add: prod_eq_iff)
  from poll_reports [OF e, of "[0x10, 0x27, 0, 0, 1, 0, 9, 9]"] have
    "\<exists>data'. mem_view (memory (snd ?call)) = Some data' \<and> length data' = 8" by auto
  with e show ?thesis by blast
qed

end
