(* ===== verification/Guest_Path.thy ===== *)
theory Guest_Path
  imports Guest_Errno "HOL-Library.Sublist"
begin

text \<open>
  Guest path names: \<open>normalize_guest_path\<close> and \<open>join_suffix\<close> of \<^verbatim>\<open>src/src/host_files.rs\<close>, over the parts of
  \<open>std::path\<close> they use.  A host \<open>PathBuf\<close> is its list of components, which is what \<open>Path\<close>'s own
  equality, \<open>starts_with\<close> and \<open>parent\<close> compare.  The abstract view of a guest path is whether it is
  absolute and its list of names; \<open>render\<close> prints it.
\<close>

subsection \<open>Host paths\<close>

datatype path_component = RootDir | CurDir | ParentDir | Normal string

type_synonym host_path = "path_component list"

definition component_of :: "string \<Rightarrow> path_component" where
  "component_of s = (if s = ''..'' then ParentDir else Normal s)"

text \<open>\<open>PathBuf::from(s)\<close> on Unix.\<close>

definition path_from :: "string \<Rightarrow> host_path" where
  "path_from s =
     (let parts = split_on (CHR ''/'') s;
          front = (if starts_with s ''/'' then [RootDir]
                   else if take 1 parts = [''.''] then [CurDir] else [])
      in front @ map component_of (filter (\<lambda>p. p \<noteq> [] \<and> p \<noteq> ''.'') parts))"

text \<open>\<open>path.push(name)\<close> for a name without separators that is neither empty nor \<open>.\<close>.\<close>

definition path_push :: "host_path \<Rightarrow> string \<Rightarrow> host_path" where
  "path_push path name = path @ [component_of name]"

text \<open>\<open>path.parent()\<close>.\<close>

definition path_parent :: "host_path \<Rightarrow> host_path option" where
  "path_parent path = (if path = [] \<or> last path = RootDir then None else Some (butlast path))"

definition path_starts_with :: "host_path \<Rightarrow> host_path \<Rightarrow> bool" where
  "path_starts_with path base = prefix base path"

subsection \<open>The functions of the source\<close>

text \<open>The loop of \<open>normalize_guest_path\<close> over the pieces between slashes.\<close>

fun normalize_parts :: "string list \<Rightarrow> string list \<Rightarrow> string list errno_result" where
  "normalize_parts [] parts = Inr parts"
| "normalize_parts (part # rest) parts =
     (if part = '''' \<or> part = ''.'' then normalize_parts rest parts
      else if part = ''..'' then
        (if parts = [] then Inl ENOTCAPABLE else normalize_parts rest (butlast parts))
      else normalize_parts rest (parts @ [part]))"

definition normalize_guest_path :: "string \<Rightarrow> string errno_result" where
  "normalize_guest_path path =
     (if path = '''' then Inl ENOENT
      else
        (let absolute = starts_with path ''/''
         in case normalize_parts (split_on (CHR ''/'') path) [] of
              Inl e \<Rightarrow> Inl e
            | Inr parts \<Rightarrow>
               (let joined = join_with ''/'' parts
                in if absolute then (if joined = '''' then Inr ''/'' else Inr (CHR ''/'' # joined))
                   else if joined = '''' then Inr ''.''
                   else Inr joined)))"

definition join_suffix :: "host_path \<Rightarrow> string \<Rightarrow> host_path" where
  "join_suffix root sfx =
     fold (\<lambda>component path. if component \<noteq> '''' \<and> component \<noteq> ''.'' then path_push path component else path)
       (split_on (CHR ''/'') sfx) root"

subsection \<open>Splitting and joining\<close>

lemma split_on_not_Nil [simp]: "split_on c s \<noteq> []"
  by (induction s) (auto split: list.split)

lemma split_on_no_sep: "p \<in> set (split_on c s) \<Longrightarrow> c \<notin> set p"
  by (induction s arbitrary: p) (auto split: list.splits if_splits)

lemma split_on_single: "c \<notin> set s \<Longrightarrow> split_on c s = [s]"
  by (induction s) auto

lemma split_on_append: "split_on c (a @ c # b) = split_on c a @ split_on c b"
  by (induction a) (auto split: list.split)

lemma split_on_prefix: "c \<notin> set p \<Longrightarrow> split_on c (p @ c # s) = p # split_on c s"
  by (simp add: split_on_append split_on_single)

lemma split_on_join:
  "ps \<noteq> [] \<Longrightarrow> (\<And>p. p \<in> set ps \<Longrightarrow> c \<notin> set p) \<Longrightarrow> split_on c (join_with [c] ps) = ps"
  by (induction "[c]" ps rule: join_with.induct) (simp_all add: split_on_single split_on_prefix)

lemma join_with_Nil_iff: "(\<And>p. p \<in> set ps \<Longrightarrow> p \<noteq> []) \<Longrightarrow> join_with sep ps = [] \<longleftrightarrow> ps = []"
  by (induction sep ps rule: join_with.induct) auto

lemma join_with_append:
  "ps \<noteq> [] \<Longrightarrow> qs \<noteq> [] \<Longrightarrow> join_with sep (ps @ qs) = join_with sep ps @ sep @ join_with sep qs"
proof (induction sep ps rule: join_with.induct)
  case (2 sep p)
  then show ?case by (cases qs) auto
qed auto

subsection \<open>Names and normal forms\<close>

definition good_name :: "string \<Rightarrow> bool" where
  "good_name p \<longleftrightarrow> p \<noteq> '''' \<and> p \<noteq> ''.'' \<and> p \<noteq> ''..'' \<and> CHR ''/'' \<notin> set p"

fun render :: "bool \<Rightarrow> string list \<Rightarrow> string" where
  "render absolute [] = (if absolute then ''/'' else ''.'')"
| "render absolute ps = (if absolute then CHR ''/'' # join_with ''/'' ps else join_with ''/'' ps)"

lemma normalize_parts_good:
  "normalize_parts ps acc = Inr rs \<Longrightarrow> \<forall>p \<in> set ps. CHR ''/'' \<notin> set p \<Longrightarrow>
   list_all good_name acc \<Longrightarrow> list_all good_name rs"
proof (induction ps acc rule: normalize_parts.induct)
  case (2 part rest parts)
  have "list_all good_name (butlast parts)"
    using "2.prems"(3) by (auto simp: list_all_iff dest: in_set_butlastD)
  moreover have "good_name part" if "part \<noteq> ''''" "part \<noteq> ''.''" "part \<noteq> ''..''"
    using that "2.prems"(2) by (simp add: good_name_def)
  ultimately show ?case using 2 by (simp split: if_splits)
qed simp

lemma normalize_parts_id:
  "list_all good_name ps \<Longrightarrow> normalize_parts ps acc = Inr (acc @ ps)"
  by (induction ps arbitrary: acc) (auto simp: good_name_def)

lemma normalize_parts_Inl: "normalize_parts ps acc = Inl e \<Longrightarrow> e = ENOTCAPABLE"
  by (induction ps acc rule: normalize_parts.induct) (auto split: if_splits)

lemma normalize_guest_path_Inl: "normalize_guest_path path = Inl e \<Longrightarrow> e = ENOENT \<or> e = ENOTCAPABLE"
  by (auto simp: normalize_guest_path_def Let_def split: if_splits sum.splits dest: normalize_parts_Inl)

lemma good_names_join: "list_all good_name ps \<Longrightarrow> join_with ''/'' ps = '''' \<longleftrightarrow> ps = []"
  by (rule join_with_Nil_iff) (auto simp: list_all_iff good_name_def)

lemma normalize_guest_path_render:
  assumes "normalize_guest_path path = Inr s"
  obtains ps where "list_all good_name ps" "s = render (starts_with path ''/'') ps"
    "normalize_parts (split_on (CHR ''/'') path) [] = Inr ps"
proof -
  from assms obtain ps where ps: "normalize_parts (split_on (CHR ''/'') path) [] = Inr ps"
    by (auto simp: normalize_guest_path_def Let_def split: if_splits sum.splits)
  have "CHR ''/'' \<notin> set p" if "p \<in> set (split_on (CHR ''/'') path)" for p
    using that by (rule split_on_no_sep)
  then have good: "list_all good_name ps" by (intro normalize_parts_good [OF ps]) auto
  with assms ps have "s = render (starts_with path ''/'') ps"
    by (cases ps) (auto simp: normalize_guest_path_def Let_def good_names_join split: if_splits)
  with good ps that show thesis by blast
qed

lemma join_not_slash: "list_all good_name ps \<Longrightarrow> ps \<noteq> [] \<Longrightarrow> \<exists>c cs. join_with ''/'' ps = c # cs \<and> c \<noteq> CHR ''/''"
proof (cases ps)
  case (Cons p qs)
  assume "list_all good_name ps"
  with Cons obtain c cs where "p = c # cs" "c \<noteq> CHR ''/''" by (cases p) (auto simp: good_name_def)
  with Cons show ?thesis by (cases qs) auto
qed simp

lemma starts_with_render: "list_all good_name ps \<Longrightarrow> starts_with (render absolute ps) ''/'' = absolute"
  using join_not_slash [of ps] by (cases ps; cases absolute) (auto simp: starts_with_def)

lemma good_no_slash: "list_all good_name ps \<Longrightarrow> p \<in> set ps \<Longrightarrow> CHR ''/'' \<notin> set p"
  by (auto simp: list_all_iff good_name_def)

lemma split_render:
  "list_all good_name ps \<Longrightarrow> normalize_parts (split_on (CHR ''/'') (render absolute ps)) [] = Inr ps"
proof (cases ps)
  case Nil
  then show ?thesis by (cases absolute) simp_all
next
  case (Cons p qs)
  assume good: "list_all good_name ps"
  have "split_on (CHR ''/'') (join_with ''/'' ps) = ps"
    using good_no_slash [OF good] Cons by (intro split_on_join) blast+
  with Cons good normalize_parts_id [OF good, of "[]"] show ?thesis by (cases absolute) auto
qed

lemma normalize_render:
  assumes "list_all good_name ps"
  shows "normalize_guest_path (render absolute ps) = Inr (render absolute ps)"
proof -
  have ne: "render absolute ps \<noteq> ''''"
    using join_not_slash [OF assms] by (cases ps) auto
  show ?thesis
    using ne split_render [OF assms, of absolute] starts_with_render [OF assms, of absolute]
      good_names_join [OF assms]
    by (cases ps) (auto simp: normalize_guest_path_def)
qed

subsection \<open>Paths that leave the guest root\<close>

text \<open>How deep the pieces of a path lead below the directory it starts from.\<close>

definition part_depth :: "string \<Rightarrow> int" where
  "part_depth part = (if part = '''' \<or> part = ''.'' then 0 else if part = ''..'' then -1 else 1)"

definition depth :: "string list \<Rightarrow> int" where
  "depth parts = sum_list (map part_depth parts)"

lemma depth_simps [simp]: "depth [] = 0" "depth (p # ps) = part_depth p + depth ps"
  by (simp_all add: depth_def)

definition escapes :: "nat \<Rightarrow> string list \<Rightarrow> bool" where
  "escapes n ps \<longleftrightarrow> (\<exists>k \<le> length ps. int n + depth (take k ps) < 0)"

lemma escapes_Nil [simp]: "\<not> escapes n []"
  by (simp add: escapes_def)

lemma escapes_Cons: "escapes n (p # ps) \<longleftrightarrow> int n + part_depth p < 0 \<or> escapes (nat (int n + part_depth p)) ps"
proof (cases "int n + part_depth p < 0")
  case True
  then show ?thesis by (auto simp: escapes_def intro!: exI [of _ "Suc 0"])
next
  case False
  have "escapes n (p # ps) \<longleftrightarrow> (\<exists>k \<le> length ps. int n + part_depth p + depth (take k ps) < 0)"
  proof
    assume "escapes n (p # ps)"
    then obtain k where k: "k \<le> length (p # ps)" "int n + depth (take k (p # ps)) < 0"
      by (auto simp: escapes_def)
    then obtain j where "k = Suc j" by (cases k) auto
    with k show "\<exists>k \<le> length ps. int n + part_depth p + depth (take k ps) < 0"
      by (auto simp: add.assoc)
  next
    assume "\<exists>k \<le> length ps. int n + part_depth p + depth (take k ps) < 0"
    then obtain k where "k \<le> length ps" "int n + part_depth p + depth (take k ps) < 0" by blast
    then show "escapes n (p # ps)"
      unfolding escapes_def by (intro exI [of _ "Suc k"]) (auto simp: add.assoc)
  qed
  with False show ?thesis by (simp add: escapes_def)
qed

lemma normalize_parts_escapes:
  "normalize_parts ps acc = Inl ENOTCAPABLE \<longleftrightarrow> escapes (length acc) ps"
proof (induction ps acc rule: normalize_parts.induct)
  case (2 part rest parts)
  have "nat (int (length parts) - 1) = length (butlast parts)" by simp
  with 2 show ?case by (auto simp: escapes_Cons part_depth_def nat_add_distrib)
qed simp

end
