(* ===== verification/Cli.thy ===== *)
theory Cli
  imports Guest_Path
begin

text \<open>
  The command line of \<^verbatim>\<open>src/src/main.rs\<close>: the options record, the parsers of \<^verbatim>\<open>--preopen\<close> and
  \<^verbatim>\<open>--env\<close> values and the exit status.  The split of the arguments into options is done by the
  \<open>clap\<close> crate; its result, a \<open>cli\<close> record, is where the model starts.
\<close>

record preopen =
  pre_host :: host_path
  pre_guest :: string

record env_pair =
  env_key :: string
  env_value :: string

record cli =
  show_embedded_source :: bool
  no_default_preopen :: bool
  no_inherit_env :: bool
  no_network :: bool
  preopens :: "preopen list"
  env :: "env_pair list"
  guest_args :: "string list"

text \<open>\<open>Preopen::from_str\<close> and \<open>EnvPair::from_str\<close>; the left values are the source's messages.\<close>

definition preopen_from_str :: "string \<Rightarrow> string + preopen" where
  "preopen_from_str s =
     (case split_once (CHR ''='') s of
        None \<Rightarrow> Inl ''expected HOST=GUEST''
      | Some (host, guest) \<Rightarrow>
         if host = '''' then Inl ''host path cannot be empty''
         else if guest = '''' then Inl ''guest path cannot be empty''
         else Inr \<lparr>pre_host = path_from host, pre_guest = guest\<rparr>)"

definition env_pair_from_str :: "string \<Rightarrow> string + env_pair" where
  "env_pair_from_str s =
     (case split_once (CHR ''='') s of
        None \<Rightarrow> Inl ''expected KEY=VALUE''
      | Some (key, val) \<Rightarrow>
         if key = '''' then Inl ''environment key cannot be empty''
         else Inr \<lparr>env_key = key, env_value = val\<rparr>)"

text \<open>\<open>ExitCode::SUCCESS\<close> is 0, \<open>ExitCode::FAILURE\<close> is 1; \<open>u8::try_from\<close> fails outside \<open>0..255\<close>.\<close>

definition exit_code_from_i32 :: "i32 \<Rightarrow> u8" where
  "exit_code_from_i32 status =
     (if status = 0 then 0
      else case (if 0 \<le> sint status \<and> sint status < 256 then Some (ucast status :: u8) else None) of
        Some code \<Rightarrow> if code \<noteq> 0 then code else 1
      | None \<Rightarrow> 1)"

subsection \<open>Facts\<close>

lemma split_once_Some:
  "split_once c s = Some (l, r) \<longleftrightarrow> s = l @ c # r \<and> c \<notin> set l"
proof (induction s arbitrary: l)
  case (Cons x xs)
  then show ?case by (cases l) auto
qed simp

lemma split_once_None: "split_once c s = None \<longleftrightarrow> c \<notin> set s"
  by (induction s) auto

lemma preopen_from_str_Inr:
  "preopen_from_str s = Inr p \<longleftrightarrow>
     (\<exists>host guest. s = host @ ''='' @ guest \<and> CHR ''='' \<notin> set host \<and> host \<noteq> '''' \<and> guest \<noteq> '''' \<and>
        p = \<lparr>pre_host = path_from host, pre_guest = guest\<rparr>)" (is "_ = ?R")
proof -
  have "preopen_from_str s = Inr p \<longleftrightarrow>
      (\<exists>host guest. split_once (CHR ''='') s = Some (host, guest) \<and> host \<noteq> '''' \<and> guest \<noteq> '''' \<and>
        p = \<lparr>pre_host = path_from host, pre_guest = guest\<rparr>)"
    by (auto simp: preopen_from_str_def split: option.splits if_splits)
  also have "\<dots> \<longleftrightarrow> ?R" by (auto simp: split_once_Some)
  finally show ?thesis .
qed

lemma env_pair_from_str_Inr:
  "env_pair_from_str s = Inr p \<longleftrightarrow>
     s = env_key p @ ''='' @ env_value p \<and> CHR ''='' \<notin> set (env_key p) \<and> env_key p \<noteq> ''''" (is "_ = ?R")
proof -
  have "env_pair_from_str s = Inr p \<longleftrightarrow>
      split_once (CHR ''='') s = Some (env_key p, env_value p) \<and> env_key p \<noteq> ''''"
    by (cases p) (auto simp: env_pair_from_str_def split: option.splits if_splits)
  also have "\<dots> \<longleftrightarrow> ?R" by (auto simp: split_once_Some)
  finally show ?thesis .
qed

lemma ucast_u8_sint:
  assumes "0 \<le> sint (x :: i32)" "sint x < 256"
  shows "unat (ucast x :: u8) = nat (sint x)"
proof -
  have "x = of_nat (nat (sint x))" "nat (sint x) < 256" using assms by simp_all
  then obtain n where n: "x = of_nat n" "n < 256" by blast
  then have "sint x = int n" by (simp add: sint_i32_of_nat)
  with n show ?thesis by (simp add: unsigned_of_nat take_bit_nat_eq_self)
qed

lemma exit_code_eq:
  "unat (exit_code_from_i32 status) = (if 0 \<le> sint status \<and> sint status < 256 then nat (sint status) else 1)"
proof (cases "status = 0")
  case True
  then show ?thesis by (simp add: exit_code_from_i32_def)
next
  case False
  then have "sint status \<noteq> 0" by (simp add: i32_eq_iff_sint)
  with False show ?thesis
    using ucast_u8_sint [of status] by (auto simp: exit_code_from_i32_def unat_eq_zero [symmetric])
qed

end
