(* ===== verification/Host_Files.thy ===== *)
theory Host_Files
  imports Unix_Platform Cli Fd_Table
begin

text \<open>
  \<open>HostFiles\<close> of \<^verbatim>\<open>src/src/host_files.rs\<close> on Unix: the table of open host files behind its mutex, the
  mapping of guest paths to host paths through the preopened directories, and the operations the
  imports call.  \<open>std::fs\<close> and the \<open>fcntl\<close> lock are a parameter, a record of functions over the
  state of the operating system; an open \<open>File\<close> is a handle of a type \<open>'h\<close>, and dropping it is
  \<open>fs_close\<close>.
\<close>

subsection \<open>The file system below\<close>

text \<open>\<open>std::io::Error\<close>: with the code of the operating system, or without one.\<close>

datatype io_error = OsError i32 | OtherError

fun raw_os_error :: "io_error \<Rightarrow> i32 option" where
  "raw_os_error (OsError code) = Some code"
| "raw_os_error OtherError = None"

record open_options =
  oo_read :: bool
  oo_write :: bool
  oo_append :: bool
  oo_truncate :: bool
  oo_create :: bool
  oo_create_new :: bool

text \<open>\<open>OpenOptions::new()\<close>.\<close>

definition oo_new :: open_options where
  "oo_new = \<lparr>oo_read = False, oo_write = False, oo_append = False, oo_truncate = False,
             oo_create = False, oo_create_new = False\<rparr>"

datatype seek_from = SeekStart u64 | SeekCurrent i64 | SeekEnd i64

record flock =
  l_type :: i16
  l_whence :: i16
  l_start :: i64
  l_len :: i64
  l_pid :: i32

record ('h, 'os) fs_sys =
  fs_current_dir :: "'os \<Rightarrow> io_error + host_path"
  fs_open :: "open_options \<Rightarrow> host_path \<Rightarrow> 'os \<Rightarrow> (io_error + 'h) \<times> 'os"
  fs_close :: "'h \<Rightarrow> 'os \<Rightarrow> 'os"
  fs_read_at :: "'h \<Rightarrow> usize \<Rightarrow> u64 \<Rightarrow> 'os \<Rightarrow> (io_error + usize \<times> bytes) \<times> 'os"
  fs_write_at :: "'h \<Rightarrow> bytes \<Rightarrow> u64 \<Rightarrow> 'os \<Rightarrow> (io_error + usize) \<times> 'os"
  fs_seek :: "'h \<Rightarrow> seek_from \<Rightarrow> 'os \<Rightarrow> (io_error + u64) \<times> 'os"
  fs_set_len :: "'h \<Rightarrow> u64 \<Rightarrow> 'os \<Rightarrow> (io_error + unit) \<times> 'os"
  fs_sync_all :: "'h \<Rightarrow> 'os \<Rightarrow> (io_error + unit) \<times> 'os"
  fs_sync_data :: "'h \<Rightarrow> 'os \<Rightarrow> (io_error + unit) \<times> 'os"
  fs_as_raw_fd :: "'h \<Rightarrow> i32"
  fs_fcntl_lock :: "i32 \<Rightarrow> i32 \<Rightarrow> flock \<Rightarrow> 'os \<Rightarrow> i32 \<times> 'os"

subsection \<open>The state\<close>

definition GUEST_FD_BASE :: i32 where
  "GUEST_FD_BASE = 20000"

definition WASI_O_APPEND :: i32 where
  "WASI_O_APPEND = 0x0001"
definition WASI_O_CREAT :: i32 where
  "WASI_O_CREAT = push_bit 12 0x0001"
definition WASI_O_DIRECTORY :: i32 where
  "WASI_O_DIRECTORY = push_bit 12 0x0002"
definition WASI_O_EXCL :: i32 where
  "WASI_O_EXCL = push_bit 12 0x0004"
definition WASI_O_TRUNC :: i32 where
  "WASI_O_TRUNC = push_bit 12 0x0008"
definition WASI_O_RDONLY :: i32 where
  "WASI_O_RDONLY = 0x04000000"
definition WASI_O_WRONLY :: i32 where
  "WASI_O_WRONLY = 0x10000000"

lemmas wasi_open_flags =
  WASI_O_APPEND_def WASI_O_CREAT_def WASI_O_DIRECTORY_def WASI_O_EXCL_def WASI_O_TRUNC_def
  WASI_O_RDONLY_def WASI_O_WRONLY_def

record preopen_mapping =
  pm_guest :: string
  pm_host :: host_path

record 'h host_files =
  hf_next_fd :: i32
  hf_files :: "i32 \<rightharpoonup> 'h"
  hf_preopens :: "preopen_mapping list"

definition io_errno :: "'os unix_sys \<Rightarrow> io_error \<Rightarrow> i32" where
  "io_errno sys err =
     (case raw_os_error err of None \<Rightarrow> EIO | Some code \<Rightarrow> from_host_errno (libc_err sys) code)"

definition io_error_from_errno :: "i32 \<Rightarrow> io_error" where
  "io_error_from_errno errno = OsError errno"

text \<open>The loop of \<open>HostFiles::new\<close> over \<open>cli.preopens\<close>.\<close>

fun hf_map_preopens :: "preopen list \<Rightarrow> preopen_mapping list \<Rightarrow> io_error + preopen_mapping list" where
  "hf_map_preopens [] acc = Inr acc"
| "hf_map_preopens (p # ps) acc =
     (case normalize_guest_path (pre_guest p) of
        Inl e \<Rightarrow> Inl (io_error_from_errno e)
      | Inr guest \<Rightarrow> hf_map_preopens ps (acc @ [\<lparr>pm_guest = guest, pm_host = pre_host p\<rparr>]))"

definition hf_new :: "cli \<Rightarrow> (io_error + host_path) \<Rightarrow> io_error + 'h host_files" where
  "hf_new cli current_dir =
     (let front = (if no_default_preopen cli then Inr []
                   else case current_dir of
                     Inl e \<Rightarrow> Inl e
                   | Inr cwd \<Rightarrow>
                      Inr [\<lparr>pm_guest = (case normalize_guest_path ''.'' of Inl _ \<Rightarrow> ''.'' | Inr g \<Rightarrow> g),
                            pm_host = cwd\<rparr>])
      in case front of
           Inl e \<Rightarrow> Inl e
         | Inr front \<Rightarrow>
            (case hf_map_preopens (preopens cli) front of
               Inl e \<Rightarrow> Inl e
             | Inr mapped \<Rightarrow>
                Inr \<lparr>hf_next_fd = GUEST_FD_BASE, hf_files = Map.empty,
                     hf_preopens = sort_key (\<lambda>p. - int (length (pm_guest p))) mapped\<rparr>))"

subsection \<open>From guest paths to host paths\<close>

text \<open>What one preopen makes of a normalized path: the suffix below it, \<open>None\<close> for \<open>continue\<close>.\<close>

definition preopen_suffix :: "string \<Rightarrow> string \<Rightarrow> string option" where
  "preopen_suffix guest normalized =
     (if guest = ''.'' \<and> \<not> starts_with normalized ''/'' then Some normalized
      else if guest = ''/'' then
        Some (if starts_with normalized ''/'' then drop 1 normalized else normalized)
      else if normalized = guest then Some ''''
      else if starts_with normalized guest \<and> length guest < length normalized \<and>
              normalized ! length guest = CHR ''/''
        then Some (drop (length guest + 1) normalized)
      else None)"

fun resolve_in :: "preopen_mapping list \<Rightarrow> string \<Rightarrow> host_path errno_result" where
  "resolve_in [] normalized = Inl ENOTCAPABLE"
| "resolve_in (p # ps) normalized =
     (case preopen_suffix (pm_guest p) normalized of
        Some sfx \<Rightarrow> Inr (join_suffix (pm_host p) sfx)
      | None \<Rightarrow> resolve_in ps normalized)"

definition hf_resolve :: "'h host_files \<Rightarrow> string \<Rightarrow> host_path errno_result" where
  "hf_resolve inner guest_path =
     (case normalize_guest_path guest_path of
        Inl e \<Rightarrow> Inl e
      | Inr normalized \<Rightarrow> resolve_in (hf_preopens inner) normalized)"

definition hf_resolve_parent :: "'h host_files \<Rightarrow> string \<Rightarrow> host_path errno_result" where
  "hf_resolve_parent inner guest_path =
     (case hf_resolve inner guest_path of
        Inl e \<Rightarrow> Inl e
      | Inr path \<Rightarrow>
         (case path_parent path of
            None \<Rightarrow> Inl EINVAL
          | Some parent \<Rightarrow>
             if list_ex (\<lambda>p. path_starts_with parent (pm_host p)) (hf_preopens inner)
             then Inr parent else Inl ENOTCAPABLE))"

subsection \<open>The table\<close>

definition hf_insert :: "'h host_files \<Rightarrow> 'h \<Rightarrow> i32 \<times> 'h host_files" where
  "hf_insert inner file =
     (let fd = hf_next_fd inner;
          inner = inner\<lparr>hf_next_fd := i32_saturating_succ (hf_next_fd inner)\<rparr>;
          inner = inner\<lparr>hf_files := (hf_files inner)(fd \<mapsto> file)\<rparr>
      in (fd, inner))"

definition hf_get :: "'h host_files \<Rightarrow> i32 \<Rightarrow> 'h errno_result" where
  "hf_get inner fd = (case hf_files inner fd of None \<Rightarrow> Inl EBADF | Some file \<Rightarrow> Inr file)"

definition hf_remove :: "'h host_files \<Rightarrow> i32 \<Rightarrow> ('h \<times> 'h host_files) errno_result" where
  "hf_remove inner fd =
     (case hf_files inner fd of
        None \<Rightarrow> Inl EBADF
      | Some file \<Rightarrow> Inr (file, inner\<lparr>hf_files := (hf_files inner)(fd := None)\<rparr>))"

text \<open>\<open>HashMap::insert\<close> returns the value it displaced, which is dropped at once.\<close>

definition fs_drop :: "('h, 'os) fs_sys \<Rightarrow> 'h option \<Rightarrow> 'os \<Rightarrow> 'os" where
  "fs_drop fs file s = (case file of None \<Rightarrow> s | Some h \<Rightarrow> fs_close fs h s)"

subsection \<open>The operations\<close>

text \<open>The options \<open>open\<close> builds from the guest's flags.\<close>

definition open_options_of :: "i32 \<Rightarrow> open_options" where
  "open_options_of flags =
     (let write = flags AND WASI_O_WRONLY \<noteq> 0;
          read = (flags AND WASI_O_RDONLY \<noteq> 0 \<or> \<not> write);
          create = flags AND WASI_O_CREAT \<noteq> 0;
          excl = flags AND WASI_O_EXCL \<noteq> 0;
          options = oo_new\<lparr>oo_read := read, oo_write := write\<rparr>;
          options = (if flags AND WASI_O_APPEND \<noteq> 0 then options\<lparr>oo_append := True\<rparr> else options);
          options = (if create \<and> excl then options\<lparr>oo_create_new := True\<rparr>
                     else if create then options\<lparr>oo_create := True\<rparr> else options);
          options = (if flags AND WASI_O_TRUNC \<noteq> 0 then options\<lparr>oo_truncate := True\<rparr> else options)
      in options)"

definition hf_open :: "'os unix_sys \<Rightarrow> ('h, 'os) fs_sys \<Rightarrow> 'h host_files \<Rightarrow> string \<Rightarrow> i32 \<Rightarrow> i32 \<Rightarrow> 'os \<Rightarrow>
    i32 \<times> 'h host_files \<times> 'os" where
  "hf_open sys fs inner guest_path flags mode s =
     (case hf_resolve inner guest_path of
        Inl e \<Rightarrow> (neg_errno e, inner, s)
      | Inr host_path \<Rightarrow>
         if flags AND WASI_O_DIRECTORY \<noteq> 0 then (neg_errno EISDIR, inner, s)
         else (case fs_open fs (open_options_of flags) host_path s of
             (Inl err, s) \<Rightarrow> (neg_errno (io_errno sys err), inner, s)
           | (Inr file, s) \<Rightarrow>
              (let displaced = hf_files inner (hf_next_fd inner);
                   (fd, inner) = hf_insert inner file
               in (fd, inner, fs_drop fs displaced s))))"

definition hf_close :: "('h, 'os) fs_sys \<Rightarrow> 'h host_files \<Rightarrow> i32 \<Rightarrow> 'os \<Rightarrow> i32 \<times> 'h host_files \<times> 'os" where
  "hf_close fs inner fd s =
     (case hf_remove inner fd of
        Inl e \<Rightarrow> (neg_errno e, inner, s)
      | Inr (file, inner) \<Rightarrow> (0, inner, fs_drop fs (Some file) s))"

text \<open>\<open>pread\<close> returns the count and the buffer as the operating system left it.\<close>

definition hf_pread :: "'os unix_sys \<Rightarrow> ('h, 'os) fs_sys \<Rightarrow> 'h host_files \<Rightarrow> i32 \<Rightarrow> bytes \<Rightarrow> u64 \<Rightarrow> 'os \<Rightarrow>
    (i32 \<times> bytes) \<times> 'os" where
  "hf_pread sys fs inner fd buf offset s =
     (case hf_get inner fd of
        Inl e \<Rightarrow> ((neg_errno e, buf), s)
      | Inr file \<Rightarrow>
         (case fs_read_at fs file (length buf) offset s of
            (Inl err, s) \<Rightarrow> ((neg_errno (io_errno sys err), buf), s)
          | (Inr (n, stored), s) \<Rightarrow>
             ((case i32_of_usize n of Some rc \<Rightarrow> rc | None \<Rightarrow> neg_errno EOVERFLOW, fill buf stored), s)))"

definition hf_pwrite :: "'os unix_sys \<Rightarrow> ('h, 'os) fs_sys \<Rightarrow> 'h host_files \<Rightarrow> i32 \<Rightarrow> bytes \<Rightarrow> u64 \<Rightarrow> 'os \<Rightarrow> i32 \<times> 'os" where
  "hf_pwrite sys fs inner fd buf offset s =
     (case hf_get inner fd of
        Inl e \<Rightarrow> (neg_errno e, s)
      | Inr file \<Rightarrow>
         (case fs_write_at fs file buf offset s of
            (Inl err, s) \<Rightarrow> (neg_errno (io_errno sys err), s)
          | (Inr n, s) \<Rightarrow> (case i32_of_usize n of Some rc \<Rightarrow> rc | None \<Rightarrow> neg_errno EOVERFLOW, s)))"

definition seek_from_whence :: "'os unix_sys \<Rightarrow> i64 \<Rightarrow> i32 \<Rightarrow> seek_from errno_result" where
  "seek_from_whence sys offset whence =
     (if whence = libc sys L_SEEK_SET then
        (case u64_of_i64 offset of Some n \<Rightarrow> Inr (SeekStart n) | None \<Rightarrow> Inl EINVAL)
      else if whence = libc sys L_SEEK_CUR then Inr (SeekCurrent offset)
      else if whence = libc sys L_SEEK_END then Inr (SeekEnd offset)
      else Inl EINVAL)"

definition hf_seek :: "'os unix_sys \<Rightarrow> ('h, 'os) fs_sys \<Rightarrow> 'h host_files \<Rightarrow> i32 \<Rightarrow> i64 \<Rightarrow> i32 \<Rightarrow> 'os \<Rightarrow> i64 \<times> 'os" where
  "hf_seek sys fs inner fd offset whence s =
     (case hf_get inner fd of
        Inl e \<Rightarrow> (scast (neg_errno e), s)
      | Inr file \<Rightarrow>
         (case seek_from_whence sys offset whence of
            Inl e \<Rightarrow> (scast (neg_errno e), s)
          | Inr target \<Rightarrow>
             (case fs_seek fs file target s of
                (Inr pos, s) \<Rightarrow>
                  (case i64_of_u64 pos of Some n \<Rightarrow> n | None \<Rightarrow> scast (neg_errno EOVERFLOW), s)
              | (Inl err, s) \<Rightarrow> (scast (neg_errno (io_errno sys err)), s))))"

text \<open>\<open>match result { Ok(()) => 0, Err(err) => neg_errno(io_errno(err)) }\<close>.\<close>

definition unit_reply :: "'os unix_sys \<Rightarrow> io_error + unit \<Rightarrow> i32" where
  "unit_reply sys res = (case res of Inl err \<Rightarrow> neg_errno (io_errno sys err) | Inr _ \<Rightarrow> 0)"

definition hf_truncate :: "'os unix_sys \<Rightarrow> ('h, 'os) fs_sys \<Rightarrow> 'h host_files \<Rightarrow> i32 \<Rightarrow> u64 \<Rightarrow> 'os \<Rightarrow> i32 \<times> 'os" where
  "hf_truncate sys fs inner fd new_size s =
     (case hf_get inner fd of
        Inl e \<Rightarrow> (neg_errno e, s)
      | Inr file \<Rightarrow> (let (res, s) = fs_set_len fs file new_size s in (unit_reply sys res, s)))"

definition hf_sync :: "'os unix_sys \<Rightarrow> ('h, 'os) fs_sys \<Rightarrow> 'h host_files \<Rightarrow> i32 \<Rightarrow> bool \<Rightarrow> 'os \<Rightarrow> i32 \<times> 'os" where
  "hf_sync sys fs inner fd data_only s =
     (case hf_get inner fd of
        Inl e \<Rightarrow> (neg_errno e, s)
      | Inr file \<Rightarrow>
         (let (res, s) = (if data_only then fs_sync_data fs file s else fs_sync_all fs file s)
          in (unit_reply sys res, s)))"

text \<open>\<open>File::open(parent)\<close> opens for reading; the directory handle is dropped after the sync.\<close>

definition hf_sync_parent :: "'os unix_sys \<Rightarrow> ('h, 'os) fs_sys \<Rightarrow> 'h host_files \<Rightarrow> string \<Rightarrow> 'os \<Rightarrow> i32 \<times> 'os" where
  "hf_sync_parent sys fs inner guest_path s =
     (case hf_resolve_parent inner guest_path of
        Inl e \<Rightarrow> (neg_errno e, s)
      | Inr parent \<Rightarrow>
         (case fs_open fs (oo_new\<lparr>oo_read := True\<rparr>) parent s of
            (Inl err, s) \<Rightarrow> (neg_errno (io_errno sys err), s)
          | (Inr directory, s) \<Rightarrow>
             (let (res, s) = fs_sync_all fs directory s
              in (unit_reply sys res, fs_drop fs (Some directory) s))))"

definition whole_file_lock :: "'os unix_sys \<Rightarrow> flock" where
  "whole_file_lock sys =
     \<lparr>l_type = ucast (libc sys L_F_WRLCK), l_whence = ucast (libc sys L_SEEK_SET),
      l_start = 0, l_len = 0, l_pid = 0\<rparr>"

definition hf_lock_exclusive :: "'os unix_sys \<Rightarrow> ('h, 'os) fs_sys \<Rightarrow> 'h host_files \<Rightarrow> i32 \<Rightarrow> 'os \<Rightarrow> i32 \<times> 'os" where
  "hf_lock_exclusive sys fs inner fd s =
     (case hf_get inner fd of
        Inl e \<Rightarrow> (neg_errno e, s)
      | Inr file \<Rightarrow>
         (let (rc, s) = fs_fcntl_lock fs (fs_as_raw_fd fs file) (libc sys L_F_SETLK) (whole_file_lock sys) s
          in if rc = 0 then (0, s) else (neg_errno (io_errno sys (OsError (sys_errno sys s))), s)))"

subsection \<open>Facts about the table\<close>

interpretation filet: fd_table GUEST_FD_BASE hf_next_fd hf_files hf_insert hf_get hf_remove
  by unfold_locales
    (auto simp: GUEST_FD_BASE_def hf_insert_def hf_get_def hf_remove_def Let_def)

definition files_wf :: "'h host_files \<Rightarrow> bool" where
  "files_wf t \<longleftrightarrow> fd_wf GUEST_FD_BASE (hf_next_fd t) (hf_files t)"

lemma filet_wf_iff: "filet.wf t = files_wf t"
  by (simp add: filet.wf_def files_wf_def)

lemma hf_insert_effect:
  "hf_insert t h = (fd, t') \<Longrightarrow>
     fd = hf_next_fd t \<and> hf_files t' = (hf_files t)(fd \<mapsto> h) \<and>
     hf_next_fd t' = i32_saturating_succ (hf_next_fd t) \<and> hf_preopens t' = hf_preopens t"
  by (auto simp: hf_insert_def Let_def)

lemma hf_remove_effect:
  "hf_remove t fd = Inr (h, t') \<Longrightarrow>
     hf_files t fd = Some h \<and> hf_files t' = (hf_files t)(fd := None) \<and>
     hf_next_fd t' = hf_next_fd t \<and> hf_preopens t' = hf_preopens t"
  by (auto simp: hf_remove_def split: option.splits)

lemma is_guest_io_errno [simp]: "is_guest_errno (io_errno sys err)"
  by (simp add: io_errno_def from_host_errno_range split: option.split)

end
