(* ===== verification/Path_Resolution.thy ===== *)
theory Path_Resolution
  imports Host_Files
begin

text \<open>
  The contract of path resolution.  A guest path is, after normalization, a flag (absolute or not)
  and a list of names; a preopen claims the paths below its own names.  \<open>resolve_spec\<close> says which
  host path that is, on lists of names alone; \<open>hf_resolve\<close>, which compares strings, refines it.
  Containment of every resolved path in a preopened directory follows.
\<close>

type_synonym guest_view = "bool \<times> string list"

fun view_ok :: "guest_view \<Rightarrow> bool" where
  "view_ok (a, ns) = list_all good_name ns"

fun preopen_match :: "guest_view \<Rightarrow> guest_view \<Rightarrow> string list option" where
  "preopen_match (ga, gs) (a, ns) =
     (if gs = [] then (if ga \<or> \<not> a then Some ns else None)
      else if ga = a \<and> prefix gs ns then Some (drop (length gs) ns) else None)"

text \<open>The names of a guest path, walking up on \<open>..\<close>; \<open>None\<close> when it leaves its root.\<close>

definition guest_view :: "string \<Rightarrow> guest_view option" where
  "guest_view path =
     (case normalize_parts (split_on (CHR ''/'') path) [] of
        Inl _ \<Rightarrow> None | Inr ns \<Rightarrow> Some (starts_with path ''/'', ns))"

fun resolve_spec :: "(guest_view \<times> host_path) list \<Rightarrow> guest_view \<Rightarrow> host_path option" where
  "resolve_spec [] v = None"
| "resolve_spec ((g, host) # ps) v =
     (case preopen_match g v of Some ns \<Rightarrow> Some (host @ map Normal ns) | None \<Rightarrow> resolve_spec ps v)"

text \<open>The preopens of a file table, by their guest views.\<close>

definition preopen_view :: "preopen_mapping \<Rightarrow> guest_view \<times> host_path" where
  "preopen_view p = (the (guest_view (pm_guest p)), pm_host p)"

definition preopens_ok :: "preopen_mapping list \<Rightarrow> bool" where
  "preopens_ok ps \<longleftrightarrow> list_all (\<lambda>p. normalize_guest_path (pm_guest p) = Inr (pm_guest p)) ps"

subsection \<open>Names of a suffix\<close>

definition names_of :: "string \<Rightarrow> string list" where
  "names_of s = filter (\<lambda>c. c \<noteq> '''' \<and> c \<noteq> ''.'') (split_on (CHR ''/'') s)"

lemma join_suffix_eq: "join_suffix root s = root @ map component_of (names_of s)"
proof -
  have "fold (\<lambda>component path. if component \<noteq> '''' \<and> component \<noteq> ''.'' then path_push path component else path) cs r
      = r @ map component_of (filter (\<lambda>c. c \<noteq> '''' \<and> c \<noteq> ''.'') cs)" for cs r
    by (induction cs arbitrary: r) (auto simp: path_push_def)
  then show ?thesis by (simp add: join_suffix_def names_of_def)
qed

lemma good_name_component: "good_name n \<Longrightarrow> component_of n = Normal n"
  by (simp add: good_name_def component_of_def)

lemma map_component_good: "list_all good_name ns \<Longrightarrow> map component_of ns = map Normal ns"
  by (simp add: list_all_iff good_name_component)

lemma filter_good: "list_all good_name ns \<Longrightarrow> filter (\<lambda>c. c \<noteq> '''' \<and> c \<noteq> ''.'') ns = ns"
  by (auto simp: list_all_iff good_name_def filter_id_conv)

subsection \<open>Rendered views\<close>

lemma split_join_good:
  "list_all good_name ns \<Longrightarrow> ns \<noteq> [] \<Longrightarrow> split_on (CHR ''/'') (join_with ''/'' ns) = ns"
  using good_no_slash by (intro split_on_join) blast+

lemma split_on_render:
  "list_all good_name ns \<Longrightarrow>
   split_on (CHR ''/'') (render a ns) =
     (if a then [''''] else []) @ (if ns = [] then [if a then '''' else ''.''] else ns)"
proof (cases ns)
  case (Cons n ms)
  assume "list_all good_name ns"
  with Cons have "split_on (CHR ''/'') (join_with ''/'' (n # ms)) = n # ms"
    by (intro split_join_good) auto
  with Cons show ?thesis by simp
qed simp

lemma names_of_render: "list_all good_name ns \<Longrightarrow> names_of (render a ns) = ns"
  by (simp add: names_of_def split_on_render filter_good)

lemma names_of_tl_render: "list_all good_name ns \<Longrightarrow> names_of (drop 1 (render True ns)) = ns"
proof (cases ns)
  case Nil
  then show ?thesis by (simp add: names_of_def)
next
  case (Cons n ms)
  assume "list_all good_name ns"
  with Cons show ?thesis
    using split_join_good [of ns] filter_good [of ns] by (simp add: names_of_def)
qed

lemma render_eq_dot: "list_all good_name gs \<Longrightarrow> render ga gs = ''.'' \<longleftrightarrow> gs = [] \<and> \<not> ga"
  using names_of_render [of gs ga] starts_with_render [of gs ga]
  by (cases gs; cases ga) (auto simp: names_of_def starts_with_def)

lemma render_eq_slash: "list_all good_name gs \<Longrightarrow> render ga gs = ''/'' \<longleftrightarrow> gs = [] \<and> ga"
  using names_of_render [of gs ga] starts_with_render [of gs ga]
  by (cases gs; cases ga) (auto simp: names_of_def starts_with_def)

lemma render_inj:
  assumes "list_all good_name gs" "list_all good_name ns" "render ga gs = render a ns"
  shows "ga = a \<and> gs = ns"
  using assms names_of_render starts_with_render by metis

lemma render_append:
  "gs \<noteq> [] \<Longrightarrow> rs \<noteq> [] \<Longrightarrow> render a (gs @ rs) = render a gs @ ''/'' @ join_with ''/'' rs"
  using join_with_append [of gs rs "''/''"] by (cases gs) auto

lemma render_below:
  assumes good: "list_all good_name gs" "list_all good_name ns" and ne: "gs \<noteq> []"
    and r: "render a ns = render ga gs @ CHR ''/'' # r"
  shows "ga = a \<and> ns = gs @ split_on (CHR ''/'') r"
proof -
  from ne good obtain g gt where gs: "gs = g # gt" "good_name g" by (cases gs) auto
  have "split_on (CHR ''/'') (render a ns) = split_on (CHR ''/'') (render ga gs) @ split_on (CHR ''/'') r"
    unfolding r by (rule split_on_append)
  then have "(if a then [''''] else []) @ (if ns = [] then [if a then '''' else ''.''] else ns) =
      ((if ga then [''''] else []) @ gs) @ split_on (CHR ''/'') r"
    using good ne by (simp add: split_on_render)
  with gs good(2) show ?thesis
    by (cases ns; cases a; cases ga) (auto simp: good_name_def)
qed

subsection \<open>One preopen\<close>

lemma preopen_suffix_below:
  assumes good: "list_all good_name gs" "list_all good_name ns" and ne: "gs \<noteq> []"
    and nd: "render ga gs \<noteq> ''.''" "render ga gs \<noteq> ''/''" and neq: "render a ns \<noteq> render ga gs"
  shows "map_option names_of (preopen_suffix (render ga gs) (render a ns)) = preopen_match (ga, gs) (a, ns)"
proof -
  let ?g = "render ga gs" and ?n = "render a ns"
  define below where "below \<longleftrightarrow> starts_with ?n ?g \<and> length ?g < length ?n \<and> ?n ! length ?g = CHR ''/''"
  show ?thesis
  proof (cases below)
    case True
    then have r: "?n = ?g @ CHR ''/'' # drop (length ?g + 1) ?n"
      unfolding below_def starts_with_def
      by (metis Cons_nth_drop_Suc Suc_eq_plus1 append_take_drop_id)
    from render_below [OF good ne r] have v: "ga = a" "ns = gs @ split_on (CHR ''/'') (drop (length ?g + 1) ?n)"
      by blast+
    then have "list_all good_name (split_on (CHR ''/'') (drop (length ?g + 1) ?n))"
      using good(2) by (metis list_all_append)
    then have "names_of (drop (length ?g + 1) ?n) = drop (length gs) ns"
      unfolding names_of_def using v(2) filter_good by (metis append_eq_conv_conj)
    with True nd ne neq v show ?thesis
      by (auto simp: preopen_suffix_def below_def prefix_def simp del: render.simps)
  next
    case False
    have "\<not> (ga = a \<and> prefix gs ns)"
    proof
      assume "ga = a \<and> prefix gs ns"
      then obtain rs where rs: "ga = a" "ns = gs @ rs" by (auto simp: prefix_def)
      with neq have "rs \<noteq> []" by auto
      with ne rs have "?n = ?g @ ''/'' @ join_with ''/'' rs" by (simp add: render_append)
      with False show False by (simp add: below_def starts_with_def nth_append)
    qed
    with False nd ne neq show ?thesis
      by (auto simp: preopen_suffix_def below_def simp del: render.simps)
  qed
qed

lemma preopen_suffix_match:
  assumes good: "list_all good_name gs" "list_all good_name ns"
  shows "map_option names_of (preopen_suffix (render ga gs) (render a ns)) = preopen_match (ga, gs) (a, ns)"
proof (cases "gs = []")
  case True
  have "\<not> starts_with (render True ns) ''.''" by (cases ns) (auto simp: starts_with_def)
  with True good names_of_tl_render [OF good(2)] show ?thesis
    by (cases ga; cases a)
      (auto simp: preopen_suffix_def starts_with_render names_of_render
        render_eq_slash render_eq_dot simp del: render.simps(2))
next
  case ne: False
  let ?g = "render ga gs" and ?n = "render a ns"
  have nd: "?g \<noteq> ''.''" "?g \<noteq> ''/''" using ne good render_eq_dot render_eq_slash by metis+
  show ?thesis
  proof (cases "?n = ?g")
    case True
    with good have "ga = a" "gs = ns" using render_inj by metis+
    with True nd ne show ?thesis by (simp add: preopen_suffix_def names_of_def)
  next
    case False
    then show ?thesis by (rule preopen_suffix_below [OF good ne nd])
  qed
qed

subsection \<open>Resolution refines its specification\<close>

lemma normalize_guest_path_eq:
  "normalize_guest_path path =
     (if path = '''' then Inl ENOENT
      else case guest_view path of None \<Rightarrow> Inl ENOTCAPABLE | Some (a, ns) \<Rightarrow> Inr (render a ns))"
proof (cases "normalize_guest_path path")
  case (Inl e)
  then show ?thesis
    using normalize_parts_Inl [of "split_on (CHR ''/'') path" "[]"]
    by (auto simp: normalize_guest_path_def guest_view_def Let_def split: sum.splits if_splits)
next
  case (Inr s)
  moreover have "path \<noteq> ''''" using Inr by (auto simp: normalize_guest_path_def)
  ultimately show ?thesis
    by (auto elim!: normalize_guest_path_render simp: guest_view_def)
qed

lemma guest_view_ok: "guest_view path = Some v \<Longrightarrow> view_ok v"
  using normalize_parts_good [of "split_on (CHR ''/'') path" "[]"]
  by (auto simp: guest_view_def split_on_no_sep split: sum.splits)

lemma guest_view_render: "list_all good_name ns \<Longrightarrow> guest_view (render a ns) = Some (a, ns)"
  by (simp add: guest_view_def split_render starts_with_render del: render.simps)

lemma normalized_view:
  assumes n: "normalize_guest_path g = Inr g"
  obtains a ns where "guest_view g = Some (a, ns)" "list_all good_name ns" "g = render a ns"
proof -
  from n obtain a ns where v: "guest_view g = Some (a, ns)"
    by (cases "guest_view g") (auto simp: normalize_guest_path_eq split: if_splits)
  with n have "g = render a ns" by (simp add: normalize_guest_path_eq split: if_splits)
  moreover have "list_all good_name ns" using guest_view_ok [OF v] by simp
  ultimately show thesis using that v by blast
qed

lemma preopens_ok_view:
  assumes "preopens_ok ps" "p \<in> set ps"
  obtains a ns where "guest_view (pm_guest p) = Some (a, ns)" "list_all good_name ns"
    "pm_guest p = render a ns"
  using assms normalized_view [of "pm_guest p"] by (auto simp: preopens_ok_def list_all_iff)

lemma preopen_match_suffix_good:
  "preopen_match g v = Some ns \<Longrightarrow> view_ok v \<Longrightarrow> list_all good_name ns"
  by (cases g; cases v) (auto simp: list_all_iff split: if_splits dest: in_set_dropD)

lemma resolve_in_spec:
  assumes "preopens_ok ps" "list_all good_name ns"
  shows "resolve_in ps (render a ns) =
     (case resolve_spec (map preopen_view ps) (a, ns) of None \<Rightarrow> Inl ENOTCAPABLE | Some h \<Rightarrow> Inr h)"
  using assms(1)
proof (induction ps)
  case (Cons p ps)
  obtain ga gs where g: "guest_view (pm_guest p) = Some (ga, gs)" "list_all good_name gs"
      "pm_guest p = render ga gs"
    using Cons.prems list.set_intros(1) by (rule preopens_ok_view)
  have m: "map_option names_of (preopen_suffix (pm_guest p) (render a ns)) = preopen_match (ga, gs) (a, ns)"
    unfolding g(3) by (rule preopen_suffix_match [OF g(2) assms(2)])
  have ok: "preopens_ok ps" using Cons.prems by (simp add: preopens_ok_def)
  show ?case
  proof (cases "preopen_suffix (pm_guest p) (render a ns)")
    case None
    with m ok Cons.IH g(1) show ?thesis by (simp add: preopen_view_def del: preopen_match.simps)
  next
    case (Some sfx)
    with m have mm: "preopen_match (ga, gs) (a, ns) = Some (names_of sfx)" by simp
    have "list_all good_name (names_of sfx)"
      by (rule preopen_match_suffix_good [OF mm]) (simp add: assms(2))
    with Some mm g(1) show ?thesis
      by (simp add: preopen_view_def join_suffix_eq map_component_good del: preopen_match.simps)
  qed
qed simp

lemma hf_resolve_spec:
  assumes "preopens_ok (hf_preopens t)"
  shows "hf_resolve t path =
     (if path = '''' then Inl ENOENT
      else case Option.bind (guest_view path) (resolve_spec (map preopen_view (hf_preopens t))) of
        None \<Rightarrow> Inl ENOTCAPABLE | Some h \<Rightarrow> Inr h)"
proof (cases "guest_view path")
  case None
  then show ?thesis by (simp add: hf_resolve_def normalize_guest_path_eq)
next
  case (Some v)
  obtain a ns where v: "v = (a, ns)" by (cases v)
  with guest_view_ok [OF Some] have "list_all good_name ns" by simp
  with Some v show ?thesis
    by (simp add: hf_resolve_def normalize_guest_path_eq resolve_in_spec [OF assms] del: render.simps)
qed

subsection \<open>Containment\<close>

lemma resolve_spec_contained:
  "resolve_spec ps v = Some h \<Longrightarrow> view_ok v \<Longrightarrow>
   \<exists>g host ns. (g, host) \<in> set ps \<and> preopen_match g v = Some ns \<and> h = host @ map Normal ns \<and> list_all good_name ns"
proof (induction ps)
  case (Cons p ps)
  obtain g host where p: "p = (g, host)" by (cases p)
  show ?case
  proof (cases "preopen_match g v")
    case None
    with Cons p show ?thesis by auto
  next
    case (Some ns)
    with Cons.prems p preopen_match_suffix_good [OF Some] show ?thesis
      by (intro exI [of _ g] exI [of _ host] exI [of _ ns]) auto
  qed
qed simp

text \<open>A host path lies below a preopened directory, reached by plain names only.\<close>

definition contained :: "'h host_files \<Rightarrow> host_path \<Rightarrow> bool" where
  "contained t h \<longleftrightarrow>
     (\<exists>p \<in> set (hf_preopens t). \<exists>ns. list_all good_name ns \<and> h = pm_host p @ map Normal ns)"

lemma hf_resolve_contained:
  assumes "preopens_ok (hf_preopens t)" "hf_resolve t path = Inr h"
  shows "contained t h"
proof -
  from assms obtain v where v: "guest_view path = Some v"
      "resolve_spec (map preopen_view (hf_preopens t)) v = Some h"
    by (auto simp: hf_resolve_spec bind_eq_Some_conv split: if_splits option.splits)
  from resolve_spec_contained [OF v(2) guest_view_ok [OF v(1)]] obtain g host ns where
    "(g, host) \<in> preopen_view ` set (hf_preopens t)" "h = host @ map Normal ns" "list_all good_name ns"
    unfolding set_map by blast
  then show ?thesis unfolding contained_def by (auto simp: preopen_view_def)
qed

lemma hf_resolve_parent_contained:
  assumes "hf_resolve_parent t path = Inr parent"
  obtains h where "hf_resolve t path = Inr h" "path_parent h = Some parent"
    "\<exists>p \<in> set (hf_preopens t). prefix (pm_host p) parent"
  using assms
  by (auto simp: hf_resolve_parent_def list_ex_iff path_starts_with_def
      split: sum.splits option.splits if_splits)

subsection \<open>The longest preopen wins\<close>

definition claims :: "preopen_mapping \<Rightarrow> guest_view \<Rightarrow> string list option" where
  "claims p v = preopen_match (fst (preopen_view p)) v"

definition by_length :: "preopen_mapping list \<Rightarrow> bool" where
  "by_length ps \<longleftrightarrow> sorted_wrt (\<lambda>p q. length (pm_guest q) \<le> length (pm_guest p)) ps"

lemma resolve_spec_longest:
  assumes "by_length ps" "resolve_spec (map preopen_view ps) v = Some h"
  shows "\<exists>p \<in> set ps. \<exists>ns. claims p v = Some ns \<and> h = pm_host p @ map Normal ns \<and>
    (\<forall>q \<in> set ps. claims q v \<noteq> None \<longrightarrow> length (pm_guest q) \<le> length (pm_guest p))"
  using assms
proof (induction ps)
  case (Cons p ps)
  then have sub: "by_length ps" "\<forall>q \<in> set ps. length (pm_guest q) \<le> length (pm_guest p)"
    by (simp_all add: by_length_def)
  show ?case
  proof (cases "claims p v")
    case None
    with Cons.prems(2) have "resolve_spec (map preopen_view ps) v = Some h"
      by (simp add: claims_def preopen_view_def [of p])
    from Cons.IH [OF sub(1) this] None show ?thesis by auto
  next
    case (Some ns)
    with Cons.prems(2) have "h = pm_host p @ map Normal ns" by (simp add: claims_def preopen_view_def [of p])
    with Some sub(2) show ?thesis by auto
  qed
qed simp

text \<open>The names of two preopens that claim the same path are ordered as their lengths are.\<close>

definition one_char_relative :: "string \<Rightarrow> bool" where
  "one_char_relative guest \<longleftrightarrow> length guest = 1 \<and> guest \<noteq> ''.'' \<and> guest \<noteq> ''/''"

lemma length_join_pos: "list_all good_name ns \<Longrightarrow> ns \<noteq> [] \<Longrightarrow> 0 < length (join_with ''/'' ns)"
  using good_names_join by auto

lemma render_length_mono:
  assumes good: "list_all good_name gs" "list_all good_name hs"
    and pre: "prefix gs hs" "length gs < length hs" and abs: "gs \<noteq> [] \<Longrightarrow> ga = ha"
    and "\<not> one_char_relative (render ha hs)"
  shows "length (render ga gs) < length (render ha hs)"
proof (cases "gs = []")
  case True
  have ne: "hs \<noteq> []" using pre by auto
  then have "render ha hs \<noteq> ''.''" "render ha hs \<noteq> ''/''" using good(2) render_eq_dot render_eq_slash by metis+
  moreover have "render ha hs \<noteq> ''''" using length_join_pos [OF good(2) ne] ne by (cases hs) auto
  ultimately have "1 < length (render ha hs)"
    using assms(6) by (cases "length (render ha hs)") (auto simp: one_char_relative_def)
  with True show ?thesis by simp
next
  case False
  from pre obtain rs where "hs = gs @ rs" "rs \<noteq> []" by (auto simp: prefix_def)
  with False abs show ?thesis by (simp add: render_append)
qed

lemma claims_shortest:
  assumes ok: "preopens_ok ps" "p \<in> set ps" "q \<in> set ps" "\<not> one_char_relative (pm_guest q)"
    and p: "claims p v = Some ns" and q: "claims q v = Some ms"
    and len: "length (pm_guest q) \<le> length (pm_guest p)"
  shows "length ns \<le> length ms"
proof (rule ccontr)
  assume short: "\<not> length ns \<le> length ms"
  obtain ga gs where g: "guest_view (pm_guest p) = Some (ga, gs)" "list_all good_name gs" "pm_guest p = render ga gs"
    using ok(1,2) by (rule preopens_ok_view)
  obtain ha hs where h: "guest_view (pm_guest q) = Some (ha, hs)" "list_all good_name hs" "pm_guest q = render ha hs"
    using ok(1,3) by (rule preopens_ok_view)
  obtain a ls where v: "v = (a, ls)" by (cases v)
  from p g(1) v have gp: "prefix gs ls" "ns = drop (length gs) ls" "gs \<noteq> [] \<Longrightarrow> ga = a"
    by (auto simp: claims_def preopen_view_def split: if_splits)
  from q h(1) v have hp: "prefix hs ls" "ms = drop (length hs) ls" "hs \<noteq> [] \<Longrightarrow> ha = a"
    by (auto simp: claims_def preopen_view_def split: if_splits)
  from short gp(2) hp(2) have "length gs < length hs" by auto
  then have "hs \<noteq> []" by auto
  with gp(3) hp(3) have abs: "gs \<noteq> [] \<Longrightarrow> ga = ha" by simp
  note \<open>length gs < length hs\<close>
  moreover from this gp(1) hp(1) have "prefix gs hs" using prefix_length_prefix by fastforce
  ultimately have "length (render ga gs) < length (render ha hs)"
    using g(2) h(2,3) ok(4) abs by (intro render_length_mono) simp_all
  with len g(3) h(3) show False by simp
qed

subsection \<open>The table the command line sets up\<close>

lemma normalize_idem: "normalize_guest_path path = Inr s \<Longrightarrow> normalize_guest_path s = Inr s"
  by (auto elim!: normalize_guest_path_render simp: normalize_render simp del: render.simps)

lemma preopens_ok_append [simp]: "preopens_ok (ps @ qs) \<longleftrightarrow> preopens_ok ps \<and> preopens_ok qs"
  by (simp add: preopens_ok_def)

lemma hf_map_preopens_ok:
  "hf_map_preopens ps acc = Inr rs \<Longrightarrow> preopens_ok acc \<Longrightarrow> preopens_ok rs"
proof (induction ps acc rule: hf_map_preopens.induct)
  case (2 p ps acc)
  then show ?case
    by (cases "normalize_guest_path (pre_guest p)") (auto simp: preopens_ok_def normalize_idem)
qed simp

lemma hf_map_preopens_hosts:
  "hf_map_preopens ps acc = Inr rs \<Longrightarrow> map pm_host rs = map pm_host acc @ map pre_host ps"
  by (induction ps acc rule: hf_map_preopens.induct) (auto split: sum.splits)

lemma hf_new_preopens:
  assumes "hf_new cli cwd = Inr t"
  shows "preopens_ok (hf_preopens t)" "by_length (hf_preopens t)"
    "set (map pm_host (hf_preopens t)) =
       set (map pre_host (preopens cli)) \<union> (if no_default_preopen cli then {} else {projr cwd})"
    "hf_files t = Map.empty" "hf_next_fd t = GUEST_FD_BASE"
proof -
  have dot: "normalize_guest_path ''.'' = Inr ''.''" by (simp add: normalize_guest_path_def starts_with_def)
  from assms obtain front mapped where
    front: "front = (if no_default_preopen cli then [] else [\<lparr>pm_guest = ''.'', pm_host = projr cwd\<rparr>])"
    and m: "hf_map_preopens (preopens cli) front = Inr mapped"
    and t: "t = \<lparr>hf_next_fd = GUEST_FD_BASE, hf_files = Map.empty,
                 hf_preopens = sort_key (\<lambda>p. - int (length (pm_guest p))) mapped\<rparr>"
    by (auto simp: hf_new_def Let_def dot split: sum.splits if_splits)
  have "preopens_ok front" by (simp add: front preopens_ok_def dot)
  then have "preopens_ok mapped" by (rule hf_map_preopens_ok [OF m])
  then show "preopens_ok (hf_preopens t)" by (simp add: t preopens_ok_def list_all_iff)
  have "sorted (map (\<lambda>p. - int (length (pm_guest p))) (hf_preopens t))" by (simp add: t)
  then show "by_length (hf_preopens t)"
    by (simp add: by_length_def sorted_map)
  show "set (map pm_host (hf_preopens t)) =
       set (map pre_host (preopens cli)) \<union> (if no_default_preopen cli then {} else {projr cwd})"
    using arg_cong [OF hf_map_preopens_hosts [OF m], of set] by (auto simp: t front)
  show "hf_files t = Map.empty" "hf_next_fd t = GUEST_FD_BASE" by (simp_all add: t)
qed

subsection \<open>Preopens that are never reached\<close>

text \<open>A guest name that normalizes to a relative name of one character.\<close>

definition short_relative :: "string \<Rightarrow> bool" where
  "short_relative guest =
     (case normalize_guest_path guest of Inl _ \<Rightarrow> False | Inr normalized \<Rightarrow> one_char_relative normalized)"

lemma hf_map_preopens_filter:
  "hf_map_preopens ps acc = Inr rs \<Longrightarrow>
   hf_map_preopens (filter (\<lambda>p. \<not> short_relative (pre_guest p)) ps) (filter (\<lambda>m. \<not> one_char_relative (pm_guest m)) acc) =
     Inr (filter (\<lambda>m. \<not> one_char_relative (pm_guest m)) rs)"
proof (induction ps acc rule: hf_map_preopens.induct)
  case (2 p ps acc)
  then obtain guest where "normalize_guest_path (pre_guest p) = Inr guest"
    by (cases "normalize_guest_path (pre_guest p)") auto
  with 2 show ?case by (auto simp: short_relative_def)
qed simp

lemma hf_map_preopens_front: "hf_map_preopens ps acc = Inr rs \<Longrightarrow> \<exists>qs. rs = acc @ qs"
  by (induction ps acc rule: hf_map_preopens.induct) (auto split: sum.splits)

lemma insort_key_split: "\<exists>as bs. insort_key f x ys = as @ x # bs \<and> (\<forall>a \<in> set as. f a < f x)"
proof (induction ys)
  case (Cons y ys)
  then obtain as bs where ab: "insort_key f x ys = as @ x # bs" "\<forall>a \<in> set as. f a < f x" by blast
  show ?case
  proof (cases "f x \<le> f y")
    case True
    then show ?thesis by (intro exI [of _ "[]"] exI [of _ "y # ys"]) simp
  next
    case False
    with ab show ?thesis by (intro exI [of _ "y # as"] exI [of _ bs]) auto
  qed
next
  case Nil
  show ?case by (intro exI [of _ "[]"]) simp
qed

lemma resolve_in_filter:
  "(\<And>p. p \<in> set ps \<Longrightarrow> \<not> P p \<Longrightarrow> preopen_suffix (pm_guest p) n = None) \<Longrightarrow> resolve_in (filter P ps) n = resolve_in ps n"
  by (induction ps) (auto split: option.split)

lemma resolve_in_stops:
  "preopen_suffix (pm_guest p) n \<noteq> None \<Longrightarrow> resolve_in (as @ p # bs) n = resolve_in (as @ [p]) n"
  by (induction as) (auto split: option.split)

lemma short_relative_unused:
  assumes "hf_new cli (Inr cwd) = Inr (t :: 'h host_files)" "\<not> no_default_preopen cli"
  shows "\<exists>t' :: 'h host_files. hf_new (cli\<lparr>preopens := filter (\<lambda>p. \<not> short_relative (pre_guest p)) (preopens cli)\<rparr>) (Inr cwd) = Inr t' \<and>
    hf_resolve t' = hf_resolve t"
proof -
  let ?key = "\<lambda>p. - int (length (pm_guest p))" and ?P = "\<lambda>m. \<not> one_char_relative (pm_guest m)"
  let ?dot = "\<lparr>pm_guest = ''.'', pm_host = cwd\<rparr>"
  have dot: "normalize_guest_path ''.'' = Inr ''.''" by (simp add: normalize_guest_path_def starts_with_def)
  from assms obtain rs where m: "hf_map_preopens (preopens cli) [?dot] = Inr rs"
    and t: "hf_preopens t = sort_key ?key rs"
    by (auto simp: hf_new_def dot split: sum.splits)
  from hf_map_preopens_filter [OF m] have m': "hf_map_preopens
      (filter (\<lambda>p. \<not> short_relative (pre_guest p)) (preopens cli)) [?dot] = Inr (filter ?P rs)"
    by (simp add: one_char_relative_def)
  from hf_map_preopens_front [OF m] obtain qs where "rs = ?dot # qs" by auto
  then obtain as bs where ab: "hf_preopens t = as @ ?dot # bs" "\<forall>a \<in> set as. ?key a < ?key ?dot"
    using insort_key_split [of ?key ?dot "sort_key ?key qs"] t by auto
  then have keep: "filter ?P (hf_preopens t) = as @ ?dot # filter ?P bs"
    by (auto simp: one_char_relative_def intro!: filter_True)
  have "resolve_in (filter ?P (hf_preopens t)) n = resolve_in (hf_preopens t) n" for n
  proof (cases "starts_with n ''/''")
    case True
    then obtain r where n: "n = CHR ''/'' # r" by (cases n) (auto simp: starts_with_def)
    show ?thesis
    proof (rule resolve_in_filter)
      fix p assume "\<not> ?P p"
      then obtain c where "pm_guest p = [c]" "c \<noteq> CHR ''.''" "c \<noteq> CHR ''/''"
        by (auto simp: one_char_relative_def length_Suc_conv)
      then show "preopen_suffix (pm_guest p) n = None" by (simp add: preopen_suffix_def n starts_with_def)
    qed
  next
    case False
    then have "preopen_suffix (pm_guest ?dot) n \<noteq> None" by (simp add: preopen_suffix_def)
    note stop = resolve_in_stops [OF this]
    have "resolve_in (as @ ?dot # filter ?P bs) n = resolve_in (as @ ?dot # bs) n" by (rule trans [OF stop stop [symmetric]])
    then show ?thesis by (simp only: keep ab(1) [symmetric])
  qed
  then have "hf_resolve (t\<lparr>hf_preopens := filter ?P (hf_preopens t)\<rparr>) = hf_resolve t"
    by (intro ext) (simp add: hf_resolve_def split: sum.split)
  moreover have "hf_new (cli\<lparr>preopens := filter (\<lambda>p. \<not> short_relative (pre_guest p)) (preopens cli)\<rparr>) (Inr cwd) =
      Inr (t\<lparr>hf_preopens := filter ?P (hf_preopens t)\<rparr>)"
    using assms m m' by (auto simp: hf_new_def dot filter_sort)
  ultimately show ?thesis by blast
qed

end
