(* ===== verification/File_Imports.thy ===== *)
theory File_Imports
  imports App_State Path_Resolution
begin

text \<open>
  The imports of the module \<^verbatim>\<open>waasmtime_mysql_files\<close> on Unix, the closures that \<open>add_to_linker\<close> of
  \<^verbatim>\<open>src/src/host_files.rs\<close> registers, and what they keep: the file table, the open handles, the
  preopens, the replies.
\<close>

subsection \<open>The imports\<close>

type_synonym ('s, 'h, 'os) file_app = "('s, 'h host_files, 'os) app_state"

definition import_file_open ::
    "'os unix_sys \<Rightarrow> ('h, 'os) fs_sys \<Rightarrow> i32 \<Rightarrow> i32 \<Rightarrow> i32 \<Rightarrow> ('s, 'h host_files, 'os) import" where
  [import_defs]: "import_file_open sys fs path_ptr flags mode st =
     (case read_cstr (memory st) path_ptr of
        Inl e \<Rightarrow> fail e st
      | Inr path \<Rightarrow>
         (let (rc, t, s) = hf_open sys fs (files st) path flags mode (os st)
          in (Return rc, st\<lparr>files := t, os := s\<rparr>)))"

definition import_file_close :: "('h, 'os) fs_sys \<Rightarrow> i32 \<Rightarrow> ('s, 'h host_files, 'os) import" where
  [import_defs]: "import_file_close fs fd st =
     (let (rc, t, s) = hf_close fs (files st) fd (os st) in (Return rc, st\<lparr>files := t, os := s\<rparr>))"

definition import_pread ::
    "'os unix_sys \<Rightarrow> ('h, 'os) fs_sys \<Rightarrow> i32 \<Rightarrow> i32 \<Rightarrow> i32 \<Rightarrow> i64 \<Rightarrow> ('s, 'h host_files, 'os) import" where
  [import_defs]: "import_pread sys fs fd buf_ptr len offset st =
     (case files_checked_len len of
        Inl e \<Rightarrow> fail e st
      | Inr len \<Rightarrow>
         (let buf = replicate len 0;
              ((rc, buf), s) = hf_pread sys fs (files st) fd buf offset (os st)
          in if sint rc \<le> 0 then (Return rc, st\<lparr>os := s\<rparr>)
             else
               (case slice_to buf (unat rc) of
                  None \<Rightarrow> (Panic, st\<lparr>os := s\<rparr>)
                | Some out \<Rightarrow>
                   (case files_write_guest (memory st) buf_ptr out of
                      Inr mem \<Rightarrow> (Return rc, st\<lparr>memory := mem, os := s\<rparr>)
                    | Inl e \<Rightarrow> (Return (neg_errno e), st\<lparr>os := s\<rparr>)))))"

definition import_pwrite ::
    "'os unix_sys \<Rightarrow> ('h, 'os) fs_sys \<Rightarrow> i32 \<Rightarrow> i32 \<Rightarrow> i32 \<Rightarrow> i64 \<Rightarrow> ('s, 'h host_files, 'os) import" where
  [import_defs]: "import_pwrite sys fs fd buf_ptr len offset st =
     (case files_read_guest (memory st) buf_ptr len of
        Inl e \<Rightarrow> fail e st
      | Inr buf \<Rightarrow>
         (let (rc, s) = hf_pwrite sys fs (files st) fd buf offset (os st)
          in (Return rc, st\<lparr>os := s\<rparr>)))"

definition import_seek ::
    "'os unix_sys \<Rightarrow> ('h, 'os) fs_sys \<Rightarrow> i32 \<Rightarrow> i64 \<Rightarrow> i32 \<Rightarrow> ('s, 'h, 'os) file_app \<Rightarrow>
     i64 outcome \<times> ('s, 'h, 'os) file_app" where
  [import_defs]: "import_seek sys fs fd offset whence st =
     (let (rc, s) = hf_seek sys fs (files st) fd offset whence (os st) in (Return rc, st\<lparr>os := s\<rparr>))"

definition import_truncate ::
    "'os unix_sys \<Rightarrow> ('h, 'os) fs_sys \<Rightarrow> i32 \<Rightarrow> i64 \<Rightarrow> ('s, 'h host_files, 'os) import" where
  [import_defs]: "import_truncate sys fs fd new_size st =
     (case u64_of_i64 new_size of
        None \<Rightarrow> fail EINVAL st
      | Some new_size \<Rightarrow>
         (let (rc, s) = hf_truncate sys fs (files st) fd new_size (os st)
          in (Return rc, st\<lparr>os := s\<rparr>)))"

definition import_sync ::
    "'os unix_sys \<Rightarrow> ('h, 'os) fs_sys \<Rightarrow> i32 \<Rightarrow> i32 \<Rightarrow> ('s, 'h host_files, 'os) import" where
  [import_defs]: "import_sync sys fs fd data_only st =
     (let (rc, s) = hf_sync sys fs (files st) fd (data_only \<noteq> 0) (os st)
      in (Return rc, st\<lparr>os := s\<rparr>))"

definition import_sync_parent ::
    "'os unix_sys \<Rightarrow> ('h, 'os) fs_sys \<Rightarrow> i32 \<Rightarrow> ('s, 'h host_files, 'os) import" where
  [import_defs]: "import_sync_parent sys fs path_ptr st =
     (case read_cstr (memory st) path_ptr of
        Inl e \<Rightarrow> fail e st
      | Inr path \<Rightarrow>
         (let (rc, s) = hf_sync_parent sys fs (files st) path (os st)
          in (Return rc, st\<lparr>os := s\<rparr>)))"

definition import_lock_exclusive ::
    "'os unix_sys \<Rightarrow> ('h, 'os) fs_sys \<Rightarrow> i32 \<Rightarrow> ('s, 'h host_files, 'os) import" where
  [import_defs]: "import_lock_exclusive sys fs fd st =
     (let (rc, s) = hf_lock_exclusive sys fs (files st) fd (os st)
      in (Return rc, st\<lparr>os := s\<rparr>))"

subsection \<open>The imports as calls\<close>

datatype wasm_val = I32 i32 | I64 i64

datatype file_call =
    F_open i32 i32 i32
  | F_close i32
  | F_pread i32 i32 i32 i64
  | F_pwrite i32 i32 i32 i64
  | F_seek i32 i64 i32
  | F_truncate i32 i64
  | F_sync i32 i32
  | F_sync_parent i32
  | F_lock_exclusive i32

definition as_i32 :: "i32 outcome \<times> 'st \<Rightarrow> wasm_val outcome \<times> 'st" where
  "as_i32 r = (map_outcome I32 (fst r), snd r)"

definition as_i64 :: "i64 outcome \<times> 'st \<Rightarrow> wasm_val outcome \<times> 'st" where
  "as_i64 r = (map_outcome I64 (fst r), snd r)"

lemma as_val_simps [simp]:
  "snd (as_i32 r) = snd r" "snd (as_i64 q) = snd q"
  "fst (as_i32 r) = map_outcome I32 (fst r)" "fst (as_i64 q) = map_outcome I64 (fst q)"
  by (simp_all add: as_i32_def as_i64_def)

fun exec_file :: "'os unix_sys \<Rightarrow> ('h, 'os) fs_sys \<Rightarrow> file_call \<Rightarrow> ('s, 'h, 'os) file_app \<Rightarrow>
    wasm_val outcome \<times> ('s, 'h, 'os) file_app" where
  "exec_file sys fs (F_open p f m) st = as_i32 (import_file_open sys fs p f m st)"
| "exec_file sys fs (F_close fd) st = as_i32 (import_file_close fs fd st)"
| "exec_file sys fs (F_pread fd p l off) st = as_i32 (import_pread sys fs fd p l off st)"
| "exec_file sys fs (F_pwrite fd p l off) st = as_i32 (import_pwrite sys fs fd p l off st)"
| "exec_file sys fs (F_seek fd off w) st = as_i64 (import_seek sys fs fd off w st)"
| "exec_file sys fs (F_truncate fd n) st = as_i32 (import_truncate sys fs fd n st)"
| "exec_file sys fs (F_sync fd d) st = as_i32 (import_sync sys fs fd d st)"
| "exec_file sys fs (F_sync_parent p) st = as_i32 (import_sync_parent sys fs p st)"
| "exec_file sys fs (F_lock_exclusive fd) st = as_i32 (import_lock_exclusive sys fs fd st)"

subsection \<open>What the file system promises about handles\<close>

text \<open>
  Opening makes a handle that was not open, or fails and opens none; dropping closes it; nothing
  else opens or closes one.
\<close>

definition opens_handle :: "('os \<Rightarrow> 'h set) \<Rightarrow> 'os \<Rightarrow> io_error + 'h \<Rightarrow> 'os \<Rightarrow> bool" where
  "opens_handle handles s r s' \<longleftrightarrow>
     (case r of Inl _ \<Rightarrow> handles s' = handles s | Inr h \<Rightarrow> h \<notin> handles s \<and> handles s' = insert h (handles s))"

definition handle_laws :: "('h, 'os) fs_sys \<Rightarrow> ('os \<Rightarrow> 'h set) \<Rightarrow> bool" where
  "handle_laws fs handles \<longleftrightarrow>
     (\<forall>opts p s. opens_handle handles s (fst (fs_open fs opts p s)) (snd (fs_open fs opts p s))) \<and>
     (\<forall>h s. handles (fs_close fs h s) = handles s - {h}) \<and>
     (\<forall>h n off s. handles (snd (fs_read_at fs h n off s)) = handles s) \<and>
     (\<forall>h bs off s. handles (snd (fs_write_at fs h bs off s)) = handles s) \<and>
     (\<forall>h w s. handles (snd (fs_seek fs h w s)) = handles s) \<and>
     (\<forall>h n s. handles (snd (fs_set_len fs h n s)) = handles s) \<and>
     (\<forall>h s. handles (snd (fs_sync_all fs h s)) = handles s) \<and>
     (\<forall>h s. handles (snd (fs_sync_data fs h s)) = handles s) \<and>
     (\<forall>r c l s. handles (snd (fs_fcntl_lock fs r c l s)) = handles s)"

lemma handle_laws_frame:
  assumes "handle_laws fs handles"
  shows "handles (fs_close fs h s) = handles s - {h}"
    "handles (snd (fs_read_at fs h n off s)) = handles s"
    "handles (snd (fs_write_at fs h bs off s)) = handles s"
    "handles (snd (fs_seek fs h w s)) = handles s"
    "handles (snd (fs_set_len fs h off s)) = handles s"
    "handles (snd (fs_sync_all fs h s)) = handles s"
    "handles (snd (fs_sync_data fs h s)) = handles s"
    "handles (snd (fs_fcntl_lock fs r c l s)) = handles s"
  using assms unfolding handle_laws_def by simp_all

lemma handle_laws_open:
  assumes "handle_laws fs handles" "fs_open fs opts p s = (r, s')"
  shows "opens_handle handles s r s'"
  using assms unfolding handle_laws_def by (metis fst_conv snd_conv)

lemma opens_handle_simps [simp]:
  "opens_handle handles s (Inl e) s' \<longleftrightarrow> handles s' = handles s"
  "opens_handle handles s (Inr h) s' \<longleftrightarrow> h \<notin> handles s \<and> handles s' = insert h (handles s)"
  by (simp_all add: opens_handle_def)

subsection \<open>Kinds of effects\<close>

inductive file_step :: "('os \<Rightarrow> 'h set) \<Rightarrow> 'h host_files \<times> 'os \<Rightarrow> 'h host_files \<times> 'os \<Rightarrow> bool"
  for handles where
  fkeep: "handles s' = handles s \<Longrightarrow> file_step handles (t, s) (t, s')"
| fadd: "h \<notin> handles s \<Longrightarrow> hf_insert t h = (fd, t') \<Longrightarrow>
     handles s' = insert h (handles s) - set_option (hf_files t (hf_next_fd t)) \<Longrightarrow>
     file_step handles (t, s) (t', s')"
| fdrop: "hf_remove t fd = Inr (h, t') \<Longrightarrow> handles s' = handles s - {h} \<Longrightarrow>
     file_step handles (t, s) (t', s')"

lemma fs_drop_handles:
  "handle_laws fs handles \<Longrightarrow> handles (fs_drop fs x s) = handles s - set_option x"
  by (cases x) (simp_all add: fs_drop_def handle_laws_frame)

lemma hf_open_step:
  assumes L: "handle_laws fs handles"
  shows "file_step handles (t, s) (snd (hf_open sys fs t path flags mode s))"
proof (cases "hf_resolve t path")
  case p: (Inr p)
  obtain r s' where r: "fs_open fs (open_options_of flags) p s = (r, s')" by (rule prod.exhaust)
  note one = handle_laws_open [OF L r]
  show ?thesis
  proof (cases r)
    case (Inl e)
    with p r one show ?thesis by (auto simp: hf_open_def intro: file_step.fkeep)
  next
    case (Inr h)
    obtain fd t' where ins: "hf_insert t h = (fd, t')" by (rule prod.exhaust)
    have "file_step handles (t, s) (t', fs_drop fs (hf_files t (hf_next_fd t)) s')"
      by (rule file_step.fadd [OF _ ins]) (use one Inr in \<open>simp_all add: fs_drop_handles [OF L]\<close>)
    with p r Inr ins show ?thesis by (auto simp: hf_open_def intro: file_step.fkeep)
  qed
qed (auto simp: hf_open_def intro: file_step.fkeep)

lemma hf_close_step:
  assumes L: "handle_laws fs handles"
  shows "file_step handles (t, s) (snd (hf_close fs t fd s))"
proof (cases "hf_remove t fd")
  case (Inr x)
  then show ?thesis
    by (cases x) (auto simp: hf_close_def fs_drop_handles [OF L] intro: file_step.fdrop)
qed (auto simp: hf_close_def intro: file_step.fkeep)

lemma hf_plain_keep:
  assumes L: "handle_laws fs handles"
  shows "handles (snd (hf_pread sys fs t fd buf off s)) = handles s"
    "handles (snd (hf_pwrite sys fs t fd buf off s)) = handles s"
    "handles (snd (hf_seek sys fs t fd off w s)) = handles s"
    "handles (snd (hf_truncate sys fs t fd n s)) = handles s"
    "handles (snd (hf_sync sys fs t fd b s)) = handles s"
    "handles (snd (hf_lock_exclusive sys fs t fd s)) = handles s"
  by (simp_all add: hf_pread_def hf_pwrite_def hf_seek_def hf_truncate_def hf_sync_def
      hf_lock_exclusive_def Let_def case_prod_beta handle_laws_frame [OF L] split: sum.split)

lemma hf_sync_parent_keep:
  assumes L: "handle_laws fs handles"
  shows "handles (snd (hf_sync_parent sys fs t path s)) = handles s"
proof (cases "hf_resolve_parent t path")
  case (Inr p)
  obtain r s' where r: "fs_open fs (oo_new\<lparr>oo_read := True\<rparr>) p s = (r, s')" by (rule prod.exhaust)
  show ?thesis
    using Inr r handle_laws_open [OF L r]
    by (cases r)
      (auto simp: hf_sync_parent_def Let_def case_prod_beta fs_drop_handles [OF L] handle_laws_frame [OF L])
qed (simp add: hf_sync_parent_def)

end
