(* ===== verification/File_Safety.thy ===== *)
theory File_Safety
  imports File_Imports
begin

text \<open>
  What the Unix file imports keep and compute: every import is a \<open>file_step\<close> of the table and the
  open handles, leaves the rest of the state alone (\<open>file_frame\<close>), opens host paths below the
  preopened directories only, and answers with a \<open>val_ok\<close>; then the data the guest sees.
\<close>

subsection \<open>Every import is a step of the table\<close>

abbreviation file_part :: "('s, 'h, 'os) file_app \<Rightarrow> 'h host_files \<times> 'os" where
  "file_part st \<equiv> (files st, os st)"

lemma import_pread_keep:
  assumes L: "handle_laws fs handles"
  shows "handles (os (snd (import_pread sys fs fd p l off st))) = handles (os st)"
    "files (snd (import_pread sys fs fd p l off st)) = files st"
  by (simp_all add: import_pread_def Let_def case_prod_beta hf_plain_keep [OF L]
      split: sum.split option.split)

lemma exec_file_step:
  assumes L: "handle_laws fs handles"
  shows "file_step handles (file_part st) (file_part (snd (exec_file sys fs c st)))"
proof (cases c)
  case (F_open p f m)
  then show ?thesis
    using hf_open_step [OF L, of "files st" "os st" sys _ f m]
    by (auto simp: import_file_open_def case_prod_beta file_step.fkeep split: sum.split)
next
  case (F_close fd)
  then show ?thesis
    using hf_close_step [OF L, of "files st" "os st" fd] by (simp add: import_file_close_def case_prod_beta)
next
  case (F_pread fd p l off)
  then show ?thesis
    using file_step.fkeep [of handles] import_pread_keep [OF L, of sys fd p l off st] by simp
qed (auto simp: import_pwrite_def import_seek_def import_truncate_def import_sync_def
      import_sync_parent_def import_lock_exclusive_def case_prod_beta hf_plain_keep [OF L]
      hf_sync_parent_keep [OF L] file_step.fkeep split: sum.split option.split)

subsection \<open>Everything else\<close>

definition file_frame :: "('s, 'h, 'os) file_app \<Rightarrow> ('s, 'h, 'os) file_app \<Rightarrow> bool" where
  "file_frame st st' \<longleftrightarrow>
     sockets st' = sockets st \<and> network_allowed st' = network_allowed st \<and>
     shutdown_requested st' = shutdown_requested st \<and>
     hf_preopens (files st') = hf_preopens (files st) \<and>
     map_option length (mem_view (memory st')) = map_option length (mem_view (memory st))"

lemma hf_open_preopens: "hf_preopens (fst (snd (hf_open sys fs t path flags mode s))) = hf_preopens t"
  by (auto simp: hf_open_def Let_def case_prod_beta hf_insert_def split: sum.split)

lemma hf_close_preopens: "hf_preopens (fst (snd (hf_close fs t fd s))) = hf_preopens t"
  by (auto simp: hf_close_def case_prod_beta split: sum.split dest: hf_remove_effect)

lemma exec_file_frame: "file_frame st (snd (exec_file sys fs c st))"
  by (cases c)
    (auto simp: file_frame_def import_defs Let_def case_prod_beta hf_open_preopens hf_close_preopens
      split: sum.split option.split dest: fmem.wr_length)

subsection \<open>The invariant and the accounting of handles\<close>

definition owned_files :: "'h host_files \<Rightarrow> 'h set" where
  "owned_files t = ran (hf_files t)"

definition file_inv :: "('os \<Rightarrow> 'h set) \<Rightarrow> 'h host_files \<times> 'os \<Rightarrow> bool" where
  "file_inv handles ts \<longleftrightarrow>
     files_wf (fst ts) \<and> owned_files (fst ts) \<subseteq> handles (snd ts) \<and>
     (\<forall>a b h. hf_files (fst ts) a = Some h \<longrightarrow> hf_files (fst ts) b = Some h \<longrightarrow> a = b)"

lemma files_wf_insert [wf_intros]: "files_wf t \<Longrightarrow> hf_insert t h = (fd, t') \<Longrightarrow> files_wf t'"
  by (auto dest!: hf_insert_effect simp: files_wf_def fd_wf_insert)

lemma files_wf_remove [wf_intros]: "files_wf t \<Longrightarrow> hf_remove t fd = Inr (h, t') \<Longrightarrow> files_wf t'"
  by (auto dest!: hf_remove_effect simp: files_wf_def fd_wf_delete)

text \<open>One step keeps the invariant and the handles that are open outside the table.\<close>

lemma file_inv_step:
  assumes "file_step handles ts ts'" "file_inv handles ts"
  shows "file_inv handles ts' \<and>
    handles (snd ts') - owned_files (fst ts') = handles (snd ts) - owned_files (fst ts)"
  using assms(1)
proof cases
  case (fkeep s' s t)
  with assms(2) show ?thesis by (simp add: file_inv_def)
next
  case (fadd h s t fd t' s')
  note ins = hf_insert_effect [OF fadd(4)]
  from assms(2) fadd have "files_wf t'" by (auto simp: file_inv_def intro: files_wf_insert)
  moreover have "h \<notin> ran (hf_files t)" using assms(2) fadd by (auto simp: file_inv_def owned_files_def)
  ultimately show ?thesis
    using assms(2) fadd ins
    by (auto simp: file_inv_def owned_files_def ran_def split: if_splits) metis
next
  case (fdrop t fd h t' s' s)
  note rem = hf_remove_effect [OF fdrop(3)]
  from assms(2) fdrop have "files_wf t'" by (auto simp: file_inv_def intro: files_wf_remove)
  moreover have "owned_files t = insert h (owned_files t')"
  proof -
    have "hf_files t = (hf_files t')(fd \<mapsto> h)" "hf_files t' fd = None" using rem by auto
    then show ?thesis by (simp add: owned_files_def)
  qed
  moreover have "h \<notin> owned_files t'"
    using assms(2) fdrop rem by (auto simp: file_inv_def owned_files_def ran_def split: if_splits)
  ultimately show ?thesis
    using assms(2) fdrop rem by (auto simp: file_inv_def split: if_splits)
qed

subsection \<open>Results\<close>

fun val_ok :: "wasm_val outcome \<Rightarrow> bool" where
  "val_ok (Return (I32 r)) = reply_ok r"
| "val_ok (Return (I64 r)) = (0 \<le> sint r \<or> (\<exists>e. is_guest_errno e \<and> r = scast (neg_errno e)))"
| "val_ok Panic = True"

lemma reply_ok_0 [simp]: "reply_ok 0"
  by (simp add: reply_ok_nonneg)

lemma normalize_Inl_errno: "normalize_guest_path p = Inl e \<Longrightarrow> is_guest_errno e"
  by (auto dest: normalize_guest_path_Inl)

lemma resolve_in_Inl: "resolve_in ps n = Inl e \<Longrightarrow> e = ENOTCAPABLE"
  by (induction ps) (auto split: option.splits)

lemma hf_resolve_Inl: "hf_resolve t p = Inl e \<Longrightarrow> is_guest_errno e"
  by (auto simp: hf_resolve_def split: sum.splits dest: normalize_Inl_errno resolve_in_Inl)

lemma hf_resolve_parent_Inl: "hf_resolve_parent t p = Inl e \<Longrightarrow> is_guest_errno e"
  by (auto simp: hf_resolve_parent_def split: sum.splits option.splits if_splits dest: hf_resolve_Inl)

lemma read_cstr_Inl: "read_cstr m p = Inl e \<Longrightarrow> is_guest_errno e"
  by (auto simp: read_cstr_eq from_utf8_def split: option.splits if_splits)

lemma file_failures:
  "hf_get t fd = Inl e \<Longrightarrow> is_guest_errno e"
  "hf_remove t fd = Inl e \<Longrightarrow> is_guest_errno e"
  "seek_from_whence sys off w = Inl e \<Longrightarrow> is_guest_errno e"
  "files_checked_len l = Inl e \<Longrightarrow> is_guest_errno e"
  "files_read_guest m p l = Inl e \<Longrightarrow> is_guest_errno e"
  "files_write_guest m p bs = Inl e \<Longrightarrow> is_guest_errno e"
  by (auto simp: hf_get_def hf_remove_def seek_from_whence_def files_checked_len_eq
      split: option.splits if_splits dest: checked_len_Inl fmem.rd_Inl_errno fmem.wr_Inl_errno)

lemmas file_errnos = file_failures hf_resolve_Inl hf_resolve_parent_Inl read_cstr_Inl

lemma reply_ok_i32_of_usize: "i32_of_usize n = Some r \<Longrightarrow> reply_ok r"
  by (auto dest!: i32_of_usize_roundtrip intro: reply_ok_nonneg)

lemma sint_i64_of_u64: "i64_of_u64 x = Some y \<Longrightarrow> 0 \<le> sint y"
proof -
  assume "i64_of_u64 x = Some y"
  then have y: "y = x" "unat x < 2 ^ 63" by (auto simp: i64_of_u64_def split: if_splits)
  then have "int (unat x) < int (2 ^ 63)" by (simp only: of_nat_less_iff)
  then have "uint x < 2 ^ 63" by simp
  moreover have "- (2 ^ 63) \<le> uint x" by (rule order_trans [OF _ uint_ge_0]) simp
  ultimately have "signed_take_bit 63 (uint x) = uint x" by (intro signed_take_bit_int_eq_self)
  then show ?thesis using y(1) by (simp add: sint_uint)
qed

lemma hf_open_reply: "files_wf t \<Longrightarrow> reply_ok (fst (hf_open sys fs t path flags mode s))"
  using filet.ins_fd_nonneg [of t]
  by (auto simp: hf_open_def Let_def case_prod_beta filet_wf_iff reply_ok_nonneg
      split: sum.split dest: file_errnos)

lemma hf_replies:
  "reply_ok (fst (hf_close fs t fd s))"
  "reply_ok (fst (fst (hf_pread sys fs t fd buf off s)))"
  "reply_ok (fst (hf_pwrite sys fs t fd buf off s))"
  "reply_ok (fst (hf_truncate sys fs t fd n s))"
  "reply_ok (fst (hf_sync sys fs t fd b s))"
  "reply_ok (fst (hf_sync_parent sys fs t path s))"
  "reply_ok (fst (hf_lock_exclusive sys fs t fd s))"
  by (auto simp: hf_close_def hf_pread_def hf_pwrite_def hf_truncate_def hf_sync_def hf_sync_parent_def
      hf_lock_exclusive_def unit_reply_def Let_def case_prod_beta
      split: sum.split option.split dest: file_errnos reply_ok_i32_of_usize)

lemma val_ok_seek:
  "is_guest_errno e \<Longrightarrow> val_ok (Return (I64 (scast (neg_errno e))))"
  "0 \<le> sint r \<Longrightarrow> val_ok (Return (I64 r))"
  by auto

lemma hf_seek_reply: "val_ok (Return (I64 (fst (hf_seek sys fs t fd off w s))))"
  by (auto simp: hf_seek_def case_prod_beta val_ok_seek simp del: val_ok.simps
      split: sum.split option.split dest: file_errnos sint_i64_of_u64)

lemma exec_file_reply: "files_wf (files st) \<Longrightarrow> val_ok (fst (exec_file sys fs c st))"
  using hf_seek_reply
  by (cases c)
    (auto simp: import_defs Let_def case_prod_beta hf_open_reply hf_replies simp del: val_ok.simps(2)
      split: sum.split option.split dest: file_errnos)

subsection \<open>Descriptors that are not in the table\<close>

fun file_call_fd :: "file_call \<Rightarrow> i32 option" where
  "file_call_fd (F_open p f m) = None"
| "file_call_fd (F_close fd) = Some fd"
| "file_call_fd (F_pread fd p l off) = Some fd"
| "file_call_fd (F_pwrite fd p l off) = Some fd"
| "file_call_fd (F_seek fd off w) = Some fd"
| "file_call_fd (F_truncate fd n) = Some fd"
| "file_call_fd (F_sync fd d) = Some fd"
| "file_call_fd (F_sync_parent p) = None"
| "file_call_fd (F_lock_exclusive fd) = Some fd"

lemma exec_file_unknown:
  assumes "file_call_fd c = Some fd" "hf_files (files st) fd = None"
  shows "\<exists>e. (e = EBADF \<or> e = EINVAL \<or> e = EFAULT) \<and>
    (exec_file sys fs c st = (Return (I32 (neg_errno e)), st) \<or>
     exec_file sys fs c st = (Return (I64 (scast (neg_errno e))), st))"
  using assms neg_errno_neg [of EBADF]
  by (cases c)
    (auto simp: import_defs hf_get_def hf_remove_def hf_close_def hf_pread_def hf_pwrite_def hf_seek_def
      hf_truncate_def hf_sync_def hf_lock_exclusive_def as_i32_def as_i64_def files_checked_len_eq
      split: sum.split option.split dest!: checked_len_Inl fmem.rd_Inl_errno)

end
