(* ===== verification/File_Function.thy ===== *)
theory File_Function
  imports File_Safety Host_Sockets Unix_Sample
begin

text \<open>
  What the Unix file imports do: which host paths they open, the data a read hands to the guest and
  a write takes from it; and a sample file system at which the hypotheses are discharged.
\<close>

subsection \<open>Which paths are opened\<close>

text \<open>
  The parent of a preopened directory that still begins with a preopened directory, perhaps another:
  what \<open>sync_parent\<close> may flush when the guest names the preopened directory itself.
\<close>

definition flushable_parent :: "'h host_files \<Rightarrow> host_path \<Rightarrow> bool" where
  "flushable_parent t p \<longleftrightarrow>
     (\<exists>q \<in> set (hf_preopens t). p = butlast (pm_host q)) \<and> (\<exists>q \<in> set (hf_preopens t). prefix (pm_host q) p)"

lemma hf_resolve_parent_granted:
  assumes "preopens_ok (hf_preopens t)" "hf_resolve_parent t path = Inr parent"
  shows "contained t parent \<or> flushable_parent t parent"
proof -
  obtain h where h: "hf_resolve t path = Inr h" "path_parent h = Some parent"
      "\<exists>p \<in> set (hf_preopens t). prefix (pm_host p) parent"
    using assms(2) by (rule hf_resolve_parent_contained)
  from hf_resolve_contained [OF assms(1) h(1)] obtain q ns where
    q: "q \<in> set (hf_preopens t)" "list_all good_name ns" "h = pm_host q @ map Normal ns"
    by (auto simp: contained_def)
  have parent: "parent = butlast h" using h(2) by (auto simp: path_parent_def split: if_splits)
  show ?thesis
  proof (cases "ns = []")
    case True
    with q h(3) parent show ?thesis by (auto simp: flushable_parent_def)
  next
    case False
    then have "parent = pm_host q @ map Normal (butlast ns)" by (simp add: parent q(3) butlast_append map_butlast)
    moreover have "list_all good_name (butlast ns)" using q(2) by (auto simp: list_all_iff dest: in_set_butlastD)
    ultimately show ?thesis using q(1) unfolding contained_def by blast
  qed
qed

text \<open>
  Replacing what the file system does on every other path changes no import: a guest can neither
  observe nor affect it.
\<close>

lemma exec_file_sandboxed:
  assumes ok: "preopens_ok (hf_preopens (files st))"
    and open_same: "\<And>opts p s. contained (files st) p \<or> (\<exists>pp. c = F_sync_parent pp) \<and> flushable_parent (files st) p \<Longrightarrow>
      g opts p s = fs_open fs opts p s"
  shows "exec_file sys (fs\<lparr>fs_open := g\<rparr>) c st = exec_file sys fs c st"
proof -
  let ?fs = "fs\<lparr>fs_open := g\<rparr>"
  have same: "fs_close ?fs = fs_close fs" "fs_read_at ?fs = fs_read_at fs" "fs_write_at ?fs = fs_write_at fs"
      "fs_seek ?fs = fs_seek fs" "fs_set_len ?fs = fs_set_len fs" "fs_sync_all ?fs = fs_sync_all fs"
      "fs_sync_data ?fs = fs_sync_data fs" "fs_as_raw_fd ?fs = fs_as_raw_fd fs"
      "fs_fcntl_lock ?fs = fs_fcntl_lock fs"
    by simp_all
  have drop: "fs_drop ?fs = fs_drop fs" unfolding fs_drop_def fun_eq_iff same by simp
  have o: "hf_open sys ?fs (files st) path flags mode s = hf_open sys fs (files st) path flags mode s"
    for path flags mode s
  proof (cases "hf_resolve (files st) path")
    case (Inr p)
    then have "g (open_options_of flags) p s = fs_open fs (open_options_of flags) p s"
      by (intro open_same disjI1 hf_resolve_contained [OF ok])
    with Inr show ?thesis unfolding hf_open_def drop by simp
  qed (simp add: hf_open_def)
  have sp: "hf_sync_parent sys ?fs (files st) path s = hf_sync_parent sys fs (files st) path s"
    if "c = F_sync_parent pp" for pp path s
  proof (cases "hf_resolve_parent (files st) path")
    case (Inr p)
    then have "g (oo_new\<lparr>oo_read := True\<rparr>) p s = fs_open fs (oo_new\<lparr>oo_read := True\<rparr>) p s"
      using hf_resolve_parent_granted [OF ok Inr] that by (intro open_same) blast
    with Inr show ?thesis unfolding hf_sync_parent_def drop same by simp
  qed (simp add: hf_sync_parent_def)
  have rest: "hf_close ?fs = hf_close fs" "hf_pread sys ?fs = hf_pread sys fs"
      "hf_pwrite sys ?fs = hf_pwrite sys fs" "hf_seek sys ?fs = hf_seek sys fs"
      "hf_truncate sys ?fs = hf_truncate sys fs" "hf_sync sys ?fs = hf_sync sys fs"
      "hf_lock_exclusive sys ?fs = hf_lock_exclusive sys fs"
    unfolding fun_eq_iff hf_close_def hf_pread_def hf_pwrite_def hf_seek_def hf_truncate_def hf_sync_def
      hf_lock_exclusive_def drop same
    by simp_all
  show ?thesis
  proof (cases c)
    case (F_sync_parent pp)
    show ?thesis by (simp only: F_sync_parent exec_file.simps import_defs sp [OF F_sync_parent])
  qed (simp_all only: exec_file.simps import_defs o rest)
qed

lemma io_reply_negative [simp]:
  "\<not> 0 \<le> sint (neg_errno (io_errno sys e))" "\<not> 0 < sint (neg_errno (io_errno sys e))"
  using neg_errno_neg [OF is_guest_io_errno, of sys e] by linarith+

lemma open_success:
  assumes call: "import_file_open sys fs pp flags mode st = (Return r, st')" and r: "0 \<le> sint r"
  obtains path p h s where "read_cstr (memory st) pp = Inr path" "hf_resolve (files st) path = Inr p"
    "flags AND WASI_O_DIRECTORY = 0"
    "fs_open fs (open_options_of flags) p (os st) = (Inr h, s)"
    "r = hf_next_fd (files st)" "hf_files (files st') = (hf_files (files st))(r \<mapsto> h)"
proof -
  obtain path where path: "read_cstr (memory st) pp = Inr path"
    using call r neg_errno_neg [OF read_cstr_Inl, of "memory st" pp]
    by (cases "read_cstr (memory st) pp") (auto simp: import_file_open_def not_le)
  have rc: "r = fst (hf_open sys fs (files st) path flags mode (os st))"
      "files st' = fst (snd (hf_open sys fs (files st) path flags mode (os st)))"
    using call path by (auto simp: import_file_open_def case_prod_beta)
  obtain p where p: "hf_resolve (files st) path = Inr p"
    using rc(1) r neg_errno_neg [OF hf_resolve_Inl, of "files st" path]
    by (cases "hf_resolve (files st) path") (auto simp: hf_open_def not_le)
  have dir: "flags AND WASI_O_DIRECTORY = 0"
    using rc(1) r p neg_errno_neg [of EISDIR] by (auto simp: hf_open_def not_le split: if_splits)
  obtain x s where x: "fs_open fs (open_options_of flags) p (os st) = (x, s)" by (rule prod.exhaust)
  obtain h where h: "x = Inr h"
    using rc(1) r p dir x
    by (cases x) (auto simp: hf_open_def not_le)
  show thesis
    by (rule that [OF path p dir x [unfolded h]])
      (use rc p dir x h in \<open>simp_all add: hf_open_def Let_def hf_insert_def\<close>)
qed

subsection \<open>Reading and writing\<close>

lemma i32_of_usize_Some_sint: "i32_of_usize n = Some r \<Longrightarrow> sint r = int n"
  by (auto simp: i32_of_usize_def sint_i32_of_nat split: if_splits)

lemma pread_success:
  assumes call: "import_pread sys fs fd bp len off st = (Return r, st')" and r: "0 < sint r"
    and h: "hf_files (files st) fd = Some h"
  obtains n ws s where "fs_read_at fs h (nat (sint len)) off (os st) = (Inr (n, ws), s)"
    "sint r = int n" "n \<le> nat (sint len)" "os st' = s"
    "files_read_guest (memory st') bp r = Inr (take n (fill (replicate (nat (sint len)) 0) ws))"
proof -
  obtain n0 where n0: "files_checked_len len = Inr n0"
    using call r neg_errno_neg [OF file_failures(4), of len]
    by (cases "files_checked_len len") (auto simp: import_pread_def)
  then have n0': "n0 = nat (sint len)" "n0 \<le> MAX_IO_LEN"
    by (auto simp: files_checked_len_eq checked_len_Inr)
  have g: "hf_get (files st) fd = Inr h" using h by (simp add: hf_get_def)
  obtain x s where x: "fs_read_at fs h n0 off (os st) = (x, s)" by (rule prod.exhaust)
  obtain n ws where nw: "x = Inr (n, ws)"
    using call r n0 g x
    by (cases x) (auto simp: import_pread_def hf_pread_def not_le split: if_splits)
  obtain rc where rc: "i32_of_usize n = Some rc"
    using call r n0 g x nw neg_errno_neg [of EOVERFLOW]
    by (cases "i32_of_usize n") (auto simp: import_pread_def hf_pread_def split: if_splits)
  note call' = call [unfolded import_pread_def n0 sum.case Let_def hf_pread_def g length_replicate x nw
      prod.case rc option.case]
  have pos: "\<not> sint rc \<le> 0" using call' r by (auto split: if_splits)
  note call'' = call' [unfolded if_not_P [OF pos]]
  let ?buf = "fill (replicate n0 0) ws"
  obtain out where out: "slice_to ?buf (unat rc) = Some out" using call'' by (cases "slice_to ?buf (unat rc)") auto
  obtain m where m: "files_write_guest (memory st) bp out = Inr m"
    using call'' out r neg_errno_neg [OF file_failures(6), of "memory st" bp out]
    by (cases "files_write_guest (memory st) bp out") auto
  have res: "rc = r" "st' = st\<lparr>memory := m, os := s\<rparr>" using call'' out m by auto
  have sr: "sint r = int n" using rc res i32_of_usize_Some_sint by simp
  have "unat r = n"
    using rc res by (auto simp: i32_of_usize_def unsigned_of_nat take_bit_nat_eq_self split: if_splits)
  with out res have o': "n \<le> n0" "out = take n ?buf" by (auto simp: slice_to_def split: if_splits)
  have "of_nat (length out) = r"
    using rc res o' by (auto simp: i32_of_usize_def split: if_splits)
  with fmem.rd_after_wr [OF m] have "files_read_guest (memory st') bp r = Inr (take n ?buf)"
    using res o' by simp
  with that [of n ws s] x nw n0' sr o' res show thesis by simp
qed

lemma pwrite_success:
  assumes call: "import_pwrite sys fs fd bp len off st = (Return r, st')" and r: "0 \<le> sint r"
    and h: "hf_files (files st) fd = Some h"
  obtains bs n where "files_read_guest (memory st) bp len = Inr bs"
    "fs_write_at fs h bs off (os st) = (Inr n, os st')" "sint r = int n"
    "memory st' = memory st" "files st' = files st"
proof -
  obtain bs where bs: "files_read_guest (memory st) bp len = Inr bs"
    using call r neg_errno_neg [OF file_failures(5), of "memory st" bp len]
    by (cases "files_read_guest (memory st) bp len") (auto simp: import_pwrite_def not_le)
  have g: "hf_get (files st) fd = Inr h" using h by (simp add: hf_get_def)
  obtain x s where x: "fs_write_at fs h bs off (os st) = (x, s)" by (rule prod.exhaust)
  obtain n where n: "x = Inr n"
    using call r bs g x
    by (cases x) (auto simp: import_pwrite_def hf_pwrite_def not_le)
  obtain rc where rc: "i32_of_usize n = Some rc"
    using call r bs g x n neg_errno_neg [of EOVERFLOW]
    by (cases "i32_of_usize n") (auto simp: import_pwrite_def hf_pwrite_def not_le)
  show thesis
    by (rule that [OF bs])
      (use call bs g x n rc i32_of_usize_Some_sint [OF rc] in \<open>auto simp: import_pwrite_def hf_pwrite_def\<close>)
qed

text \<open>A file returns what was last written, as long as nothing happens in between.\<close>

definition reads_back :: "('h, 'os) fs_sys \<Rightarrow> 'h \<Rightarrow> bool" where
  "reads_back fs h \<longleftrightarrow>
     (\<forall>bs off s s'. fs_write_at fs h bs off s = (Inr (length bs), s') \<longrightarrow>
        fst (fs_read_at fs h (length bs) off s') = Inr (length bs, bs))"

lemma files_read_guest_length: "files_read_guest m p l = Inr bs \<Longrightarrow> length bs = nat (sint l)"
  by (rule fmem.rd_length)

lemma pwrite_pread:
  assumes law: "reads_back fs h" and h: "hf_files (files st) fd = Some h"
    and w: "import_pwrite sys fs fd p len off st = (Return len, st1)"
    and r: "import_pread sys fs fd q len off st1 = (Return k, st2)" and k: "0 < sint k" "0 \<le> sint len"
  shows "k = len \<and> files_read_guest (memory st2) q len = files_read_guest (memory st) p len"
proof -
  obtain bs n where bs: "files_read_guest (memory st) p len = Inr bs"
      and wr: "fs_write_at fs h bs off (os st) = (Inr n, os st1)" and n: "sint len = int n"
      and t: "memory st1 = memory st" "files st1 = files st"
    using pwrite_success [OF w k(2) h] by metis
  have lb: "length bs = nat (sint len)" using files_read_guest_length [OF bs] .
  obtain n' ws s where rd: "fs_read_at fs h (nat (sint len)) off (os st1) = (Inr (n', ws), s)"
      and kk: "sint k = int n'"
      and data: "files_read_guest (memory st2) q k = Inr (take n' (fill (replicate (nat (sint len)) 0) ws))"
    using pread_success [OF r k(1), of h] h t by metis
  have "n = length bs" using n lb by simp
  with law wr have "fst (fs_read_at fs h (length bs) off (os st1)) = Inr (length bs, bs)"
    by (simp add: reads_back_def)
  with rd lb have "n' = length bs" "ws = bs" by simp_all
  moreover have "k = len" using kk \<open>n' = length bs\<close> lb k(2) by (simp add: i32_eq_iff_sint)
  ultimately show ?thesis using data bs lb by (simp add: fill_def)
qed

subsection \<open>A sample file system\<close>

definition fresh_handle :: "sample_os \<Rightarrow> nat" where
  "fresh_handle s = Suc (sum_list (so_handles s))"

definition patch_data :: "bytes \<Rightarrow> nat \<Rightarrow> bytes \<Rightarrow> bytes" where
  "patch_data d off bs = take off (d @ replicate (off - length d) 0) @ bs @ drop (off + length bs) d"

definition sample_fs :: "(nat, sample_os) fs_sys" where
  "sample_fs =
    \<lparr>fs_current_dir = (\<lambda>s. Inr [RootDir, Normal ''srv'']),
     fs_open = (\<lambda>opts p s. (Inr (fresh_handle s), s\<lparr>so_handles := fresh_handle s # so_handles s\<rparr>)),
     fs_close = (\<lambda>h s. s\<lparr>so_handles := removeAll h (so_handles s)\<rparr>),
     fs_read_at = (\<lambda>h n off s. (Inr (min n (length (so_data s h) - unat off), take n (drop (unat off) (so_data s h))), s)),
     fs_write_at = (\<lambda>h bs off s. (Inr (length bs), s\<lparr>so_data := (so_data s)(h := patch_data (so_data s h) (unat off) bs)\<rparr>)),
     fs_seek = (\<lambda>h w s. (case w of SeekStart n \<Rightarrow> Inr n | _ \<Rightarrow> Inl OtherError, s)),
     fs_set_len = (\<lambda>h n s. (Inr (), s\<lparr>so_data := (so_data s)(h := take (unat n) (so_data s h))\<rparr>)),
     fs_sync_all = (\<lambda>h s. (Inr (), s)),
     fs_sync_data = (\<lambda>h s. (Inr (), s)),
     fs_as_raw_fd = (\<lambda>h. of_nat h),
     fs_fcntl_lock = (\<lambda>r c l s. (0, s))\<rparr>"

definition sample_handles :: "sample_os \<Rightarrow> nat set" where
  "sample_handles s = set (so_handles s)"

lemma fresh_handle_fresh: "fresh_handle s \<notin> set (so_handles s)"
  using member_le_sum_list [of "fresh_handle s" "so_handles s"] by (auto simp: fresh_handle_def)

lemma sample_handle_laws: "handle_laws sample_fs sample_handles"
  unfolding handle_laws_def
  by (simp add: sample_fs_def sample_handles_def fresh_handle_fresh set_eq_iff)

lemma sample_reads_back: "reads_back sample_fs h"
  by (auto simp: reads_back_def sample_fs_def patch_data_def)

text \<open>A host with one preopened directory and the guest memory given.\<close>

definition sample_files :: "nat host_files" where
  "sample_files = \<lparr>hf_next_fd = GUEST_FD_BASE, hf_files = Map.empty,
     hf_preopens = [\<lparr>pm_guest = ''/data'', pm_host = [RootDir, Normal ''srv'']\<rparr>]\<rparr>"

definition sample_host :: "bytes \<Rightarrow> (host_socket, nat host_files, sample_os) app_state" where
  "sample_host data = \<lparr>memory = SharedMem data, files = sample_files, sockets = hs_new,
     network_allowed = True, shutdown_requested = False, os = sample_init\<rparr>"

end
