(* ===== verification/File_Properties.thy ===== *)
theory File_Properties
  imports File_Function
begin

text \<open>
  The properties of guest paths and of the Unix file imports.
\<close>

subsection \<open>Guest paths\<close>

text \<open>
  A normalized path is a normal form: normalizing it again changes nothing, it is absolute
  exactly when the original is, and it is made of names none of which is empty, \<open>.\<close>, \<open>..\<close> or
  contains a slash.
\<close>

theorem normalize_normal_form:
  assumes "normalize_guest_path path = Inr s"
  shows "normalize_guest_path s = Inr s \<and> starts_with s ''/'' = starts_with path ''/'' \<and>
    (\<exists>ns. list_all good_name ns \<and> s = render (starts_with path ''/'') ns)"
proof -
  obtain ns where ns: "list_all good_name ns" "s = render (starts_with path ''/'') ns"
    using assms by (rule normalize_guest_path_render)
  then have "starts_with s ''/'' = starts_with path ''/''"
    unfolding ns(2) by (intro starts_with_render)
  with ns normalize_idem [OF assms] show ?thesis by blast
qed

lemma sample_normalize: "normalize_guest_path ''/a/./b//../c'' = Inr ''/a/c''"
  by (simp add: normalize_guest_path_def starts_with_def)

theorem normalize_normal_form_witness:
  "normalize_guest_path ''/a/./b//../c'' = Inr ''/a/c'' \<and> normalize_guest_path ''/a/c'' = Inr ''/a/c''"
  using normalize_normal_form [OF sample_normalize] sample_normalize by blast

text \<open>
  C26: a non-empty path is refused, with \<open>ENOTCAPABLE\<close>, exactly when some prefix of it leads above the
  directory it starts from, that is when it has gone up by \<open>..\<close> more often than down by a name;
  an empty path is refused with \<open>ENOENT\<close>, and nothing else is refused.
\<close>

theorem normalize_refuses_escape:
  "(normalize_guest_path path = Inl ENOENT \<longleftrightarrow> path = '''') \<and>
   (normalize_guest_path path = Inl ENOTCAPABLE \<longleftrightarrow>
      path \<noteq> '''' \<and> (\<exists>k \<le> length (split_on (CHR ''/'') path). depth (take k (split_on (CHR ''/'') path)) < 0)) \<and>
   (\<forall>e. normalize_guest_path path = Inl e \<longrightarrow> e = ENOENT \<or> e = ENOTCAPABLE)"
proof -
  let ?ps = "split_on (CHR ''/'') path"
  have e: "normalize_parts ?ps [] = Inl ENOTCAPABLE \<longleftrightarrow> (\<exists>k \<le> length ?ps. depth (take k ?ps) < 0)"
    using normalize_parts_escapes [of ?ps "[]"] by (simp add: escapes_def)
  have ne: "ENOENT \<noteq> ENOTCAPABLE" by (simp add: errno_consts)
  have "normalize_guest_path path = Inl ENOENT \<longleftrightarrow> path = ''''"
    using ne normalize_parts_Inl [of ?ps "[]" ENOENT]
    by (auto simp: normalize_guest_path_def Let_def split: sum.splits if_splits)
  moreover have "normalize_guest_path path = Inl ENOTCAPABLE \<longleftrightarrow> path \<noteq> '''' \<and> normalize_parts ?ps [] = Inl ENOTCAPABLE"
    using ne by (auto simp: normalize_guest_path_def Let_def split: sum.splits if_splits)
  ultimately show ?thesis using e normalize_guest_path_Inl by blast
qed

theorem normalize_refuses_escape_witness:
  "normalize_guest_path ''a/../../b'' = Inl ENOTCAPABLE"
proof -
  have "\<exists>k \<le> length (split_on (CHR ''/'') ''a/../../b''). depth (take k (split_on (CHR ''/'') ''a/../../b'')) < 0"
    by (rule exI [of _ 3]) (simp add: part_depth_def)
  with normalize_refuses_escape [of "''a/../../b''"] show ?thesis by simp
qed

subsection \<open>Resolution\<close>

text \<open>
  C6: path resolution, which works on strings, implements its specification on lists of names: walk
  the names of the path, take the first preopen whose names are a prefix of them, and append the
  remaining names to its host directory; with no such preopen the answer is \<open>ENOTCAPABLE\<close>.
\<close>

theorem resolve_refines:
  assumes "preopens_ok (hf_preopens t)"
  shows "hf_resolve t path =
     (if path = '''' then Inl ENOENT
      else case Option.bind (guest_view path) (resolve_spec (map preopen_view (hf_preopens t))) of
        None \<Rightarrow> Inl ENOTCAPABLE | Some h \<Rightarrow> Inr h)"
  using assms by (rule hf_resolve_spec)

lemma sample_preopens_ok: "preopens_ok (hf_preopens sample_files)"
  by (simp add: preopens_ok_def sample_files_def normalize_guest_path_def starts_with_def)

theorem resolve_refines_witness:
  "hf_resolve sample_files ''/data/../data/x/./y'' = Inr [RootDir, Normal ''srv'', Normal ''x'', Normal ''y'']"
  using resolve_refines [OF sample_preopens_ok, of "''/data/../data/x/./y''"]
  by (simp add: guest_view_def sample_files_def preopen_view_def starts_with_def prefix_def)

text \<open>
  C7: whatever the command line and the path, a path the file table set up by \<open>HostFiles::new\<close>
  resolves is a preopened host directory followed by plain names, without \<open>..\<close>: lexically, the
  guest cannot name a file outside the directories it was given.
\<close>

theorem resolve_stays_inside:
  assumes "hf_new cli cwd = Inr t" "hf_resolve t path = Inr h"
  shows "\<exists>host ns. h = host @ map Normal ns \<and> list_all good_name ns \<and>
    (host \<in> pre_host ` set (preopens cli) \<or> \<not> no_default_preopen cli \<and> host = projr cwd)"
proof -
  from hf_resolve_contained [OF hf_new_preopens(1) [OF assms(1)] assms(2)] obtain p ns where
    p: "p \<in> set (hf_preopens t)" "list_all good_name ns" "h = pm_host p @ map Normal ns"
    by (auto simp: contained_def)
  from p(1) have "pm_host p \<in> set (map pm_host (hf_preopens t))" by simp
  then have "pm_host p \<in> pre_host ` set (preopens cli) \<or> \<not> no_default_preopen cli \<and> pm_host p = projr cwd"
    unfolding hf_new_preopens(3) [OF assms(1)] by (auto split: if_splits)
  with p show ?thesis by blast
qed

definition sample_cli :: cli where
  "sample_cli = \<lparr>show_embedded_source = False, no_default_preopen = False, no_inherit_env = False,
     no_network = False, preopens = [\<lparr>pre_host = [RootDir, Normal ''srv''], pre_guest = ''/data''\<rparr>],
     env = [], guest_args = [''--console'']\<rparr>"

lemma sample_new:
  "hf_new sample_cli (Inr [RootDir, Normal ''home'']) =
     Inr \<lparr>hf_next_fd = GUEST_FD_BASE, hf_files = Map.empty,
       hf_preopens = [\<lparr>pm_guest = ''/data'', pm_host = [RootDir, Normal ''srv'']\<rparr>,
                      \<lparr>pm_guest = ''.'', pm_host = [RootDir, Normal ''home'']\<rparr>]\<rparr>"
  by (simp add: hf_new_def sample_cli_def normalize_guest_path_def starts_with_def)

theorem resolve_stays_inside_witness:
  "\<exists>t h. hf_new sample_cli (Inr [RootDir, Normal ''home'']) = Inr t \<and> hf_resolve t ''./x/../y'' = Inr h \<and>
     (\<exists>host ns. h = host @ map Normal ns \<and> list_all good_name ns)"
proof -
  let ?t = "\<lparr>hf_next_fd = GUEST_FD_BASE, hf_files = Map.empty,
       hf_preopens = [\<lparr>pm_guest = ''/data'', pm_host = [RootDir, Normal ''srv'']\<rparr>,
                      \<lparr>pm_guest = ''.'', pm_host = [RootDir, Normal ''home'']\<rparr>]\<rparr>"
  have r: "hf_resolve ?t ''./x/../y'' = Inr [RootDir, Normal ''home'', Normal ''y'']"
    by (simp add: hf_resolve_def normalize_guest_path_def starts_with_def preopen_suffix_def join_suffix_def
        path_push_def component_of_def)
  from resolve_stays_inside [OF sample_new r] sample_new r show ?thesis by blast
qed

text \<open>
  C24: among the preopens that claim a path, the one with the most names decides, provided no preopen
  has a relative guest name of a single character (such a name is as long as \<open>.\<close> and \<open>/\<close>).
\<close>

theorem longest_preopen_wins:
  assumes "hf_new cli cwd = Inr t" "hf_resolve t path = Inr h" "guest_view path = Some v"
    "\<forall>q \<in> set (hf_preopens t). \<not> one_char_relative (pm_guest q)"
  shows "\<exists>p \<in> set (hf_preopens t). \<exists>ns. claims p v = Some ns \<and> h = pm_host p @ map Normal ns \<and>
    (\<forall>q \<in> set (hf_preopens t). \<forall>ms. claims q v = Some ms \<longrightarrow> length ns \<le> length ms)"
proof -
  note new = hf_new_preopens [OF assms(1)]
  have "resolve_spec (map preopen_view (hf_preopens t)) v = Some h"
    using assms(2,3) by (auto simp: hf_resolve_spec [OF new(1)] split: if_splits option.splits)
  from resolve_spec_longest [OF new(2) this] obtain p ns where
    p: "p \<in> set (hf_preopens t)" "claims p v = Some ns" "h = pm_host p @ map Normal ns"
      "\<forall>q \<in> set (hf_preopens t). claims q v \<noteq> None \<longrightarrow> length (pm_guest q) \<le> length (pm_guest p)" by blast
  have "length ns \<le> length ms" if "q \<in> set (hf_preopens t)" "claims q v = Some ms" for q ms
    using claims_shortest [OF new(1) p(1) that(1) _ p(2) that(2)] p(4) assms(4) that by auto
  with p show ?thesis by blast
qed

theorem longest_preopen_wins_witness:
  "\<exists>t. hf_new sample_cli (Inr [RootDir, Normal ''home'']) = Inr t \<and>
     (\<exists>p \<in> set (hf_preopens t). claims p (True, [''data'', ''x'']) = Some [''x''] \<and> pm_host p = [RootDir, Normal ''srv''])"
proof -
  let ?t = "\<lparr>hf_next_fd = GUEST_FD_BASE, hf_files = Map.empty,
       hf_preopens = [\<lparr>pm_guest = ''/data'', pm_host = [RootDir, Normal ''srv'']\<rparr>,
                      \<lparr>pm_guest = ''.'', pm_host = [RootDir, Normal ''home'']\<rparr>]\<rparr>"
  have r: "hf_resolve ?t ''/data/x'' = Inr [RootDir, Normal ''srv'', Normal ''x'']"
    by (simp add: hf_resolve_def normalize_guest_path_def starts_with_def preopen_suffix_def join_suffix_def
        path_push_def component_of_def)
  have v: "guest_view ''/data/x'' = Some (True, [''data'', ''x''])"
    by (simp add: guest_view_def starts_with_def)
  from longest_preopen_wins [OF sample_new r v]
  have "\<exists>p \<in> set (hf_preopens ?t). \<exists>ns. claims p (True, [''data'', ''x'']) = Some ns \<and>
      [RootDir, Normal ''srv'', Normal ''x''] = pm_host p @ map Normal ns"
    by (auto simp: one_char_relative_def)
  then show ?thesis
    by (auto simp: sample_new claims_def preopen_view_def guest_view_def starts_with_def)
qed

text \<open>
  C25: the proviso is needed.  Unless \<^verbatim>\<open>--no-default-preopen\<close> is given, the directories preopened under
  relative names of one character are never reached: leaving all of them out of the command line
  changes the resolution of no path, since the default preopen \<open>.\<close> comes before them and takes every
  relative path.
\<close>

theorem one_char_preopen_shadowed:
  assumes "hf_new cli (Inr cwd) = Inr (t :: 'h host_files)" "\<not> no_default_preopen cli"
  shows "\<exists>t' :: 'h host_files. hf_new (cli\<lparr>preopens := filter (\<lambda>p. \<not> short_relative (pre_guest p)) (preopens cli)\<rparr>) (Inr cwd) = Inr t' \<and>
    hf_resolve t' = hf_resolve t"
  using short_relative_unused [OF assms] by blast

theorem one_char_preopen_shadowed_witness:
  "\<exists>t :: nat host_files. hf_new (sample_cli\<lparr>preopens := [\<lparr>pre_host = [RootDir, Normal ''srv''], pre_guest = ''d''\<rparr>]\<rparr>)
         (Inr [RootDir, Normal ''home'']) = Inr t \<and>
     (\<exists>p \<in> set (hf_preopens t). pm_host p = [RootDir, Normal ''srv''] \<and> claims p (False, [''d'', ''x'']) = Some [''x'']) \<and>
     (\<exists>t' :: nat host_files. hf_new (sample_cli\<lparr>preopens := []\<rparr>) (Inr [RootDir, Normal ''home'']) = Inr t' \<and>
       hf_resolve t' ''d/x'' = hf_resolve t ''d/x'')"
proof -
  let ?cli = "sample_cli\<lparr>preopens := [\<lparr>pre_host = [RootDir, Normal ''srv''], pre_guest = ''d''\<rparr>]\<rparr>"
  let ?t = "\<lparr>hf_next_fd = GUEST_FD_BASE, hf_files = Map.empty,
       hf_preopens = [\<lparr>pm_guest = ''.'', pm_host = [RootDir, Normal ''home'']\<rparr>,
                      \<lparr>pm_guest = ''d'', pm_host = [RootDir, Normal ''srv'']\<rparr>]\<rparr> :: nat host_files"
  have t: "hf_new ?cli (Inr [RootDir, Normal ''home'']) = Inr ?t"
    by (simp add: hf_new_def sample_cli_def normalize_guest_path_def starts_with_def)
  have s: "short_relative ''d''"
    by (simp add: short_relative_def one_char_relative_def normalize_guest_path_def starts_with_def)
  have "\<not> no_default_preopen ?cli" by (simp add: sample_cli_def)
  from one_char_preopen_shadowed [OF t this] s have
    "\<exists>t' :: nat host_files. hf_new (sample_cli\<lparr>preopens := []\<rparr>) (Inr [RootDir, Normal ''home'']) = Inr t' \<and> hf_resolve t' = hf_resolve ?t"
    by simp
  moreover have "\<exists>p \<in> set (hf_preopens ?t). pm_host p = [RootDir, Normal ''srv''] \<and> claims p (False, [''d'', ''x'']) = Some [''x'']"
    by (simp add: claims_def preopen_view_def guest_view_def starts_with_def prefix_def)
  ultimately show ?thesis unfolding t by fastforce
qed

text \<open>
  \<open>sync_parent\<close> flushes the parent directory of the resolved path, and only when that parent
  still lies below a preopened host directory.
\<close>

theorem parent_stays_inside:
  assumes "hf_resolve_parent t path = Inr parent"
  shows "\<exists>h. hf_resolve t path = Inr h \<and> h \<noteq> [] \<and> parent = butlast h \<and>
    (\<exists>p \<in> set (hf_preopens t). prefix (pm_host p) parent)"
proof -
  obtain h where "hf_resolve t path = Inr h" "path_parent h = Some parent"
      "\<exists>p \<in> set (hf_preopens t). prefix (pm_host p) parent"
    using assms by (rule hf_resolve_parent_contained)
  then show ?thesis by (auto simp: path_parent_def split: if_splits)
qed

theorem parent_stays_inside_witness:
  "hf_resolve_parent sample_files ''/data/x'' = Inr [RootDir, Normal ''srv''] \<and>
   (\<exists>p \<in> set (hf_preopens sample_files). prefix (pm_host p) [RootDir, Normal ''srv''])"
proof -
  have r: "hf_resolve_parent sample_files ''/data/x'' = Inr [RootDir, Normal ''srv'']"
    by (simp add: hf_resolve_parent_def hf_resolve_def sample_files_def normalize_guest_path_def starts_with_def
        preopen_suffix_def join_suffix_def path_push_def component_of_def path_parent_def path_starts_with_def)
  with parent_stays_inside [OF r] show ?thesis by blast
qed

subsection \<open>The imports\<close>

text \<open>
  C5: of the file system the file imports consult two kinds of paths only.  The first is a preopened
  host directory followed by plain names, without \<open>..\<close>.  The second is for \<open>sync_parent\<close> alone: the
  parent of a preopened directory, if that parent still begins with a preopened directory.  If opening
  behaves differently on every other path, each import still returns the same result and leaves the
  same state.
\<close>

theorem files_sandboxed:
  assumes "hf_new cli cwd = Inr t" "hf_preopens (files st) = hf_preopens t"
    "\<And>opts p s. contained (files st) p \<or> (\<exists>pp. c = F_sync_parent pp) \<and> flushable_parent (files st) p \<Longrightarrow>
       g opts p s = fs_open fs opts p s"
  shows "exec_file sys (fs\<lparr>fs_open := g\<rparr>) c st = exec_file sys fs c st"
proof (rule exec_file_sandboxed)
  show "preopens_ok (hf_preopens (files st))" unfolding assms(2) by (rule hf_new_preopens(1) [OF assms(1)])
qed (rule assms(3))

theorem files_sandboxed_witness:
  "exec_file sample_sys (sample_fs\<lparr>fs_open := (\<lambda>opts p s.
      if prefix [RootDir, Normal ''srv''] p \<or> prefix [RootDir, Normal ''home''] p then fs_open sample_fs opts p s
      else (Inl (OsError 13), s))\<rparr>)
     (F_open 0 0 0) (sample_host [47, 100, 97, 116, 97, 47, 120, 0]\<lparr>files := projr (hf_new sample_cli (Inr [RootDir, Normal ''home'']))\<rparr>) =
   exec_file sample_sys sample_fs
     (F_open 0 0 0) (sample_host [47, 100, 97, 116, 97, 47, 120, 0]\<lparr>files := projr (hf_new sample_cli (Inr [RootDir, Normal ''home'']))\<rparr>)"
  by (rule files_sandboxed [OF sample_new]) (auto simp: sample_new contained_def)

text \<open>
  C20: a successful \<open>open\<close> hands out the next descriptor of the file table for the handle the file
  system returned for the resolved path, with the options read off the guest's flags, and the
  resolved path is a preopened directory followed by plain names.
\<close>

theorem open_registers:
  assumes "import_file_open sys fs pp flags mode st = (Return r, st')" "0 \<le> sint r"
    "preopens_ok (hf_preopens (files st))"
  shows "\<exists>path p h s. read_cstr (memory st) pp = Inr path \<and> hf_resolve (files st) path = Inr p \<and>
    contained (files st) p \<and> fs_open fs (open_options_of flags) p (os st) = (Inr h, s) \<and>
    r = hf_next_fd (files st) \<and> hf_files (files st') = (hf_files (files st))(r \<mapsto> h)"
proof -
  obtain path p h s where o: "read_cstr (memory st) pp = Inr path" "hf_resolve (files st) path = Inr p"
      "fs_open fs (open_options_of flags) p (os st) = (Inr h, s)" "r = hf_next_fd (files st)"
      "hf_files (files st') = (hf_files (files st))(r \<mapsto> h)"
    using assms(1,2) by (rule open_success)
  with hf_resolve_contained [OF assms(3) o(2)] show ?thesis by blast
qed

lemma sample_path: "read_cstr (SharedMem [47, 100, 97, 116, 97, 47, 120, 0]) 0 = Inr ''/data/x''"
proof -
  have ascii: "char_of (47 :: nat) = CHR ''/''" "char_of (100 :: nat) = CHR ''d''" "char_of (97 :: nat) = CHR ''a''"
    "char_of (116 :: nat) = CHR ''t''" "char_of (120 :: nat) = CHR ''x''" by code_simp+
  show ?thesis
    by (simp add: read_cstr_eq cstr_window_def MAX_PATH_LEN_def from_utf8_def string_of_bytes_def ascii)
qed

lemma sample_resolve: "hf_resolve sample_files ''/data/x'' = Inr [RootDir, Normal ''srv'', Normal ''x'']"
  by (simp add: hf_resolve_def sample_files_def normalize_guest_path_def starts_with_def
      preopen_suffix_def join_suffix_def path_push_def component_of_def)

theorem open_registers_witness:
  "\<exists>st'. import_file_open sample_sys sample_fs 0 0 0 (sample_host [47, 100, 97, 116, 97, 47, 120, 0]) = (Return 20000, st') \<and>
     (\<exists>h. hf_files (files st') = [20000 \<mapsto> h])"
proof -
  let ?st = "sample_host [47, 100, 97, 116, 97, 47, 120, 0]"
  let ?call = "import_file_open sample_sys sample_fs 0 0 0 ?st"
  have "fst ?call = Return 20000"
    by (simp add: import_file_open_def sample_host_def sample_path hf_open_def sample_resolve case_prod_beta
        hf_insert_def sample_fs_def) (simp add: sample_files_def GUEST_FD_BASE_def)
  then have e: "?call = (Return 20000, snd ?call)" by (simp add: prod_eq_iff)
  have ok: "preopens_ok (hf_preopens (files ?st))" and none: "hf_files (files ?st) = Map.empty"
    using sample_preopens_ok by (simp_all add: sample_host_def) (simp add: sample_files_def)
  from open_registers [OF e _ ok] obtain h where "hf_files (files (snd ?call)) = (hf_files (files ?st))(20000 \<mapsto> h)"
    by auto
  with none e show ?thesis by metis
qed

text \<open>
  C19: what the guest writes to a file it reads back: if the file system returns what was last
  written, a \<open>pread\<close> after a complete \<open>pwrite\<close> at the same offset copies the bytes of the first
  guest buffer into the second.
\<close>

theorem pwrite_then_pread:
  assumes "reads_back fs h" "hf_files (files st) fd = Some h"
    "import_pwrite sys fs fd p len off st = (Return len, st1)"
    "import_pread sys fs fd q len off st1 = (Return k, st2)" "0 < sint k" "0 \<le> sint len"
  shows "k = len \<and> files_read_guest (memory st2) q len = files_read_guest (memory st) p len"
  using assms by (rule pwrite_pread)

definition sample_writer :: "(host_socket, nat host_files, sample_os) app_state" where
  "sample_writer = (sample_host [1, 2, 3, 0, 0, 0])\<lparr>files := sample_files\<lparr>hf_files := [20000 \<mapsto> 1]\<rparr>\<rparr>"

definition sample_written :: "(host_socket, nat host_files, sample_os) app_state" where
  "sample_written = snd (import_pwrite sample_sys sample_fs 20000 0 3 0 sample_writer)"

theorem pwrite_then_pread_witness:
  "\<exists>st2. import_pread sample_sys sample_fs 20000 3 3 0 sample_written = (Return 3, st2) \<and>
     files_read_guest (memory st2) 3 3 = Inr [1, 2, 3]"
proof -
  have bs: "files_read_guest (memory sample_writer) 0 3 = Inr [1, 2, 3]"
    by (simp add: fmem.rd_view sample_writer_def sample_host_def mem_load_eq len_ok_def MAX_IO_LEN_def subslice_def)
  have h: "hf_files (files sample_writer) 20000 = Some 1" by (simp add: sample_writer_def)
  have w: "import_pwrite sample_sys sample_fs 20000 0 3 0 sample_writer = (Return 3, sample_written)"
    by (simp add: sample_written_def import_pwrite_def bs hf_pwrite_def hf_get_def h sample_fs_def i32_of_usize_def)
  have written: "sample_written = sample_writer\<lparr>os := sample_init\<lparr>so_data := (\<lambda>_. [])(1 := [1, 2, 3])\<rparr>\<rparr>"
    by (simp add: sample_written_def import_pwrite_def bs hf_pwrite_def hf_get_def h sample_fs_def patch_data_def)
      (simp add: sample_writer_def sample_host_def sample_init_def)
  let ?call = "import_pread sample_sys sample_fs 20000 3 3 0 sample_written"
  have "fst ?call = Return 3"
    by (simp add: import_pread_def files_checked_len_eq checked_len_eq len_ok_def MAX_IO_LEN_def hf_pread_def hf_get_def
        written h sample_fs_def i32_of_usize_def slice_to_def fill_def)
      (simp add: sample_writer_def sample_host_def files_write_guest_eq write_guest_def checked_range_eq len_ok_def
        MAX_IO_LEN_def i32_of_usize_def)
  then have r: "?call = (Return 3, snd ?call)" by (simp add: prod_eq_iff)
  from pwrite_then_pread [OF sample_reads_back h w r] bs
  have "files_read_guest (memory (snd ?call)) 3 3 = Inr [1, 2, 3]" by simp
  with r show ?thesis by blast
qed

text \<open>
  C31: every file import that returns answers with a non-negative value or with the negation of an
  errno of the guest's ABI, for the 64-bit \<open>seek\<close> too.
\<close>

theorem file_replies:
  assumes "files_wf (files st)"
  shows "val_ok (fst (exec_file sys fs c st))"
  using assms by (rule exec_file_reply)

theorem file_replies_witness:
  "val_ok (fst (exec_file sample_sys sample_fs (F_seek 20000 (-5) 0) (sample_host [])))"
  by (rule file_replies) (simp add: sample_host_def sample_files_def files_wf_def fd_wf_empty)

end
