(* ===== verification/Startup.thy ===== *)
theory Startup
  imports Host_Files Host_Sockets "HOL-Library.Sublist"
begin

text \<open>
  \<^verbatim>\<open>src/src/main.rs\<close>: how the host configures the guest and starts it.  Wasmtime, its WASI context and
  \<open>signal_hook\<close> are third-party code, so the functions the source calls on them are fields of a
  record \<open>wasm_api\<close> over a world \<open>'w\<close> (engine, linker, store and instance of one thread); the
  builder of the WASI context is the list of configuration calls made on it.
\<close>

subsection \<open>Errors and sequencing\<close>

text \<open>\<open>wasmtime::Error\<close>: the messages added by \<open>context\<close>, and the \<open>I32Exit\<close> it can be downcast to.\<close>

record run_error =
  err_context :: "string list"
  err_exit :: "i32 option"

definition err_msg :: "string \<Rightarrow> run_error" where
  "err_msg msg = \<lparr>err_context = [msg], err_exit = None\<rparr>"

definition context_err :: "string \<Rightarrow> run_error + 'a \<Rightarrow> run_error + 'a" where
  "context_err msg r = map_sum (\<lambda>e. e\<lparr>err_context := msg # err_context e\<rparr>) id r"

definition run_error_of_io :: "io_error \<Rightarrow> run_error" where
  "run_error_of_io e = err_msg ''io error''"

type_synonym ('w, 'a) run_m = "'w \<Rightarrow> (run_error + 'a) \<times> 'w"

definition rbind :: "('w, 'a) run_m \<Rightarrow> ('a \<Rightarrow> ('w, 'b) run_m) \<Rightarrow> ('w, 'b) run_m" where
  "rbind m f w = (case m w of (Inl e, w) \<Rightarrow> (Inl e, w) | (Inr a, w) \<Rightarrow> f a w)"

definition rthen :: "('w, unit) run_m \<Rightarrow> ('w, 'b) run_m \<Rightarrow> ('w, 'b) run_m" where
  "rthen m k = rbind m (\<lambda>_. k)"

definition rreturn :: "'a \<Rightarrow> ('w, 'a) run_m" where
  "rreturn a w = (Inr a, w)"

definition rlift :: "run_error + 'a \<Rightarrow> ('w, 'a) run_m" where
  "rlift r w = (r, w)"

definition rcontext :: "string \<Rightarrow> ('w, 'a) run_m \<Rightarrow> ('w, 'a) run_m" where
  "rcontext msg m w = map_prod (context_err msg) id (m w)"

subsection \<open>The WASI context\<close>

datatype wasi_call =
    InheritStdio
  | AllowBlockingCurrentThread bool
  | InheritEnv
  | Env string string
  | Args "string list"
  | PreopenedDir host_path string
  | InitialCwd string
  | InheritNetwork
  | AllowIpNameLookup bool
  | AllowTcp bool
  | AllowUdp bool

record host_env =
  he_current_dir :: "io_error + host_path"
  he_is_dir :: "host_path \<Rightarrow> bool"
  he_preopened_dir :: "host_path \<Rightarrow> string \<Rightarrow> run_error + unit"

definition preopen_dir :: "host_env \<Rightarrow> wasi_call list \<Rightarrow> host_path \<Rightarrow> string \<Rightarrow> run_error + wasi_call list" where
  "preopen_dir he builder host guest =
     (if \<not> he_is_dir he host then Inl (err_msg ''preopen host path is not a directory'')
      else case context_err ''failed to preopen'' (he_preopened_dir he host guest) of
        Inl e \<Rightarrow> Inl e
      | Inr _ \<Rightarrow> Inr (builder @ [PreopenedDir host guest]))"

fun preopen_all :: "host_env \<Rightarrow> wasi_call list \<Rightarrow> preopen list \<Rightarrow> run_error + wasi_call list" where
  "preopen_all he builder [] = Inr builder"
| "preopen_all he builder (p # ps) =
     (case preopen_dir he builder (pre_host p) (pre_guest p) of
        Inl e \<Rightarrow> Inl e
      | Inr builder \<Rightarrow> preopen_all he builder ps)"

definition build_wasi :: "host_env \<Rightarrow> cli \<Rightarrow> run_error + wasi_call list" where
  "build_wasi he cli =
     (let builder = [InheritStdio, AllowBlockingCurrentThread True];
          builder = (if \<not> no_inherit_env cli then builder @ [InheritEnv] else builder);
          builder = builder @ map (\<lambda>e. Env (env_key e) (env_value e)) (env cli);
          args = [''mysqld''] @ guest_args cli;
          builder = builder @ [Args args];
          with_cwd = (if \<not> no_default_preopen cli then
                        (case he_current_dir he of
                           Inl e \<Rightarrow> context_err ''failed to read current directory'' (Inl (run_error_of_io e))
                         | Inr cwd \<Rightarrow>
                            (case preopen_dir he builder cwd ''.'' of
                               Inl e \<Rightarrow> Inl e
                             | Inr builder \<Rightarrow> Inr (builder @ [InitialCwd ''.''])))
                      else Inr builder)
      in case with_cwd of
           Inl e \<Rightarrow> Inl e
         | Inr builder \<Rightarrow>
            (case preopen_all he builder (preopens cli) of
               Inl e \<Rightarrow> Inl e
             | Inr builder \<Rightarrow>
                Inr (if \<not> no_network cli
                     then builder @ [InheritNetwork, AllowIpNameLookup True, AllowTcp True, AllowUdp True]
                     else builder)))"

subsection \<open>Signals\<close>

datatype signal = SIGINT | SIGTERM

datatype signal_action = ConditionalShutdown i32 | SetFlag

text \<open>The registrations of \<open>install_shutdown_signal_handlers\<close>, in order, all on the one flag.\<close>

definition shutdown_registrations :: "(signal \<times> signal_action \<times> string) list" where
  "shutdown_registrations =
     [(SIGINT, ConditionalShutdown 1, ''failed to register second Ctrl+C shutdown handler''),
      (SIGINT, SetFlag, ''failed to register Ctrl+C shutdown handler''),
      (SIGTERM, SetFlag, ''failed to register SIGTERM shutdown handler'')]"

subsection \<open>Wasmtime below\<close>

record mem_type =
  mt_shared :: bool
  mt_min :: nat
  mt_max :: "nat option"

datatype extern_type = Memory mem_type | OtherExtern

record module_import =
  imp_module :: string
  imp_name :: string
  imp_ty :: extern_type

text \<open>\<open>AppState\<close> as the source constructs it for a store.\<close>

record 'h store_state =
  ss_wasi :: "wasi_call list"
  ss_files :: "'h host_files"
  ss_sockets :: "host_socket host_sockets"
  ss_network_allowed :: bool
  ss_shutdown_requested :: bool

record 'm imported_shared_memory =
  ism_module :: string
  ism_name :: string
  ism_memory :: 'm

text \<open>\<open>RuntimeEnv\<close>, what the threads share; the engine and the module are part of the world.\<close>

record ('m, 'h) runtime_env =
  rt_cli :: cli
  rt_files :: "'h host_files"
  rt_sockets :: "host_socket host_sockets"
  rt_shutdown_requested :: bool
  rt_memories :: "'m imported_shared_memory list"
  rt_next_thread_id :: i32

record engine_config =
  cfg_wasm_threads :: bool
  cfg_wasm_exceptions :: bool
  cfg_shared_memory :: bool

record ('m, 'h, 'w) wasm_api =
  api_engine_new :: "engine_config \<Rightarrow> ('w, unit) run_m"
  api_module_from_binary :: "('w, unit) run_m"
  api_register :: "signal \<Rightarrow> signal_action \<Rightarrow> ('w, unit) run_m"
  api_linker_new :: "'w \<Rightarrow> 'w"
  api_link_wasi :: "('w, unit) run_m"
  api_func_wrap :: "string \<Rightarrow> string \<Rightarrow> ('w, unit) run_m"
  api_func_wrap_spawn :: "string \<Rightarrow> string \<Rightarrow> ('m, 'h) runtime_env \<Rightarrow> ('w, unit) run_m"
  api_store_new :: "'h store_state \<Rightarrow> 'w \<Rightarrow> 'w"
  api_imports :: "'w \<Rightarrow> module_import list"
  api_shared_memory_new :: "mem_type \<Rightarrow> ('w, 'm) run_m"
  api_memory_new :: "mem_type \<Rightarrow> ('w, 'm) run_m"
  api_define :: "string \<Rightarrow> string \<Rightarrow> 'm \<Rightarrow> ('w, unit) run_m"
  api_unknown_imports_as_traps :: "('w, unit) run_m"
  api_instantiate :: "('w, unit) run_m"
  api_get_typed_func :: "string \<Rightarrow> ('w, unit) run_m"
  api_call :: "i32 list \<Rightarrow> ('w, unit) run_m"

subsection \<open>The linker\<close>

definition file_imports :: "(string \<times> string) list" where
  "file_imports = map (Pair ''waasmtime_mysql_files'')
     [''open'', ''close'', ''pread'', ''pwrite'', ''seek'', ''truncate'', ''sync'', ''sync_parent'',
      ''lock_exclusive'']"

definition socket_imports :: "(string \<times> string) list" where
  "socket_imports = map (Pair ''waasmtime_mysql_sockets'')
     [''socket'', ''bind'', ''listen'', ''accept'', ''connect'', ''getsockname'', ''getpeername'',
      ''setsockopt'', ''getsockopt'', ''send'', ''recv'', ''sendto'', ''recvfrom'', ''shutdown'',
      ''close'', ''fcntl'', ''poll'']"

fun wrap_all :: "('m, 'h, 'w) wasm_api \<Rightarrow> (string \<times> string) list \<Rightarrow> ('w, unit) run_m" where
  "wrap_all api [] = rreturn ()"
| "wrap_all api ((m, n) # rest) = rthen (api_func_wrap api m n) (wrap_all api rest)"

definition build_base_linker :: "('m, 'h, 'w) wasm_api \<Rightarrow> ('w, unit) run_m" where
  "build_base_linker api w =
     rthen (rcontext ''failed to link WASIp1 imports'' (api_link_wasi api))
     (rthen (rcontext ''failed to link host file imports'' (wrap_all api file_imports))
     (rthen (rcontext ''failed to link host socket imports'' (wrap_all api socket_imports))
     (rthen (api_func_wrap api ''wasmtime_mysql_runtime'' ''request_shutdown'')
            (api_func_wrap api ''wasmtime_mysql_runtime'' ''shutdown_requested'')))) (api_linker_new api w)"

fun register_all :: "('m, 'h, 'w) wasm_api \<Rightarrow> (signal \<times> signal_action \<times> string) list \<Rightarrow> ('w, unit) run_m" where
  "register_all api [] = rreturn ()"
| "register_all api ((sg, a, msg) # rest) =
     rthen (rcontext msg (api_register api sg a)) (register_all api rest)"

definition install_shutdown_signal_handlers :: "('m, 'h, 'w) wasm_api \<Rightarrow> ('w, unit) run_m" where
  "install_shutdown_signal_handlers api = register_all api shutdown_registrations"

text \<open>The loop of \<open>define_imported_memories\<close>; \<open>seen\<close> is its hash set of module and name.\<close>

fun define_memories :: "('m, 'h, 'w) wasm_api \<Rightarrow> (string \<times> string) set \<Rightarrow> 'm imported_shared_memory list \<Rightarrow>
    module_import list \<Rightarrow> ('w, 'm imported_shared_memory list) run_m" where
  "define_memories api seen memories [] = rreturn memories"
| "define_memories api seen memories (imp # rest) =
     (case imp_ty imp of
        OtherExtern \<Rightarrow> define_memories api seen memories rest
      | Memory ty \<Rightarrow>
         (let key = (imp_module imp, imp_name imp)
          in if key \<in> seen then define_memories api seen memories rest
             else if mt_shared ty then
               rbind (rcontext ''failed to create shared memory'' (api_shared_memory_new api ty))
                 (\<lambda>memory. rthen (api_define api (fst key) (snd key) memory)
                    (define_memories api (insert key seen)
                      (memories @ [\<lparr>ism_module = fst key, ism_name = snd key, ism_memory = memory\<rparr>]) rest))
             else
               rbind (rcontext ''failed to create memory'' (api_memory_new api ty))
                 (\<lambda>memory. rthen (api_define api (fst key) (snd key) memory)
                    (define_memories api (insert key seen) memories rest))))"

definition define_imported_memories :: "('m, 'h, 'w) wasm_api \<Rightarrow> ('w, 'm imported_shared_memory list) run_m" where
  "define_imported_memories api w = define_memories api {} [] (api_imports api w) w"

fun define_shared_memories :: "('m, 'h, 'w) wasm_api \<Rightarrow> 'm imported_shared_memory list \<Rightarrow> ('w, unit) run_m" where
  "define_shared_memories api [] = rreturn ()"
| "define_shared_memories api (memory # rest) =
     rthen (api_define api (ism_module memory) (ism_name memory) (ism_memory memory))
       (define_shared_memories api rest)"

text \<open>The import captures the runtime and calls \<open>spawn_wasi_thread\<close> with it.\<close>

definition define_wasi_thread_spawn :: "('m, 'h, 'w) wasm_api \<Rightarrow> ('m, 'h) runtime_env \<Rightarrow> ('w, unit) run_m" where
  "define_wasi_thread_spawn api runtime = api_func_wrap_spawn api ''wasi'' ''thread-spawn'' runtime"

subsection \<open>Running\<close>

text \<open>\<open>Store::new(&engine, state)\<close> and what follows it.\<close>

definition with_store :: "('m, 'h, 'w) wasm_api \<Rightarrow> 'h store_state \<Rightarrow> ('w, 'a) run_m \<Rightarrow> ('w, 'a) run_m" where
  "with_store api state m w = m (api_store_new api state w)"

definition run :: "('m, 'h, 'w) wasm_api \<Rightarrow> host_env \<Rightarrow> cli \<Rightarrow> ('w, unit) run_m" where
  "run api he cli =
     (if show_embedded_source cli then rreturn ()
      else
        rthen (rcontext ''failed to create Wasmtime engine'' (api_engine_new api
                 \<lparr>cfg_wasm_threads = True, cfg_wasm_exceptions = True, cfg_shared_memory = True\<rparr>))
        (rthen (rcontext ''failed to compile embedded mysqld WebAssembly module'' (api_module_from_binary api))
        (rbind (rlift (build_wasi he cli)) (\<lambda>wasi.
         let network_allowed = \<not> no_network cli in
         rbind (rlift (context_err ''failed to configure host file table''
                  (map_sum run_error_of_io id (hf_new cli (he_current_dir he))))) (\<lambda>files.
         let sockets = hs_new; shutdown_requested = False in
         rthen (install_shutdown_signal_handlers api)
         (rthen (build_base_linker api)
         (let state = \<lparr>ss_wasi = wasi, ss_files = files, ss_sockets = sockets,
                       ss_network_allowed = network_allowed, ss_shutdown_requested = shutdown_requested\<rparr> in
          with_store api state
          (rbind (rcontext ''failed to define imported memories'' (define_imported_memories api)) (\<lambda>memories.
           let runtime = \<lparr>rt_cli = cli, rt_files = files, rt_sockets = sockets,
                          rt_shutdown_requested = shutdown_requested, rt_memories = memories,
                          rt_next_thread_id = 1\<rparr> in
           rthen (rcontext ''failed to define WASI thread spawn import'' (define_wasi_thread_spawn api runtime))
           (rthen (rcontext ''failed to define trap handlers for unsupported imports''
                     (api_unknown_imports_as_traps api))
           (rthen (rcontext ''failed to instantiate embedded mysqld module'' (api_instantiate api))
           (rthen (rcontext ''embedded module does not export a WASI _start function''
                     (api_get_typed_func api ''_start''))
                  (rcontext ''embedded mysqld module trapped'' (api_call api []))))))))))))))"

definition main :: "('m, 'h, 'w) wasm_api \<Rightarrow> host_env \<Rightarrow> cli \<Rightarrow> 'w \<Rightarrow> u8 \<times> 'w" where
  "main api he cli w =
     (case run api he cli w of
        (Inr _, w) \<Rightarrow> (0, w)
      | (Inl err, w) \<Rightarrow>
         (case err_exit err of Some status \<Rightarrow> (exit_code_from_i32 status, w) | None \<Rightarrow> (1, w)))"

text \<open>\<open>run_wasi_thread\<close>: the new instance shares the tables, the flag and the memories.\<close>

definition run_wasi_thread ::
    "('m, 'h, 'w) wasm_api \<Rightarrow> host_env \<Rightarrow> ('m, 'h) runtime_env \<Rightarrow> i32 \<Rightarrow> i32 \<Rightarrow> ('w, unit) run_m" where
  "run_wasi_thread api he rt thread_id start_arg =
     rthen (build_base_linker api)
     (rbind (rlift (build_wasi he (rt_cli rt))) (\<lambda>wasi.
       let state = \<lparr>ss_wasi = wasi, ss_files = rt_files rt, ss_sockets = rt_sockets rt,
                    ss_network_allowed = \<not> no_network (rt_cli rt),
                    ss_shutdown_requested = rt_shutdown_requested rt\<rparr> in
       with_store api state
         (rthen (rcontext ''failed to define shared memories for WASI thread''
                  (define_shared_memories api (rt_memories rt)))
          (rthen (rcontext ''failed to define nested WASI thread spawn import'' (define_wasi_thread_spawn api rt))
          (rthen (rcontext ''failed to define trap handlers for WASI thread'' (api_unknown_imports_as_traps api))
          (rthen (rcontext ''failed to instantiate WASI thread module'' (api_instantiate api))
          (rthen (rcontext ''module does not export wasi_thread_start(thread_id, start_arg)''
                    (api_get_typed_func api ''wasi_thread_start''))
                 (\<lambda>w. case api_call api [thread_id, start_arg] w of
                        (Inr _, w) \<Rightarrow> (Inr (), w)
                      | (Inl err, w) \<Rightarrow>
                         if err_exit err \<noteq> None then (Inr (), w)
                         else (context_err ''WASI thread trapped'' (Inl err), w)))))))))"

text \<open>
  \<open>spawn_wasi_thread\<close>: \<open>fetch_add\<close> wraps; \<open>spawned\<close> tells whether the operating system could start
  the thread.  The result is the reply to the guest, the counter and the thread that was started.
\<close>

definition spawn_wasi_thread :: "bool \<Rightarrow> i32 \<Rightarrow> i32 \<times> i32 \<times> i32 option" where
  "spawn_wasi_thread spawned next_thread_id =
     (let thread_id = next_thread_id; next_thread_id = next_thread_id + 1
      in if sint thread_id \<le> 0 then (- EAGAIN, next_thread_id, None)
         else if spawned then (thread_id, next_thread_id, Some thread_id)
         else (- EAGAIN, next_thread_id, None))"

end
