(* ===== verification/Host_Runtime.thy ===== *)
theory Host_Runtime
  imports Socket_Safety File_Safety Startup
begin

text \<open>
  The host as a whole.  Its state is what all guest threads share (an \<open>app_state\<close>); a step
  is one import call by some thread, a store or growth of the guest memory by guest code, an
  operation of the operating system on its own, or a signal.  Each import runs against the tables
  under their mutex; the memory an import sees is the one at its call.  The locale
  \<open>host_components\<close> states what the two import modules promise, and in it the invariants over all
  interleavings are proved once, by induction over the steps; it is interpreted here by the modules
  of the Unix build.
\<close>

subsection \<open>The shutdown flag\<close>

definition import_request_shutdown :: "('s, 'f, 'os) app_state \<Rightarrow> unit outcome \<times> ('s, 'f, 'os) app_state" where
  "import_request_shutdown st = (Return (), st\<lparr>shutdown_requested := True\<rparr>)"

definition import_shutdown_requested :: "('s, 'f, 'os) import" where
  "import_shutdown_requested st = (Return (if shutdown_requested st then 1 else 0), st)"

subsection \<open>Observations a component does not touch\<close>

text \<open>
  The open files are observed as the \<open>File\<close> values that the host holds, which a system call on a socket
  neither creates nor drops.
\<close>

definition sys_frames :: "'os unix_sys \<Rightarrow> ('os \<Rightarrow> 'x) \<Rightarrow> bool" where
  "sys_frames sys f \<longleftrightarrow>
     (\<forall>d t p s. f (snd (sys_socket sys d t p s)) = f s) \<and>
     (\<forall>r n s. f (snd (sys_accept sys r n s)) = f s) \<and>
     (\<forall>r s. f (snd (sys_close sys r s)) = f s) \<and>
     (\<forall>r a s. f (snd (sys_bind sys r a s)) = f s) \<and>
     (\<forall>r n s. f (snd (sys_listen sys r n s)) = f s) \<and>
     (\<forall>r a s. f (snd (sys_connect sys r a s)) = f s) \<and>
     (\<forall>r n s. f (snd (sys_getsockname sys r n s)) = f s) \<and>
     (\<forall>r n s. f (snd (sys_getpeername sys r n s)) = f s) \<and>
     (\<forall>r l n v s. f (snd (sys_setsockopt sys r l n v s)) = f s) \<and>
     (\<forall>r l n m s. f (snd (sys_getsockopt sys r l n m s)) = f s) \<and>
     (\<forall>r b g s. f (snd (sys_send sys r b g s)) = f s) \<and>
     (\<forall>r n g s. f (snd (sys_recv sys r n g s)) = f s) \<and>
     (\<forall>r b g a s. f (snd (sys_sendto sys r b g a s)) = f s) \<and>
     (\<forall>r n g m s. f (snd (sys_recvfrom sys r n g m s)) = f s) \<and>
     (\<forall>r h s. f (snd (sys_shutdown sys r h s)) = f s) \<and>
     (\<forall>r c a s. f (snd (sys_fcntl sys r c a s)) = f s) \<and>
     (\<forall>fds t s. f (snd (sys_poll sys fds t s)) = f s)"

lemma sys_frames_simps:
  assumes "sys_frames sys f"
  shows "f (snd (sys_socket sys d t p s)) = f s" "f (snd (sys_accept sys r m s)) = f s"
    "f (snd (sys_close sys r s)) = f s" "f (snd (sys_bind sys r a s)) = f s"
    "f (snd (sys_listen sys r i s)) = f s" "f (snd (sys_connect sys r a s)) = f s"
    "f (snd (sys_getsockname sys r m s)) = f s" "f (snd (sys_getpeername sys r m s)) = f s"
    "f (snd (sys_setsockopt sys r l i a s)) = f s" "f (snd (sys_getsockopt sys r l i m s)) = f s"
    "f (snd (sys_send sys r a i s)) = f s" "f (snd (sys_recv sys r k i s)) = f s"
    "f (snd (sys_sendto sys r a i b s)) = f s" "f (snd (sys_recvfrom sys r k i m s)) = f s"
    "f (snd (sys_shutdown sys r i s)) = f s" "f (snd (sys_fcntl sys r i x s)) = f s"
    "f (snd (sys_poll sys fds i s)) = f s"
  using assms unfolding sys_frames_def by simp_all

definition fs_frames :: "('h, 'os) fs_sys \<Rightarrow> ('os \<Rightarrow> 'x) \<Rightarrow> bool" where
  "fs_frames fs f \<longleftrightarrow>
     (\<forall>opts p s. f (snd (fs_open fs opts p s)) = f s) \<and>
     (\<forall>h s. f (fs_close fs h s) = f s) \<and>
     (\<forall>h n off s. f (snd (fs_read_at fs h n off s)) = f s) \<and>
     (\<forall>h bs off s. f (snd (fs_write_at fs h bs off s)) = f s) \<and>
     (\<forall>h w s. f (snd (fs_seek fs h w s)) = f s) \<and>
     (\<forall>h n s. f (snd (fs_set_len fs h n s)) = f s) \<and>
     (\<forall>h s. f (snd (fs_sync_all fs h s)) = f s) \<and>
     (\<forall>h s. f (snd (fs_sync_data fs h s)) = f s) \<and>
     (\<forall>r c l s. f (snd (fs_fcntl_lock fs r c l s)) = f s)"

lemma fs_frames_simps:
  assumes "fs_frames fs f"
  shows "f (snd (fs_open fs opts p s)) = f s" "f (fs_close fs h s) = f s"
    "f (snd (fs_read_at fs h n off s)) = f s" "f (snd (fs_write_at fs h bs off s)) = f s"
    "f (snd (fs_seek fs h w s)) = f s" "f (snd (fs_set_len fs h off s)) = f s"
    "f (snd (fs_sync_all fs h s)) = f s" "f (snd (fs_sync_data fs h s)) = f s"
    "f (snd (fs_fcntl_lock fs r c l s)) = f s"
  using assms unfolding fs_frames_def by simp_all

lemma exec_sock_frames:
  assumes "sys_frames sys f"
  shows "f (os (snd (exec_sock sys c st))) = f (os st)"
proof -
  note frames = sys_frames_simps [OF assms]
  have conf: "f (snd (configure_socket_type_flags sys raw ty s)) = f s" for raw ty s
    by (simp add: configure_socket_type_flags_def Let_def case_prod_beta frames split: sum.split)
  have fcntl: "f (snd (socket_fcntl sys raw cmd arg s)) = f s" for raw cmd arg s
    by (simp add: socket_fcntl_def Let_def case_prod_beta frames)
  have name: "f (os (snd (sock_name sys fd a l k st))) = f (os st)" for fd a l k
    by (cases k) (simp_all add: sock_name_def Let_def case_prod_beta frames split: sum.split option.split)
  show ?thesis
  proof (cases c)
    case (C_socket d t p)
    then show ?thesis
      by (auto simp: import_socket_def Let_def case_prod_beta frames conf split: sum.split)
  qed (simp_all add: import_bind_def import_listen_def import_accept_def import_connect_def
      import_getsockname_def import_getpeername_def import_setsockopt_def import_getsockopt_def
      import_send_def import_recv_def import_sendto_def import_recvfrom_def import_shutdown_def
      import_close_def import_fcntl_def import_poll_def name
      Let_def case_prod_beta frames fcntl split: sum.split option.split)
qed

lemma exec_file_frames:
  assumes "fs_frames fs f"
  shows "f (os (snd (exec_file sys fs c st))) = f (os st)"
proof -
  note frames = fs_frames_simps [OF assms]
  have drop: "f (fs_drop fs x s) = f s" for x s by (cases x) (simp_all add: fs_drop_def frames)
  show ?thesis
    by (cases c)
      (simp_all add: import_defs hf_open_def hf_close_def hf_pread_def hf_pwrite_def hf_seek_def
        hf_truncate_def hf_sync_def hf_sync_parent_def hf_lock_exclusive_def
        Let_def case_prod_beta frames drop split: sum.split option.split)
qed

subsection \<open>Steps\<close>

text \<open>Guest code stores into its memory and may grow it.\<close>

definition guest_changes :: "mem_export \<Rightarrow> mem_export \<Rightarrow> bool" where
  "guest_changes m m' \<longleftrightarrow>
     (case (mem_len m, mem_len m') of
        (Some n, Some n') \<Rightarrow> n \<le> n' | (None, None) \<Rightarrow> True | _ \<Rightarrow> False)"

text \<open>
  The imports of the two modules are given by \<open>xs\<close> and \<open>xf\<close>; \<open>ambient\<close> is what the operating system
  may do on its own.  The flag \<open>panics\<close> says whether imports that panic are among the steps.
\<close>

inductive host_step :: "(sock_call \<Rightarrow> ('s, 'f, 'os) import) \<Rightarrow>
    (file_call \<Rightarrow> ('s, 'f, 'os) app_state \<Rightarrow> wasm_val outcome \<times> ('s, 'f, 'os) app_state) \<Rightarrow>
    ('os \<Rightarrow> 'os \<Rightarrow> bool) \<Rightarrow> bool \<Rightarrow> ('s, 'f, 'os) app_state \<Rightarrow> ('s, 'f, 'os) app_state \<Rightarrow> bool"
  for xs xf ambient panics where
  socket_call: "xs c st = (r, st') \<Longrightarrow> r = Panic \<longrightarrow> panics \<Longrightarrow> host_step xs xf ambient panics st st'"
| file_call: "xf fc st = (v, st') \<Longrightarrow> v = Panic \<longrightarrow> panics \<Longrightarrow> host_step xs xf ambient panics st st'"
| request_shutdown: "import_request_shutdown st = (u, st') \<Longrightarrow> host_step xs xf ambient panics st st'"
| query_shutdown: "import_shutdown_requested st = (r, st') \<Longrightarrow> host_step xs xf ambient panics st st'"
| signal: "host_step xs xf ambient panics st (st\<lparr>shutdown_requested := True\<rparr>)"
| guest: "guest_changes (memory st) m \<Longrightarrow> host_step xs xf ambient panics st (st\<lparr>memory := m\<rparr>)"
| environment: "ambient (os st) s \<Longrightarrow> host_step xs xf ambient panics st (st\<lparr>os := s\<rparr>)"

abbreviation host_run :: "(sock_call \<Rightarrow> ('s, 'f, 'os) import) \<Rightarrow>
    (file_call \<Rightarrow> ('s, 'f, 'os) app_state \<Rightarrow> wasm_val outcome \<times> ('s, 'f, 'os) app_state) \<Rightarrow>
    ('os \<Rightarrow> 'os \<Rightarrow> bool) \<Rightarrow> bool \<Rightarrow> ('s, 'f, 'os) app_state \<Rightarrow> ('s, 'f, 'os) app_state \<Rightarrow> bool" where
  "host_run xs xf ambient panics \<equiv> (host_step xs xf ambient panics)\<^sup>*\<^sup>*"

text \<open>The \<open>AppState\<close> that \<open>run\<close> puts into the store, and what its imports reach.\<close>

definition initial_state :: "cli \<Rightarrow> 'f \<Rightarrow> mem_export \<Rightarrow> 'os \<Rightarrow> ('s, 'f, 'os) app_state" where
  "initial_state cli t m s =
     \<lparr>memory = m, files = t, sockets = hs_new, network_allowed = (\<not> no_network cli),
      shutdown_requested = False, os = s\<rparr>"

subsection \<open>What the import modules promise\<close>

text \<open>
  The promises hold when the platform keeps its own, a condition \<open>P\<close>.  The file table owns the
  handles \<open>fowned\<close>, keeps an invariant \<open>finv\<close> together with the operating system, has a part \<open>fixed\<close>
  that no import changes, and descriptors \<open>fdead\<close> that are never handed out again.
\<close>

locale host_components =
  fixes P :: bool
    and xs :: "sock_call \<Rightarrow> ('s, 'f, 'os) app_state \<Rightarrow> i32 outcome \<times> ('s, 'f, 'os) app_state"
    and xf :: "file_call \<Rightarrow> ('s, 'f, 'os) app_state \<Rightarrow> wasm_val outcome \<times> ('s, 'f, 'os) app_state"
    and ambient :: "'os \<Rightarrow> 'os \<Rightarrow> bool"
    and raw :: "'s \<Rightarrow> 'r" and opens :: "'os \<Rightarrow> 'r set" and handles :: "'os \<Rightarrow> 'h set"
    and finv :: "'f \<times> 'os \<Rightarrow> bool" and fowned :: "'f \<Rightarrow> 'h set" and fixed :: "'f \<Rightarrow> 'p"
    and fdead :: "i32 \<Rightarrow> 'f \<Rightarrow> bool"
  assumes sock_table: "P \<Longrightarrow> table_step raw opens st (fst (xs c st)) (snd (xs c st))"
    and sock_frame: "import_frame st (snd (xs c st))"
    and sock_handles: "P \<Longrightarrow> handles (os (snd (xs c st))) = handles (os st)"
    and sock_offline: "offline st \<Longrightarrow> offline (snd (xs c st))"
    and file_opens: "P \<Longrightarrow> opens (os (snd (xf fc st))) = opens (os st)"
    and file_frames: "sockets (snd (xf fc st)) = sockets st"
      "network_allowed (snd (xf fc st)) = network_allowed st"
      "shutdown_requested (snd (xf fc st)) = shutdown_requested st"
      "fixed (files (snd (xf fc st))) = fixed (files st)"
    and file_keeps: "P \<Longrightarrow> finv (files st, os st) \<Longrightarrow>
        finv (files (snd (xf fc st)), os (snd (xf fc st))) \<and>
        handles (os (snd (xf fc st))) - fowned (files (snd (xf fc st))) = handles (os st) - fowned (files st)"
    and ambient_keeps: "ambient s s' \<Longrightarrow> opens s' = opens s \<and> handles s' = handles s"
    and finv_os: "handles s' = handles s \<Longrightarrow> finv (t, s) \<Longrightarrow> finv (t, s')"
    and file_dead: "P \<Longrightarrow> fdead fd (files st) \<Longrightarrow> fdead fd (files (snd (xf fc st)))"
begin

text \<open>The effect of a step on the socket table, on the file table, and on what never changes.\<close>

lemma step_table:
  assumes "host_step xs xf ambient panics st st'" P
  shows "\<exists>r. table_step raw opens st r st' \<and> (r = Panic \<longrightarrow> panics)"
  using assms(1)
proof cases
  case (socket_call c r)
  with sock_table [OF assms(2), of st c] show ?thesis by auto
next
  case (file_call fc v)
  then have "table_step raw opens st (Return 0) st'"
    using file_opens [OF assms(2), of fc st] file_frames(1) [of fc st] by (intro table_step.keep) simp_all
  then show ?thesis by blast
qed (auto simp: import_request_shutdown_def import_shutdown_requested_def dest: ambient_keeps
    intro!: exI [of _ "Return 0"] table_step.keep)

lemma step_files:
  assumes "host_step xs xf ambient panics st st'" P
  shows "(\<exists>fc. st' = snd (xf fc st)) \<or> files st' = files st \<and> handles (os st') = handles (os st)"
  using assms(1)
proof cases
  case (socket_call c r)
  with sock_handles [OF assms(2), of c st] sock_frame [of st c] show ?thesis by (simp add: import_frame_def)
next
  case (file_call fc v)
  then show ?thesis by (metis snd_conv)
qed (auto simp: import_request_shutdown_def import_shutdown_requested_def dest: ambient_keeps)

lemma step_frame:
  assumes "host_step xs xf ambient panics st st'"
  shows "network_allowed st' = network_allowed st \<and> fixed (files st') = fixed (files st) \<and>
    (shutdown_requested st \<longrightarrow> shutdown_requested st') \<and> (offline st \<longrightarrow> offline st')"
  using assms
proof cases
  case (socket_call c r)
  with sock_frame [of st c] sock_offline [of st c] show ?thesis by (simp add: import_frame_def)
next
  case (file_call fc v)
  with file_frames [of fc st] show ?thesis by (simp add: offline_def)
qed (auto simp: import_request_shutdown_def import_shutdown_requested_def offline_def)

lemma run_frame:
  assumes "host_run xs xf ambient panics st st'"
  shows "network_allowed st' = network_allowed st \<and> fixed (files st') = fixed (files st) \<and>
    (shutdown_requested st \<longrightarrow> shutdown_requested st') \<and> (offline st \<longrightarrow> offline st')"
  using assms by (induction rule: rtranclp_induct) (auto dest: step_frame)

text \<open>The invariant, and what is open without being in a table.\<close>

definition hinv :: "('s, 'f, 'os) app_state \<Rightarrow> bool" where
  "hinv st \<longleftrightarrow> sock_inv raw opens st \<and> finv (files st, os st)"

definition stray :: "('s, 'f, 'os) app_state \<Rightarrow> 'r set \<times> 'h set" where
  "stray st = (opens (os st) - owned raw (sockets st), handles (os st) - fowned (files st))"

lemma step_file_inv:
  assumes "host_step xs xf ambient panics st st'" P "finv (files st, os st)"
  shows "finv (files st', os st') \<and> handles (os st') - fowned (files st') = handles (os st) - fowned (files st)"
  using step_files [OF assms(1,2)] assms(3) file_keeps [OF assms(2)] finv_os by (metis (no_types, lifting))

lemma step_inv: "host_step xs xf ambient panics st st' \<Longrightarrow> P \<Longrightarrow> hinv st \<Longrightarrow> hinv st'"
  using step_table sock_inv_step step_file_inv unfolding hinv_def by blast

lemma run_inv:
  assumes "host_run xs xf ambient panics st st'" P "hinv st"
  shows "hinv st'"
  using assms(1,3) by (induction rule: rtranclp_induct) (auto intro: step_inv [OF _ assms(2)])

lemma step_next:
  assumes "host_step xs xf ambient panics st st'" P
  shows "sint (hs_next_fd (sockets st)) \<le> sint (hs_next_fd (sockets st'))"
  using step_table [OF assms] table_step_next by blast

lemma step_stray:
  assumes "host_step xs xf ambient False st st'" P "hinv st" "hs_next_fd (sockets st) \<noteq> i32_MAX"
  shows "stray st' = stray st"
proof -
  from step_table [OF assms(1,2)] obtain r where r: "table_step raw opens st r st'" "r \<noteq> Panic" by auto
  have "opens (os st') - owned raw (sockets st') = opens (os st) - owned raw (sockets st)"
    using assms(3,4) by (intro no_leak_step [OF r]) (simp_all add: hinv_def)
  with step_file_inv [OF assms(1,2)] assms(3) show ?thesis by (simp add: stray_def hinv_def)
qed

lemma run_stray:
  assumes run: "host_run xs xf ambient False st st'" and P: P and inv: "hinv st"
  shows "hs_next_fd (sockets st') \<noteq> i32_MAX \<Longrightarrow> stray st' = stray st"
  using run
proof (induction rule: rtranclp_induct)
  case (step y z)
  have "sint (hs_next_fd (sockets y)) \<le> sint (hs_next_fd (sockets z))"
    by (rule step_next [OF step(2) P])
  with step.prems have m: "hs_next_fd (sockets y) \<noteq> i32_MAX" by (auto simp: i32_MAX_iff)
  with step step_stray [OF step(2) P run_inv [OF step(1) P inv]] show ?case by simp
qed simp

text \<open>Descriptors that were closed stay closed.\<close>

lemma step_dead:
  assumes "host_step xs xf ambient panics st st'" P
  shows "dead_socket fd st \<Longrightarrow> dead_socket fd st'" "fdead fd (files st) \<Longrightarrow> fdead fd (files st')"
  using step_table [OF assms] step_files [OF assms] dead_socket_step file_dead [OF assms(2)] by metis+

lemma run_dead:
  assumes "host_run xs xf ambient panics st st'" P
  shows "dead_socket fd st \<Longrightarrow> dead_socket fd st'" "fdead fd (files st) \<Longrightarrow> fdead fd (files st')"
  using assms(1) by (induction rule: rtranclp_induct) (auto dest: step_dead [OF _ assms(2)])

text \<open>From the start.\<close>

lemma start_facts:
  assumes "finv (t, s)" "fowned t = {}"
  shows "hinv (initial_state cli t m s)" "stray (initial_state cli t m s) = (opens s, handles s)"
  using assms sockets_wf_new
  by (simp_all add: hinv_def stray_def initial_state_def sock_inv_def owned_def) (simp_all add: hs_new_def)

text \<open>What holds at the end of every run.\<close>

lemma reached_inv:
  assumes "host_run xs xf ambient panics (initial_state cli t m s) st" P "finv (t, s)" "fowned t = {}"
  shows "sock_inv raw opens st" "finv (files st, os st)" "fixed (files st) = fixed t"
  using run_inv [OF assms(1,2) start_facts(1) [OF assms(3,4)]] run_frame [OF assms(1)]
  by (simp_all add: hinv_def initial_state_def)

lemma reached_stray:
  assumes "host_run xs xf ambient False (initial_state cli t m s) st" P "finv (t, s)" "fowned t = {}"
    "hs_next_fd (sockets st) \<noteq> i32_MAX"
  shows "opens (os st) - owned raw (sockets st) = opens s" "handles (os st) - fowned (files st) = handles s"
  using run_stray [OF assms(1,2) start_facts(1) [OF assms(3,4)] assms(5)] start_facts(2) [OF assms(3,4), of cli m]
  by (simp_all add: stray_def)

end

subsection \<open>The Unix build\<close>

text \<open>What the platform promises: raw descriptors and file handles, each left alone by the other side.\<close>

definition platform_ok :: "'os unix_sys \<Rightarrow> ('h, 'os) fs_sys \<Rightarrow> ('os \<Rightarrow> i32 set) \<Rightarrow> ('os \<Rightarrow> 'h set) \<Rightarrow> bool" where
  "platform_ok sys fs opens handles \<longleftrightarrow>
     raw_fd_laws sys opens \<and> handle_laws fs handles \<and> sys_frames sys handles \<and> fs_frames fs opens"

type_synonym ('h, 'os) unix_host = "(host_socket, 'h host_files, 'os) app_state"

definition dead_file :: "i32 \<Rightarrow> 'h host_files \<Rightarrow> bool" where
  "dead_file fd t \<longleftrightarrow> sint fd < sint (hf_next_fd t) \<and> hf_files t fd = None"

lemma dead_file_step:
  assumes "file_step handles ts ts'" "dead_file fd (fst ts)"
  shows "dead_file fd (fst ts')"
  using assms(1)
proof cases
  case (fadd h s t fd' t' s')
  from fadd(1) assms(2) have d: "sint fd < sint (hf_next_fd t)" "hf_files t fd = None" by (simp_all add: dead_file_def)
  then have "fd \<noteq> hf_next_fd t" by auto
  moreover have "sint (hf_next_fd t) \<le> sint (i32_saturating_succ (hf_next_fd t))" by (rule saturating_succ_ge)
  ultimately show ?thesis using hf_insert_effect [OF fadd(4)] fadd(2) d by (simp add: dead_file_def)
next
  case (fdrop t fd' h t' s' s)
  then show ?thesis using hf_remove_effect [OF fdrop(3)] assms(2) by (simp add: dead_file_def)
qed (use assms(2) in simp)

text \<open>On its own the operating system opens and closes none of the host's descriptors.\<close>

definition unix_ambient :: "('os \<Rightarrow> i32 set) \<Rightarrow> ('os \<Rightarrow> 'h set) \<Rightarrow> 'os \<Rightarrow> 'os \<Rightarrow> bool" where
  "unix_ambient opens handles s s' \<longleftrightarrow> opens s' = opens s \<and> handles s' = handles s"

interpretation unix_host: host_components "platform_ok sys fs opens handles" "exec_sock sys" "exec_file sys fs"
  "unix_ambient opens handles" raw_fd opens handles "file_inv handles" owned_files hf_preopens dead_file
  for sys :: "'os unix_sys" and fs :: "('h, 'os) fs_sys" and opens handles
proof
  fix st :: "(host_socket, 'h host_files, 'os) app_state" and c fc s s' t fd
  show "import_frame st (snd (exec_sock sys c st))" by (rule exec_sock_frame)
  show "offline (snd (exec_sock sys c st))" if "offline st" using that by (rule offline_step)
  show "sockets (snd (exec_file sys fs fc st)) = sockets st"
    "network_allowed (snd (exec_file sys fs fc st)) = network_allowed st"
    "shutdown_requested (snd (exec_file sys fs fc st)) = shutdown_requested st"
    "hf_preopens (files (snd (exec_file sys fs fc st))) = hf_preopens (files st)"
    using exec_file_frame [of st sys fs fc] by (simp_all add: file_frame_def)
  show "opens s' = opens s \<and> handles s' = handles s" if "unix_ambient opens handles s s'"
    using that by (simp add: unix_ambient_def)
  show "file_inv handles (t, s')" if "handles s' = handles s" "file_inv handles (t, s)"
    using that by (simp add: file_inv_def)
  assume "platform_ok sys fs opens handles"
  then have L: "raw_fd_laws sys opens" "handle_laws fs handles" "sys_frames sys handles" "fs_frames fs opens"
    by (simp_all add: platform_ok_def)
  show "table_step raw_fd opens st (fst (exec_sock sys c st)) (snd (exec_sock sys c st))"
    by (rule exec_sock_step [OF L(1)])
  show "handles (os (snd (exec_sock sys c st))) = handles (os st)" by (rule exec_sock_frames [OF L(3)])
  show "opens (os (snd (exec_file sys fs fc st))) = opens (os st)" by (rule exec_file_frames [OF L(4)])
  have step: "file_step handles (file_part st) (file_part (snd (exec_file sys fs fc st)))"
    by (rule exec_file_step [OF L(2)])
  show "file_inv handles (file_part (snd (exec_file sys fs fc st))) \<and>
      handles (os (snd (exec_file sys fs fc st))) - owned_files (files (snd (exec_file sys fs fc st))) =
      handles (os st) - owned_files (files st)" if "file_inv handles (file_part st)"
    using file_inv_step [OF step that] by simp
  show "dead_file fd (files (snd (exec_file sys fs fc st)))" if "dead_file fd (files st)"
    using dead_file_step [OF step] that by simp
qed

abbreviation unix_run :: "'os unix_sys \<Rightarrow> ('h, 'os) fs_sys \<Rightarrow> ('os \<Rightarrow> i32 set) \<Rightarrow> ('os \<Rightarrow> 'h set) \<Rightarrow> bool \<Rightarrow>
    ('h, 'os) unix_host \<Rightarrow> ('h, 'os) unix_host \<Rightarrow> bool" where
  "unix_run sys fs opens handles \<equiv> host_run (exec_sock sys) (exec_file sys fs) (unix_ambient opens handles)"

lemma unix_files_start:
  assumes "hf_new cli cwd = Inr t"
  shows "file_inv handles (t, s)" "owned_files t = {}"
  using hf_new_preopens(4,5) [OF assms] by (simp_all add: file_inv_def files_wf_def fd_wf_empty owned_files_def)

lemma closed_socket_dead:
  assumes "sockets_wf (sockets st)" "hs_sockets (sockets st) fd = Some v" "fd \<noteq> i32_MAX"
  shows "dead_socket fd (snd (import_close sys fd st))"
  using assms fd_wf_below [of SOCKET_FD_BASE "hs_next_fd (sockets st)" "hs_sockets (sockets st)" fd]
  by (simp add: dead_socket_def import_close_def hs_remove_def case_prod_beta sockets_wf_def)

lemma closed_file_dead:
  assumes "files_wf (files st)" "hf_files (files st) fd = Some h" "fd \<noteq> i32_MAX"
  shows "dead_file fd (files (snd (import_file_close fs fd st)))"
  using assms fd_wf_below [of GUEST_FD_BASE "hf_next_fd (files st)" "hf_files (files st)" fd]
  by (simp add: dead_file_def import_file_close_def hf_close_def hf_remove_def case_prod_beta files_wf_def)

end
