(* ===== verification/Startup_Facts.thy ===== *)
theory Startup_Facts
  imports Startup Path_Resolution
begin

text \<open>
  What the start-up code guarantees: the grants of the WASI context and of the file table agree, the
  imported memories are created once and shared with every thread, thread ids are not reused, the
  second interrupt ends the process, and the exit status of the guest is passed on.
\<close>

lemma rbind_Inr:
  "rbind m f w = (Inr b, w') \<longleftrightarrow> (\<exists>a w1. m w = (Inr a, w1) \<and> f a w1 = (Inr b, w'))"
  by (auto simp: rbind_def split: prod.splits sum.splits)

lemma rthen_Inr: "rthen m k w = (Inr b, w') \<longleftrightarrow> (\<exists>w1. m w = (Inr (), w1) \<and> k w1 = (Inr b, w'))"
  by (auto simp: rthen_def rbind_Inr)

lemma rcontext_Inr: "rcontext msg m w = (Inr a, w') \<longleftrightarrow> m w = (Inr a, w')"
  by (cases "m w"; cases "fst (m w)") (auto simp: rcontext_def context_err_def)

lemma context_err_Inr: "context_err msg r = Inr a \<longleftrightarrow> r = Inr a"
  by (cases r) (auto simp: context_err_def)

lemma rreturn_eq: "rreturn a w = (r, w') \<longleftrightarrow> r = Inr a \<and> w' = w"
  by (auto simp: rreturn_def)

lemmas run_simps = rbind_Inr rthen_Inr rcontext_Inr context_err_Inr rreturn_eq

subsection \<open>The WASI context\<close>

definition granted_dirs :: "wasi_call list \<Rightarrow> (host_path \<times> string) list" where
  "granted_dirs calls = List.map_filter (\<lambda>c. case c of PreopenedDir h g \<Rightarrow> Some (h, g) | _ \<Rightarrow> None) calls"

lemma granted_dirs_simps [simp]:
  "granted_dirs [] = []"
  "granted_dirs (c # cs) = (case c of PreopenedDir h g \<Rightarrow> (h, g) # granted_dirs cs | _ \<Rightarrow> granted_dirs cs)"
  "granted_dirs (cs @ ds) = granted_dirs cs @ granted_dirs ds"
  by (simp_all add: granted_dirs_def List.map_filter_def split: wasi_call.split)

lemma granted_dirs_env [simp]: "granted_dirs (map (\<lambda>e. Env (f e) (g e)) es) = []"
  by (induction es) simp_all

definition network_calls :: "wasi_call list \<Rightarrow> wasi_call list" where
  "network_calls calls = filter (\<lambda>c. case c of InheritNetwork \<Rightarrow> True | AllowIpNameLookup _ \<Rightarrow> True
      | AllowTcp _ \<Rightarrow> True | AllowUdp _ \<Rightarrow> True | _ \<Rightarrow> False) calls"

lemma network_calls_simps [simp]:
  "network_calls [] = []"
  "network_calls (c # cs) = (case c of InheritNetwork \<Rightarrow> c # network_calls cs | AllowIpNameLookup _ \<Rightarrow> c # network_calls cs
     | AllowTcp _ \<Rightarrow> c # network_calls cs | AllowUdp _ \<Rightarrow> c # network_calls cs | _ \<Rightarrow> network_calls cs)"
  "network_calls (cs @ ds) = network_calls cs @ network_calls ds"
  by (simp_all add: network_calls_def split: wasi_call.split)

lemma network_calls_env [simp]: "network_calls (map (\<lambda>e. Env (f e) (g e)) es) = []"
  by (induction es) simp_all

lemma preopen_dir_Inr:
  "preopen_dir he b h g = Inr b' \<longleftrightarrow> he_is_dir he h \<and> he_preopened_dir he h g = Inr () \<and> b' = b @ [PreopenedDir h g]"
  by (cases "he_preopened_dir he h g") (auto simp: preopen_dir_def context_err_def)

lemma preopen_all_Inr:
  "preopen_all he b ps = Inr b' \<Longrightarrow>
     b' = b @ map (\<lambda>p. PreopenedDir (pre_host p) (pre_guest p)) ps \<and> list_all (\<lambda>p. he_is_dir he (pre_host p)) ps"
  by (induction he b ps rule: preopen_all.induct) (auto simp: preopen_dir_Inr split: sum.splits)

lemma granted_dirs_preopens [simp]:
  "granted_dirs (map (\<lambda>p. PreopenedDir (pre_host p) (pre_guest p)) ps) = map (\<lambda>p. (pre_host p, pre_guest p)) ps"
  by (induction ps) simp_all

lemma network_calls_preopens [simp]:
  "network_calls (map (\<lambda>p. PreopenedDir (pre_host p) (pre_guest p)) ps) = []"
  by (induction ps) simp_all

lemma build_wasi_Inr:
  assumes "build_wasi he cli = Inr calls"
  shows "granted_dirs calls =
      (if no_default_preopen cli then [] else [(projr (he_current_dir he), ''.'')]) @
      map (\<lambda>p. (pre_host p, pre_guest p)) (preopens cli)"
    and "network_calls calls =
      (if no_network cli then [] else [InheritNetwork, AllowIpNameLookup True, AllowTcp True, AllowUdp True])"
    and "\<forall>(h, g) \<in> set (granted_dirs calls). he_is_dir he h"
    and "Args (''mysqld'' # guest_args cli) \<in> set calls"
proof -
  let ?base = "(if \<not> no_inherit_env cli then [InheritStdio, AllowBlockingCurrentThread True] @ [InheritEnv]
      else [InheritStdio, AllowBlockingCurrentThread True]) @
      map (\<lambda>e. Env (env_key e) (env_value e)) (env cli) @ [Args (''mysqld'' # guest_args cli)]"
  let ?cwd = "if no_default_preopen cli then []
      else [PreopenedDir (projr (he_current_dir he)) ''.'', InitialCwd ''.'']"
  let ?pre = "map (\<lambda>p. PreopenedDir (pre_host p) (pre_guest p)) (preopens cli)"
  let ?net = "if no_network cli then [] else [InheritNetwork, AllowIpNameLookup True, AllowTcp True, AllowUdp True]"
  have c: "calls = ?base @ ?cwd @ ?pre @ ?net \<and> list_all (\<lambda>p. he_is_dir he (pre_host p)) (preopens cli) \<and>
      (\<not> no_default_preopen cli \<longrightarrow> he_is_dir he (projr (he_current_dir he)))"
    using assms
    by (auto simp: build_wasi_def Let_def preopen_dir_Inr context_err_def
        split: sum.splits if_splits dest!: preopen_all_Inr)
  have g: "granted_dirs calls =
      (if no_default_preopen cli then [] else [(projr (he_current_dir he), ''.'')]) @
      map (\<lambda>p. (pre_host p, pre_guest p)) (preopens cli)"
    using c by simp
  then show "granted_dirs calls =
      (if no_default_preopen cli then [] else [(projr (he_current_dir he), ''.'')]) @
      map (\<lambda>p. (pre_host p, pre_guest p)) (preopens cli)" .
  show "network_calls calls =
      (if no_network cli then [] else [InheritNetwork, AllowIpNameLookup True, AllowTcp True, AllowUdp True])"
    using c by simp
  show "\<forall>(h, g) \<in> set (granted_dirs calls). he_is_dir he h"
    using c unfolding g by (auto simp: list_all_iff)
  show "Args (''mysqld'' # guest_args cli) \<in> set calls" using c by simp
qed

lemma same_grants:
  assumes "build_wasi he cli = Inr calls" "hf_new cli (he_current_dir he) = Inr t"
  shows "fst ` set (granted_dirs calls) = pm_host ` set (hf_preopens t)"
proof -
  have "pm_host ` set (hf_preopens t) =
      set (map pre_host (preopens cli)) \<union> (if no_default_preopen cli then {} else {projr (he_current_dir he)})"
    using hf_new_preopens(3) [OF assms(2)] by simp
  then show ?thesis unfolding build_wasi_Inr(1) [OF assms(1)] by force
qed

subsection \<open>Threads\<close>

text \<open>The replies of a sequence of spawns, each of which the operating system allows or not.\<close>

fun spawn_all :: "i32 \<Rightarrow> bool list \<Rightarrow> i32 list" where
  "spawn_all next_id [] = []"
| "spawn_all next_id (b # bs) =
     (let (reply, next_id, started) = spawn_wasi_thread b next_id in reply # spawn_all next_id bs)"

lemma length_spawn_all [simp]: "length (spawn_all n bs) = length bs"
  by (induction bs arbitrary: n) (simp_all add: case_prod_beta)

lemma spawn_reply:
  "fst (spawn_wasi_thread b n) = (if b \<and> 0 < sint n then n else - EAGAIN)"
  "fst (snd (spawn_wasi_thread b n)) = n + 1"
  by (auto simp: spawn_wasi_thread_def Let_def)

lemma spawn_all_nth:
  "i < length bs \<Longrightarrow> spawn_all n bs ! i = (if bs ! i \<and> 0 < sint (n + of_nat i) then n + of_nat i else - EAGAIN)"
proof (induction bs arbitrary: i n)
  case (Cons b bs)
  show ?case
  proof (cases i)
    case 0
    then show ?thesis by (simp add: case_prod_beta spawn_reply)
  next
    case (Suc j)
    have "spawn_all n (b # bs) ! i = spawn_all (n + 1) bs ! j"
      using Suc by (simp add: case_prod_beta spawn_reply)
    with Suc Cons.prems Cons.IH [of j "n + 1"] show ?thesis by (simp add: add.assoc)
  qed
qed simp

lemma sint_neg_EAGAIN: "sint (- EAGAIN) < 0"
  by (simp add: errno_consts)

lemma spawn_all_distinct:
  assumes "length bs \<le> 2 ^ 32" "i < length bs" "j < length bs" "i \<noteq> j"
    "0 < sint (spawn_all n bs ! i)" "spawn_all n bs ! i = spawn_all n bs ! j"
  shows False
proof -
  have "spawn_all n bs ! i = n + of_nat i" "spawn_all n bs ! j = n + of_nat j"
    using assms sint_neg_EAGAIN by (auto simp: spawn_all_nth split: if_splits)
  with assms have "(of_nat i :: i32) = of_nat j" by simp
  moreover have "i < 2 ^ 32" "j < 2 ^ 32" using assms by linarith+
  ultimately show False
    using assms(4) by (simp add: of_nat_eq_iff word_of_nat_eq_iff take_bit_nat_eq_self)
qed

subsection \<open>Imported memories\<close>

text \<open>
  What the linker promises: a successful \<open>define\<close> binds its name and no other, and creating a
  memory binds nothing.  \<open>bound\<close> reads the binding of a name.
\<close>

definition linker_laws :: "('m, 'h, 'w) wasm_api \<Rightarrow> ('w \<Rightarrow> string \<times> string \<rightharpoonup> 'm) \<Rightarrow> bool" where
  "linker_laws api bound \<longleftrightarrow>
     (\<forall>m n x w. fst (api_define api m n x w) = Inr () \<longrightarrow>
        bound (snd (api_define api m n x w)) = (bound w)((m, n) \<mapsto> x)) \<and>
     (\<forall>ty w. bound (snd (api_shared_memory_new api ty w)) = bound w) \<and>
     (\<forall>ty w. bound (snd (api_memory_new api ty w)) = bound w)"

lemma linker_laws_define:
  "linker_laws api bound \<Longrightarrow> api_define api m n x w = (Inr (), w') \<Longrightarrow> bound w' = (bound w)((m, n) \<mapsto> x)"
  unfolding linker_laws_def by (metis fst_conv snd_conv)

lemma linker_laws_new:
  "linker_laws api bound \<Longrightarrow> api_shared_memory_new api ty w = (r, w') \<Longrightarrow> bound w' = bound w"
  "linker_laws api bound \<Longrightarrow> api_memory_new api ty w = (r, w') \<Longrightarrow> bound w' = bound w"
  unfolding linker_laws_def by (metis snd_conv)+

definition ism_key :: "'m imported_shared_memory \<Rightarrow> string \<times> string" where
  "ism_key m = (ism_module m, ism_name m)"

definition imp_key :: "module_import \<Rightarrow> string \<times> string" where
  "imp_key i = (imp_module i, imp_name i)"

text \<open>The loop invariant: what was collected is bound, under distinct names that were seen.\<close>

definition mems_ok :: "('w \<Rightarrow> string \<times> string \<rightharpoonup> 'm) \<Rightarrow> (string \<times> string) set \<Rightarrow> 'm imported_shared_memory list \<Rightarrow> 'w \<Rightarrow> bool" where
  "mems_ok bound seen ms w \<longleftrightarrow>
     distinct (map ism_key ms) \<and> ism_key ` set ms \<subseteq> seen \<and> seen \<subseteq> dom (bound w) \<and>
     (\<forall>m \<in> set ms. bound w (ism_key m) = Some (ism_memory m))"

lemma mems_ok_other:
  "mems_ok bound seen ms w \<Longrightarrow> k \<notin> seen \<Longrightarrow> bound w' = (bound w)(k \<mapsto> x) \<Longrightarrow> mems_ok bound (insert k seen) ms w'"
  by (auto simp: mems_ok_def)

lemma mems_ok_shared:
  assumes "mems_ok bound seen ms w" "(m, n) \<notin> seen" "bound w' = (bound w)((m, n) \<mapsto> x)"
  shows "mems_ok bound (insert (m, n) seen) (ms @ [\<lparr>ism_module = m, ism_name = n, ism_memory = x\<rparr>]) w'"
  using assms by (auto simp: mems_ok_def ism_key_def)

lemma define_memories_ok:
  assumes L: "linker_laws api bound"
  shows "define_memories api seen ms imps w = (Inr ms', w') \<Longrightarrow> mems_ok bound seen ms w \<Longrightarrow>
    \<exists>seen'. mems_ok bound seen' ms' w' \<and> seen \<subseteq> seen' \<and>
      imp_key ` {i \<in> set imps. imp_ty i \<noteq> OtherExtern} \<subseteq> seen'"
proof (induction imps arbitrary: seen ms w)
  case Nil
  then show ?case by (auto simp: rreturn_def)
next
  case (Cons imp rest)
  show ?case
  proof (cases "imp_ty imp")
    case OtherExtern
    with Cons.prems Cons.IH [of seen ms w] show ?thesis by auto
  next
    case (Memory ty)
    let ?k = "(imp_module imp, imp_name imp)"
    show ?thesis
    proof (cases "?k \<in> seen")
      case True
      with Cons.prems Memory Cons.IH [of seen ms w] show ?thesis by (auto simp: imp_key_def)
    next
      case False
      from Cons.prems(1) Memory False obtain x w1 w2 ms1 where
          new: "bound w1 = bound w" and def: "api_define api (imp_module imp) (imp_name imp) x w1 = (Inr (), w2)"
        and rest: "define_memories api (insert ?k seen) ms1 rest w2 = (Inr ms', w')"
        and ms1: "ms1 = (if mt_shared ty then ms @ [\<lparr>ism_module = imp_module imp, ism_name = imp_name imp, ism_memory = x\<rparr>] else ms)"
        by (auto simp: Let_def run_simps split: if_splits dest: linker_laws_new [OF L])
      from linker_laws_define [OF L def] new have b: "bound w2 = (bound w)(?k \<mapsto> x)" by simp
      have "mems_ok bound (insert ?k seen) ms1 w2"
        using mems_ok_other [OF Cons.prems(2) False b] mems_ok_shared [OF Cons.prems(2) False b] ms1 by simp
      from Cons.IH [OF rest this] show ?thesis using Memory by (auto simp: imp_key_def)
    qed
  qed
qed

lemma define_shared_memories_bound:
  assumes L: "linker_laws api bound"
  shows "define_shared_memories api ms w = (Inr (), w') \<Longrightarrow> distinct (map ism_key ms) \<Longrightarrow>
    (\<forall>m \<in> set ms. bound w' (ism_key m) = Some (ism_memory m)) \<and>
    (\<forall>k. k \<notin> ism_key ` set ms \<longrightarrow> bound w' k = bound w k)"
proof (induction ms arbitrary: w)
  case Nil
  then show ?case by (simp add: rreturn_def)
next
  case (Cons m ms)
  from Cons.prems(1) obtain w1 where
      d: "api_define api (ism_module m) (ism_name m) (ism_memory m) w = (Inr (), w1)"
    and r: "define_shared_memories api ms w1 = (Inr (), w')"
    by (auto simp: run_simps)
  have b: "bound w1 = (bound w)(ism_key m \<mapsto> ism_memory m)"
    using linker_laws_define [OF L d] by (simp add: ism_key_def)
  have "distinct (map ism_key ms)" using Cons.prems(2) by simp
  note IH = Cons.IH [OF r this, THEN conjunct1] Cons.IH [OF r this, THEN conjunct2, rule_format]
  moreover have "bound w' (ism_key m) = Some (ism_memory m)"
    using IH(2) [of "ism_key m"] Cons.prems(2) b by simp
  ultimately show ?case using b by simp
qed

subsection \<open>Exit status and signals\<close>

lemma main_status:
  "unat (fst (main api he cli w)) =
     (case fst (run api he cli w) of
        Inr _ \<Rightarrow> 0
      | Inl err \<Rightarrow> (case err_exit err of None \<Rightarrow> 1
          | Some st \<Rightarrow> if 0 \<le> sint st \<and> sint st < 256 then nat (sint st) else 1))"
  by (auto simp: main_def exit_code_eq split: prod.split sum.split option.split)

lemma rcontext_exit:
  "fst (rcontext msg m w) = Inl e' \<Longrightarrow> \<exists>e. fst (m w) = Inl e \<and> err_exit e' = err_exit e"
  by (cases "fst (m w)") (auto simp: rcontext_def context_err_def)

text \<open>
  What \<open>signal_hook\<close> documents: the actions registered for a signal run in the order of their
  registration, a conditional shutdown ends the process with its status when the flag is set, a
  flag registration sets the flag.  The result is the exit status, if any, and the flag.
\<close>

definition signal_hook_laws ::
    "((signal \<times> signal_action) list \<Rightarrow> signal \<Rightarrow> bool \<Rightarrow> i32 option \<times> bool) \<Rightarrow> bool" where
  "signal_hook_laws deliver \<longleftrightarrow>
     (\<forall>sg flag. deliver [] sg flag = (None, flag)) \<and>
     (\<forall>other act rest sg flag. other \<noteq> sg \<longrightarrow> deliver ((other, act) # rest) sg flag = deliver rest sg flag) \<and>
     (\<forall>rest sg flag. deliver ((sg, SetFlag) # rest) sg flag = deliver rest sg True) \<and>
     (\<forall>status rest sg flag. deliver ((sg, ConditionalShutdown status) # rest) sg flag =
        (if flag then (Some status, flag) else deliver rest sg flag))"

definition registered_actions :: "(signal \<times> signal_action) list" where
  "registered_actions = map (\<lambda>(sg, act, msg). (sg, act)) shutdown_registrations"

lemma deliver_registered:
  assumes "signal_hook_laws deliver"
  shows "deliver registered_actions sg flag = (if sg = SIGINT \<and> flag then (Some 1, True) else (None, True))"
  using assms unfolding signal_hook_laws_def
  by (cases sg) (simp_all add: registered_actions_def shutdown_registrations_def)

end
