(* ===== verification/Windows_Platform.thy ===== *)
theory Windows_Platform
  imports Guest_Errno
begin

text \<open>
  Winsock below the host on Windows: the constants and functions of the \<open>windows_sys\<close> crate that
  \<^verbatim>\<open>src/src/host_sockets_windows.rs\<close> calls.  They are a parameter, a record over a state \<open>'k\<close> of the
  operating system.  A function that fills a caller's buffer takes the capacity it is told and
  returns the bytes it stored and the length it reports; the code \<open>WSAGetLastError\<close> returns is read
  from the state with \<open>ws_last_error\<close>.  \<open>winsock_laws\<close> states what Microsoft documents about raw
  sockets and \<open>winsock_results\<close> what it documents about the results of calls.
\<close>

datatype ws_name =
    W_AF_INET | W_AF_INET6 | W_SOCK_STREAM | W_SOCK_DGRAM | W_SOL_SOCKET | W_SO_REUSEADDR
  | W_SO_ERROR | W_SO_KEEPALIVE | W_SO_RCVTIMEO | W_SO_SNDTIMEO | W_IP_TOS | W_IPV6_V6ONLY
  | W_FIONBIO | W_SOCKET_ERROR

datatype ws_event = W_POLLIN | W_POLLPRI | W_POLLOUT | W_POLLERR | W_POLLHUP | W_POLLNVAL

datatype wsa_error =
    WSAEINTR | WSAEBADF | WSAEACCES | WSAEFAULT | WSAEINVAL | WSAEMFILE | WSAEWOULDBLOCK
  | WSAEINPROGRESS | WSAEALREADY | WSAENOTSOCK | WSAEDESTADDRREQ | WSAEMSGSIZE | WSAEPROTOTYPE
  | WSAENOPROTOOPT | WSAEPROTONOSUPPORT | WSAESOCKTNOSUPPORT | WSAEOPNOTSUPP | WSAEPFNOSUPPORT
  | WSAEAFNOSUPPORT | WSAEADDRINUSE | WSAEADDRNOTAVAIL | WSAENETDOWN | WSAENETUNREACH | WSAENETRESET
  | WSAECONNABORTED | WSAECONNRESET | WSAENOBUFS | WSAEISCONN | WSAENOTCONN | WSAESHUTDOWN
  | WSAETIMEDOUT | WSAECONNREFUSED | WSAEHOSTDOWN | WSAEHOSTUNREACH

text \<open>A raw socket, \<open>SOCKET\<close>, is a \<open>usize\<close>.\<close>

type_synonym raw_sock = u64

record wsapollfd =
  wp_fd :: raw_sock
  wp_events :: i16
  wp_revents :: i16

record 'k win_sys =
  wsc :: "ws_name \<Rightarrow> i32"
  ws_event :: "ws_event \<Rightarrow> i16"
  ws_err :: "wsa_error \<Rightarrow> i32"
  ws_INVALID_SOCKET :: raw_sock
  ws_last_error :: "'k \<Rightarrow> i32"
  ws_startup :: "u16 \<Rightarrow> 'k \<Rightarrow> i32 \<times> 'k"
  ws_socket :: "i32 \<Rightarrow> i32 \<Rightarrow> i32 \<Rightarrow> 'k \<Rightarrow> raw_sock \<times> 'k"
  ws_ioctlsocket :: "raw_sock \<Rightarrow> i32 \<Rightarrow> u32 \<Rightarrow> 'k \<Rightarrow> i32 \<times> 'k"
  ws_closesocket :: "raw_sock \<Rightarrow> 'k \<Rightarrow> i32 \<times> 'k"
  ws_bind :: "raw_sock \<Rightarrow> bytes \<Rightarrow> 'k \<Rightarrow> i32 \<times> 'k"
  ws_listen :: "raw_sock \<Rightarrow> i32 \<Rightarrow> 'k \<Rightarrow> i32 \<times> 'k"
  ws_accept :: "raw_sock \<Rightarrow> i32 \<Rightarrow> 'k \<Rightarrow> (raw_sock \<times> bytes \<times> i32) \<times> 'k"
  ws_connect :: "raw_sock \<Rightarrow> bytes \<Rightarrow> 'k \<Rightarrow> i32 \<times> 'k"
  ws_getsockname :: "raw_sock \<Rightarrow> i32 \<Rightarrow> 'k \<Rightarrow> (i32 \<times> bytes \<times> i32) \<times> 'k"
  ws_getpeername :: "raw_sock \<Rightarrow> i32 \<Rightarrow> 'k \<Rightarrow> (i32 \<times> bytes \<times> i32) \<times> 'k"
  ws_setsockopt :: "raw_sock \<Rightarrow> i32 \<Rightarrow> i32 \<Rightarrow> bytes \<Rightarrow> 'k \<Rightarrow> i32 \<times> 'k"
  ws_getsockopt :: "raw_sock \<Rightarrow> i32 \<Rightarrow> i32 \<Rightarrow> i32 \<Rightarrow> 'k \<Rightarrow> (i32 \<times> bytes \<times> i32) \<times> 'k"
  ws_send :: "raw_sock \<Rightarrow> bytes \<Rightarrow> i32 \<Rightarrow> 'k \<Rightarrow> i32 \<times> 'k"
  ws_recv :: "raw_sock \<Rightarrow> i32 \<Rightarrow> i32 \<Rightarrow> 'k \<Rightarrow> (i32 \<times> bytes) \<times> 'k"
  ws_sendto :: "raw_sock \<Rightarrow> bytes \<Rightarrow> i32 \<Rightarrow> bytes \<Rightarrow> 'k \<Rightarrow> i32 \<times> 'k"
  ws_recvfrom :: "raw_sock \<Rightarrow> i32 \<Rightarrow> i32 \<Rightarrow> i32 \<Rightarrow> 'k \<Rightarrow> (i32 \<times> bytes \<times> bytes \<times> i32) \<times> 'k"
  ws_shutdown :: "raw_sock \<Rightarrow> i32 \<Rightarrow> 'k \<Rightarrow> i32 \<times> 'k"
  ws_WSAPoll :: "wsapollfd list \<Rightarrow> i32 \<Rightarrow> 'k \<Rightarrow> (i32 \<times> i16 list) \<times> 'k"

subsection \<open>Raw sockets\<close>

text \<open>A call with result \<open>x\<close> opened one new raw socket, or failed with \<open>INVALID_SOCKET\<close>.\<close>

definition ws_opens_one :: "'k win_sys \<Rightarrow> ('k \<Rightarrow> raw_sock set) \<Rightarrow> 'k \<Rightarrow> raw_sock \<Rightarrow> 'k \<Rightarrow> bool" where
  "ws_opens_one win opens s x s' \<longleftrightarrow>
     (if x = ws_INVALID_SOCKET win then opens s' = opens s
      else x \<notin> opens s \<and> opens s' = insert x (opens s))"

text \<open>An observation of the state that no Winsock function but those that open or close changes.\<close>

definition ws_keeps :: "'k win_sys \<Rightarrow> ('k \<Rightarrow> 'x) \<Rightarrow> bool" where
  "ws_keeps win f \<longleftrightarrow>
     (\<forall>v s. f (snd (ws_startup win v s)) = f s) \<and>
     (\<forall>r c a s. f (snd (ws_ioctlsocket win r c a s)) = f s) \<and>
     (\<forall>r a s. f (snd (ws_bind win r a s)) = f s) \<and>
     (\<forall>r n s. f (snd (ws_listen win r n s)) = f s) \<and>
     (\<forall>r a s. f (snd (ws_connect win r a s)) = f s) \<and>
     (\<forall>r n s. f (snd (ws_getsockname win r n s)) = f s) \<and>
     (\<forall>r n s. f (snd (ws_getpeername win r n s)) = f s) \<and>
     (\<forall>r l n v s. f (snd (ws_setsockopt win r l n v s)) = f s) \<and>
     (\<forall>r l n m s. f (snd (ws_getsockopt win r l n m s)) = f s) \<and>
     (\<forall>r b g s. f (snd (ws_send win r b g s)) = f s) \<and>
     (\<forall>r n g s. f (snd (ws_recv win r n g s)) = f s) \<and>
     (\<forall>r b g a s. f (snd (ws_sendto win r b g a s)) = f s) \<and>
     (\<forall>r n g m s. f (snd (ws_recvfrom win r n g m s)) = f s) \<and>
     (\<forall>r h s. f (snd (ws_shutdown win r h s)) = f s) \<and>
     (\<forall>fds t s. f (snd (ws_WSAPoll win fds t s)) = f s)"

definition winsock_laws :: "'k win_sys \<Rightarrow> ('k \<Rightarrow> raw_sock set) \<Rightarrow> bool" where
  "winsock_laws win opens \<longleftrightarrow>
     (\<forall>d t p s. ws_opens_one win opens s (fst (ws_socket win d t p s)) (snd (ws_socket win d t p s))) \<and>
     (\<forall>r n s. ws_opens_one win opens s (fst (fst (ws_accept win r n s))) (snd (ws_accept win r n s))) \<and>
     (\<forall>r s. opens (snd (ws_closesocket win r s)) = opens s - {r}) \<and>
     ws_keeps win opens"

text \<open>Opening and closing change no other observation either.\<close>

definition ws_frames :: "'k win_sys \<Rightarrow> ('k \<Rightarrow> 'x) \<Rightarrow> bool" where
  "ws_frames win f \<longleftrightarrow>
     ws_keeps win f \<and>
     (\<forall>d t p s. f (snd (ws_socket win d t p s)) = f s) \<and>
     (\<forall>r n s. f (snd (ws_accept win r n s)) = f s) \<and>
     (\<forall>r s. f (snd (ws_closesocket win r s)) = f s)"

lemma ws_keeps_simps:
  assumes "ws_keeps win f"
  shows "f (snd (ws_startup win v s)) = f s"
    "f (snd (ws_ioctlsocket win r c w s)) = f s"
    "f (snd (ws_bind win r a s)) = f s"
    "f (snd (ws_listen win r n s)) = f s"
    "f (snd (ws_connect win r a s)) = f s"
    "f (snd (ws_getsockname win r n s)) = f s"
    "f (snd (ws_getpeername win r n s)) = f s"
    "f (snd (ws_setsockopt win r l n a s)) = f s"
    "f (snd (ws_getsockopt win r l n m s)) = f s"
    "f (snd (ws_send win r a n s)) = f s"
    "f (snd (ws_recv win r n m s)) = f s"
    "f (snd (ws_sendto win r a n b s)) = f s"
    "f (snd (ws_recvfrom win r n m l s)) = f s"
    "f (snd (ws_shutdown win r n s)) = f s"
    "f (snd (ws_WSAPoll win fds n s)) = f s"
  using assms unfolding ws_keeps_def by simp_all

lemma winsock_laws_keeps: "winsock_laws win opens \<Longrightarrow> ws_keeps win opens"
  by (simp add: winsock_laws_def)

lemma winsock_laws_close: "winsock_laws win opens \<Longrightarrow> opens (snd (ws_closesocket win r s)) = opens s - {r}"
  by (simp add: winsock_laws_def)

lemma winsock_laws_socket:
  "winsock_laws win opens \<Longrightarrow> ws_socket win d t p s = (x, s') \<Longrightarrow> ws_opens_one win opens s x s'"
  unfolding winsock_laws_def by (metis fst_conv snd_conv)

lemma winsock_laws_accept:
  "winsock_laws win opens \<Longrightarrow> ws_accept win r n s = ((x, ws, m), s') \<Longrightarrow> ws_opens_one win opens s x s'"
  unfolding winsock_laws_def by (metis fst_conv snd_conv)

lemma ws_frames_simps:
  assumes "ws_frames win f"
  shows "ws_keeps win f" "f (snd (ws_socket win d t p s)) = f s"
    "f (snd (ws_accept win r n s)) = f s" "f (snd (ws_closesocket win r s)) = f s"
  using assms by (simp_all add: ws_frames_def)

subsection \<open>Results\<close>

text \<open>
  A call answers \<open>SOCKET_ERROR\<close> or a non-negative value; a receiving call reports at most the
  capacity of the buffer it was given.
\<close>

definition ws_int_result :: "'k win_sys \<Rightarrow> i32 \<Rightarrow> bool" where
  "ws_int_result win rc \<longleftrightarrow> rc = wsc win W_SOCKET_ERROR \<or> 0 \<le> sint rc"

definition winsock_results :: "'k win_sys \<Rightarrow> bool" where
  "winsock_results win \<longleftrightarrow>
     (\<forall>r s. ws_int_result win (fst (ws_closesocket win r s))) \<and>
     (\<forall>r a s. ws_int_result win (fst (ws_bind win r a s))) \<and>
     (\<forall>r n s. ws_int_result win (fst (ws_listen win r n s))) \<and>
     (\<forall>r a s. ws_int_result win (fst (ws_connect win r a s))) \<and>
     (\<forall>r l n v s. ws_int_result win (fst (ws_setsockopt win r l n v s))) \<and>
     (\<forall>r b g s. ws_int_result win (fst (ws_send win r b g s))) \<and>
     (\<forall>r n g s. ws_int_result win (fst (fst (ws_recv win r n g s))) \<and>
        (0 \<le> sint (fst (fst (ws_recv win r n g s))) \<longrightarrow> sint (fst (fst (ws_recv win r n g s))) \<le> sint n)) \<and>
     (\<forall>r b g a s. ws_int_result win (fst (ws_sendto win r b g a s))) \<and>
     (\<forall>r n g m s. ws_int_result win (fst (fst (ws_recvfrom win r n g m s))) \<and>
        (0 \<le> sint (fst (fst (ws_recvfrom win r n g m s))) \<longrightarrow>
         sint (fst (fst (ws_recvfrom win r n g m s))) \<le> sint n)) \<and>
     (\<forall>r h s. ws_int_result win (fst (ws_shutdown win r h s))) \<and>
     (\<forall>fds t s. ws_int_result win (fst (fst (ws_WSAPoll win fds t s))))"

lemma winsock_results_simps:
  assumes "winsock_results win"
  shows "ws_int_result win (fst (ws_closesocket win r s))" "ws_int_result win (fst (ws_bind win r a s))"
    "ws_int_result win (fst (ws_listen win r n s))" "ws_int_result win (fst (ws_connect win r a s))"
    "ws_int_result win (fst (ws_setsockopt win r l n a s))" "ws_int_result win (fst (ws_send win r a n s))"
    "ws_int_result win (fst (fst (ws_recv win r n m s)))"
    "ws_int_result win (fst (ws_sendto win r a n b s))"
    "ws_int_result win (fst (fst (ws_recvfrom win r n m l s)))"
    "ws_int_result win (fst (ws_shutdown win r n s))"
    "ws_int_result win (fst (fst (ws_WSAPoll win fds n s)))"
  using assms unfolding winsock_results_def by simp_all

lemma winsock_results_count:
  assumes "winsock_results win"
  shows "ws_recv win r n m s = ((rc, stored), s') \<Longrightarrow> 0 \<le> sint rc \<Longrightarrow> sint rc \<le> sint n"
    "ws_recvfrom win r n m l s = ((rc, stored, addr, k), s') \<Longrightarrow> 0 \<le> sint rc \<Longrightarrow> sint rc \<le> sint n"
  using assms unfolding winsock_results_def by (metis fst_conv)+

end
