(* ===== verification/Windows_Sockets.thy ===== *)
theory Windows_Sockets
  imports Windows_Platform Socket_Table "HOL-Library.Signed_Division"
begin

text \<open>
  The data and helper functions of the sockets on Windows: the Windows variant of \<open>HostSocket\<close> and
  of the functions on the table in \<^verbatim>\<open>src/src/host_sockets.rs\<close>, and the translations of
  \<^verbatim>\<open>src/src/host_sockets_windows.rs\<close> between the guest ABI and Winsock.  The static \<open>WINSOCK\<close> of the
  process is the field \<open>winsock\<close> next to the state \<open>kernel\<close> of the operating system.
\<close>

subsection \<open>State\<close>

record 'k win_os =
  winsock :: "unit errno_result option"
  kernel :: 'k

record win_socket =
  raw_socket :: raw_sock
  ws_guest_domain :: i32
  ws_host_domain :: i32
  status_flags :: i32

definition ws_insert :: "win_socket host_sockets \<Rightarrow> raw_sock \<Rightarrow> i32 \<Rightarrow> i32 \<Rightarrow> i32 \<Rightarrow> i32 \<times> win_socket host_sockets" where
  "ws_insert inner raw guest_dom host_dom flags =
     (let guest_fd = hs_next_fd inner;
          inner = inner\<lparr>hs_next_fd := i32_saturating_succ (hs_next_fd inner)\<rparr>;
          inner = inner\<lparr>hs_sockets := (hs_sockets inner)
                     (guest_fd \<mapsto> \<lparr>raw_socket = raw, ws_guest_domain = guest_dom, ws_host_domain = host_dom,
                                   status_flags = flags\<rparr>)\<rparr>
      in (guest_fd, inner))"

definition ws_get :: "win_socket host_sockets \<Rightarrow> i32 \<Rightarrow> win_socket errno_result" where
  "ws_get inner guest_fd =
     (case hs_sockets inner guest_fd of None \<Rightarrow> Inl EBADF | Some socket \<Rightarrow> Inr socket)"

definition ws_remove :: "win_socket host_sockets \<Rightarrow> i32 \<Rightarrow> (win_socket \<times> win_socket host_sockets) errno_result" where
  "ws_remove inner guest_fd =
     (case hs_sockets inner guest_fd of
        None \<Rightarrow> Inl EBADF
      | Some socket \<Rightarrow> Inr (socket, inner\<lparr>hs_sockets := (hs_sockets inner)(guest_fd := None)\<rparr>))"

definition ws_set_status_flags :: "win_socket host_sockets \<Rightarrow> i32 \<Rightarrow> i32 \<Rightarrow> win_socket host_sockets errno_result" where
  "ws_set_status_flags inner guest_fd flags =
     (case hs_sockets inner guest_fd of
        None \<Rightarrow> Inl EBADF
      | Some socket \<Rightarrow>
         Inr (inner\<lparr>hs_sockets := (hs_sockets inner)(guest_fd \<mapsto> socket\<lparr>status_flags := flags\<rparr>)\<rparr>))"

text \<open>\<open>Drop for HostSocketsInner\<close> on Windows; the entries are drained in some order.\<close>

definition ws_drop :: "'k win_sys \<Rightarrow> (i32 \<times> win_socket) list \<Rightarrow> 'k \<Rightarrow> 'k" where
  "ws_drop win drained s = fold (\<lambda>(_, socket) s. snd (ws_closesocket win (raw_socket socket) s)) drained s"

subsection \<open>Constants\<close>

definition WIN_ALT_AF_INET :: i32 where
  "WIN_ALT_AF_INET = 1"
definition WIN_ALT_SOCK_DGRAM :: i32 where
  "WIN_ALT_SOCK_DGRAM = 5"
definition WIN_ALT_SOCK_STREAM :: i32 where
  "WIN_ALT_SOCK_STREAM = 6"
definition WIN_ALT_SOCK_CLOEXEC :: i32 where
  "WIN_ALT_SOCK_CLOEXEC = 0x2000"
definition WIN_ALT_SOCK_NONBLOCK :: i32 where
  "WIN_ALT_SOCK_NONBLOCK = 0x4000"
definition GUEST_AF_INET :: i32 where
  "GUEST_AF_INET = 2"
definition GUEST_AF_INET6 :: i32 where
  "GUEST_AF_INET6 = 10"
definition GUEST_F_GETFL :: i32 where
  "GUEST_F_GETFL = 3"
definition GUEST_F_SETFL :: i32 where
  "GUEST_F_SETFL = 4"
definition GUEST_O_NONBLOCK :: i32 where
  "GUEST_O_NONBLOCK = 0x0004"
definition GUEST_POLLIN :: i16 where
  "GUEST_POLLIN = 0x0001"
definition GUEST_POLLPRI :: i16 where
  "GUEST_POLLPRI = 0x0002"
definition GUEST_POLLOUT :: i16 where
  "GUEST_POLLOUT = 0x0004"
definition GUEST_POLLERR :: i16 where
  "GUEST_POLLERR = 0x0008"
definition GUEST_POLLHUP :: i16 where
  "GUEST_POLLHUP = 0x0010"
definition GUEST_POLLNVAL :: i16 where
  "GUEST_POLLNVAL = 0x0020"
definition GUEST_SO_REUSEADDR :: i32 where
  "GUEST_SO_REUSEADDR = 2"
definition GUEST_SO_ERROR :: i32 where
  "GUEST_SO_ERROR = 4"
definition GUEST_SO_KEEPALIVE :: i32 where
  "GUEST_SO_KEEPALIVE = 9"
definition GUEST_SO_RCVTIMEO :: i32 where
  "GUEST_SO_RCVTIMEO = 20"
definition GUEST_SO_SNDTIMEO :: i32 where
  "GUEST_SO_SNDTIMEO = 21"
definition GUEST_IP_TOS :: i32 where
  "GUEST_IP_TOS = 1"
definition GUEST_IPV6_V6ONLY :: i32 where
  "GUEST_IPV6_V6ONLY = 26"

lemmas win_alt_consts =
  WIN_ALT_AF_INET_def WIN_ALT_SOCK_DGRAM_def WIN_ALT_SOCK_STREAM_def WIN_ALT_SOCK_CLOEXEC_def
  WIN_ALT_SOCK_NONBLOCK_def GUEST_AF_INET_def GUEST_AF_INET6_def

lemmas guest_poll_consts =
  GUEST_POLLIN_def GUEST_POLLPRI_def GUEST_POLLOUT_def GUEST_POLLERR_def GUEST_POLLHUP_def
  GUEST_POLLNVAL_def

lemmas guest_option_consts =
  GUEST_SO_REUSEADDR_def GUEST_SO_ERROR_def GUEST_SO_KEEPALIVE_def GUEST_SO_RCVTIMEO_def
  GUEST_SO_SNDTIMEO_def GUEST_IP_TOS_def GUEST_IPV6_V6ONLY_def

subsection \<open>Results of Winsock calls\<close>

text \<open>The arms of the \<open>match\<close>, tried in order.\<close>

definition socket_errno :: "'k win_sys \<Rightarrow> i32 \<Rightarrow> i32" where
  "socket_errno win code =
     (if code = 0 then 0
      else if code = ws_err win WSAEINTR then EINTR
      else if code = ws_err win WSAEBADF then EBADF
      else if code = ws_err win WSAEACCES then EACCES
      else if code = ws_err win WSAEFAULT then EFAULT
      else if code = ws_err win WSAEINVAL then EINVAL
      else if code = ws_err win WSAEMFILE then EMFILE
      else if code = ws_err win WSAEWOULDBLOCK then EAGAIN
      else if code = ws_err win WSAEINPROGRESS then EINPROGRESS
      else if code = ws_err win WSAEALREADY then EALREADY
      else if code = ws_err win WSAENOTSOCK then ENOTSOCK
      else if code = ws_err win WSAEDESTADDRREQ then EDESTADDRREQ
      else if code = ws_err win WSAEMSGSIZE then EMSGSIZE
      else if code = ws_err win WSAEPROTOTYPE then EPROTOTYPE
      else if code = ws_err win WSAENOPROTOOPT then ENOPROTOOPT
      else if code = ws_err win WSAEPROTONOSUPPORT then EPROTONOSUPPORT
      else if code = ws_err win WSAESOCKTNOSUPPORT then ENOTSUP
      else if code = ws_err win WSAEOPNOTSUPP then ENOTSUP
      else if code = ws_err win WSAEPFNOSUPPORT then EAFNOSUPPORT
      else if code = ws_err win WSAEAFNOSUPPORT then EAFNOSUPPORT
      else if code = ws_err win WSAEADDRINUSE then EADDRINUSE
      else if code = ws_err win WSAEADDRNOTAVAIL then EADDRNOTAVAIL
      else if code = ws_err win WSAENETDOWN then ENETDOWN
      else if code = ws_err win WSAENETUNREACH then ENETUNREACH
      else if code = ws_err win WSAENETRESET then ENETRESET
      else if code = ws_err win WSAECONNABORTED then ECONNABORTED
      else if code = ws_err win WSAECONNRESET then ECONNRESET
      else if code = ws_err win WSAENOBUFS then ENOBUFS
      else if code = ws_err win WSAEISCONN then EISCONN
      else if code = ws_err win WSAENOTCONN then ENOTCONN
      else if code = ws_err win WSAESHUTDOWN then ENOTCONN
      else if code = ws_err win WSAETIMEDOUT then ETIMEDOUT
      else if code = ws_err win WSAECONNREFUSED then ECONNREFUSED
      else if code = ws_err win WSAEHOSTDOWN then EHOSTUNREACH
      else if code = ws_err win WSAEHOSTUNREACH then EHOSTUNREACH
      else EIO)"

definition neg_last_socket_errno :: "'k win_sys \<Rightarrow> 'k \<Rightarrow> i32" where
  "neg_last_socket_errno win s = neg_errno (socket_errno win (ws_last_error win s))"

definition cvt_socket_i32 :: "'k win_sys \<Rightarrow> 'k \<Rightarrow> i32 \<Rightarrow> i32" where
  "cvt_socket_i32 win s rc = (if rc = wsc win W_SOCKET_ERROR then neg_last_socket_errno win s else rc)"

text \<open>\<open>OnceLock::get_or_init\<close>: the closure runs only while the cell is empty.\<close>

definition ensure_winsock :: "'k win_sys \<Rightarrow> 'k win_os \<Rightarrow> unit errno_result \<times> 'k win_os" where
  "ensure_winsock win w =
     (case winsock w of
        Some r \<Rightarrow> (r, w)
      | None \<Rightarrow>
         (let (rc, s) = ws_startup win 0x0202 (kernel w);
              r = (if rc = 0 then Inr () else Inl (socket_errno win rc))
          in (r, w\<lparr>winsock := Some r, kernel := s\<rparr>)))"

subsection \<open>Socket types and domains\<close>

record normalized_win_type =
  nwt_ty :: i32
  nwt_nonblocking :: bool

definition win_normalize_socket_type :: "'k win_sys \<Rightarrow> i32 \<Rightarrow> normalized_win_type errno_result" where
  "win_normalize_socket_type win ty =
     (let flag_mask = 0x00000800 OR 0x00080000 OR WIN_ALT_SOCK_CLOEXEC OR WIN_ALT_SOCK_NONBLOCK;
          base = ty AND NOT flag_mask;
          flags = ty AND flag_mask;
          found = (if base = wsc win W_SOCK_STREAM \<or> base = WIN_ALT_SOCK_STREAM
                     then Inr (wsc win W_SOCK_STREAM)
                   else if base = wsc win W_SOCK_DGRAM \<or> base = WIN_ALT_SOCK_DGRAM
                     then Inr (wsc win W_SOCK_DGRAM)
                   else Inl ENOTSUP)
      in case found of
           Inl e \<Rightarrow> Inl e
         | Inr ty \<Rightarrow> Inr \<lparr>nwt_ty = ty,
             nwt_nonblocking = (flags AND (0x00000800 OR WIN_ALT_SOCK_NONBLOCK) \<noteq> 0)\<rparr>)"

definition win_normalize_socket_domain :: "'k win_sys \<Rightarrow> i32 \<Rightarrow> i32" where
  "win_normalize_socket_domain win domain =
     (if domain = WIN_ALT_AF_INET \<or> domain = GUEST_AF_INET then wsc win W_AF_INET
      else if domain = GUEST_AF_INET6 \<or> domain = 23 then wsc win W_AF_INET6
      else domain)"

subsection \<open>Socket addresses\<close>

definition win_write_sockaddr_family :: "bytes \<Rightarrow> i32 \<Rightarrow> bytes" where
  "win_write_sockaddr_family addr family =
     (if length addr < 2 then addr
      else (case u16_of_i32 family of
              None \<Rightarrow> addr
            | Some family \<Rightarrow> overwrite addr 0 (to_le_bytes 2 family)))"

definition win_normalize_sockaddr_for_host :: "bytes \<Rightarrow> i32 \<Rightarrow> bytes" where
  "win_normalize_sockaddr_for_host addr host_dom = win_write_sockaddr_family addr host_dom"

definition win_denormalize_sockaddr_for_guest :: "bytes \<Rightarrow> i32 \<Rightarrow> bytes" where
  "win_denormalize_sockaddr_for_guest addr guest_dom = win_write_sockaddr_family addr guest_dom"

subsection \<open>Socket options\<close>

definition win_is_guest_socket_level :: "i32 \<Rightarrow> bool" where
  "win_is_guest_socket_level level \<longleftrightarrow> level = 1 \<or> level = WASI_SOL_SOCKET"

definition normalize_socket_option :: "'k win_sys \<Rightarrow> i32 \<Rightarrow> i32 \<Rightarrow> i32 \<times> i32" where
  "normalize_socket_option win level optname =
     (if win_is_guest_socket_level level then
        (let optname = (if optname = GUEST_SO_REUSEADDR then wsc win W_SO_REUSEADDR
                        else if optname = GUEST_SO_ERROR then wsc win W_SO_ERROR
                        else if optname = GUEST_SO_KEEPALIVE then wsc win W_SO_KEEPALIVE
                        else if optname = GUEST_SO_RCVTIMEO then wsc win W_SO_RCVTIMEO
                        else if optname = GUEST_SO_SNDTIMEO then wsc win W_SO_SNDTIMEO
                        else optname)
         in (wsc win W_SOL_SOCKET, optname))
      else if level = 0 then
        (let optname = (if optname = GUEST_IP_TOS then wsc win W_IP_TOS else optname) in (0, optname))
      else if level = 41 then
        (let optname = (if optname = GUEST_IPV6_V6ONLY then wsc win W_IPV6_V6ONLY else optname)
         in (41, optname))
      else (level, optname))"

definition is_guest_timeout :: "i32 \<Rightarrow> i32 \<Rightarrow> bool" where
  "is_guest_timeout level optname \<longleftrightarrow>
     win_is_guest_socket_level level \<and> (optname = GUEST_SO_RCVTIMEO \<or> optname = GUEST_SO_SNDTIMEO)"

text \<open>\<open>i64\<close> arithmetic of the Rust library: saturating, Euclidean and truncating.\<close>

definition i64_saturate :: "int \<Rightarrow> i64" where
  "i64_saturate n = word_of_int (max (- (2 ^ 63)) (min (2 ^ 63 - 1) n))"

definition i64_saturating_mul :: "i64 \<Rightarrow> i64 \<Rightarrow> i64" where
  "i64_saturating_mul x y = i64_saturate (sint x * sint y)"

definition i64_saturating_add :: "i64 \<Rightarrow> i64 \<Rightarrow> i64" where
  "i64_saturating_add x y = i64_saturate (sint x + sint y)"

text \<open>\<open>div_euclid\<close> by a positive divisor rounds down.\<close>

definition i64_div_euclid_pos :: "i64 \<Rightarrow> i64 \<Rightarrow> i64" where
  "i64_div_euclid_pos x y = word_of_int (sint x div sint y)"

definition i64_clamp :: "i64 \<Rightarrow> i64 \<Rightarrow> i64 \<Rightarrow> i64" where
  "i64_clamp x lo hi = (if sint x < sint lo then lo else if sint hi < sint x then hi else x)"

definition i64_div :: "i64 \<Rightarrow> i64 \<Rightarrow> i64" where
  "i64_div x y = word_of_int (sint x sdiv sint y)"

definition i64_rem :: "i64 \<Rightarrow> i64 \<Rightarrow> i64" where
  "i64_rem x y = word_of_int (sint x smod sint y)"

definition guest_timeout_to_windows :: "bytes \<Rightarrow> bytes" where
  "guest_timeout_to_windows guest =
     (if length guest < 16 then guest
      else
        (let seconds = from_le_bytes (subslice guest 0 8) :: i64;
             micros = from_le_bytes (subslice guest 8 16) :: i64;
             millis = i64_clamp
                        (i64_saturating_add (i64_saturating_mul seconds 1000)
                           (i64_div_euclid_pos (i64_saturating_add micros 999) 1000))
                        0 0xffffffff
         in to_le_bytes 4 (ucast millis :: u32)))"

definition windows_timeout_to_guest :: "bytes \<Rightarrow> usize \<Rightarrow> bytes" where
  "windows_timeout_to_guest windows requested_len =
     (if requested_len < 16 \<or> length windows < 4 then windows
      else
        (let millis = ucast (from_le_bytes (subslice windows 0 4) :: u32) :: i64
         in to_le_bytes 8 (i64_div millis 1000) @ to_le_bytes 8 (i64_rem millis 1000 * 1000)))"

subsection \<open>Flags, events, lengths\<close>

definition normalize_message_flags :: "i32 \<Rightarrow> i32" where
  "normalize_message_flags flags = flags AND 0x0002"

definition guest_poll_events_to_windows :: "'k win_sys \<Rightarrow> i16 \<Rightarrow> i16" where
  "guest_poll_events_to_windows win events =
     (let normalized = 0;
          normalized = (if events AND GUEST_POLLIN \<noteq> 0 then normalized OR ws_event win W_POLLIN else normalized);
          normalized = (if events AND GUEST_POLLPRI \<noteq> 0 then normalized OR ws_event win W_POLLPRI else normalized);
          normalized = (if events AND GUEST_POLLOUT \<noteq> 0 then normalized OR ws_event win W_POLLOUT else normalized)
      in normalized)"

definition windows_poll_events_to_guest :: "'k win_sys \<Rightarrow> i16 \<Rightarrow> i16" where
  "windows_poll_events_to_guest win events =
     (let normalized = 0;
          normalized = (if events AND ws_event win W_POLLIN \<noteq> 0 then normalized OR GUEST_POLLIN else normalized);
          normalized = (if events AND ws_event win W_POLLPRI \<noteq> 0 then normalized OR GUEST_POLLPRI else normalized);
          normalized = (if events AND ws_event win W_POLLOUT \<noteq> 0 then normalized OR GUEST_POLLOUT else normalized);
          normalized = (if events AND ws_event win W_POLLERR \<noteq> 0 then normalized OR GUEST_POLLERR else normalized);
          normalized = (if events AND ws_event win W_POLLHUP \<noteq> 0 then normalized OR GUEST_POLLHUP else normalized);
          normalized = (if events AND ws_event win W_POLLNVAL \<noteq> 0 then normalized OR GUEST_POLLNVAL else normalized)
      in normalized)"

definition i32_of_u32 :: "u32 \<Rightarrow> i32 option" where
  "i32_of_u32 x = (if unat x < 2 ^ 31 then Some x else None)"

definition checked_sockaddr_len :: "u32 \<Rightarrow> usize errno_result" where
  "checked_sockaddr_len value =
     (case i32_of_u32 value of None \<Rightarrow> Inl EINVAL | Some value \<Rightarrow> checked_len value)"

definition write_guest_u32 :: "mem_export \<Rightarrow> i32 \<Rightarrow> u32 \<Rightarrow> mem_export errno_result" where
  "write_guest_u32 mem ptr value = write_guest mem ptr (to_le_bytes 4 value)"

text \<open>\<open>read_u32(..).and_then(checked_sockaddr_len)\<close>.\<close>

definition read_sockaddr_len :: "mem_export \<Rightarrow> i32 \<Rightarrow> usize errno_result" where
  "read_sockaddr_len mem ptr =
     (case read_u32 mem ptr of Inl e \<Rightarrow> Inl e | Inr value \<Rightarrow> checked_sockaddr_len value)"

text \<open>\<open>x as usize\<close> of an \<open>i32\<close>: sign extension to 64 bits.\<close>

definition i32_as_usize :: "i32 \<Rightarrow> usize" where
  "i32_as_usize x = nat (sint x mod 2 ^ 64)"

end
