(* ===== verification/Windows_Socket_Imports.thy ===== *)
theory Windows_Socket_Imports
  imports App_State Windows_Sockets Poll_Array Socket_Steps
begin

text \<open>
  The imports of the module \<^verbatim>\<open>waasmtime_mysql_sockets\<close> on Windows, the closures that
  \<open>add_to_linker\<close> of \<^verbatim>\<open>src/src/host_sockets_windows.rs\<close> registers, one definition each, and
  \<open>socket_name\<close>.  Every early return is a branch; an out-of-range slice is a \<open>Panic\<close>.
\<close>

type_synonym ('f, 'k) win_app = "(win_socket, 'f, 'k win_os) app_state"

type_synonym ('f, 'k) win_import = "(win_socket, 'f, 'k win_os) import"

text \<open>The state after a call into Winsock.\<close>

abbreviation set_kernel :: "('f, 'k) win_app \<Rightarrow> 'k \<Rightarrow> ('f, 'k) win_app" where
  "set_kernel st s \<equiv> st\<lparr>os := (os st)\<lparr>kernel := s\<rparr>\<rparr>"

named_theorems win_import_defs \<open>the bodies of the socket imports on Windows\<close>

subsection \<open>Creating and naming sockets\<close>

definition wimport_socket :: "'k win_sys \<Rightarrow> i32 \<Rightarrow> i32 \<Rightarrow> i32 \<Rightarrow> ('f, 'k) win_import" where
  [win_import_defs]: "wimport_socket win domain ty protocol st =
     (if \<not> network_allowed st then fail ENETDOWN st
      else case ensure_winsock win (os st) of
        (Inl e, w) \<Rightarrow> fail e (st\<lparr>os := w\<rparr>)
      | (Inr _, w) \<Rightarrow>
         (let st = st\<lparr>os := w\<rparr> in
          case win_normalize_socket_type win ty of
            Inl e \<Rightarrow> fail e st
          | Inr socket_type \<Rightarrow>
             (let host_dom = win_normalize_socket_domain win domain;
                  (raw, s) = ws_socket win host_dom (nwt_ty socket_type) protocol (kernel (os st))
              in if raw = ws_INVALID_SOCKET win then (Return (neg_last_socket_errno win s), set_kernel st s)
                 else if nwt_nonblocking socket_type then
                   (let (rc, s) = ws_ioctlsocket win raw (wsc win W_FIONBIO) 1 s
                    in if rc = wsc win W_SOCKET_ERROR then
                         (let (_, s) = ws_closesocket win raw s
                          in (Return (neg_last_socket_errno win s), set_kernel st s))
                       else
                         (let (fd, t) = ws_insert (sockets st) raw domain host_dom GUEST_O_NONBLOCK
                          in (Return fd, (set_kernel st s)\<lparr>sockets := t\<rparr>)))
                 else
                   (let (fd, t) = ws_insert (sockets st) raw domain host_dom 0
                    in (Return fd, (set_kernel st s)\<lparr>sockets := t\<rparr>)))))"

definition wimport_bind :: "'k win_sys \<Rightarrow> i32 \<Rightarrow> i32 \<Rightarrow> i32 \<Rightarrow> ('f, 'k) win_import" where
  [win_import_defs]: "wimport_bind win fd addr_ptr addr_len st =
     (case ws_get (sockets st) fd of
        Inl e \<Rightarrow> fail e st
      | Inr socket \<Rightarrow>
         (case read_guest (memory st) addr_ptr addr_len of
            Inl e \<Rightarrow> fail e st
          | Inr addr \<Rightarrow>
             (let addr = win_normalize_sockaddr_for_host addr (ws_host_domain socket);
                  (rc, s) = ws_bind win (raw_socket socket) addr (kernel (os st))
              in (Return (cvt_socket_i32 win s rc), set_kernel st s))))"

definition wimport_listen :: "'k win_sys \<Rightarrow> i32 \<Rightarrow> i32 \<Rightarrow> ('f, 'k) win_import" where
  [win_import_defs]: "wimport_listen win fd backlog st =
     (case ws_get (sockets st) fd of
        Inl e \<Rightarrow> fail e st
      | Inr socket \<Rightarrow>
         (let (rc, s) = ws_listen win (raw_socket socket) backlog (kernel (os st))
          in (Return (cvt_socket_i32 win s rc), set_kernel st s)))"

definition wimport_accept :: "'k win_sys \<Rightarrow> i32 \<Rightarrow> i32 \<Rightarrow> i32 \<Rightarrow> ('f, 'k) win_import" where
  [win_import_defs]: "wimport_accept win fd addr_ptr addr_len_ptr st =
     (case ws_get (sockets st) fd of
        Inl e \<Rightarrow> fail e st
      | Inr socket \<Rightarrow>
         (case read_sockaddr_len (memory st) addr_len_ptr of
            Inl e \<Rightarrow> fail e st
          | Inr requested_len \<Rightarrow>
             (let addr = replicate requested_len 0;
                  ((accepted, stored, addr_len), s) =
                    ws_accept win (raw_socket socket) (of_nat requested_len) (kernel (os st));
                  addr = fill addr stored
              in if accepted = ws_INVALID_SOCKET win then
                   (Return (neg_last_socket_errno win s), set_kernel st s)
                 else if sint addr_len < 0 \<or> length addr < i32_as_usize addr_len then
                   (let (_, s) = ws_closesocket win accepted s in (Return (neg_errno EIO), set_kernel st s))
                 else
                   (let addr = win_denormalize_sockaddr_for_guest addr (ws_guest_domain socket)
                    in case slice_to addr (i32_as_usize addr_len) of
                         None \<Rightarrow> (Panic, set_kernel st s)
                       | Some out \<Rightarrow>
                          (case write_guest (memory st) addr_ptr out of
                             Inl e \<Rightarrow>
                               (let (_, s) = ws_closesocket win accepted s
                                in (Return (neg_errno e), set_kernel st s))
                           | Inr mem \<Rightarrow>
                              (case write_guest_u32 mem addr_len_ptr addr_len of
                                 Inl e \<Rightarrow>
                                   (let (_, s) = ws_closesocket win accepted s
                                    in (Return (neg_errno e), (set_kernel st s)\<lparr>memory := mem\<rparr>))
                               | Inr mem \<Rightarrow>
                                   (let (fd, t) = ws_insert (sockets st) accepted (ws_guest_domain socket)
                                                    (ws_host_domain socket) (status_flags socket)
                                    in (Return fd, (set_kernel st s)\<lparr>memory := mem, sockets := t\<rparr>))))))))"

definition wimport_connect :: "'k win_sys \<Rightarrow> i32 \<Rightarrow> i32 \<Rightarrow> i32 \<Rightarrow> ('f, 'k) win_import" where
  [win_import_defs]: "wimport_connect win fd addr_ptr addr_len st =
     (case ws_get (sockets st) fd of
        Inl e \<Rightarrow> fail e st
      | Inr socket \<Rightarrow>
         (case read_guest (memory st) addr_ptr addr_len of
            Inl e \<Rightarrow> fail e st
          | Inr addr \<Rightarrow>
             (let addr = win_normalize_sockaddr_for_host addr (ws_host_domain socket);
                  (rc, s) = ws_connect win (raw_socket socket) addr (kernel (os st))
              in (Return (cvt_socket_i32 win s rc), set_kernel st s))))"

definition socket_name :: "'k win_sys \<Rightarrow> i32 \<Rightarrow> i32 \<Rightarrow> i32 \<Rightarrow> name_kind \<Rightarrow> ('f, 'k) win_import" where
  [win_import_defs]: "socket_name win fd addr_ptr addr_len_ptr kind st =
     (case ws_get (sockets st) fd of
        Inl e \<Rightarrow> fail e st
      | Inr socket \<Rightarrow>
         (case read_sockaddr_len (memory st) addr_len_ptr of
            Inl e \<Rightarrow> fail e st
          | Inr requested_len \<Rightarrow>
             (let addr = replicate requested_len 0;
                  ((rc, stored, addr_len), s) =
                    (case kind of
                       Local \<Rightarrow> ws_getsockname win (raw_socket socket) (of_nat requested_len) (kernel (os st))
                     | Peer \<Rightarrow> ws_getpeername win (raw_socket socket) (of_nat requested_len) (kernel (os st)));
                  addr = fill addr stored
              in if rc = wsc win W_SOCKET_ERROR then (Return (neg_last_socket_errno win s), set_kernel st s)
                 else if sint addr_len < 0 \<or> length addr < i32_as_usize addr_len then
                   (Return (neg_errno EIO), set_kernel st s)
                 else
                   (let addr = win_denormalize_sockaddr_for_guest addr (ws_guest_domain socket)
                    in case slice_to addr (i32_as_usize addr_len) of
                         None \<Rightarrow> (Panic, set_kernel st s)
                       | Some out \<Rightarrow>
                          (case write_guest (memory st) addr_ptr out of
                             Inl e \<Rightarrow> (Return (neg_errno e), set_kernel st s)
                           | Inr mem \<Rightarrow>
                              (case write_guest_u32 mem addr_len_ptr addr_len of
                                 Inl e \<Rightarrow> (Return (neg_errno e), (set_kernel st s)\<lparr>memory := mem\<rparr>)
                               | Inr mem \<Rightarrow> (Return 0, (set_kernel st s)\<lparr>memory := mem\<rparr>)))))))"

definition wimport_getsockname :: "'k win_sys \<Rightarrow> i32 \<Rightarrow> i32 \<Rightarrow> i32 \<Rightarrow> ('f, 'k) win_import" where
  [win_import_defs]: "wimport_getsockname win fd addr_ptr addr_len_ptr st =
     socket_name win fd addr_ptr addr_len_ptr Local st"

definition wimport_getpeername :: "'k win_sys \<Rightarrow> i32 \<Rightarrow> i32 \<Rightarrow> i32 \<Rightarrow> ('f, 'k) win_import" where
  [win_import_defs]: "wimport_getpeername win fd addr_ptr addr_len_ptr st =
     socket_name win fd addr_ptr addr_len_ptr Peer st"

subsection \<open>Socket options\<close>

definition wimport_setsockopt ::
    "'k win_sys \<Rightarrow> i32 \<Rightarrow> i32 \<Rightarrow> i32 \<Rightarrow> i32 \<Rightarrow> i32 \<Rightarrow> ('f, 'k) win_import" where
  [win_import_defs]: "wimport_setsockopt win fd level optname optval_ptr optlen st =
     (case ws_get (sockets st) fd of
        Inl e \<Rightarrow> fail e st
      | Inr socket \<Rightarrow>
         (case read_guest (memory st) optval_ptr optlen of
            Inl e \<Rightarrow> fail e st
          | Inr optval \<Rightarrow>
             (let (host_level, host_optname) = normalize_socket_option win level optname;
                  optval = (if is_guest_timeout level optname then guest_timeout_to_windows optval else optval);
                  (rc, s) = ws_setsockopt win (raw_socket socket) host_level host_optname optval (kernel (os st))
              in (Return (cvt_socket_i32 win s rc), set_kernel st s))))"

text \<open>What \<open>getsockopt\<close> makes of the bytes Winsock returned, before they go to the guest.\<close>

definition option_result :: "'k win_sys \<Rightarrow> i32 \<Rightarrow> i32 \<Rightarrow> usize \<Rightarrow> bytes \<Rightarrow> bytes" where
  "option_result win level optname requested_len result =
     (let timeout = is_guest_timeout level optname;
          result = (if timeout then windows_timeout_to_guest result requested_len
                    else if win_is_guest_socket_level level \<and> optname = GUEST_SO_ERROR \<and> length result = 4 then
                      (let error = from_le_bytes (subslice result 0 4) :: i32
                       in to_le_bytes 4 (socket_errno win error))
                    else result)
      in if requested_len < length result then take requested_len result else result)"

definition wimport_getsockopt ::
    "'k win_sys \<Rightarrow> i32 \<Rightarrow> i32 \<Rightarrow> i32 \<Rightarrow> i32 \<Rightarrow> i32 \<Rightarrow> ('f, 'k) win_import" where
  [win_import_defs]: "wimport_getsockopt win fd level optname optval_ptr optlen_ptr st =
     (case ws_get (sockets st) fd of
        Inl e \<Rightarrow> fail e st
      | Inr socket \<Rightarrow>
         (case read_sockaddr_len (memory st) optlen_ptr of
            Inl e \<Rightarrow> fail e st
          | Inr requested_len \<Rightarrow>
             (let (host_level, host_optname) = normalize_socket_option win level optname;
                  timeout = is_guest_timeout level optname;
                  optval = replicate (if timeout then 4 else requested_len) 0;
                  ((rc, stored, optlen), s) =
                    ws_getsockopt win (raw_socket socket) host_level host_optname (of_nat (length optval))
                      (kernel (os st));
                  optval = fill optval stored
              in if rc = wsc win W_SOCKET_ERROR then (Return (neg_last_socket_errno win s), set_kernel st s)
                 else if sint optlen < 0 \<or> length optval < i32_as_usize optlen then
                   (Return (neg_errno EIO), set_kernel st s)
                 else
                   (case slice_to optval (i32_as_usize optlen) of
                      None \<Rightarrow> (Panic, set_kernel st s)
                    | Some result \<Rightarrow>
                       (let result = option_result win level optname requested_len result
                        in case write_guest (memory st) optval_ptr result of
                             Inl e \<Rightarrow> (Return (neg_errno e), set_kernel st s)
                           | Inr mem \<Rightarrow>
                              (case write_guest_u32 mem optlen_ptr (of_nat (length result)) of
                                 Inr mem \<Rightarrow> (Return 0, (set_kernel st s)\<lparr>memory := mem\<rparr>)
                               | Inl e \<Rightarrow> (Return (neg_errno e), (set_kernel st s)\<lparr>memory := mem\<rparr>)))))))"

subsection \<open>Transfer\<close>

definition wimport_send :: "'k win_sys \<Rightarrow> i32 \<Rightarrow> i32 \<Rightarrow> i32 \<Rightarrow> i32 \<Rightarrow> ('f, 'k) win_import" where
  [win_import_defs]: "wimport_send win fd buf_ptr len flags st =
     (case ws_get (sockets st) fd of
        Inl e \<Rightarrow> fail e st
      | Inr socket \<Rightarrow>
         (case read_guest (memory st) buf_ptr len of
            Inl e \<Rightarrow> fail e st
          | Inr buf \<Rightarrow>
             (let (rc, s) = ws_send win (raw_socket socket) buf (normalize_message_flags flags) (kernel (os st))
              in (Return (cvt_socket_i32 win s rc), set_kernel st s))))"

definition wimport_recv :: "'k win_sys \<Rightarrow> i32 \<Rightarrow> i32 \<Rightarrow> i32 \<Rightarrow> i32 \<Rightarrow> ('f, 'k) win_import" where
  [win_import_defs]: "wimport_recv win fd buf_ptr len flags st =
     (case ws_get (sockets st) fd of
        Inl e \<Rightarrow> fail e st
      | Inr socket \<Rightarrow>
         (case checked_len len of
            Inl e \<Rightarrow> fail e st
          | Inr len \<Rightarrow>
             (let buf = replicate len 0;
                  ((rc, stored), s) =
                    ws_recv win (raw_socket socket) (of_nat len) (normalize_message_flags flags) (kernel (os st));
                  buf = fill buf stored
              in if rc = wsc win W_SOCKET_ERROR then (Return (neg_last_socket_errno win s), set_kernel st s)
                 else
                   (case slice_to buf (i32_as_usize rc) of
                      None \<Rightarrow> (Panic, set_kernel st s)
                    | Some out \<Rightarrow>
                       (case write_guest (memory st) buf_ptr out of
                          Inr mem \<Rightarrow> (Return rc, (set_kernel st s)\<lparr>memory := mem\<rparr>)
                        | Inl e \<Rightarrow> (Return (neg_errno e), set_kernel st s))))))"

definition wimport_sendto ::
    "'k win_sys \<Rightarrow> i32 \<Rightarrow> i32 \<Rightarrow> i32 \<Rightarrow> i32 \<Rightarrow> i32 \<Rightarrow> i32 \<Rightarrow> ('f, 'k) win_import" where
  [win_import_defs]: "wimport_sendto win fd buf_ptr len flags addr_ptr addr_len st =
     (case ws_get (sockets st) fd of
        Inl e \<Rightarrow> fail e st
      | Inr socket \<Rightarrow>
         (case read_guest (memory st) buf_ptr len of
            Inl e \<Rightarrow> fail e st
          | Inr buf \<Rightarrow>
             (case read_guest (memory st) addr_ptr addr_len of
                Inl e \<Rightarrow> fail e st
              | Inr addr \<Rightarrow>
                 (let addr = win_normalize_sockaddr_for_host addr (ws_host_domain socket);
                      (rc, s) = ws_sendto win (raw_socket socket) buf (normalize_message_flags flags) addr
                                  (kernel (os st))
                  in (Return (cvt_socket_i32 win s rc), set_kernel st s)))))"

definition wimport_recvfrom ::
    "'k win_sys \<Rightarrow> i32 \<Rightarrow> i32 \<Rightarrow> i32 \<Rightarrow> i32 \<Rightarrow> i32 \<Rightarrow> i32 \<Rightarrow> ('f, 'k) win_import" where
  [win_import_defs]: "wimport_recvfrom win fd buf_ptr len flags addr_ptr addr_len_ptr st =
     (case ws_get (sockets st) fd of
        Inl e \<Rightarrow> fail e st
      | Inr socket \<Rightarrow>
         (case checked_len len of
            Inl e \<Rightarrow> fail e st
          | Inr len \<Rightarrow>
             (case read_sockaddr_len (memory st) addr_len_ptr of
                Inl e \<Rightarrow> fail e st
              | Inr requested_addr_len \<Rightarrow>
                 (let buf = replicate len 0;
                      addr = replicate requested_addr_len 0;
                      ((rc, stored, stored_addr, addr_len), s) =
                        ws_recvfrom win (raw_socket socket) (of_nat len) (normalize_message_flags flags)
                          (of_nat requested_addr_len) (kernel (os st));
                      buf = fill buf stored;
                      addr = fill addr stored_addr
                  in if rc = wsc win W_SOCKET_ERROR then (Return (neg_last_socket_errno win s), set_kernel st s)
                     else if sint addr_len < 0 \<or> length addr < i32_as_usize addr_len then
                       (Return (neg_errno EIO), set_kernel st s)
                     else
                       (case slice_to buf (i32_as_usize rc) of
                          None \<Rightarrow> (Panic, set_kernel st s)
                        | Some out \<Rightarrow>
                           (case write_guest (memory st) buf_ptr out of
                              Inl e \<Rightarrow> (Return (neg_errno e), set_kernel st s)
                            | Inr mem \<Rightarrow>
                               (let addr = win_denormalize_sockaddr_for_guest addr (ws_guest_domain socket)
                                in case slice_to addr (i32_as_usize addr_len) of
                                     None \<Rightarrow> (Panic, (set_kernel st s)\<lparr>memory := mem\<rparr>)
                                   | Some out \<Rightarrow>
                                      (case write_guest mem addr_ptr out of
                                         Inl e \<Rightarrow> (Return (neg_errno e), (set_kernel st s)\<lparr>memory := mem\<rparr>)
                                       | Inr mem \<Rightarrow>
                                          (case write_guest_u32 mem addr_len_ptr addr_len of
                                             Inr mem \<Rightarrow> (Return rc, (set_kernel st s)\<lparr>memory := mem\<rparr>)
                                           | Inl e \<Rightarrow>
                                               (Return (neg_errno e), (set_kernel st s)\<lparr>memory := mem\<rparr>))))))))))"

subsection \<open>Shutdown, close, flags\<close>

definition wimport_shutdown :: "'k win_sys \<Rightarrow> i32 \<Rightarrow> i32 \<Rightarrow> ('f, 'k) win_import" where
  [win_import_defs]: "wimport_shutdown win fd how st =
     (case ws_get (sockets st) fd of
        Inl e \<Rightarrow> fail e st
      | Inr socket \<Rightarrow>
         (let (rc, s) = ws_shutdown win (raw_socket socket) how (kernel (os st))
          in (Return (cvt_socket_i32 win s rc), set_kernel st s)))"

definition wimport_close :: "'k win_sys \<Rightarrow> i32 \<Rightarrow> ('f, 'k) win_import" where
  [win_import_defs]: "wimport_close win fd st =
     (case ws_remove (sockets st) fd of
        Inl e \<Rightarrow> fail e st
      | Inr (socket, t) \<Rightarrow>
         (let (rc, s) = ws_closesocket win (raw_socket socket) (kernel (os st))
          in (Return (cvt_socket_i32 win s rc), (set_kernel st s)\<lparr>sockets := t\<rparr>)))"

definition wimport_fcntl :: "'k win_sys \<Rightarrow> i32 \<Rightarrow> i32 \<Rightarrow> i32 \<Rightarrow> ('f, 'k) win_import" where
  [win_import_defs]: "wimport_fcntl win fd cmd arg st =
     (case ws_get (sockets st) fd of
        Inl e \<Rightarrow> fail e st
      | Inr socket \<Rightarrow>
         (if cmd = GUEST_F_GETFL then (Return (status_flags socket), st)
          else if cmd = GUEST_F_SETFL then
            (let flags = arg AND GUEST_O_NONBLOCK;
                 enabled = (if flags \<noteq> 0 then 1 else 0);
                 (rc, s) = ws_ioctlsocket win (raw_socket socket) (wsc win W_FIONBIO) enabled (kernel (os st))
             in if rc = wsc win W_SOCKET_ERROR then (Return (neg_last_socket_errno win s), set_kernel st s)
                else
                  (case ws_set_status_flags (sockets st) fd flags of
                     Inr t \<Rightarrow> (Return 0, (set_kernel st s)\<lparr>sockets := t\<rparr>)
                   | Inl e \<Rightarrow> (Return (neg_errno e), set_kernel st s)))
          else fail EINVAL st))"

subsection \<open>Polling\<close>

text \<open>
  The loop that builds the poll set and the list \<open>ignored\<close>; an unknown descriptor ends it.
\<close>

fun win_poll_fds :: "'k win_sys \<Rightarrow> win_socket host_sockets \<Rightarrow> bytes list \<Rightarrow> (bool \<times> wsapollfd) list errno_result" where
  "win_poll_fds win t [] = Inr []"
| "win_poll_fds win t (chunk # chunks) =
     (let guest_fd = from_le_bytes (subslice chunk 0 4) :: i32;
          events = from_le_bytes (subslice chunk 4 6) :: i16;
          found = (if sint guest_fd < 0 then
                     Inr (True, \<lparr>wp_fd = ws_INVALID_SOCKET win, wp_events = 0, wp_revents = 0\<rparr>)
                   else case ws_get t guest_fd of
                     Inl e \<Rightarrow> Inl e
                   | Inr socket \<Rightarrow>
                      Inr (False, \<lparr>wp_fd = raw_socket socket,
                                   wp_events = guest_poll_events_to_windows win events, wp_revents = 0\<rparr>))
      in case found of
           Inl e \<Rightarrow> Inl e
         | Inr entry \<Rightarrow>
            (case win_poll_fds win t chunks of Inl e \<Rightarrow> Inl e | Inr entries \<Rightarrow> Inr (entry # entries)))"

text \<open>The loop that stores the events, converted, or 0 for an ignored entry.\<close>

fun win_poll_write :: "'k win_sys \<Rightarrow> mem_export \<Rightarrow> i32 \<Rightarrow> nat \<Rightarrow> (bool \<times> i16) list \<Rightarrow> unit errno_result \<times> mem_export" where
  "win_poll_write win mem fds_ptr index [] = (Inr (), mem)"
| "win_poll_write win mem fds_ptr index ((ignored, revents) # rest) =
     (let revents = (if ignored then 0 else windows_poll_events_to_guest win revents)
      in case write_guest mem (fds_ptr + of_nat index * 8 + 6) (to_le_bytes 2 revents) of
           Inl e \<Rightarrow> (Inl e, mem)
         | Inr mem \<Rightarrow> win_poll_write win mem fds_ptr (Suc index) rest)"

definition wimport_poll :: "'k win_sys \<Rightarrow> i32 \<Rightarrow> i32 \<Rightarrow> i32 \<Rightarrow> ('f, 'k) win_import" where
  [win_import_defs]: "wimport_poll win fds_ptr nfds timeout st =
     (case checked_poll_count nfds of
        Inl e \<Rightarrow> fail e st
      | Inr nfds \<Rightarrow>
         (case read_guest (memory st) fds_ptr (of_nat (nfds * 8)) of
            Inl e \<Rightarrow> fail e st
          | Inr bytes \<Rightarrow>
             (case win_poll_fds win (sockets st) (chunks_exact8 bytes) of
                Inl e \<Rightarrow> fail e st
              | Inr entries \<Rightarrow>
                 (let host_fds = map snd entries;
                      ((rc, stored), s) = ws_WSAPoll win host_fds timeout (kernel (os st));
                      revents = fill (map wp_revents host_fds) stored
                  in if rc = wsc win W_SOCKET_ERROR then (Return (neg_last_socket_errno win s), set_kernel st s)
                     else
                       (case win_poll_write win (memory st) fds_ptr 0 (zip (map fst entries) revents) of
                          (Inl e, mem) \<Rightarrow> (Return (neg_errno e), (set_kernel st s)\<lparr>memory := mem\<rparr>)
                        | (Inr _, mem) \<Rightarrow> (Return rc, (set_kernel st s)\<lparr>memory := mem\<rparr>))))))"

subsection \<open>The imports as calls\<close>

text \<open>\<open>add_to_linker\<close> on Windows.\<close>

fun exec_wsock :: "'k win_sys \<Rightarrow> sock_call \<Rightarrow> ('f, 'k) win_import" where
  "exec_wsock win (C_socket d t p) = wimport_socket win d t p"
| "exec_wsock win (C_bind fd a l) = wimport_bind win fd a l"
| "exec_wsock win (C_listen fd b) = wimport_listen win fd b"
| "exec_wsock win (C_accept fd a l) = wimport_accept win fd a l"
| "exec_wsock win (C_connect fd a l) = wimport_connect win fd a l"
| "exec_wsock win (C_getsockname fd a l) = wimport_getsockname win fd a l"
| "exec_wsock win (C_getpeername fd a l) = wimport_getpeername win fd a l"
| "exec_wsock win (C_setsockopt fd l n p k) = wimport_setsockopt win fd l n p k"
| "exec_wsock win (C_getsockopt fd l n p k) = wimport_getsockopt win fd l n p k"
| "exec_wsock win (C_send fd b l f) = wimport_send win fd b l f"
| "exec_wsock win (C_recv fd b l f) = wimport_recv win fd b l f"
| "exec_wsock win (C_sendto fd b l f a k) = wimport_sendto win fd b l f a k"
| "exec_wsock win (C_recvfrom fd b l f a k) = wimport_recvfrom win fd b l f a k"
| "exec_wsock win (C_shutdown fd h) = wimport_shutdown win fd h"
| "exec_wsock win (C_close fd) = wimport_close win fd"
| "exec_wsock win (C_fcntl fd c a) = wimport_fcntl win fd c a"
| "exec_wsock win (C_poll p n t) = wimport_poll win p n t"

end
