(* ===== verification/Windows_Socket_Safety.thy ===== *)
theory Windows_Socket_Safety
  imports Windows_Socket_Imports
begin

text \<open>
  What the socket imports keep on Windows: the table is a descriptor table in the sense of
  \<open>fd_table\<close>, every import is a \<open>table_step\<close> that leaves everything else alone (\<open>import_frame\<close>), its
  result is a \<open>reply_ok\<close>, and it does not panic.
\<close>

subsection \<open>The table\<close>

definition ws_insert_socket :: "win_socket host_sockets \<Rightarrow> win_socket \<Rightarrow> i32 \<times> win_socket host_sockets" where
  "ws_insert_socket t v = ws_insert t (raw_socket v) (ws_guest_domain v) (ws_host_domain v) (status_flags v)"

interpretation wsockt: fd_table SOCKET_FD_BASE hs_next_fd hs_sockets ws_insert_socket ws_get ws_remove
  by unfold_locales
    (auto simp: SOCKET_FD_BASE_def ws_insert_socket_def ws_insert_def ws_get_def ws_remove_def Let_def)

lemma ws_insert_put:
  "ws_insert t raw g h f =
     hs_put t \<lparr>raw_socket = raw, ws_guest_domain = g, ws_host_domain = h, status_flags = f\<rparr>"
  by (simp add: ws_insert_def hs_put_def Let_def)

lemma ws_remove_Inr: "ws_remove t fd = Inr (v, t') \<longleftrightarrow> hs_sockets t fd = Some v \<and> t' = hs_assign t fd None"
  by (auto simp: ws_remove_def hs_assign_def split: option.splits)

lemma ws_set_status_flags_Inr:
  "ws_set_status_flags t fd f = Inr t' \<longleftrightarrow>
     (\<exists>v. hs_sockets t fd = Some v \<and> t' = hs_assign t fd (Some (v\<lparr>status_flags := f\<rparr>)))"
  by (auto simp: ws_set_status_flags_def hs_assign_def split: option.splits)

lemma ws_get_Inr: "ws_get t fd = Inr v \<longleftrightarrow> hs_sockets t fd = Some v"
  by (auto simp: ws_get_def split: option.splits)

lemma ws_get_Inl: "ws_get t fd = Inl e \<longleftrightarrow> hs_sockets t fd = None \<and> e = EBADF"
  by (auto simp: ws_get_def split: option.splits)

subsection \<open>Casts and slices\<close>

lemma i32_as_usize_nonneg: "0 \<le> sint x \<Longrightarrow> i32_as_usize x = nat (sint x)"
proof -
  assume "0 \<le> sint x"
  moreover have "sint x < 2 ^ 64" using sint_i32_bounds(2) [of x] by (rule order.strict_trans) simp
  ultimately show ?thesis unfolding i32_as_usize_def by (simp only: mod_pos_pos_trivial)
qed

lemma slice_to_checked:
  "\<not> (sint n < 0 \<or> length xs < i32_as_usize n) \<Longrightarrow> slice_to xs (i32_as_usize n) = Some (take (nat (sint n)) xs)"
  using i32_as_usize_nonneg [of n] by (simp add: slice_to_def not_less)

lemma length_win_write_sockaddr_family [simp]: "length (win_write_sockaddr_family a f) = length a"
  by (simp add: win_write_sockaddr_family_def split: option.split)

lemma length_win_denormalize [simp]: "length (win_denormalize_sockaddr_for_guest a f) = length a"
  by (simp add: win_denormalize_sockaddr_for_guest_def)

lemma write_guest_u32_eq: "write_guest_u32 = write_u32"
  by (simp add: fun_eq_iff write_guest_u32_def write_u32_def)

lemma write_guest_u32_len: "write_guest_u32 m p v = Inr m' \<Longrightarrow> mem_len m' = mem_len m"
  unfolding write_guest_u32_eq by (rule write_u32_len)

text \<open>The loop that stores events is the one of the Unix variant on the converted events.\<close>

definition guest_revents :: "'k win_sys \<Rightarrow> bool \<times> i16 \<Rightarrow> i16" where
  "guest_revents win x = (if fst x then 0 else windows_poll_events_to_guest win (snd x))"

lemma win_poll_write_eq:
  "win_poll_write win m p i xs = poll_write_revents m p i (map (guest_revents win) xs)"
  by (induction win m p i xs rule: win_poll_write.induct) (simp_all add: guest_revents_def Let_def split: sum.split)

lemma win_poll_write_len: "mem_len (snd (win_poll_write win m p i xs)) = mem_len m"
  unfolding win_poll_write_eq by (rule poll_write_revents_len) (rule prod.collapse [symmetric])

lemmas win_mem_lens = write_guest_len write_guest_u32_len win_poll_write_len

subsection \<open>Every import is a table step\<close>

lemma ws_table_step_insert:
  "ws_insert (sockets st) x g h f = (fd, sockets st') \<Longrightarrow> x \<notin> opens (os st) \<Longrightarrow>
   opens (os st') = insert x (opens (os st)) \<Longrightarrow> table_step raw_socket opens st (Return fd) st'"
  by (rule table_step.add [of raw_socket
        "\<lparr>raw_socket = x, ws_guest_domain = g, ws_host_domain = h, status_flags = f\<rparr>"])
    (simp_all add: ws_insert_put)

lemma ws_table_step_remove:
  "ws_remove (sockets st) fd = Inr (v, sockets st') \<Longrightarrow> opens (os st') = opens (os st) - {raw_socket v} \<Longrightarrow>
   table_step raw_socket opens st r st'"
  by (rule table_step.drop) (auto simp: ws_remove_Inr)

lemma ws_table_step_flags:
  "ws_set_status_flags (sockets st) fd f = Inr (sockets st') \<Longrightarrow> opens (os st') = opens (os st) \<Longrightarrow>
   table_step raw_socket opens st r st'"
proof -
  assume "ws_set_status_flags (sockets st) fd f = Inr (sockets st')" and o: "opens (os st') = opens (os st)"
  then obtain v where "hs_sockets (sockets st) fd = Some v"
      "sockets st' = hs_assign (sockets st) fd (Some (v\<lparr>status_flags := f\<rparr>))"
    by (auto simp: ws_set_status_flags_Inr)
  then show ?thesis using o by (intro table_step.change [where w = "v\<lparr>status_flags := f\<rparr>"]) simp_all
qed

lemmas ws_steps = table_step.keep ws_table_step_insert ws_table_step_remove ws_table_step_flags table_step.leak

lemma ws_opens_oneD:
  "ws_opens_one win opens s (ws_INVALID_SOCKET win) s' \<Longrightarrow> opens s' = opens s"
  "ws_opens_one win opens s x s' \<Longrightarrow> x \<noteq> ws_INVALID_SOCKET win \<Longrightarrow> x \<notin> opens s"
  "ws_opens_one win opens s x s' \<Longrightarrow> x \<noteq> ws_INVALID_SOCKET win \<Longrightarrow> opens s' = insert x (opens s)"
  by (simp_all add: ws_opens_one_def)

abbreviation win_opens :: "('k \<Rightarrow> 'x) \<Rightarrow> 'k win_os \<Rightarrow> 'x" where
  "win_opens opens \<equiv> \<lambda>w. opens (kernel w)"

lemma ensure_winsock_keeps:
  assumes "ws_keeps win f"
  shows "f (kernel (snd (ensure_winsock win w))) = f (kernel w)"
  by (simp add: ensure_winsock_def Let_def case_prod_beta ws_keeps_simps [OF assms] split: option.split)

lemma wimport_socket_step:
  assumes L: "winsock_laws win opens"
  shows "table_step raw_socket (win_opens opens) st (fst (wimport_socket win d t p st)) (snd (wimport_socket win d t p st))"
proof (cases "network_allowed st")
  case True
  note K = winsock_laws_keeps [OF L]
  obtain x w where e: "ensure_winsock win (os st) = (x, w)" by (rule prod.exhaust)
  then have w: "opens (kernel w) = opens (kernel (os st))" using ensure_winsock_keeps [OF K, of "os st"] by simp
  show ?thesis
  proof (cases "win_normalize_socket_type win t")
    case (Inl err)
    with True e w show ?thesis
      by (auto simp: wimport_socket_def intro: table_step.keep split: sum.split)
  next
    case (Inr ty)
    obtain raw s where k: "ws_socket win (win_normalize_socket_domain win d) (nwt_ty ty) p (kernel w) = (raw, s)"
      by (rule prod.exhaust)
    note one = winsock_laws_socket [OF L k]
    show ?thesis
    proof (cases "raw = ws_INVALID_SOCKET win")
      case True
      with one have "opens s = opens (kernel w)" by (simp add: ws_opens_one_def)
      with \<open>network_allowed st\<close> True Inr e w k show ?thesis
        by (auto simp: wimport_socket_def intro: table_step.keep split: sum.split)
    next
      case False
      have o: "raw \<notin> opens (kernel (os st))" "opens s = insert raw (opens (kernel (os st)))"
        using ws_opens_oneD(2,3) [OF one False] w by simp_all
      obtain rc s1 where i: "ws_ioctlsocket win raw (wsc win W_FIONBIO) 1 s = (rc, s1)" by (rule prod.exhaust)
      then have s1: "opens s1 = opens s" using ws_keeps_simps(2) [OF K, of raw _ 1 s] by (metis snd_conv)
      show ?thesis
        using \<open>network_allowed st\<close> False Inr e w k o i s1
        by (auto simp: wimport_socket_def Let_def case_prod_beta winsock_laws_close [OF L]
            split: sum.split intro: table_step.keep ws_table_step_insert)
    qed
  qed
qed (auto simp: wimport_socket_def intro: table_step.keep)

lemma wimport_accept_step:
  assumes L: "winsock_laws win opens"
  shows "table_step raw_socket (win_opens opens) st (fst (wimport_accept win fd a l st)) (snd (wimport_accept win fd a l st))"
proof (cases "ws_get (sockets st) fd")
  case (Inl e)
  then show ?thesis by (auto simp: wimport_accept_def intro: table_step.keep)
next
  case (Inr v)
  show ?thesis
  proof (cases "read_sockaddr_len (memory st) l")
    case (Inl e)
    with Inr show ?thesis by (auto simp: wimport_accept_def intro: table_step.keep)
  next
    case r: (Inr n)
    obtain raw bs m s where k: "ws_accept win (raw_socket v) (of_nat n) (kernel (os st)) = ((raw, bs, m), s)"
      by (metis prod.exhaust)
    note one = winsock_laws_accept [OF L k]
    show ?thesis
    proof (cases "raw = ws_INVALID_SOCKET win")
      case True
      with one have "opens s = opens (kernel (os st))" by (simp add: ws_opens_one_def)
      with True Inr r k show ?thesis by (auto simp: wimport_accept_def intro: table_step.keep)
    next
      case False
      with Inr r k ws_opens_oneD(2,3) [OF one False] show ?thesis
        by (auto simp: wimport_accept_def Let_def case_prod_beta winsock_laws_close [OF L]
            split: sum.split option.split intro: table_step.keep ws_table_step_insert table_step.leak)
    qed
  qed
qed

lemma wimport_close_step:
  assumes L: "winsock_laws win opens"
  shows "table_step raw_socket (win_opens opens) st (fst (wimport_close win fd st)) (snd (wimport_close win fd st))"
proof (cases "ws_remove (sockets st) fd")
  case (Inl e)
  then show ?thesis by (auto simp: wimport_close_def intro: table_step.keep)
next
  case (Inr vt)
  then show ?thesis
    by (cases vt) (auto simp: wimport_close_def Let_def case_prod_beta winsock_laws_close [OF L]
        intro: ws_table_step_remove)
qed

lemma wimport_fcntl_step:
  assumes K: "ws_keeps win opens"
  shows "table_step raw_socket (win_opens opens) st (fst (wimport_fcntl win fd c a st)) (snd (wimport_fcntl win fd c a st))"
  by (auto simp: wimport_fcntl_def Let_def case_prod_beta ws_keeps_simps [OF K]
      split: sum.split intro: table_step.keep ws_table_step_flags)

lemma wplain_imports_keep:
  assumes K: "ws_keeps win opens"
  shows "keeps (win_opens opens) st (snd (wimport_bind win fd a l st))"
    "keeps (win_opens opens) st (snd (wimport_listen win fd b st))"
    "keeps (win_opens opens) st (snd (wimport_connect win fd a l st))"
    "keeps (win_opens opens) st (snd (wimport_setsockopt win fd a b c l st))"
    "keeps (win_opens opens) st (snd (wimport_send win fd b l f st))"
    "keeps (win_opens opens) st (snd (wimport_recv win fd b l f st))"
    "keeps (win_opens opens) st (snd (wimport_sendto win fd b l f a c st))"
    "keeps (win_opens opens) st (snd (wimport_shutdown win fd b st))"
    "keeps (win_opens opens) st (snd (wimport_poll win p n t st))"
  by (simp_all add: wimport_bind_def wimport_listen_def wimport_connect_def wimport_setsockopt_def
      wimport_send_def wimport_recv_def wimport_sendto_def wimport_shutdown_def wimport_poll_def
      Let_def case_prod_beta ws_keeps_simps [OF K] split: sum.split option.split)

lemma socket_name_keeps:
  assumes K: "ws_keeps win opens"
  shows "keeps (win_opens opens) st (snd (socket_name win fd a l k st))"
  by (cases k) (simp_all add: socket_name_def Let_def case_prod_beta ws_keeps_simps [OF K]
      split: sum.split option.split)

lemma wimport_getsockopt_keeps:
  assumes K: "ws_keeps win opens"
  shows "keeps (win_opens opens) st (snd (wimport_getsockopt win fd l n p k st))"
  by (simp add: wimport_getsockopt_def Let_def case_prod_beta ws_keeps_simps [OF K]
      split: sum.split option.split)

lemma wimport_recvfrom_keeps:
  assumes K: "ws_keeps win opens"
  shows "keeps (win_opens opens) st (snd (wimport_recvfrom win fd b l f a k st))"
  by (simp add: wimport_recvfrom_def Let_def case_prod_beta ws_keeps_simps [OF K]
      split: sum.split option.split)

lemmas wkeep_imports =
  wplain_imports_keep socket_name_keeps wimport_getsockopt_keeps wimport_recvfrom_keeps

lemma exec_wsock_step:
  assumes L: "winsock_laws win opens"
  shows "table_step raw_socket (win_opens opens) st (fst (exec_wsock win c st)) (snd (exec_wsock win c st))"
  by (cases c)
    (simp_all add: wimport_socket_step [OF L] wimport_accept_step [OF L] wimport_close_step [OF L]
      wimport_fcntl_step [OF winsock_laws_keeps [OF L]] table_step.keep
      wkeep_imports [OF winsock_laws_keeps [OF L]] wimport_getsockname_def wimport_getpeername_def)

subsection \<open>Everything else an import can touch\<close>

lemma wimport_socket_frame: "import_frame st (snd (wimport_socket win d t p st))"
  by (auto simp: import_frame_def wimport_socket_def Let_def case_prod_beta split: sum.split prod.split)

lemma wimport_accept_frame: "import_frame st (snd (wimport_accept win fd a l st))"
  by (auto simp: import_frame_def wimport_accept_def Let_def case_prod_beta win_mem_lens split: sum.split option.split)

lemma socket_name_frame: "import_frame st (snd (socket_name win fd a l k st))"
  by (auto simp: import_frame_def socket_name_def Let_def case_prod_beta win_mem_lens split: sum.split option.split)

lemma wimport_getsockopt_frame: "import_frame st (snd (wimport_getsockopt win fd l n p k st))"
  by (auto simp: import_frame_def wimport_getsockopt_def Let_def case_prod_beta win_mem_lens
      split: sum.split option.split)

lemma wimport_recvfrom_frame: "import_frame st (snd (wimport_recvfrom win fd b l f a k st))"
  by (auto simp: import_frame_def wimport_recvfrom_def Let_def case_prod_beta win_mem_lens
      split: sum.split option.split)

lemma wplain_imports_frame:
  "import_frame st (snd (wimport_bind win fd a l st))"
  "import_frame st (snd (wimport_listen win fd b st))"
  "import_frame st (snd (wimport_connect win fd a l st))"
  "import_frame st (snd (wimport_setsockopt win fd a b c l st))"
  "import_frame st (snd (wimport_send win fd b l f st))"
  "import_frame st (snd (wimport_recv win fd b l f st))"
  "import_frame st (snd (wimport_sendto win fd b l f a c st))"
  "import_frame st (snd (wimport_shutdown win fd b st))"
  "import_frame st (snd (wimport_close win fd st))"
  "import_frame st (snd (wimport_fcntl win fd b c st))"
  "import_frame st (snd (wimport_poll win p n t st))"
  by (auto simp: import_frame_def wimport_bind_def wimport_listen_def wimport_connect_def
      wimport_setsockopt_def wimport_send_def wimport_recv_def wimport_sendto_def wimport_shutdown_def
      wimport_close_def wimport_fcntl_def wimport_poll_def Let_def case_prod_beta win_mem_lens
      split: sum.split option.split)

lemmas wframe_imports =
  wimport_socket_frame wimport_accept_frame socket_name_frame wimport_getsockopt_frame
  wimport_recvfrom_frame wplain_imports_frame

lemma exec_wsock_frame: "import_frame st (snd (exec_wsock win c st))"
  by (cases c) (simp_all add: wframe_imports wimport_getsockname_def wimport_getpeername_def)

text \<open>An observation of the operating system that Winsock leaves alone.\<close>

lemma exec_wsock_frames:
  assumes "ws_frames win (f :: 'k \<Rightarrow> 'x set)"
  shows "f (kernel (os (snd (exec_wsock win c st)))) = f (kernel (os st))"
proof -
  note F = ws_frames_simps [OF assms] and K = ws_frames_simps(1) [OF assms]
  have "f (kernel (os (snd (wimport_socket win d t p st)))) = f (kernel (os st))" for d t p
    using ensure_winsock_keeps [OF K, of "os st"]
    by (auto simp: wimport_socket_def Let_def case_prod_beta F(2-) ws_keeps_simps [OF K] split: sum.split)
  moreover have "f (kernel (os (snd (wimport_accept win fd a l st)))) = f (kernel (os st))" for fd a l
    by (simp add: wimport_accept_def Let_def case_prod_beta F(2-) split: sum.split option.split)
  moreover have "f (kernel (os (snd (wimport_close win fd st)))) = f (kernel (os st))"
      "f (kernel (os (snd (wimport_fcntl win fd cm a st)))) = f (kernel (os st))" for fd cm a
    by (simp_all add: wimport_close_def wimport_fcntl_def Let_def case_prod_beta F(2-) ws_keeps_simps [OF K] split: sum.split)
  ultimately show ?thesis
    by (cases c) (simp_all add: wkeep_imports [OF K] wimport_getsockname_def wimport_getpeername_def)
qed

subsection \<open>Unknown descriptors, no network\<close>

lemma exec_wsock_unknown:
  assumes "call_fd c = Some fd" "hs_sockets (sockets st) fd = None"
  shows "exec_wsock win c st = fail EBADF st"
  using assms by (cases c) (simp_all add: win_import_defs ws_get_def ws_remove_def)

lemma wimport_poll_sockets: "sockets (snd (wimport_poll win p n t st)) = sockets st"
  by (simp add: wimport_poll_def Let_def case_prod_beta split: sum.split option.split)

lemma exec_wsock_offline: "offline st \<Longrightarrow> offline (snd (exec_wsock win c st))"
proof (cases "call_fd c")
  case (Some fd)
  assume "offline st"
  then have "hs_sockets (sockets st) fd = None" by (simp add: offline_def)
  with Some \<open>offline st\<close> show ?thesis by (simp add: exec_wsock_unknown)
next
  case None
  assume "offline st"
  with None show ?thesis
    using exec_wsock_frame [of st win c]
    by (cases c) (auto simp: offline_def wimport_socket_def wimport_poll_sockets import_frame_def)
qed

end
