(* ===== verification/Windows_Socket_Results.thy ===== *)
theory Windows_Socket_Results
  imports Windows_Socket_Safety
begin

text \<open>
  The results of the socket imports on Windows: they do not panic, they answer with a value or a
  guest errno, and the state they rely on for that (\<open>win_inv\<close>: the stored status flags, Winsock
  started before the first socket) is an invariant.
\<close>

subsection \<open>Translated errors\<close>

lemma socket_errno_nonzero: "code \<noteq> 0 \<Longrightarrow> is_guest_errno (socket_errno win code)"
  unfolding socket_errno_def by (simp split: if_split)

lemma socket_errno_0 [simp]: "socket_errno win 0 = 0"
  by (simp add: socket_errno_def)

lemma socket_errno_range: "socket_errno win code = 0 \<or> is_guest_errno (socket_errno win code)"
  using socket_errno_nonzero [of code win] by (cases "code = 0") auto

lemma reply_ok_neg_last_socket [simp]: "reply_ok (neg_last_socket_errno win s)"
  using socket_errno_range [of win "ws_last_error win s"]
  by (auto simp: neg_last_socket_errno_def reply_ok_def neg_errno_def)

lemma reply_ok_cvt_socket: "ws_int_result win rc \<Longrightarrow> reply_ok (cvt_socket_i32 win s rc)"
  by (auto simp: cvt_socket_i32_def ws_int_result_def reply_ok_nonneg)

lemma checked_sockaddr_len_Inl: "checked_sockaddr_len v = Inl e \<Longrightarrow> e = EINVAL"
  by (auto simp: checked_sockaddr_len_def dest: checked_len_Inl split: option.splits)

lemma checked_sockaddr_len_Inr:
  "checked_sockaddr_len v = Inr n \<longleftrightarrow> unat v \<le> MAX_IO_LEN \<and> n = unat v"
proof (cases "unat v < 2 ^ 31")
  case True
  then have "sint v = int (unat v)" using sint_i32_of_nat [of "unat v"] by simp
  with True show ?thesis
    by (auto simp: checked_sockaddr_len_def i32_of_u32_def checked_len_Inr)
next
  case False
  then show ?thesis by (auto simp: checked_sockaddr_len_def i32_of_u32_def MAX_IO_LEN_def)
qed

lemma ws_failures:
  "ws_get t fd = Inl e \<Longrightarrow> is_guest_errno e"
  "ws_remove t fd = Inl e \<Longrightarrow> is_guest_errno e"
  "ws_set_status_flags t fd f = Inl e \<Longrightarrow> is_guest_errno e"
  "read_guest m p l = Inl e \<Longrightarrow> is_guest_errno e"
  "write_guest m p bs = Inl e \<Longrightarrow> is_guest_errno e"
  "write_guest_u32 m p w = Inl e \<Longrightarrow> is_guest_errno e"
  "read_sockaddr_len m p = Inl e \<Longrightarrow> is_guest_errno e"
  "checked_len l = Inl e \<Longrightarrow> is_guest_errno e"
  "checked_poll_count l = Inl e \<Longrightarrow> is_guest_errno e"
  "win_normalize_socket_type win ty = Inl e \<Longrightarrow> is_guest_errno e"
  by (auto simp: ws_get_Inl ws_remove_def ws_set_status_flags_def read_sockaddr_len_def read_u32_def
      write_guest_u32_def win_normalize_socket_type_def Let_def
      split: option.splits sum.splits if_splits
      dest!: smem.rd_Inl_errno smem.wr_Inl_errno checked_len_Inl checked_poll_count_Inl checked_sockaddr_len_Inl)

lemma win_poll_fds_Inl: "win_poll_fds win t cs = Inl e \<Longrightarrow> is_guest_errno e"
  by (induction win t cs rule: win_poll_fds.induct)
    (auto simp: Let_def ws_get_Inl split: if_splits sum.splits)

lemma poll_write_Inl: "fst (win_poll_write win m p i xs) = Inl e \<Longrightarrow> is_guest_errno e"
  by (induction win m p i xs rule: win_poll_write.induct)
    (auto simp: Let_def split: sum.splits dest: ws_failures)

lemmas win_failures = ws_failures win_poll_fds_Inl poll_write_Inl

subsection \<open>No panics\<close>

text \<open>A count a receiving call reports lies within the buffer it was given.\<close>

lemma sint_of_len: "checked_len l = Inr n \<Longrightarrow> sint (of_nat n :: i32) = int n"
  by (rule sint_i32_of_nat) (auto simp: checked_len_Inr MAX_IO_LEN_def)

lemma recv_slice:
  assumes "ws_int_result win rc" "rc \<noteq> wsc win W_SOCKET_ERROR" "0 \<le> sint rc \<Longrightarrow> sint rc \<le> sint (of_nat n :: i32)"
    "checked_len l = Inr n"
  shows "slice_to (fill (replicate n (0 :: u8)) stored) (i32_as_usize rc) =
      Some (take (nat (sint rc)) (fill (replicate n 0) stored))"
proof -
  from assms(1,2) have "0 \<le> sint rc" by (simp add: ws_int_result_def)
  moreover from this assms(3) have "sint rc \<le> int n" by (simp add: sint_of_len [OF assms(4)])
  ultimately show ?thesis by (simp add: slice_to_def i32_as_usize_nonneg)
qed

lemma wimport_recv_no_panic:
  assumes R: "winsock_results win"
  shows "fst (wimport_recv win fd b l f st) \<noteq> Panic"
proof (cases "ws_get (sockets st) fd")
  case v: (Inr v)
  show ?thesis
  proof (cases "checked_len l")
    case n: (Inr n)
    obtain rc stored s where k: "ws_recv win (raw_socket v) (of_nat n) (normalize_message_flags f) (kernel (os st)) = ((rc, stored), s)"
      by (metis prod.exhaust)
    have "ws_int_result win rc" using winsock_results_simps(7) [OF R] k by (metis fst_conv)
    from recv_slice [OF this _ winsock_results_count(1) [OF R k] n, of stored]
    show ?thesis using v n k by (auto simp: wimport_recv_def Let_def split: sum.split)
  qed (use v in \<open>simp add: wimport_recv_def\<close>)
qed (simp add: wimport_recv_def)

lemma wimport_recvfrom_no_panic:
  assumes R: "winsock_results win"
  shows "fst (wimport_recvfrom win fd b l f a k st) \<noteq> Panic"
proof (cases "ws_get (sockets st) fd")
  case v: (Inr v)
  show ?thesis
  proof (cases "checked_len l")
    case n: (Inr n)
    show ?thesis
    proof (cases "read_sockaddr_len (memory st) k")
      case m: (Inr m)
      obtain rc stored addr q s where r: "ws_recvfrom win (raw_socket v) (of_nat n) (normalize_message_flags f)
          (of_nat m) (kernel (os st)) = ((rc, stored, addr, q), s)"
        by (metis prod.exhaust)
      have "ws_int_result win rc" using winsock_results_simps(9) [OF R] r by (metis fst_conv)
      from recv_slice [OF this _ winsock_results_count(2) [OF R r] n, of stored]
      show ?thesis using v n m r
        by (auto simp: wimport_recvfrom_def Let_def slice_to_checked split: sum.split)
    qed (use v n in \<open>simp add: wimport_recvfrom_def\<close>)
  qed (use v in \<open>simp add: wimport_recvfrom_def\<close>)
qed (simp add: wimport_recvfrom_def)

text \<open>The lengths of addresses and options are checked: no promise of Winsock is needed.\<close>

lemma checked_imports_no_panic:
  "fst (wimport_accept win fd a l st) \<noteq> Panic"
  "fst (socket_name win fd a l k st) \<noteq> Panic"
  "fst (wimport_getsockopt win fd i n p q st) \<noteq> Panic"
  by (auto simp: wimport_accept_def socket_name_def wimport_getsockopt_def Let_def case_prod_beta slice_to_checked
      split: sum.split option.split)

lemma exec_wsock_no_panic:
  assumes "winsock_results win"
  shows "fst (exec_wsock win c st) \<noteq> Panic"
  by (cases c)
    (auto simp: wimport_recv_no_panic [OF assms] wimport_recvfrom_no_panic [OF assms] checked_imports_no_panic
      wimport_socket_def wimport_bind_def wimport_listen_def wimport_connect_def
      wimport_getsockname_def wimport_getpeername_def wimport_setsockopt_def wimport_send_def wimport_sendto_def
      wimport_shutdown_def wimport_close_def wimport_fcntl_def wimport_poll_def Let_def case_prod_beta
      split: sum.split prod.split)

subsection \<open>The invariant of status flags and of Winsock\<close>

text \<open>
  The status flags of an entry are 0 or the guest's \<open>O_NONBLOCK\<close>; a failed start of Winsock left a
  guest errno or 0 behind; sockets exist only once Winsock was started.
\<close>

definition win_inv :: "('f, 'k) win_app \<Rightarrow> bool" where
  "win_inv st \<longleftrightarrow>
     (\<forall>fd v. hs_sockets (sockets st) fd = Some v \<longrightarrow>
        (status_flags v = 0 \<or> status_flags v = GUEST_O_NONBLOCK) \<and> winsock (os st) = Some (Inr ())) \<and>
     (\<forall>e. winsock (os st) = Some (Inl e) \<longrightarrow> e = 0 \<or> is_guest_errno e)"

text \<open>An effect that keeps \<open>win_inv\<close>: old entries, entries with allowed flags, a started Winsock stays.\<close>

lemma win_inv_same:
  "win_inv st \<Longrightarrow> sockets st' = sockets st \<Longrightarrow> winsock (os st') = winsock (os st) \<Longrightarrow> win_inv st'"
  by (simp add: win_inv_def)

lemma win_inv_entry:
  assumes "win_inv st" "\<And>a v. hs_sockets (sockets st') a = Some v \<Longrightarrow>
      hs_sockets (sockets st) a = Some v \<or> status_flags v = 0 \<or> status_flags v = GUEST_O_NONBLOCK"
    "winsock (os st') = Some (Inr ())"
  shows "win_inv st'"
  using assms by (auto simp: win_inv_def)

lemma ws_keeps_trivial: "ws_keeps win (\<lambda>_. {} :: raw_sock set)"
  by (simp add: ws_keeps_def)

lemma plain_same_sockets:
  "sockets (snd (wimport_bind win fd a l st)) = sockets st"
  "sockets (snd (wimport_listen win fd b st)) = sockets st"
  "sockets (snd (wimport_connect win fd a l st)) = sockets st"
  "sockets (snd (wimport_setsockopt win fd a b c l st)) = sockets st"
  "sockets (snd (wimport_send win fd b l f st)) = sockets st"
  "sockets (snd (wimport_recv win fd b l f st)) = sockets st"
  "sockets (snd (wimport_sendto win fd b l f a c st)) = sockets st"
  "sockets (snd (wimport_shutdown win fd b st)) = sockets st"
  "sockets (snd (wimport_poll win p n t st)) = sockets st"
  "sockets (snd (socket_name win fd a l k st)) = sockets st"
  "sockets (snd (wimport_getsockopt win fd l n p q st)) = sockets st"
  "sockets (snd (wimport_recvfrom win fd b l f a c st)) = sockets st"
  by (simp_all add: wkeep_imports [OF ws_keeps_trivial])

lemma same_winsock:
  "winsock (os (snd (wimport_bind win fd a l st))) = winsock (os st)"
  "winsock (os (snd (wimport_listen win fd b st))) = winsock (os st)"
  "winsock (os (snd (wimport_connect win fd a l st))) = winsock (os st)"
  "winsock (os (snd (wimport_setsockopt win fd a b c l st))) = winsock (os st)"
  "winsock (os (snd (wimport_send win fd b l f st))) = winsock (os st)"
  "winsock (os (snd (wimport_recv win fd b l f st))) = winsock (os st)"
  "winsock (os (snd (wimport_sendto win fd b l f a c st))) = winsock (os st)"
  "winsock (os (snd (wimport_shutdown win fd b st))) = winsock (os st)"
  "winsock (os (snd (wimport_close win fd st))) = winsock (os st)"
  "winsock (os (snd (wimport_fcntl win fd b c st))) = winsock (os st)"
  "winsock (os (snd (wimport_poll win p n t st))) = winsock (os st)"
  "winsock (os (snd (socket_name win fd a l k st))) = winsock (os st)"
  "winsock (os (snd (wimport_getsockopt win fd l n p q st))) = winsock (os st)"
  "winsock (os (snd (wimport_accept win fd a l st))) = winsock (os st)"
  by (simp_all add: wimport_bind_def wimport_listen_def wimport_connect_def wimport_setsockopt_def
      wimport_send_def wimport_recv_def wimport_sendto_def wimport_shutdown_def wimport_close_def
      wimport_fcntl_def wimport_poll_def socket_name_def wimport_getsockopt_def wimport_accept_def
      Let_def case_prod_beta split: sum.split option.split)

lemma same_winsock_recvfrom: "winsock (os (snd (wimport_recvfrom win fd b l f a c st))) = winsock (os st)"
  by (simp add: wimport_recvfrom_def Let_def case_prod_beta split: sum.split option.split)

lemma ensure_winsock_result:
  assumes "ensure_winsock win w = (r, w')"
  shows "winsock w' = Some r" "winsock w = Some x \<Longrightarrow> r = x \<and> w' = w"
    "winsock w = None \<Longrightarrow> r = Inl e \<Longrightarrow> is_guest_errno e"
  using assms socket_errno_nonzero [of _ win]
  by (auto simp: ensure_winsock_def Let_def case_prod_beta split: option.splits if_splits)

lemma wimport_socket_win_inv:
  assumes "win_inv st"
  shows "win_inv (snd (wimport_socket win d t p st))"
proof (cases "network_allowed st")
  case True
  obtain x w where e: "ensure_winsock win (os st) = (x, w)" by (rule prod.exhaust)
  note r = ensure_winsock_result [OF e]
  have same: "win_inv (st\<lparr>os := w\<lparr>kernel := s\<rparr>\<rparr>)" "win_inv (st\<lparr>os := w\<rparr>)" for s
    using assms r by (cases "winsock (os st)"; cases x; auto simp: win_inv_def)+
  show ?thesis
  proof (cases x)
    case (Inl err)
    with True e same show ?thesis by (simp add: wimport_socket_def)
  next
    case (Inr u)
    then have "winsock w = Some (Inr ())" using r(1) by simp
    then have ins: "win_inv (st\<lparr>os := w\<lparr>kernel := s\<rparr>, sockets := snd (ws_insert (sockets st) raw g h f)\<rparr>)"
      if "f = 0 \<or> f = GUEST_O_NONBLOCK" for s raw g h f
      using that by (intro win_inv_entry [OF assms]) (auto simp: ws_insert_put hs_put_def split: if_splits)
    show ?thesis
      using True e Inr same ins
      by (auto simp: wimport_socket_def Let_def case_prod_beta split: sum.split)
  qed
qed (use assms in \<open>simp add: wimport_socket_def\<close>)

lemma wimport_accept_win_inv:
  assumes "win_inv st"
  shows "win_inv (snd (wimport_accept win fd a l st))"
proof (cases "ws_get (sockets st) fd")
  case (Inr v)
  then have v: "hs_sockets (sockets st) fd = Some v" by (simp add: ws_get_Inr)
  with assms have f: "status_flags v = 0 \<or> status_flags v = GUEST_O_NONBLOCK" "winsock (os st) = Some (Inr ())"
    by (auto simp: win_inv_def)
  have "hs_sockets (sockets (snd (wimport_accept win fd a l st))) x = Some u \<Longrightarrow>
      hs_sockets (sockets st) x = Some u \<or> status_flags u = status_flags v" for x u
    using Inr by (auto simp: wimport_accept_def Let_def case_prod_beta ws_insert_put hs_put_def
        split: sum.splits option.splits if_splits)
  with f(1) show ?thesis using f(2) by (intro win_inv_entry [OF assms]) (metis, simp add: same_winsock)
qed (use assms in \<open>simp add: wimport_accept_def\<close>)

lemma wimport_fcntl_win_inv:
  assumes "win_inv st"
  shows "win_inv (snd (wimport_fcntl win fd c a st))"
proof (cases "ws_get (sockets st) fd")
  case (Inr v)
  then have "hs_sockets (sockets st) fd = Some v" by (simp add: ws_get_Inr)
  with assms have w: "winsock (os st) = Some (Inr ())" by (auto simp: win_inv_def)
  have bit: "a AND GUEST_O_NONBLOCK = 0 \<or> a AND GUEST_O_NONBLOCK = GUEST_O_NONBLOCK"
  proof -
    have "a AND 4 = push_bit 2 (of_bool (bit a 2))" using and_push_bit_one [of a 2] by simp
    then show ?thesis by (cases "bit a 2") (simp_all add: GUEST_O_NONBLOCK_def)
  qed
  have "hs_sockets (sockets (snd (wimport_fcntl win fd c a st))) x = Some u \<Longrightarrow>
      hs_sockets (sockets st) x = Some u \<or> status_flags u = a AND GUEST_O_NONBLOCK" for x u
    using Inr by (auto simp: wimport_fcntl_def Let_def case_prod_beta ws_set_status_flags_def
        split: sum.splits option.splits if_splits)
  with bit show ?thesis using w by (intro win_inv_entry [OF assms]) (metis, simp add: same_winsock)
qed (use assms in \<open>simp add: wimport_fcntl_def\<close>)

lemma wimport_close_win_inv:
  assumes "win_inv st"
  shows "win_inv (snd (wimport_close win fd st))"
  using assms by (auto simp: win_inv_def wimport_close_def ws_remove_def case_prod_beta split: sum.split option.split)

lemma exec_wsock_win_inv:
  assumes "win_inv st"
  shows "win_inv (snd (exec_wsock win c st))"
  using wimport_socket_win_inv [OF assms] wimport_accept_win_inv [OF assms] wimport_fcntl_win_inv [OF assms]
    wimport_close_win_inv [OF assms]
  by (cases c)
    (simp_all add: win_inv_same [OF assms] plain_same_sockets same_winsock same_winsock_recvfrom
      wimport_getsockname_def wimport_getpeername_def)

subsection \<open>Replies\<close>

lemma ws_insert_reply: "sockets_wf t \<Longrightarrow> reply_ok (fst (ws_insert t raw g h f))"
  by (simp add: ws_insert_put hs_put_nonneg reply_ok_nonneg)

lemma wimport_socket_reply:
  assumes "sockets_wf (sockets st)" "win_inv st"
  shows "outcome_ok (fst (wimport_socket win d t p st))"
proof -
  obtain x w where e: "ensure_winsock win (os st) = (x, w)" by (rule prod.exhaust)
  have "reply_ok (neg_errno err)" if "x = Inl err" for err
  proof -
    have "err = 0 \<or> is_guest_errno err"
      using ensure_winsock_result [OF e] that assms(2)
      by (cases "winsock (os st)") (auto simp: win_inv_def)
    then show ?thesis by (auto simp: reply_ok_def neg_errno_def)
  qed
  with e ws_insert_reply [OF assms(1)] show ?thesis
    by (auto simp: wimport_socket_def Let_def case_prod_beta dest: win_failures split: sum.split)
qed

lemma wimport_accept_reply: "sockets_wf (sockets st) \<Longrightarrow> outcome_ok (fst (wimport_accept win fd a l st))"
  using ws_insert_reply [of "sockets st"]
  by (auto simp: wimport_accept_def Let_def case_prod_beta dest: win_failures split: sum.split option.split)

lemma socket_name_reply: "outcome_ok (fst (socket_name win fd a l k st))"
  by (auto simp: socket_name_def Let_def case_prod_beta reply_ok_nonneg dest: win_failures
      split: sum.split option.split)

lemma wimport_getsockopt_reply: "outcome_ok (fst (wimport_getsockopt win fd l n p k st))"
  by (auto simp: wimport_getsockopt_def Let_def case_prod_beta reply_ok_nonneg dest: win_failures
      split: sum.split option.split)

lemma wimport_fcntl_reply:
  assumes "win_inv st"
  shows "outcome_ok (fst (wimport_fcntl win fd c a st))"
proof -
  have "reply_ok (status_flags v)" if "ws_get (sockets st) fd = Inr v" for v
  proof -
    have "status_flags v = 0 \<or> status_flags v = GUEST_O_NONBLOCK"
      using that assms by (auto simp: win_inv_def ws_get_Inr)
    then show ?thesis by (auto simp: reply_ok_nonneg GUEST_O_NONBLOCK_def)
  qed
  then show ?thesis
    by (auto simp: wimport_fcntl_def Let_def case_prod_beta reply_ok_nonneg dest: win_failures split: sum.split)
qed

text \<open>A non-error result of a receiving or polling call is non-negative.\<close>

lemma ws_int_result_reply: "ws_int_result win rc \<Longrightarrow> rc \<noteq> wsc win W_SOCKET_ERROR \<Longrightarrow> reply_ok rc"
  by (simp add: ws_int_result_def reply_ok_nonneg)

lemma wplain_imports_reply:
  assumes R: "winsock_results win"
  shows "outcome_ok (fst (wimport_bind win fd a l st))"
    "outcome_ok (fst (wimport_listen win fd b st))"
    "outcome_ok (fst (wimport_connect win fd a l st))"
    "outcome_ok (fst (wimport_setsockopt win fd a b c l st))"
    "outcome_ok (fst (wimport_send win fd b l f st))"
    "outcome_ok (fst (wimport_sendto win fd b l f a c st))"
    "outcome_ok (fst (wimport_shutdown win fd b st))"
    "outcome_ok (fst (wimport_close win fd st))"
  by (auto simp: wimport_bind_def wimport_listen_def wimport_connect_def wimport_setsockopt_def wimport_send_def
      wimport_sendto_def wimport_shutdown_def wimport_close_def Let_def case_prod_beta
      reply_ok_cvt_socket winsock_results_simps [OF R] dest: win_failures split: sum.split)

lemma wtransfer_reply:
  assumes R: "winsock_results win"
  shows "outcome_ok (fst (wimport_recv win fd b l f st))"
    "outcome_ok (fst (wimport_recvfrom win fd b l f a c st))"
    "outcome_ok (fst (wimport_poll win p n t st))"
  using ws_int_result_reply [OF winsock_results_simps(7) [OF R]] ws_int_result_reply [OF winsock_results_simps(9) [OF R]]
    ws_int_result_reply [OF winsock_results_simps(11) [OF R]]
  by (auto simp: wimport_recv_def wimport_recvfrom_def wimport_poll_def Let_def case_prod_beta
      dest: win_failures split: sum.split option.split)

lemma exec_wsock_reply:
  assumes "winsock_results win" "sockets_wf (sockets st)" "win_inv st"
  shows "outcome_ok (fst (exec_wsock win c st))"
  by (cases c)
    (simp_all add: wimport_socket_reply [OF assms(2,3)] wimport_accept_reply [OF assms(2)] socket_name_reply
      wimport_getsockopt_reply wimport_fcntl_reply [OF assms(3)] wplain_imports_reply [OF assms(1)]
      wtransfer_reply [OF assms(1)] wimport_getsockname_def wimport_getpeername_def)

end
