(* ===== verification/Windows_Socket_Function.thy ===== *)
theory Windows_Socket_Function
  imports Windows_Socket_Results
begin

text \<open>
  What the socket imports compute on Windows: the translation of errors, of socket timeouts between
  \<open>timeval\<close> and milliseconds and of poll events between the two encodings, and what \<open>poll\<close>, \<open>accept\<close>,
  \<open>fcntl\<close> and \<open>getsockopt\<close> leave behind.
\<close>

subsection \<open>Errors by name\<close>

primrec guest_errno_of_wsa :: "wsa_error \<Rightarrow> i32" where
  "guest_errno_of_wsa WSAEINTR = EINTR"
| "guest_errno_of_wsa WSAEBADF = EBADF"
| "guest_errno_of_wsa WSAEACCES = EACCES"
| "guest_errno_of_wsa WSAEFAULT = EFAULT"
| "guest_errno_of_wsa WSAEINVAL = EINVAL"
| "guest_errno_of_wsa WSAEMFILE = EMFILE"
| "guest_errno_of_wsa WSAEWOULDBLOCK = EAGAIN"
| "guest_errno_of_wsa WSAEINPROGRESS = EINPROGRESS"
| "guest_errno_of_wsa WSAEALREADY = EALREADY"
| "guest_errno_of_wsa WSAENOTSOCK = ENOTSOCK"
| "guest_errno_of_wsa WSAEDESTADDRREQ = EDESTADDRREQ"
| "guest_errno_of_wsa WSAEMSGSIZE = EMSGSIZE"
| "guest_errno_of_wsa WSAEPROTOTYPE = EPROTOTYPE"
| "guest_errno_of_wsa WSAENOPROTOOPT = ENOPROTOOPT"
| "guest_errno_of_wsa WSAEPROTONOSUPPORT = EPROTONOSUPPORT"
| "guest_errno_of_wsa WSAESOCKTNOSUPPORT = ENOTSUP"
| "guest_errno_of_wsa WSAEOPNOTSUPP = ENOTSUP"
| "guest_errno_of_wsa WSAEPFNOSUPPORT = EAFNOSUPPORT"
| "guest_errno_of_wsa WSAEAFNOSUPPORT = EAFNOSUPPORT"
| "guest_errno_of_wsa WSAEADDRINUSE = EADDRINUSE"
| "guest_errno_of_wsa WSAEADDRNOTAVAIL = EADDRNOTAVAIL"
| "guest_errno_of_wsa WSAENETDOWN = ENETDOWN"
| "guest_errno_of_wsa WSAENETUNREACH = ENETUNREACH"
| "guest_errno_of_wsa WSAENETRESET = ENETRESET"
| "guest_errno_of_wsa WSAECONNABORTED = ECONNABORTED"
| "guest_errno_of_wsa WSAECONNRESET = ECONNRESET"
| "guest_errno_of_wsa WSAENOBUFS = ENOBUFS"
| "guest_errno_of_wsa WSAEISCONN = EISCONN"
| "guest_errno_of_wsa WSAENOTCONN = ENOTCONN"
| "guest_errno_of_wsa WSAESHUTDOWN = ENOTCONN"
| "guest_errno_of_wsa WSAETIMEDOUT = ETIMEDOUT"
| "guest_errno_of_wsa WSAECONNREFUSED = ECONNREFUSED"
| "guest_errno_of_wsa WSAEHOSTDOWN = EHOSTUNREACH"
| "guest_errno_of_wsa WSAEHOSTUNREACH = EHOSTUNREACH"

lemma socket_errno_name:
  assumes "inj (ws_err win)" "ws_err win e \<noteq> 0"
  shows "socket_errno win (ws_err win e) = guest_errno_of_wsa e"
  using assms(2) unfolding socket_errno_def by (cases e) (simp_all add: inj_eq [OF assms(1)])

subsection \<open>Timeouts\<close>

text \<open>The guest's \<open>timeval\<close>: two 64-bit integers.\<close>

definition timeval :: "int \<Rightarrow> int \<Rightarrow> bytes" where
  "timeval seconds micros = to_le_bytes 8 (word_of_int seconds :: i64) @ to_le_bytes 8 (word_of_int micros :: i64)"

text \<open>The number of milliseconds meant, rounded up, limited to what a \<open>u32\<close> holds.\<close>

definition timeout_millis :: "int \<Rightarrow> int \<Rightarrow> int" where
  "timeout_millis seconds micros = max 0 (min 4294967295 (seconds * 1000 + (micros + 999) div 1000))"

lemma sint_i64_of_int: "- (2 ^ 63) \<le> n \<Longrightarrow> n < 2 ^ 63 \<Longrightarrow> sint (word_of_int n :: i64) = n"
  by (simp add: signed_of_int signed_take_bit_int_eq_self)

lemma sint_i64_bounds: "- (2 ^ 63) \<le> sint (x :: i64)" "sint (x :: i64) < 2 ^ 63"
  using sint_ge [of x] sint_lt [of x] by simp_all

lemma sint_i64_saturate: "sint (i64_saturate n) = max (- (2 ^ 63)) (min (2 ^ 63 - 1) n)"
  unfolding i64_saturate_def by (rule sint_i64_of_int) simp_all

lemma sint_i64_saturating:
  "sint (i64_saturating_add x y) = max (- (2 ^ 63)) (min (2 ^ 63 - 1) (sint x + sint y))"
  "sint (i64_saturating_mul x y) = max (- (2 ^ 63)) (min (2 ^ 63 - 1) (sint x * sint y))"
  by (simp_all only: i64_saturating_add_def i64_saturating_mul_def sint_i64_saturate)

lemma sint_i64_clamp:
  "sint (i64_clamp x lo hi) = (if sint x < sint lo then sint lo else if sint hi < sint x then sint hi else sint x)"
  by (simp add: i64_clamp_def)

lemma sint_i64_div_euclid_pos:
  assumes "0 < sint y"
  shows "sint (i64_div_euclid_pos x y) = sint x div sint y"
proof -
  have "- (2 ^ 63) \<le> sint x div sint y"
  proof (cases "0 \<le> sint x")
    case True
    with assms have "0 \<le> sint x div sint y" by (simp add: pos_imp_zdiv_nonneg_iff)
    then show ?thesis by (rule order_trans [rotated]) simp
  next
    case False
    have "sint x * 1 \<ge> sint x * sint y" using False assms by (intro mult_left_mono_neg) simp_all
    then have "sint x * sint y div sint y \<le> sint x div sint y" using assms by (intro zdiv_mono1) simp_all
    with assms sint_i64_bounds(1) [of x] show ?thesis by simp
  qed
  moreover have "sint x div sint y < 2 ^ 63"
  proof (cases "0 \<le> sint x")
    case True
    have "sint x div sint y \<le> sint x div 1" using True assms by (intro zdiv_mono2) simp_all
    then show ?thesis using sint_i64_bounds(2) [of x] by simp
  next
    case False
    with assms have "sint x div sint y < 0" by (simp add: div_neg_pos_less0)
    then show ?thesis by (rule order.strict_trans) simp
  qed
  ultimately show ?thesis unfolding i64_div_euclid_pos_def by (rule sint_i64_of_int)
qed

lemma ucast_i64_u32: "(ucast (x :: i64) :: u32) = word_of_int (sint x)"
  by (rule bit_word_eqI) (auto simp: bit_simps)

lemma timeval_parts:
  "subslice (timeval s u) 0 8 = to_le_bytes 8 (word_of_int s :: i64)"
  "subslice (timeval s u) 8 16 = to_le_bytes 8 (word_of_int u :: i64)"
  "length (timeval s u) = 16"
  by (simp_all add: timeval_def subslice_def)

text \<open>The saturating arithmetic gives the same milliseconds as the unbounded one.\<close>

lemma saturated_sum:
  assumes "- (2 ^ 63) \<le> u" "u \<le> 2 ^ 63 - 1000"
  shows "max 0 (min 4294967295
      (max (- (2 ^ 63)) (min (2 ^ 63 - 1) (max (- (2 ^ 63)) (min (2 ^ 63 - 1) (s * 1000)) + (u + 999) div 1000)))) =
    timeout_millis s u"
proof -
  have "(u + 999) div 1000 \<le> 2 ^ 54" "- (2 ^ 54) \<le> (u + 999) div 1000" using assms by simp_all
  then show ?thesis unfolding timeout_millis_def by (simp add: max_def min_def)
qed

lemma guest_timeout_eq:
  assumes "- (2 ^ 63) \<le> s" "s < 2 ^ 63" "- (2 ^ 63) \<le> u" "u \<le> 2 ^ 63 - 1000"
  shows "guest_timeout_to_windows (timeval s u) = to_le_bytes 4 (word_of_int (timeout_millis s u) :: u32)"
proof -
  have s: "sint (word_of_int s :: i64) = s" by (rule sint_i64_of_int) (use assms in simp_all)
  have u: "sint (word_of_int u :: i64) = u" by (rule sint_i64_of_int) (use assms in simp_all)
  let ?m = "i64_saturating_mul (word_of_int s) 1000" and ?a = "i64_saturating_add (word_of_int u) 999"
  let ?d = "i64_div_euclid_pos ?a 1000"
  have m: "sint ?m = max (- (2 ^ 63)) (min (2 ^ 63 - 1) (s * 1000))"
    unfolding sint_i64_saturating s by simp
  have "sint ?a = u + 999" unfolding sint_i64_saturating u using assms by simp
  then have d: "sint ?d = (u + 999) div 1000" by (simp add: sint_i64_div_euclid_pos)
  have "sint (i64_clamp (i64_saturating_add ?m ?d) 0 0xffffffff) = timeout_millis s u"
    unfolding sint_i64_clamp sint_i64_saturating(1) [of ?m] m d saturated_sum [OF assms(3,4), of s, symmetric]
    by (simp add: max_def min_def)
  then have "(ucast (i64_clamp (i64_saturating_add ?m ?d) 0 0xffffffff) :: u32) = word_of_int (timeout_millis s u)"
    unfolding ucast_i64_u32 by (rule arg_cong)
  then show ?thesis
    by (simp add: guest_timeout_to_windows_def timeval_parts from_to_le_bytes_word Let_def)
qed

lemma windows_timeout_eq:
  assumes "0 \<le> n" "n < 2 ^ 32" "16 \<le> len"
  shows "windows_timeout_to_guest (to_le_bytes 4 (word_of_int n :: u32)) len = timeval (n div 1000) (n mod 1000 * 1000)"
proof -
  have "uint (word_of_int n :: u32) = n" using assms by (simp add: unsigned_of_int take_bit_int_eq_self)
  then have "(ucast (word_of_int n :: u32) :: i64) = word_of_int n" by (metis word_of_int_uint ucast_eq)
  moreover have "sint (word_of_int n :: i64) = n" using assms by (intro sint_i64_of_int) simp_all
  ultimately show ?thesis
    using assms
    by (simp add: windows_timeout_to_guest_def timeval_def subslice_def from_to_le_bytes_word i64_div_def i64_rem_def
        signed_divide_int_def signed_modulo_int_def sgn_if Let_def)
qed

subsection \<open>Poll events\<close>

text \<open>Winsock's event constants: different events share no bit, none is empty.\<close>

definition ws_events_ok :: "'k win_sys \<Rightarrow> bool" where
  "ws_events_ok win \<longleftrightarrow>
     (\<forall>a. ws_event win a \<noteq> 0) \<and> (\<forall>a b. a \<noteq> b \<longrightarrow> ws_event win a AND ws_event win b = 0)"

text \<open>The events in a set of Winsock events, in the guest's encoding.\<close>

definition guest_bit :: "ws_event \<Rightarrow> i16" where
  "guest_bit e = (case e of W_POLLIN \<Rightarrow> 1 | W_POLLPRI \<Rightarrow> 2 | W_POLLOUT \<Rightarrow> 4 | W_POLLERR \<Rightarrow> 8
     | W_POLLHUP \<Rightarrow> 16 | W_POLLNVAL \<Rightarrow> 32)"

lemma windows_events_has:
  "windows_poll_events_to_guest win events AND guest_bit e \<noteq> 0 \<longleftrightarrow> events AND ws_event win e \<noteq> 0"
  unfolding windows_poll_events_to_guest_def guest_poll_consts Let_def
  by (cases e) (simp_all add: guest_bit_def bit.conj_disj_distrib2)

lemma poll_events_there_and_back:
  assumes "ws_events_ok win"
  shows "windows_poll_events_to_guest win (guest_poll_events_to_windows win e) = e AND 7"
proof -
  have nz: "ws_event win a \<noteq> 0" for a using assms by (simp add: ws_events_ok_def)
  have z: "ws_event win a AND ws_event win b = 0" if "a \<noteq> b" for a b using assms that by (simp add: ws_events_ok_def)
  have bits: "e AND 1 = of_bool (bit e 0)" "e AND 2 = push_bit 1 (of_bool (bit e 1))"
    "e AND 4 = push_bit 2 (of_bool (bit e 2))"
    using and_push_bit_one [of e 0] and_push_bit_one [of e 1] and_push_bit_one [of e 2] by simp_all
  have "e AND 7 = (e AND 1) OR (e AND 2) OR (e AND 4)"
    by (simp add: bit.conj_disj_distrib [symmetric])
  then show ?thesis
    unfolding windows_poll_events_to_guest_def guest_poll_events_to_windows_def guest_poll_consts Let_def bits
    by (cases "bit e 0"; cases "bit e 1"; cases "bit e 2") (simp_all add: nz z bit.conj_disj_distrib2)
qed

subsection \<open>The poll set\<close>

text \<open>The entry of the poll set that a guest entry asks for; a negative descriptor is left out.\<close>

definition win_poll_entry :: "'k win_sys \<Rightarrow> win_socket host_sockets \<Rightarrow> bytes \<Rightarrow> bool \<times> wsapollfd \<Rightarrow> bool" where
  "win_poll_entry win t chunk entry \<longleftrightarrow>
     (let guest_fd = from_le_bytes (take 4 chunk) :: i32;
          events = from_le_bytes (take 2 (drop 4 chunk)) :: i16
      in wp_revents (snd entry) = 0 \<and>
         (if sint guest_fd < 0 then fst entry \<and> wp_fd (snd entry) = ws_INVALID_SOCKET win \<and> wp_events (snd entry) = 0
          else \<not> fst entry \<and> wp_events (snd entry) = guest_poll_events_to_windows win events \<and>
            map_option raw_socket (hs_sockets t guest_fd) = Some (wp_fd (snd entry))))"

lemma win_poll_fds_Cons:
  "win_poll_fds win t (c # cs) = Inr es \<Longrightarrow>
   \<exists>e es'. es = e # es' \<and> win_poll_entry win t c e \<and> win_poll_fds win t cs = Inr es'"
  by (auto simp: Let_def win_poll_entry_def subslice_def ws_get_def split: sum.splits if_splits option.splits)

lemma win_poll_fds_Inr: "win_poll_fds win t cs = Inr es \<Longrightarrow> list_all2 (win_poll_entry win t) cs es"
  by (induction cs arbitrary: es) (auto dest!: win_poll_fds_Cons simp del: win_poll_fds.simps(2))

text \<open>Without sockets, an array that names a descriptor is refused, and any other asks for none.\<close>

lemma win_poll_fds_none:
  "list_ex names_descriptor chunks \<Longrightarrow> win_poll_fds win hs_new chunks = Inl EBADF"
  "win_poll_fds win hs_new chunks = Inr entries \<Longrightarrow>
     list_all (\<lambda>(ignored, f). ignored \<and> wp_fd f = ws_INVALID_SOCKET win) entries"
proof (induction chunks arbitrary: entries)
  case (Cons chunk chunks)
  {
    case 1
    with Cons.IH(1) show ?case by (auto simp: names_descriptor_def ws_get_def Let_def)
  next
    case 2
    with Cons.IH(2) show ?case by (auto simp: ws_get_def Let_def split: if_splits sum.splits)
  }
qed simp_all

text \<open>A call of \<open>WSAPoll\<close> that fails leaves a code that is not zero.\<close>

definition ws_poll_failure_law :: "'k win_sys \<Rightarrow> bool" where
  "ws_poll_failure_law win \<longleftrightarrow>
     (\<forall>fds t s. fst (fst (ws_WSAPoll win fds t s)) = wsc win W_SOCKET_ERROR \<longrightarrow>
        ws_last_error win (snd (ws_WSAPoll win fds t s)) \<noteq> 0)"

lemma win_poll_Return:
  assumes "wimport_poll win p n t st = (Return r, st')" "0 \<le> sint r"
    "mem_view (memory st) = Some data" "length data \<le> 2147483648" "ws_poll_failure_law win"
  obtains entries stored data' where
    "list_all2 (win_poll_entry win (sockets st))
       (chunks_exact8 (subslice data (nat (sint p)) (nat (sint p) + 8 * nat (sint n)))) entries"
    "length entries = nat (sint n)"
    "ws_WSAPoll win (map snd entries) t (kernel (os st)) = ((r, stored), kernel (os st'))"
    "mem_view (memory st') = Some data'"
    "revents_stored data (nat (sint p))
       (map (guest_revents win) (zip (map fst entries) (fill (map (wp_revents \<circ> snd) entries) stored))) data'"
proof -
  note call = assms(1) [unfolded wimport_poll_def]
  obtain k where k: "checked_poll_count n = Inr k"
    using call assms(2) failure_negative [OF win_failures(9)] by (cases "checked_poll_count n") auto
  obtain bs where bs: "read_guest (memory st) p (of_nat (k * 8)) = Inr bs"
    using call assms(2) k failure_negative [OF win_failures(4)]
    by (cases "read_guest (memory st) p (of_nat (k * 8))") auto
  obtain es where h: "win_poll_fds win (sockets st) (chunks_exact8 bs) = Inr es"
    using call assms(2) k bs failure_negative [OF win_poll_fds_Inl]
    by (cases "win_poll_fds win (sockets st) (chunks_exact8 bs)") auto
  obtain rc stored s where sp: "ws_WSAPoll win (map snd es) t (kernel (os st)) = ((rc, stored), s)"
    by (metis prod.exhaust)
  let ?rs = "zip (map fst es) (fill (map (wp_revents \<circ> snd) es) stored)"
  let ?w = "win_poll_write win (memory st) p 0 ?rs"
  note step = call [unfolded k bs h sp sum.case Let_def map_map prod.case]
  have kern: "kernel (os st') = s" using step by (auto simp: case_prod_beta split: if_splits sum.splits)
  have rc: "rc \<noteq> wsc win W_SOCKET_ERROR"
  proof
    assume f: "rc = wsc win W_SOCKET_ERROR"
    then have "ws_last_error win s \<noteq> 0" using assms(5) sp unfolding ws_poll_failure_law_def by (metis fst_conv snd_conv)
    then have "\<not> 0 \<le> sint (neg_last_socket_errno win s)"
      unfolding neg_last_socket_errno_def by (intro failure_negative socket_errno_nonzero)
    with f step assms(2) show False by simp
  qed
  have w: "fst ?w = Inr ()"
    using step rc assms(2) poll_write_Inl [THEN failure_negative, of win "memory st" p 0]
    by (cases "fst ?w") (auto simp: case_prod_beta split: sum.splits)
  have res: "r = rc" "memory st' = snd ?w" using step rc w by (auto simp: case_prod_beta split: sum.splits)
  note arr = poll_array_read [OF k bs assms(3)]
  note k' = arr(1) and b = arr(3-5)
  have le: "length es = k"
    using list_all2_lengthD [OF win_poll_fds_Inr [OF h]] b by (simp add: length_chunks_exact8)
  let ?d = "store_revents data (nat (sint p)) (map (guest_revents win) ?rs)"
  have "mem_view (memory st') = Some ?d"
    using poll_write_revents_ok [OF assms(3) b(1), of 0 "map (guest_revents win) ?rs"] b le assms(4)
    by (simp add: res win_poll_write_eq)
  moreover have "revents_stored data (nat (sint p)) (map (guest_revents win) ?rs) ?d"
    using b le by (intro store_revents_stored) simp
  ultimately show thesis
    using that [of es stored ?d] win_poll_fds_Inr [OF h] b k' le sp res kern by simp
qed

subsection \<open>Accepted connections\<close>

lemma read_sockaddr_len_ok:
  "read_u32 m p = Inr n \<Longrightarrow> unat n \<le> MAX_IO_LEN \<Longrightarrow> read_sockaddr_len m p = Inr (unat n)"
  by (simp add: read_sockaddr_len_def checked_sockaddr_len_Inr)

lemma win_accept_success:
  assumes call: "wimport_accept win fd ap lp st = (Return r, st')" and r: "0 \<le> sint r"
    and v: "hs_sockets (sockets st) fd = Some v" and n: "read_u32 (memory st) lp = Inr n"
    and k: "ws_accept win (raw_socket v) n (kernel (os st)) = ((raw, stored, m), s)"
    and raw: "raw \<noteq> ws_INVALID_SOCKET win"
  shows "0 \<le> sint m" "nat (sint m) \<le> unat n" "r = hs_next_fd (sockets st)"
    "hs_sockets (sockets st') r = Some \<lparr>raw_socket = raw, ws_guest_domain = ws_guest_domain v,
       ws_host_domain = ws_host_domain v, status_flags = status_flags v\<rparr>"
    "read_u32 (memory st') lp = Inr m"
proof -
  have g: "ws_get (sockets st) fd = Inr v" using v by (simp add: ws_get_Inr)
  obtain q where q: "read_sockaddr_len (memory st) lp = Inr q"
    using call r g failure_negative [OF win_failures(7)]
    by (cases "read_sockaddr_len (memory st) lp") (auto simp: wimport_accept_def)
  then have q': "q = unat n" "of_nat q = n" using n by (auto simp: read_sockaddr_len_def checked_sockaddr_len_Inr)
  let ?a = "win_denormalize_sockaddr_for_guest (fill (replicate q 0) stored) (ws_guest_domain v)"
  note c1 = call [unfolded wimport_accept_def g q sum.case Let_def q'(2) k prod.case if_not_P [OF raw]]
  have small: "\<not> (sint m < 0 \<or> length (fill (replicate q (0 :: u8)) stored) < i32_as_usize m)"
    using c1 r failure_negative [of EIO] by (auto split: if_splits simp: case_prod_beta)
  note c2 = c1 [unfolded if_not_P [OF small]]
  have out: "slice_to ?a (i32_as_usize m) = Some (take (nat (sint m)) ?a)"
    using small by (intro slice_to_checked) simp
  obtain m1 where w1: "write_guest (memory st) ap (take (nat (sint m)) ?a) = Inr m1"
    using c2 out r failure_negative [OF win_failures(5)]
    by (cases "write_guest (memory st) ap (take (nat (sint m)) ?a)") (auto simp: case_prod_beta)
  obtain m2 where w2: "write_guest_u32 m1 lp m = Inr m2"
    using c2 out w1 r failure_negative [OF win_failures(6)]
    by (cases "write_guest_u32 m1 lp m") (auto simp: case_prod_beta)
  have res: "(r, sockets st') = ws_insert (sockets st) raw (ws_guest_domain v) (ws_host_domain v) (status_flags v)"
      "memory st' = m2"
    using c2 out w1 w2 by (auto simp: case_prod_beta)
  show "0 \<le> sint m" "nat (sint m) \<le> unat n" using small q' i32_as_usize_nonneg [of m] by auto
  show "r = hs_next_fd (sockets st)"
    "hs_sockets (sockets st') r = Some \<lparr>raw_socket = raw, ws_guest_domain = ws_guest_domain v,
       ws_host_domain = ws_host_domain v, status_flags = status_flags v\<rparr>"
    using res(1) by (simp_all add: ws_insert_def Let_def)
  show "read_u32 (memory st') lp = Inr m"
    using read_u32_write_u32 [OF w2 [unfolded write_guest_u32_eq]] res(2) by simp
qed

lemma win_accept_oversized:
  assumes "hs_sockets (sockets st) fd = Some v" "read_u32 (memory st) lp = Inr n" "unat n \<le> MAX_IO_LEN"
    "ws_accept win (raw_socket v) n (kernel (os st)) = ((raw, stored, m), s)"
    "raw \<noteq> ws_INVALID_SOCKET win" "sint m < 0 \<or> unat n < nat (sint m)"
  shows "wimport_accept win fd ap lp st =
    (Return (neg_errno EIO), set_kernel st (snd (ws_closesocket win raw s)))"
proof -
  have g: "ws_get (sockets st) fd = Inr v" using assms(1) by (simp add: ws_get_Inr)
  have "sint m < 0 \<or> unat n < i32_as_usize m"
    using assms(6) i32_as_usize_nonneg [of m] by (cases "sint m < 0") auto
  then show ?thesis
    using assms by (simp add: wimport_accept_def g read_sockaddr_len_ok Let_def case_prod_beta)
qed

subsection \<open>Status flags\<close>

lemma and_nonblock: "arg AND GUEST_O_NONBLOCK = 0 \<or> arg AND GUEST_O_NONBLOCK = GUEST_O_NONBLOCK"
  using and_push_bit_one [of arg 2] by (cases "bit arg 2") (simp_all add: GUEST_O_NONBLOCK_def)

lemma win_fcntl_set_get:
  assumes "hs_sockets (sockets st) fd = Some v"
    "ws_ioctlsocket win (raw_socket v) (wsc win W_FIONBIO) (if arg AND GUEST_O_NONBLOCK \<noteq> 0 then 1 else 0)
       (kernel (os st)) = (rc, s)" "rc \<noteq> wsc win W_SOCKET_ERROR"
  shows "\<exists>st'. wimport_fcntl win fd GUEST_F_SETFL arg st = (Return 0, st') \<and> kernel (os st') = s \<and>
    wimport_fcntl win fd GUEST_F_GETFL any st' =
      (Return (if arg AND GUEST_O_NONBLOCK \<noteq> 0 then GUEST_O_NONBLOCK else 0), st') \<and>
    map_option raw_socket (hs_sockets (sockets st') fd) = Some (raw_socket v) \<and>
    (\<forall>other. other \<noteq> fd \<longrightarrow> hs_sockets (sockets st') other = hs_sockets (sockets st) other)"
  using assms and_nonblock [of arg]
  by (auto simp: wimport_fcntl_def ws_get_def ws_set_status_flags_def GUEST_F_GETFL_def GUEST_F_SETFL_def Let_def)

subsection \<open>Pending socket errors\<close>

lemma option_result_so_error:
  assumes "win_is_guest_socket_level level"
  shows "option_result win level GUEST_SO_ERROR 4 (to_le_bytes 4 (code :: i32)) = to_le_bytes 4 (socket_errno win code)"
  using assms
  by (simp add: option_result_def is_guest_timeout_def guest_option_consts subslice_def from_to_le_bytes_word Let_def)

lemma win_so_error_value:
  assumes call: "wimport_getsockopt win fd level GUEST_SO_ERROR vp lp st = (Return 0, st')"
    and v: "hs_sockets (sockets st) fd = Some v" and lvl: "win_is_guest_socket_level level"
    and n: "read_u32 (memory st) lp = Inr 4"
    and k: "ws_getsockopt win (raw_socket v) (wsc win W_SOL_SOCKET) (wsc win W_SO_ERROR) 4 (kernel (os st))
              = ((rc, to_le_bytes 4 code, 4), s)"
    and rc: "rc \<noteq> wsc win W_SOCKET_ERROR"
    and disj: "sint vp + 4 \<le> sint lp \<or> sint lp + 4 \<le> sint vp"
  shows "read_u32 (memory st') vp = Inr (socket_errno win code)"
proof -
  let ?e = "socket_errno win code"
  have g: "ws_get (sockets st) fd = Inr v" using v by (simp add: ws_get_Inr)
  have q: "read_sockaddr_len (memory st) lp = Inr 4"
    using read_sockaddr_len_ok [OF n] by (simp add: MAX_IO_LEN_def)
  have o: "normalize_socket_option win level GUEST_SO_ERROR = (wsc win W_SOL_SOCKET, wsc win W_SO_ERROR)"
    using lvl by (simp add: normalize_socket_option_def guest_option_consts)
  have t: "is_guest_timeout level GUEST_SO_ERROR = False" by (simp add: is_guest_timeout_def guest_option_consts)
  have f: "fill (replicate 4 0) (to_le_bytes 4 code) = to_le_bytes 4 code" by (simp add: fill_def)
  have sl: "slice_to (to_le_bytes 4 code) (i32_as_usize 4) = Some (to_le_bytes 4 code)"
    by (simp add: slice_to_def i32_as_usize_nonneg)
  have b: "\<not> (sint (4 :: i32) < 0 \<or> 4 < i32_as_usize 4)" by (simp add: i32_as_usize_nonneg)
  note c = call [unfolded wimport_getsockopt_def g q o sum.case Let_def prod.case t if_False length_replicate
      of_nat_numeral k f if_not_P [OF rc] if_not_P [OF b] sl option.case option_result_so_error [OF lvl]
      length_to_le_bytes]
  obtain m1 where w1: "write_guest (memory st) vp (to_le_bytes 4 ?e) = Inr m1"
    using c failure_negative [OF win_failures(5)]
    by (cases "write_guest (memory st) vp (to_le_bytes 4 ?e)") force+
  obtain m2 where w2: "write_u32 m1 lp 4 = Inr m2" and st': "memory st' = m2"
    using c w1 failure_negative [OF win_failures(6)]
    by (cases "write_guest_u32 m1 lp 4") (force simp: write_guest_u32_eq)+
  have "read_u32 m1 vp = Inr ?e"
    by (rule read_u32_write_u32 [of "memory st"]) (simp add: write_u32_def w1)
  then show ?thesis using read_u32_other_after_write_u32 [OF w2, of vp] disj st' by auto
qed

subsection \<open>A failure that is read too late\<close>

lemma win_socket_late_error:
  assumes "network_allowed st" "winsock (os st) = Some (Inr ())"
    "win_normalize_socket_type win ty = Inr \<lparr>nwt_ty = hty, nwt_nonblocking = True\<rparr>"
    "ws_socket win (win_normalize_socket_domain win d) hty p (kernel (os st)) = (raw, s1)"
    "raw \<noteq> ws_INVALID_SOCKET win"
    "ws_ioctlsocket win raw (wsc win W_FIONBIO) 1 s1 = (wsc win W_SOCKET_ERROR, s2)"
  shows "wimport_socket win d ty p st =
    (Return (neg_last_socket_errno win (snd (ws_closesocket win raw s2))),
     set_kernel st (snd (ws_closesocket win raw s2)))"
  using assms by (simp add: wimport_socket_def ensure_winsock_def Let_def case_prod_beta)

end
