(* ===== verification/Windows_Path.thy ===== *)
theory Windows_Path
  imports Guest_Path
begin

text \<open>
  Host paths on Windows: the parts of \<open>std::path\<close> that \<^verbatim>\<open>src/src/host_files.rs\<close> uses there, and
  \<open>join_suffix\<close> over them.  As on Unix a \<open>PathBuf\<close> is its list of components; on Windows the
  backslash separates components too, and a path may begin with a prefix (a drive, a share, a
  device), which is why \<open>push\<close> can replace what it is pushed onto.
\<close>

subsection \<open>Prefixes and components\<close>

datatype win_prefix =
    Verbatim string
  | VerbatimUNC string string
  | VerbatimDisk char
  | DeviceNS string
  | UNC string string
  | Disk char

datatype win_component = WPrefix win_prefix | WRootDir | WCurDir | WParentDir | WNormal string

type_synonym win_path = "win_component list"

abbreviation backslash :: char where
  "backslash \<equiv> CHR 0x5C"

fun is_verbatim :: "win_prefix \<Rightarrow> bool" where
  "is_verbatim (Verbatim x) = True"
| "is_verbatim (VerbatimUNC x y) = True"
| "is_verbatim (VerbatimDisk d) = True"
| "is_verbatim _ = False"

fun is_drive :: "win_prefix \<Rightarrow> bool" where
  "is_drive (Disk d) = True"
| "is_drive _ = False"

text \<open>\<open>Prefix::len\<close>.\<close>

fun prefix_len :: "win_prefix \<Rightarrow> nat" where
  "prefix_len (Verbatim x) = 4 + length x"
| "prefix_len (VerbatimUNC x y) = 8 + length x + (if y = [] then 0 else 1 + length y)"
| "prefix_len (VerbatimDisk d) = 6"
| "prefix_len (DeviceNS x) = 4 + length x"
| "prefix_len (UNC x y) = 2 + length x + (if y = [] then 0 else 1 + length y)"
| "prefix_len (Disk d) = 2"

subsection \<open>Parsing a name\<close>

text \<open>
  The names that are pushed come from splitting at \<open>/\<close>, so in them the backslash is the only
  separator.  \<open>next_component\<close> is the part before the first one and what follows it.
\<close>

definition next_component :: "string \<Rightarrow> string \<times> string" where
  "next_component s =
     (let front = takeWhile (\<lambda>c. c \<noteq> backslash) s in (front, drop (Suc (length front)) s))"

definition is_ascii_alphabetic :: "char \<Rightarrow> bool" where
  "is_ascii_alphabetic c \<longleftrightarrow> (let n = of_char c :: nat in (65 \<le> n \<and> n \<le> 90) \<or> (97 \<le> n \<and> n \<le> 122))"

definition to_ascii_uppercase :: "char \<Rightarrow> char" where
  "to_ascii_uppercase c = (let n = of_char c :: nat in if 97 \<le> n \<and> n \<le> 122 then char_of (n - 32) else c)"

fun parse_drive :: "string \<Rightarrow> char option" where
  "parse_drive (d # c # rest) =
     (if c = CHR '':'' \<and> is_ascii_alphabetic d then Some (to_ascii_uppercase d) else None)"
| "parse_drive _ = None"

definition parse_drive_exact :: "string \<Rightarrow> char option" where
  "parse_drive_exact s = (if length s \<le> 2 \<or> s ! 2 = backslash then parse_drive s else None)"

definition parse_prefix :: "string \<Rightarrow> win_prefix option" where
  "parse_prefix s =
     (if starts_with s [backslash, backslash] then
        (let rest = drop 2 s in
         if starts_with rest [CHR ''?'', backslash] then
           (let rest = drop 2 rest in
            if starts_with rest (''UNC'' @ [backslash]) then
              (let (server, rest) = next_component (drop 4 rest)
               in Some (VerbatimUNC server (fst (next_component rest))))
            else case parse_drive_exact rest of
                   Some d \<Rightarrow> Some (VerbatimDisk d)
                 | None \<Rightarrow> Some (Verbatim (fst (next_component rest))))
         else if starts_with rest [CHR ''.'', backslash] then
           Some (DeviceNS (fst (next_component (drop 2 rest))))
         else
           (let (server, rest) = next_component rest;
                share = fst (next_component rest)
            in if server \<noteq> [] \<and> share \<noteq> [] then Some (UNC server share) else None))
      else map_option Disk (parse_drive s))"

text \<open>\<open>Path::components\<close> of such a name.\<close>

definition win_components :: "string \<Rightarrow> win_path" where
  "win_components s =
     (let pre = parse_prefix s;
          rest = drop (case pre of None \<Rightarrow> 0 | Some p \<Rightarrow> prefix_len p) s;
          verbatim = (case pre of None \<Rightarrow> False | Some p \<Rightarrow> is_verbatim p);
          physical_root = starts_with rest [backslash];
          implicit_root = (case pre of None \<Rightarrow> False | Some p \<Rightarrow> \<not> is_drive p);
          pieces = split_on backslash rest;
          front = (if physical_root \<or> (implicit_root \<and> \<not> verbatim) then [WRootDir]
                   else if take 1 pieces = [''.''] \<and> \<not> implicit_root then [WCurDir] else []);
          body = map (\<lambda>p. if p = ''.'' then WCurDir else if p = ''..'' then WParentDir else WNormal p)
                   (filter (\<lambda>p. p \<noteq> [] \<and> (verbatim \<or> p \<noteq> ''.'')) pieces)
      in (case pre of None \<Rightarrow> [] | Some p \<Rightarrow> [WPrefix p]) @ front @ body)"

subsection \<open>Operations on paths\<close>

fun path_prefix :: "win_path \<Rightarrow> win_path" where
  "path_prefix (WPrefix p # rest) = [WPrefix p]"
| "path_prefix _ = []"

fun path_verbatim :: "win_path \<Rightarrow> bool" where
  "path_verbatim (WPrefix p # rest) = is_verbatim p"
| "path_verbatim _ = False"

text \<open>\<open>push\<close> onto a verbatim path resolves \<open>.\<close> and \<open>..\<close> itself.\<close>

definition verbatim_push :: "win_component \<Rightarrow> win_path \<Rightarrow> win_path" where
  "verbatim_push c buf =
     (case c of
        WRootDir \<Rightarrow> take 1 buf @ [WRootDir]
      | WCurDir \<Rightarrow> buf
      | WParentDir \<Rightarrow> (case last buf of WNormal _ \<Rightarrow> butlast buf | _ \<Rightarrow> buf)
      | _ \<Rightarrow> buf @ [c])"

text \<open>Printing separates the prefix of a verbatim path from what follows, which makes a root.\<close>

fun verbatim_root :: "win_path \<Rightarrow> win_path" where
  "verbatim_root (p # c # rest) = (if c = WRootDir then p # c # rest else p # WRootDir # c # rest)"
| "verbatim_root path = path"

definition win_push :: "win_path \<Rightarrow> string \<Rightarrow> win_path" where
  "win_push path name =
     (let comps = win_components name
      in if parse_prefix name \<noteq> None then comps
         else if path_verbatim path then verbatim_root (fold verbatim_push comps path)
         else if take 1 comps = [WRootDir] then path_prefix path @ comps
         else if path = [] \<or> (length path = 1 \<and> path_prefix path = path) then path @ comps
         else path @ filter (\<lambda>c. c \<noteq> WCurDir) comps)"

fun is_anchor :: "win_component \<Rightarrow> bool" where
  "is_anchor (WPrefix p) = True"
| "is_anchor WRootDir = True"
| "is_anchor _ = False"

definition win_parent :: "win_path \<Rightarrow> win_path option" where
  "win_parent path = (if path = [] \<or> is_anchor (last path) then None else Some (butlast path))"

definition win_starts_with :: "win_path \<Rightarrow> win_path \<Rightarrow> bool" where
  "win_starts_with path base = prefix base path"

definition win_join_suffix :: "win_path \<Rightarrow> string \<Rightarrow> win_path" where
  "win_join_suffix root sfx =
     fold (\<lambda>component path. if component \<noteq> '''' \<and> component \<noteq> ''.'' then win_push path component else path)
       (split_on (CHR ''/'') sfx) root"

subsection \<open>Names that stay below the root\<close>

text \<open>A name that is one component on Windows as well: no backslash and no drive in front.\<close>

definition plain_name :: "string \<Rightarrow> bool" where
  "plain_name p \<longleftrightarrow> good_name p \<and> backslash \<notin> set p \<and> parse_drive p = None"

lemma starts_with_backslash: "backslash \<notin> set p \<Longrightarrow> \<not> starts_with p (backslash # s)"
  by (cases p) (auto simp: starts_with_def)

lemma plain_name_components:
  assumes "plain_name p"
  shows "parse_prefix p = None" "win_components p = [WNormal p]"
proof -
  from assms have p: "backslash \<notin> set p" "parse_drive p = None" "p \<noteq> []" "p \<noteq> ''.''" "p \<noteq> ''..''"
    by (simp_all add: plain_name_def good_name_def)
  then show n: "parse_prefix p = None" by (simp add: parse_prefix_def starts_with_backslash)
  show "win_components p = [WNormal p]"
    using p by (simp add: win_components_def n split_on_single starts_with_backslash)
qed

text \<open>An absolute path, as \<open>current_dir\<close> returns it.\<close>

definition win_absolute :: "win_path \<Rightarrow> bool" where
  "win_absolute path \<longleftrightarrow> (\<exists>p rest. path = WPrefix p # WRootDir # rest)"

lemma win_push_plain:
  assumes "win_absolute path" "plain_name p"
  shows "win_push path p = path @ [WNormal p]"
  using assms(1) plain_name_components [OF assms(2)]
  by (auto simp: win_push_def win_absolute_def verbatim_push_def Let_def)

lemma win_absolute_append: "win_absolute path \<Longrightarrow> win_absolute (path @ q)"
  by (auto simp: win_absolute_def)

lemma win_push_all_plain:
  "win_absolute path \<Longrightarrow> list_all plain_name ps \<Longrightarrow>
   fold (\<lambda>c path. if c \<noteq> '''' \<and> c \<noteq> ''.'' then win_push path c else path) ps path = path @ map WNormal ps"
proof (induction ps arbitrary: path)
  case (Cons p ps)
  then have "p \<noteq> ''''" "p \<noteq> ''.''" by (simp_all add: plain_name_def good_name_def)
  with Cons show ?case by (simp add: win_push_plain win_absolute_append)
qed simp

subsection \<open>Names that leave it\<close>

text \<open>A name with a prefix replaces the whole path; \<open>..\<close> before a backslash is not seen as \<open>..\<close>.\<close>

lemma win_push_replaces: "parse_prefix name \<noteq> None \<Longrightarrow> win_push path name = win_components name"
  by (simp add: win_push_def)

lemma alphabetic_not_separator: "is_ascii_alphabetic d \<Longrightarrow> d \<noteq> backslash \<and> d \<noteq> CHR ''/''"
  by (auto simp: is_ascii_alphabetic_def)

lemma drive_name:
  assumes "is_ascii_alphabetic d"
  shows "parse_prefix (d # CHR '':'' # rest) = Some (Disk (to_ascii_uppercase d))"
  using assms alphabetic_not_separator [OF assms] by (simp add: parse_prefix_def starts_with_def)

lemma drive_components:
  assumes "is_ascii_alphabetic d" "plain_name p"
  shows "win_components (d # CHR '':'' # backslash # p) = [WPrefix (Disk (to_ascii_uppercase d)), WRootDir, WNormal p]"
proof -
  from assms(2) have p: "backslash \<notin> set p" "p \<noteq> []" "p \<noteq> ''.''" "p \<noteq> ''..''"
    by (simp_all add: plain_name_def good_name_def)
  with drive_name [OF assms(1)] show ?thesis
    by (simp add: win_components_def starts_with_def split_on_single)
qed

lemma dotdot_components:
  assumes "plain_name p"
  shows "parse_prefix (''..'' @ backslash # p) = None"
    "win_components (''..'' @ backslash # p) = [WParentDir, WNormal p]"
proof -
  show n: "parse_prefix (''..'' @ backslash # p) = None" by (simp add: parse_prefix_def starts_with_def)
  from assms have "backslash \<notin> set p" "p \<noteq> []" "p \<noteq> ''.''" "p \<noteq> ''..''"
    by (simp_all add: plain_name_def good_name_def)
  then show "win_components (''..'' @ backslash # p) = [WParentDir, WNormal p]"
    unfolding win_components_def n by (simp add: starts_with_def split_on_single)
qed

lemma win_push_dotdot:
  assumes "win_absolute path" "\<not> path_verbatim path" "plain_name p"
  shows "win_push path (''..'' @ backslash # p) = path @ [WParentDir, WNormal p]"
  using assms(1,2) dotdot_components [OF assms(3)]
  by (auto simp: win_push_def win_absolute_def Let_def)

subsection \<open>What a path means\<close>

text \<open>
  Before it opens an absolute path that is not verbatim, Windows takes each \<open>..\<close> away together with the
  name before it, if there is one, and drops each \<open>.\<close>.
\<close>

fun collapse_step :: "win_component \<Rightarrow> win_path \<Rightarrow> win_path" where
  "collapse_step WCurDir path = path"
| "collapse_step WParentDir path =
     (if path = [] then [] else case last path of WNormal _ \<Rightarrow> butlast path | _ \<Rightarrow> path)"
| "collapse_step c path = path @ [c]"

definition win_collapse :: "win_path \<Rightarrow> win_path" where
  "win_collapse path = fold collapse_step path []"

lemma collapse_names: "fold collapse_step (map WNormal ns) path = path @ map WNormal ns"
  by (induction ns arbitrary: path) simp_all

lemma collapse_absolute: "win_collapse (WPrefix p # WRootDir # map WNormal ns) = WPrefix p # WRootDir # map WNormal ns"
  by (simp add: win_collapse_def collapse_names)

lemma collapse_sibling:
  "win_collapse ((WPrefix p # WRootDir # map WNormal (ns @ [n])) @ [WParentDir, WNormal m]) =
     WPrefix p # WRootDir # map WNormal (ns @ [m])"
  by (simp add: win_collapse_def collapse_names butlast_append)

end
