(* ===== verification/Windows_Files.thy ===== *)
theory Windows_Files
  imports Host_Files Windows_Path
begin

text \<open>
  \<open>HostFiles\<close> of \<^verbatim>\<open>src/src/host_files.rs\<close> on Windows: the table of open files with the paths and
  named objects of the file locks, path resolution over Windows paths, and the operations the
  imports call.  \<open>std::fs\<close>, the functions of the \<open>windows_sys\<close> crate and the Unicode tables behind
  \<open>to_uppercase\<close> are a parameter \<open>win_fs\<close>; a \<open>HANDLE\<close> is a 64-bit number.
\<close>

subsection \<open>The system below\<close>

datatype wfs_name =
    W_GENERIC_WRITE | W_FILE_SHARE_READ | W_FILE_SHARE_WRITE | W_FILE_SHARE_DELETE | W_OPEN_EXISTING
  | W_FILE_FLAG_BACKUP_SEMANTICS | W_PAGE_READWRITE | W_ERROR_ALREADY_EXISTS

type_synonym raw_handle = u64

record ('h, 'k) win_fs =
  wfc :: "wfs_name \<Rightarrow> u32"
  wf_INVALID_HANDLE_VALUE :: raw_handle
  wf_SEEK_SET :: i32
  wf_SEEK_CUR :: i32
  wf_SEEK_END :: i32
  wf_last_error :: "'k \<Rightarrow> u32"
  wf_open :: "open_options \<Rightarrow> win_path \<Rightarrow> 'k \<Rightarrow> (io_error + 'h) \<times> 'k"
  wf_close :: "'h \<Rightarrow> 'k \<Rightarrow> 'k"
  wf_canonicalize :: "win_path \<Rightarrow> 'k \<Rightarrow> io_error + win_path"
  wf_seek_read :: "'h \<Rightarrow> usize \<Rightarrow> u64 \<Rightarrow> 'k \<Rightarrow> (io_error + usize \<times> bytes) \<times> 'k"
  wf_seek_write :: "'h \<Rightarrow> bytes \<Rightarrow> u64 \<Rightarrow> 'k \<Rightarrow> (io_error + usize) \<times> 'k"
  wf_seek :: "'h \<Rightarrow> seek_from \<Rightarrow> 'k \<Rightarrow> (io_error + u64) \<times> 'k"
  wf_set_len :: "'h \<Rightarrow> u64 \<Rightarrow> 'k \<Rightarrow> (io_error + unit) \<times> 'k"
  wf_sync_all :: "'h \<Rightarrow> 'k \<Rightarrow> (io_error + unit) \<times> 'k"
  wf_sync_data :: "'h \<Rightarrow> 'k \<Rightarrow> (io_error + unit) \<times> 'k"
  wf_encode_wide :: "win_path \<Rightarrow> u16 list"
  wf_uppercase_utf16 :: "win_path \<Rightarrow> u16 list"
  wf_CreateFileW :: "u16 list \<Rightarrow> u32 \<Rightarrow> u32 \<Rightarrow> u32 \<Rightarrow> u32 \<Rightarrow> 'k \<Rightarrow> raw_handle \<times> 'k"
  wf_FlushFileBuffers :: "raw_handle \<Rightarrow> 'k \<Rightarrow> i32 \<times> 'k"
  wf_CreateFileMappingW :: "raw_handle \<Rightarrow> u32 \<Rightarrow> u32 \<Rightarrow> u32 \<Rightarrow> u16 list \<Rightarrow> 'k \<Rightarrow> raw_handle \<times> 'k"
  wf_CloseHandle :: "raw_handle \<Rightarrow> 'k \<Rightarrow> 'k"

subsection \<open>The state\<close>

record win_preopen =
  wpm_guest :: string
  wpm_host :: win_path

record windows_file_lock =
  lock_handle :: raw_handle

record 'h win_files =
  wh_next_fd :: i32
  wh_files :: "i32 \<rightharpoonup> 'h"
  wh_lock_paths :: "i32 \<rightharpoonup> win_path"
  wh_locks :: "win_path \<rightharpoonup> windows_file_lock"
  wh_preopens :: "win_preopen list"

definition win_io_errno :: "io_error \<Rightarrow> i32" where
  "win_io_errno err = (case raw_os_error err of None \<Rightarrow> EIO | Some code \<Rightarrow> from_windows_error code)"

text \<open>\<open>std::io::Error::last_os_error()\<close>.\<close>

definition last_os_error :: "('h, 'k) win_fs \<Rightarrow> 'k \<Rightarrow> io_error" where
  "last_os_error fs s = OsError (wf_last_error fs s)"

text \<open>\<open>HostFiles::new\<close> takes \<open>no_default_preopen\<close> and \<open>preopens\<close> from the command line.\<close>

fun wh_map_preopens :: "(win_path \<times> string) list \<Rightarrow> win_preopen list \<Rightarrow> io_error + win_preopen list" where
  "wh_map_preopens [] acc = Inr acc"
| "wh_map_preopens ((host, guest) # ps) acc =
     (case normalize_guest_path guest of
        Inl e \<Rightarrow> Inl (io_error_from_errno e)
      | Inr guest \<Rightarrow> wh_map_preopens ps (acc @ [\<lparr>wpm_guest = guest, wpm_host = host\<rparr>]))"

definition wh_new :: "bool \<Rightarrow> (win_path \<times> string) list \<Rightarrow> (io_error + win_path) \<Rightarrow> io_error + 'h win_files" where
  "wh_new no_default cli_preopens current_dir =
     (let front = (if no_default then Inr []
                   else case current_dir of
                     Inl e \<Rightarrow> Inl e
                   | Inr cwd \<Rightarrow>
                      Inr [\<lparr>wpm_guest = (case normalize_guest_path ''.'' of Inl _ \<Rightarrow> ''.'' | Inr g \<Rightarrow> g),
                            wpm_host = cwd\<rparr>])
      in case front of
           Inl e \<Rightarrow> Inl e
         | Inr front \<Rightarrow>
            (case wh_map_preopens cli_preopens front of
               Inl e \<Rightarrow> Inl e
             | Inr mapped \<Rightarrow>
                Inr \<lparr>wh_next_fd = GUEST_FD_BASE, wh_files = Map.empty, wh_lock_paths = Map.empty,
                     wh_locks = Map.empty,
                     wh_preopens = sort_key (\<lambda>p. - int (length (wpm_guest p))) mapped\<rparr>))"

subsection \<open>From guest paths to host paths\<close>

fun win_resolve_in :: "win_preopen list \<Rightarrow> string \<Rightarrow> win_path errno_result" where
  "win_resolve_in [] normalized = Inl ENOTCAPABLE"
| "win_resolve_in (p # ps) normalized =
     (case preopen_suffix (wpm_guest p) normalized of
        Some sfx \<Rightarrow> Inr (win_join_suffix (wpm_host p) sfx)
      | None \<Rightarrow> win_resolve_in ps normalized)"

definition wh_resolve :: "'h win_files \<Rightarrow> string \<Rightarrow> win_path errno_result" where
  "wh_resolve inner guest_path =
     (case normalize_guest_path guest_path of
        Inl e \<Rightarrow> Inl e
      | Inr normalized \<Rightarrow> win_resolve_in (wh_preopens inner) normalized)"

definition wh_resolve_parent :: "'h win_files \<Rightarrow> string \<Rightarrow> win_path errno_result" where
  "wh_resolve_parent inner guest_path =
     (case wh_resolve inner guest_path of
        Inl e \<Rightarrow> Inl e
      | Inr path \<Rightarrow>
         (case win_parent path of
            None \<Rightarrow> Inl EINVAL
          | Some parent \<Rightarrow>
             if list_ex (\<lambda>p. win_starts_with parent (wpm_host p)) (wh_preopens inner)
             then Inr parent else Inl ENOTCAPABLE))"

subsection \<open>The table\<close>

definition wh_insert :: "'h win_files \<Rightarrow> 'h \<times> win_path \<Rightarrow> i32 \<times> 'h win_files" where
  "wh_insert inner entry =
     (let fd = wh_next_fd inner;
          inner = inner\<lparr>wh_next_fd := i32_saturating_succ (wh_next_fd inner)\<rparr>;
          inner = inner\<lparr>wh_files := (wh_files inner)(fd \<mapsto> fst entry)\<rparr>;
          inner = inner\<lparr>wh_lock_paths := (wh_lock_paths inner)(fd \<mapsto> snd entry)\<rparr>
      in (fd, inner))"

definition wh_get :: "'h win_files \<Rightarrow> i32 \<Rightarrow> 'h errno_result" where
  "wh_get inner fd = (case wh_files inner fd of None \<Rightarrow> Inl EBADF | Some file \<Rightarrow> Inr file)"

definition wh_remove :: "'h win_files \<Rightarrow> i32 \<Rightarrow> ('h \<times> 'h win_files) errno_result" where
  "wh_remove inner fd =
     (case wh_files inner fd of
        None \<Rightarrow> Inl EBADF
      | Some file \<Rightarrow>
         Inr (file, inner\<lparr>wh_files := (wh_files inner)(fd := None),
                          wh_lock_paths := (wh_lock_paths inner)(fd := None)\<rparr>))"

definition wf_drop :: "('h, 'k) win_fs \<Rightarrow> 'h option \<Rightarrow> 'k \<Rightarrow> 'k" where
  "wf_drop fs file s = (case file of None \<Rightarrow> s | Some h \<Rightarrow> wf_close fs h s)"

text \<open>\<open>Drop for WindowsFileLock\<close>.\<close>

definition lock_drop :: "('h, 'k) win_fs \<Rightarrow> windows_file_lock \<Rightarrow> 'k \<Rightarrow> 'k" where
  "lock_drop fs lock s = wf_CloseHandle fs (lock_handle lock) s"

text \<open>Dropping \<open>HostFilesInner\<close> drops its files and then its locks, each map in some order.\<close>

definition wh_drop :: "('h, 'k) win_fs \<Rightarrow> 'h list \<Rightarrow> windows_file_lock list \<Rightarrow> 'k \<Rightarrow> 'k" where
  "wh_drop fs opened locks s = fold (lock_drop fs) locks (fold (wf_close fs) opened s)"

subsection \<open>The operations\<close>

definition wh_open :: "('h, 'k) win_fs \<Rightarrow> 'h win_files \<Rightarrow> string \<Rightarrow> i32 \<Rightarrow> i32 \<Rightarrow> 'k \<Rightarrow>
    i32 \<times> 'h win_files \<times> 'k" where
  "wh_open fs inner guest_path flags mode s =
     (case wh_resolve inner guest_path of
        Inl e \<Rightarrow> (neg_errno e, inner, s)
      | Inr host_path \<Rightarrow>
         if flags AND WASI_O_DIRECTORY \<noteq> 0 then (neg_errno EISDIR, inner, s)
         else (case wf_open fs (open_options_of flags) host_path s of
             (Inl err, s) \<Rightarrow> (neg_errno (win_io_errno err), inner, s)
           | (Inr file, s) \<Rightarrow>
              (let lock_path = (case wf_canonicalize fs host_path s of Inl _ \<Rightarrow> host_path | Inr p \<Rightarrow> p);
                   displaced = wh_files inner (wh_next_fd inner);
                   (fd, inner) = wh_insert inner (file, lock_path)
               in (fd, inner, wf_drop fs displaced s))))"

definition wh_close :: "('h, 'k) win_fs \<Rightarrow> 'h win_files \<Rightarrow> i32 \<Rightarrow> 'k \<Rightarrow> i32 \<times> 'h win_files \<times> 'k" where
  "wh_close fs inner fd s =
     (case wh_remove inner fd of
        Inl e \<Rightarrow> (neg_errno e, inner, s)
      | Inr (file, inner) \<Rightarrow> (0, inner, wf_drop fs (Some file) s))"

definition wh_pread :: "('h, 'k) win_fs \<Rightarrow> 'h win_files \<Rightarrow> i32 \<Rightarrow> bytes \<Rightarrow> u64 \<Rightarrow> 'k \<Rightarrow> (i32 \<times> bytes) \<times> 'k" where
  "wh_pread fs inner fd buf offset s =
     (case wh_get inner fd of
        Inl e \<Rightarrow> ((neg_errno e, buf), s)
      | Inr file \<Rightarrow>
         (case wf_seek_read fs file (length buf) offset s of
            (Inl err, s) \<Rightarrow> ((neg_errno (win_io_errno err), buf), s)
          | (Inr (n, stored), s) \<Rightarrow>
             ((case i32_of_usize n of Some rc \<Rightarrow> rc | None \<Rightarrow> neg_errno EOVERFLOW, fill buf stored), s)))"

definition wh_pwrite :: "('h, 'k) win_fs \<Rightarrow> 'h win_files \<Rightarrow> i32 \<Rightarrow> bytes \<Rightarrow> u64 \<Rightarrow> 'k \<Rightarrow> i32 \<times> 'k" where
  "wh_pwrite fs inner fd buf offset s =
     (case wh_get inner fd of
        Inl e \<Rightarrow> (neg_errno e, s)
      | Inr file \<Rightarrow>
         (case wf_seek_write fs file buf offset s of
            (Inl err, s) \<Rightarrow> (neg_errno (win_io_errno err), s)
          | (Inr n, s) \<Rightarrow> (case i32_of_usize n of Some rc \<Rightarrow> rc | None \<Rightarrow> neg_errno EOVERFLOW, s)))"

definition win_seek_from :: "('h, 'k) win_fs \<Rightarrow> i64 \<Rightarrow> i32 \<Rightarrow> seek_from errno_result" where
  "win_seek_from fs offset whence =
     (if whence = wf_SEEK_SET fs then
        (case u64_of_i64 offset of Some n \<Rightarrow> Inr (SeekStart n) | None \<Rightarrow> Inl EINVAL)
      else if whence = wf_SEEK_CUR fs then Inr (SeekCurrent offset)
      else if whence = wf_SEEK_END fs then Inr (SeekEnd offset)
      else Inl EINVAL)"

definition wh_seek :: "('h, 'k) win_fs \<Rightarrow> 'h win_files \<Rightarrow> i32 \<Rightarrow> i64 \<Rightarrow> i32 \<Rightarrow> 'k \<Rightarrow> i64 \<times> 'k" where
  "wh_seek fs inner fd offset whence s =
     (case wh_get inner fd of
        Inl e \<Rightarrow> (scast (neg_errno e), s)
      | Inr file \<Rightarrow>
         (case win_seek_from fs offset whence of
            Inl e \<Rightarrow> (scast (neg_errno e), s)
          | Inr target \<Rightarrow>
             (case wf_seek fs file target s of
                (Inr pos, s) \<Rightarrow>
                  (case i64_of_u64 pos of Some n \<Rightarrow> n | None \<Rightarrow> scast (neg_errno EOVERFLOW), s)
              | (Inl err, s) \<Rightarrow> (scast (neg_errno (win_io_errno err)), s))))"

definition win_unit_reply :: "io_error + unit \<Rightarrow> i32" where
  "win_unit_reply res = (case res of Inl err \<Rightarrow> neg_errno (win_io_errno err) | Inr _ \<Rightarrow> 0)"

definition wh_truncate :: "('h, 'k) win_fs \<Rightarrow> 'h win_files \<Rightarrow> i32 \<Rightarrow> u64 \<Rightarrow> 'k \<Rightarrow> i32 \<times> 'k" where
  "wh_truncate fs inner fd new_size s =
     (case wh_get inner fd of
        Inl e \<Rightarrow> (neg_errno e, s)
      | Inr file \<Rightarrow> (let (res, s) = wf_set_len fs file new_size s in (win_unit_reply res, s)))"

definition wh_sync :: "('h, 'k) win_fs \<Rightarrow> 'h win_files \<Rightarrow> i32 \<Rightarrow> bool \<Rightarrow> 'k \<Rightarrow> i32 \<times> 'k" where
  "wh_sync fs inner fd data_only s =
     (case wh_get inner fd of
        Inl e \<Rightarrow> (neg_errno e, s)
      | Inr file \<Rightarrow>
         (let (res, s) = (if data_only then wf_sync_data fs file s else wf_sync_all fs file s)
          in (win_unit_reply res, s)))"

definition sync_directory :: "('h, 'k) win_fs \<Rightarrow> win_path \<Rightarrow> 'k \<Rightarrow> (io_error + unit) \<times> 'k" where
  "sync_directory fs path s =
     (let wide_path = wf_encode_wide fs path @ [0];
          (handle, s) = wf_CreateFileW fs wide_path (wfc fs W_GENERIC_WRITE)
            (wfc fs W_FILE_SHARE_READ OR wfc fs W_FILE_SHARE_WRITE OR wfc fs W_FILE_SHARE_DELETE)
            (wfc fs W_OPEN_EXISTING) (wfc fs W_FILE_FLAG_BACKUP_SEMANTICS) s
      in if handle = wf_INVALID_HANDLE_VALUE fs then (Inl (last_os_error fs s), s)
         else
           (let (ok, s) = wf_FlushFileBuffers fs handle s;
                result = (if ok \<noteq> 0 then Inr () else Inl (last_os_error fs s))
            in (result, wf_CloseHandle fs handle s)))"

definition wh_sync_parent :: "('h, 'k) win_fs \<Rightarrow> 'h win_files \<Rightarrow> string \<Rightarrow> 'k \<Rightarrow> i32 \<times> 'k" where
  "wh_sync_parent fs inner guest_path s =
     (case wh_resolve_parent inner guest_path of
        Inl e \<Rightarrow> (neg_errno e, s)
      | Inr parent \<Rightarrow> (let (res, s) = sync_directory fs parent s in (win_unit_reply res, s)))"

subsection \<open>File locks\<close>

text \<open>The loop of \<open>windows_lock_name\<close> over the code units of the upper-cased path.\<close>

definition lock_hash :: "u16 list \<Rightarrow> u64" where
  "lock_hash units =
     fold (\<lambda>code_unit hash. (hash XOR ucast code_unit) * 0x00000100000001b3) units 0xcbf29ce484222325"

definition hex_digit :: "nat \<Rightarrow> char" where
  "hex_digit n = ''0123456789abcdef'' ! n"

text \<open>\<open>{hash:016x}\<close>.\<close>

definition hex16 :: "u64 \<Rightarrow> string" where
  "hex16 hash = map (\<lambda>i. hex_digit (unat (drop_bit (4 * i) hash AND 15))) (rev [0..<16])"

definition windows_lock_name :: "('h, 'k) win_fs \<Rightarrow> win_path \<Rightarrow> u16 list" where
  "windows_lock_name fs path =
     map (\<lambda>c. of_nat (of_char c))
       (''Local'' @ [backslash] @ ''wasmtime-mysql-file-'' @ hex16 (lock_hash (wf_uppercase_utf16 fs path))) @ [0]"

definition wh_lock_exclusive :: "('h, 'k) win_fs \<Rightarrow> 'h win_files \<Rightarrow> i32 \<Rightarrow> 'k \<Rightarrow> i32 \<times> 'h win_files \<times> 'k" where
  "wh_lock_exclusive fs inner fd s =
     (case wh_lock_paths inner fd of
        None \<Rightarrow> (neg_errno EBADF, inner, s)
      | Some lock_path \<Rightarrow>
         if wh_locks inner lock_path \<noteq> None then (0, inner, s)
         else if wh_files inner fd = None then (neg_errno EBADF, inner, s)
         else
           (let name = windows_lock_name fs lock_path;
                (handle, s) = wf_CreateFileMappingW fs (wf_INVALID_HANDLE_VALUE fs) (wfc fs W_PAGE_READWRITE) 0 1 name s
            in if handle = 0 then (neg_errno (win_io_errno (last_os_error fs s)), inner, s)
               else if wf_last_error fs s = wfc fs W_ERROR_ALREADY_EXISTS then
                 (neg_errno EAGAIN, inner, wf_CloseHandle fs handle s)
               else (0, inner\<lparr>wh_locks := (wh_locks inner)(lock_path \<mapsto> \<lparr>lock_handle = handle\<rparr>)\<rparr>, s)))"

end
