(* ===== verification/Windows_File_Imports.thy ===== *)
theory Windows_File_Imports
  imports Windows_Files Windows_Sockets File_Imports
begin

text \<open>
  The imports of the module \<^verbatim>\<open>waasmtime_mysql_files\<close> on Windows: the closures that \<open>add_to_linker\<close>
  of \<^verbatim>\<open>src/src/host_files.rs\<close> registers, over the Windows variant of \<open>HostFiles\<close>.
\<close>

type_synonym ('s, 'h, 'k) win_file_app = "('s, 'h win_files, 'k win_os) app_state"

named_theorems win_file_defs \<open>the bodies of the file imports on Windows\<close>

definition wimport_file_open :: "('h, 'k) win_fs \<Rightarrow> i32 \<Rightarrow> i32 \<Rightarrow> i32 \<Rightarrow> ('s, 'h win_files, 'k win_os) import" where
  [win_file_defs]: "wimport_file_open fs path_ptr flags mode st =
     (case read_cstr (memory st) path_ptr of
        Inl e \<Rightarrow> fail e st
      | Inr path \<Rightarrow>
         (let (rc, t, s) = wh_open fs (files st) path flags mode (kernel (os st))
          in (Return rc, st\<lparr>files := t, os := (os st)\<lparr>kernel := s\<rparr>\<rparr>)))"

definition wimport_file_close :: "('h, 'k) win_fs \<Rightarrow> i32 \<Rightarrow> ('s, 'h win_files, 'k win_os) import" where
  [win_file_defs]: "wimport_file_close fs fd st =
     (let (rc, t, s) = wh_close fs (files st) fd (kernel (os st))
      in (Return rc, st\<lparr>files := t, os := (os st)\<lparr>kernel := s\<rparr>\<rparr>))"

definition wimport_pread :: "('h, 'k) win_fs \<Rightarrow> i32 \<Rightarrow> i32 \<Rightarrow> i32 \<Rightarrow> i64 \<Rightarrow> ('s, 'h win_files, 'k win_os) import" where
  [win_file_defs]: "wimport_pread fs fd buf_ptr len offset st =
     (case files_checked_len len of
        Inl e \<Rightarrow> fail e st
      | Inr len \<Rightarrow>
         (let buf = replicate len 0;
              ((rc, buf), s) = wh_pread fs (files st) fd buf offset (kernel (os st));
              st = st\<lparr>os := (os st)\<lparr>kernel := s\<rparr>\<rparr>
          in if sint rc \<le> 0 then (Return rc, st)
             else
               (case slice_to buf (unat rc) of
                  None \<Rightarrow> (Panic, st)
                | Some out \<Rightarrow>
                   (case files_write_guest (memory st) buf_ptr out of
                      Inr mem \<Rightarrow> (Return rc, st\<lparr>memory := mem\<rparr>)
                    | Inl e \<Rightarrow> fail e st))))"

definition wimport_pwrite :: "('h, 'k) win_fs \<Rightarrow> i32 \<Rightarrow> i32 \<Rightarrow> i32 \<Rightarrow> i64 \<Rightarrow> ('s, 'h win_files, 'k win_os) import" where
  [win_file_defs]: "wimport_pwrite fs fd buf_ptr len offset st =
     (case files_read_guest (memory st) buf_ptr len of
        Inl e \<Rightarrow> fail e st
      | Inr buf \<Rightarrow>
         (let (rc, s) = wh_pwrite fs (files st) fd buf offset (kernel (os st))
          in (Return rc, st\<lparr>os := (os st)\<lparr>kernel := s\<rparr>\<rparr>)))"

definition wimport_seek :: "('h, 'k) win_fs \<Rightarrow> i32 \<Rightarrow> i64 \<Rightarrow> i32 \<Rightarrow> ('s, 'h, 'k) win_file_app \<Rightarrow>
    i64 outcome \<times> ('s, 'h, 'k) win_file_app" where
  [win_file_defs]: "wimport_seek fs fd offset whence st =
     (let (rc, s) = wh_seek fs (files st) fd offset whence (kernel (os st))
      in (Return rc, st\<lparr>os := (os st)\<lparr>kernel := s\<rparr>\<rparr>))"

definition wimport_truncate :: "('h, 'k) win_fs \<Rightarrow> i32 \<Rightarrow> i64 \<Rightarrow> ('s, 'h win_files, 'k win_os) import" where
  [win_file_defs]: "wimport_truncate fs fd new_size st =
     (case u64_of_i64 new_size of
        None \<Rightarrow> fail EINVAL st
      | Some new_size \<Rightarrow>
         (let (rc, s) = wh_truncate fs (files st) fd new_size (kernel (os st))
          in (Return rc, st\<lparr>os := (os st)\<lparr>kernel := s\<rparr>\<rparr>)))"

definition wimport_sync :: "('h, 'k) win_fs \<Rightarrow> i32 \<Rightarrow> i32 \<Rightarrow> ('s, 'h win_files, 'k win_os) import" where
  [win_file_defs]: "wimport_sync fs fd data_only st =
     (let (rc, s) = wh_sync fs (files st) fd (data_only \<noteq> 0) (kernel (os st))
      in (Return rc, st\<lparr>os := (os st)\<lparr>kernel := s\<rparr>\<rparr>))"

definition wimport_sync_parent :: "('h, 'k) win_fs \<Rightarrow> i32 \<Rightarrow> ('s, 'h win_files, 'k win_os) import" where
  [win_file_defs]: "wimport_sync_parent fs path_ptr st =
     (case read_cstr (memory st) path_ptr of
        Inl e \<Rightarrow> fail e st
      | Inr path \<Rightarrow>
         (let (rc, s) = wh_sync_parent fs (files st) path (kernel (os st))
          in (Return rc, st\<lparr>os := (os st)\<lparr>kernel := s\<rparr>\<rparr>)))"

definition wimport_lock_exclusive :: "('h, 'k) win_fs \<Rightarrow> i32 \<Rightarrow> ('s, 'h win_files, 'k win_os) import" where
  [win_file_defs]: "wimport_lock_exclusive fs fd st =
     (let (rc, t, s) = wh_lock_exclusive fs (files st) fd (kernel (os st))
      in (Return rc, st\<lparr>files := t, os := (os st)\<lparr>kernel := s\<rparr>\<rparr>))"

fun exec_wfile :: "('h, 'k) win_fs \<Rightarrow> file_call \<Rightarrow> ('s, 'h, 'k) win_file_app \<Rightarrow>
    wasm_val outcome \<times> ('s, 'h, 'k) win_file_app" where
  "exec_wfile fs (F_open p f m) st = as_i32 (wimport_file_open fs p f m st)"
| "exec_wfile fs (F_close fd) st = as_i32 (wimport_file_close fs fd st)"
| "exec_wfile fs (F_pread fd p l off) st = as_i32 (wimport_pread fs fd p l off st)"
| "exec_wfile fs (F_pwrite fd p l off) st = as_i32 (wimport_pwrite fs fd p l off st)"
| "exec_wfile fs (F_seek fd off w) st = as_i64 (wimport_seek fs fd off w st)"
| "exec_wfile fs (F_truncate fd n) st = as_i32 (wimport_truncate fs fd n st)"
| "exec_wfile fs (F_sync fd d) st = as_i32 (wimport_sync fs fd d st)"
| "exec_wfile fs (F_sync_parent p) st = as_i32 (wimport_sync_parent fs p st)"
| "exec_wfile fs (F_lock_exclusive fd) st = as_i32 (wimport_lock_exclusive fs fd st)"

end
