(* ===== verification/Windows_File_Safety.thy ===== *)
theory Windows_File_Safety
  imports Windows_File_Imports File_Safety
begin

text \<open>
  What the file imports keep on Windows: every import is a \<open>wfile_step\<close> of the table and of the open
  files and raw handles, the handles of the file locks included, and leaves the rest of the state
  alone; and it answers with a value or a guest errno.
\<close>

subsection \<open>What Windows promises about handles\<close>

text \<open>
  The open handles of a state: files of \<open>std::fs\<close> on the left, raw handles on the right.  A call
  that opens makes a handle that was not open, or fails, with \<open>bad\<close> as its result, and opens none.
\<close>

definition opens_raw :: "raw_handle \<Rightarrow> ('k \<Rightarrow> ('h + raw_handle) set) \<Rightarrow> 'k \<Rightarrow> raw_handle \<times> 'k \<Rightarrow> bool" where
  "opens_raw bad handles s r \<longleftrightarrow>
     (if fst r = bad then handles (snd r) = handles s
      else Inr (fst r) \<notin> handles s \<and> handles (snd r) = insert (Inr (fst r)) (handles s))"

definition opens_file :: "('k \<Rightarrow> ('h + raw_handle) set) \<Rightarrow> 'k \<Rightarrow> (io_error + 'h) \<times> 'k \<Rightarrow> bool" where
  "opens_file handles s r \<longleftrightarrow>
     (case fst r of Inl _ \<Rightarrow> handles (snd r) = handles s
      | Inr h \<Rightarrow> Inl h \<notin> handles s \<and> handles (snd r) = insert (Inl h) (handles s))"

definition wf_keeps :: "('h, 'k) win_fs \<Rightarrow> ('k \<Rightarrow> 'x) \<Rightarrow> bool" where
  "wf_keeps fs f \<longleftrightarrow>
     (\<forall>h n off s. f (snd (wf_seek_read fs h n off s)) = f s) \<and>
     (\<forall>h bs off s. f (snd (wf_seek_write fs h bs off s)) = f s) \<and>
     (\<forall>h w s. f (snd (wf_seek fs h w s)) = f s) \<and>
     (\<forall>h n s. f (snd (wf_set_len fs h n s)) = f s) \<and>
     (\<forall>h s. f (snd (wf_sync_all fs h s)) = f s) \<and>
     (\<forall>h s. f (snd (wf_sync_data fs h s)) = f s) \<and>
     (\<forall>x s. f (snd (wf_FlushFileBuffers fs x s)) = f s)"

definition win_handle_laws :: "('h, 'k) win_fs \<Rightarrow> ('k \<Rightarrow> ('h + raw_handle) set) \<Rightarrow> bool" where
  "win_handle_laws fs handles \<longleftrightarrow>
     (\<forall>opts p s. opens_file handles s (wf_open fs opts p s)) \<and>
     (\<forall>n a b c d s. opens_raw (wf_INVALID_HANDLE_VALUE fs) handles s (wf_CreateFileW fs n a b c d s)) \<and>
     (\<forall>x a b c n s. opens_raw 0 handles s (wf_CreateFileMappingW fs x a b c n s)) \<and>
     (\<forall>h s. handles (wf_close fs h s) = handles s - {Inl h}) \<and>
     (\<forall>x s. handles (wf_CloseHandle fs x s) = handles s - {Inr x}) \<and>
     wf_keeps fs handles"

text \<open>An observation that no file operation changes.\<close>

definition win_fs_frames :: "('h, 'k) win_fs \<Rightarrow> ('k \<Rightarrow> 'x) \<Rightarrow> bool" where
  "win_fs_frames fs f \<longleftrightarrow>
     (\<forall>opts p s. f (snd (wf_open fs opts p s)) = f s) \<and>
     (\<forall>n a b c d s. f (snd (wf_CreateFileW fs n a b c d s)) = f s) \<and>
     (\<forall>x a b c n s. f (snd (wf_CreateFileMappingW fs x a b c n s)) = f s) \<and>
     (\<forall>h s. f (wf_close fs h s) = f s) \<and>
     (\<forall>x s. f (wf_CloseHandle fs x s) = f s) \<and>
     wf_keeps fs f"

lemma wf_keeps_simps:
  assumes "wf_keeps fs f"
  shows "f (snd (wf_seek_read fs h n off s)) = f s" "f (snd (wf_seek_write fs h bs off s)) = f s"
    "f (snd (wf_seek fs h w s)) = f s" "f (snd (wf_set_len fs h off s)) = f s"
    "f (snd (wf_sync_all fs h s)) = f s" "f (snd (wf_sync_data fs h s)) = f s"
    "f (snd (wf_FlushFileBuffers fs x s)) = f s"
  using assms unfolding wf_keeps_def by simp_all

lemma win_fs_frames_simps:
  assumes "win_fs_frames fs f"
  shows "f (snd (wf_open fs opts p s)) = f s" "f (snd (wf_CreateFileW fs n a b c d s)) = f s"
    "f (snd (wf_CreateFileMappingW fs x a b c n s)) = f s" "f (wf_close fs h s) = f s"
    "f (wf_CloseHandle fs x s) = f s" "wf_keeps fs f"
  using assms unfolding win_fs_frames_def by simp_all

lemma win_handle_laws_simps:
  assumes "win_handle_laws fs handles"
  shows "opens_file handles s (wf_open fs opts p s)"
    "opens_raw (wf_INVALID_HANDLE_VALUE fs) handles s (wf_CreateFileW fs n a b c d s)"
    "opens_raw 0 handles s (wf_CreateFileMappingW fs x a b c n s)"
    "handles (wf_close fs h s) = handles s - {Inl h}" "handles (wf_CloseHandle fs x s) = handles s - {Inr x}"
    "wf_keeps fs handles"
  using assms unfolding win_handle_laws_def by simp_all

subsection \<open>Kinds of effects\<close>

inductive wfile_step :: "('k \<Rightarrow> ('h + raw_handle) set) \<Rightarrow> 'h win_files \<times> 'k \<Rightarrow> 'h win_files \<times> 'k \<Rightarrow> bool"
  for handles where
  wkeep: "handles s' = handles s \<Longrightarrow> wfile_step handles (t, s) (t, s')"
| wadd: "Inl h \<notin> handles s \<Longrightarrow> wh_insert t (h, p) = (fd, t') \<Longrightarrow>
     handles s' = insert (Inl h) (handles s) - Inl ` set_option (wh_files t (wh_next_fd t)) \<Longrightarrow>
     wfile_step handles (t, s) (t', s')"
| wdrop: "wh_remove t fd = Inr (h, t') \<Longrightarrow> handles s' = handles s - {Inl h} \<Longrightarrow>
     wfile_step handles (t, s) (t', s')"
| wlock: "wh_locks t p = None \<Longrightarrow> Inr x \<notin> handles s \<Longrightarrow> handles s' = insert (Inr x) (handles s) \<Longrightarrow>
     wfile_step handles (t, s) (t\<lparr>wh_locks := (wh_locks t)(p \<mapsto> \<lparr>lock_handle = x\<rparr>)\<rparr>, s')"

lemma wh_insert_effect:
  "wh_insert t (h, p) = (fd, t') \<Longrightarrow>
     fd = wh_next_fd t \<and> wh_files t' = (wh_files t)(fd \<mapsto> h) \<and> wh_lock_paths t' = (wh_lock_paths t)(fd \<mapsto> p) \<and>
     wh_next_fd t' = i32_saturating_succ (wh_next_fd t) \<and> wh_locks t' = wh_locks t \<and> wh_preopens t' = wh_preopens t"
  by (auto simp: wh_insert_def Let_def)

lemma wh_remove_effect:
  "wh_remove t fd = Inr (h, t') \<Longrightarrow>
     wh_files t fd = Some h \<and> wh_files t' = (wh_files t)(fd := None) \<and>
     wh_lock_paths t' = (wh_lock_paths t)(fd := None) \<and> wh_next_fd t' = wh_next_fd t \<and>
     wh_locks t' = wh_locks t \<and> wh_preopens t' = wh_preopens t"
  by (auto simp: wh_remove_def split: option.splits)

lemma wf_drop_handles:
  "win_handle_laws fs handles \<Longrightarrow> handles (wf_drop fs x s) = handles s - Inl ` set_option x"
  by (cases x) (simp_all add: wf_drop_def win_handle_laws_simps)

lemma wh_open_step:
  assumes L: "win_handle_laws fs handles"
  shows "wfile_step handles (t, s) (snd (wh_open fs t path flags mode s))"
proof (cases "wh_resolve t path")
  case p: (Inr p)
  obtain r s' where r: "wf_open fs (open_options_of flags) p s = (r, s')" by (rule prod.exhaust)
  note one = win_handle_laws_simps(1) [OF L, of s "open_options_of flags" p, unfolded r opens_file_def fst_conv snd_conv]
  show ?thesis
  proof (cases r)
    case (Inl e)
    with p r one show ?thesis by (auto simp: wh_open_def intro: wfile_step.wkeep)
  next
    case (Inr h)
    let ?lp = "case wf_canonicalize fs p s' of Inl _ \<Rightarrow> p | Inr q \<Rightarrow> q"
    obtain fd t' where ins: "wh_insert t (h, ?lp) = (fd, t')" by (rule prod.exhaust)
    have "wfile_step handles (t, s) (t', wf_drop fs (wh_files t (wh_next_fd t)) s')"
      by (rule wfile_step.wadd [OF _ ins]) (use one Inr in \<open>simp_all add: wf_drop_handles [OF L]\<close>)
    with p r Inr ins show ?thesis by (auto simp: wh_open_def intro: wfile_step.wkeep)
  qed
qed (auto simp: wh_open_def intro: wfile_step.wkeep)

lemma wh_close_step:
  assumes L: "win_handle_laws fs handles"
  shows "wfile_step handles (t, s) (snd (wh_close fs t fd s))"
proof (cases "wh_remove t fd")
  case (Inr x)
  then show ?thesis
    by (cases x) (auto simp: wh_close_def wf_drop_handles [OF L] intro: wfile_step.wdrop)
qed (auto simp: wh_close_def intro: wfile_step.wkeep)

lemma wh_lock_step:
  assumes L: "win_handle_laws fs handles"
  shows "wfile_step handles (t, s) (snd (wh_lock_exclusive fs t fd s))"
proof (cases "wh_lock_paths t fd")
  case p: (Some p)
  let ?call = "wf_CreateFileMappingW fs (wf_INVALID_HANDLE_VALUE fs) (wfc fs W_PAGE_READWRITE) 0 1
    (windows_lock_name fs p) s"
  obtain x s' where x: "?call = (x, s')" by (rule prod.exhaust)
  have one: "opens_raw 0 handles s (x, s')" using win_handle_laws_simps(3) [OF L] x by metis
  show ?thesis
  proof (cases "wh_locks t p = None \<and> wh_files t fd \<noteq> None \<and> x \<noteq> 0")
    case True
    with one have "Inr x \<notin> handles s" "handles s' = insert (Inr x) (handles s)" by (simp_all add: opens_raw_def)
    with True p x show ?thesis
      by (auto simp: wh_lock_exclusive_def win_handle_laws_simps(5) [OF L]
          intro: wfile_step.wkeep wfile_step.wlock)
  next
    case False
    with p x one show ?thesis
      by (auto simp: wh_lock_exclusive_def opens_raw_def intro: wfile_step.wkeep)
  qed
qed (auto simp: wh_lock_exclusive_def intro: wfile_step.wkeep)

lemma wh_plain_keep:
  assumes "wf_keeps fs f"
  shows "f (snd (wh_pread fs t fd buf off s)) = f s"
    "f (snd (wh_pwrite fs t fd buf off s)) = f s"
    "f (snd (wh_seek fs t fd off w s)) = f s"
    "f (snd (wh_truncate fs t fd n s)) = f s"
    "f (snd (wh_sync fs t fd b s)) = f s"
  by (simp_all add: wh_pread_def wh_pwrite_def wh_seek_def wh_truncate_def wh_sync_def
      Let_def case_prod_beta wf_keeps_simps [OF assms] split: sum.split)

text \<open>Flushing a directory opens one handle and closes it again.\<close>

lemma sync_directory_keep:
  assumes L: "win_handle_laws fs handles"
  shows "handles (snd (sync_directory fs path s)) = handles s"
proof -
  let ?call = "wf_CreateFileW fs (wf_encode_wide fs path @ [0]) (wfc fs W_GENERIC_WRITE)
    (wfc fs W_FILE_SHARE_READ OR wfc fs W_FILE_SHARE_WRITE OR wfc fs W_FILE_SHARE_DELETE)
    (wfc fs W_OPEN_EXISTING) (wfc fs W_FILE_FLAG_BACKUP_SEMANTICS) s"
  obtain x s' where x: "?call = (x, s')" by (rule prod.exhaust)
  have "opens_raw (wf_INVALID_HANDLE_VALUE fs) handles s (x, s')" using win_handle_laws_simps(2) [OF L] x by metis
  with x show ?thesis
    by (auto simp: sync_directory_def Let_def case_prod_beta opens_raw_def win_handle_laws_simps(5) [OF L]
        wf_keeps_simps [OF win_handle_laws_simps(6) [OF L]])
qed

lemma wh_sync_parent_keep:
  "win_handle_laws fs handles \<Longrightarrow> handles (snd (wh_sync_parent fs t path s)) = handles s"
  by (simp add: wh_sync_parent_def Let_def case_prod_beta sync_directory_keep split: sum.split)

subsection \<open>Every import is a step of the table\<close>

abbreviation wfile_part :: "('s, 'h, 'k) win_file_app \<Rightarrow> 'h win_files \<times> 'k" where
  "wfile_part st \<equiv> (files st, kernel (os st))"

lemma wimport_pread_keep:
  assumes "wf_keeps fs f"
  shows "f (kernel (os (snd (wimport_pread fs fd p l off st)))) = f (kernel (os st))"
    "files (snd (wimport_pread fs fd p l off st)) = files st"
  by (simp_all add: wimport_pread_def Let_def case_prod_beta wh_plain_keep [OF assms] split: sum.split option.split)

lemma exec_wfile_step:
  assumes L: "win_handle_laws fs handles"
  shows "wfile_step handles (wfile_part st) (wfile_part (snd (exec_wfile fs c st)))"
proof -
  note keep = win_handle_laws_simps(6) [OF L]
  show ?thesis
  proof (cases c)
    case (F_open p f m)
    then show ?thesis
      using wh_open_step [OF L, of "files st" "kernel (os st)" _ f m]
      by (auto simp: wimport_file_open_def case_prod_beta wfile_step.wkeep split: sum.split)
  next
    case (F_close fd)
    then show ?thesis
      using wh_close_step [OF L, of "files st" "kernel (os st)" fd]
      by (simp add: wimport_file_close_def case_prod_beta)
  next
    case (F_pread fd p l off)
    then show ?thesis
      using wfile_step.wkeep [of handles] wimport_pread_keep [OF keep, of fd p l off st] by simp
  next
    case (F_lock_exclusive fd)
    then show ?thesis
      using wh_lock_step [OF L, of "files st" "kernel (os st)" fd]
      by (simp add: wimport_lock_exclusive_def case_prod_beta)
  qed (auto simp: wimport_pwrite_def wimport_seek_def wimport_truncate_def wimport_sync_def
      wimport_sync_parent_def case_prod_beta wh_plain_keep [OF keep]
      wh_sync_parent_keep [OF L] wfile_step.wkeep split: sum.split option.split)
qed

subsection \<open>Everything else\<close>

definition wfile_frame :: "('s, 'h, 'k) win_file_app \<Rightarrow> ('s, 'h, 'k) win_file_app \<Rightarrow> bool" where
  "wfile_frame st st' \<longleftrightarrow>
     sockets st' = sockets st \<and> network_allowed st' = network_allowed st \<and>
     shutdown_requested st' = shutdown_requested st \<and>
     wh_preopens (files st') = wh_preopens (files st) \<and> winsock (os st') = winsock (os st) \<and>
     map_option length (mem_view (memory st')) = map_option length (mem_view (memory st))"

lemma wh_open_preopens: "wh_preopens (fst (snd (wh_open fs t path flags mode s))) = wh_preopens t"
  by (auto simp: wh_open_def Let_def case_prod_beta wh_insert_def split: sum.split)

lemma wh_close_preopens: "wh_preopens (fst (snd (wh_close fs t fd s))) = wh_preopens t"
  by (auto simp: wh_close_def case_prod_beta split: sum.split dest: wh_remove_effect)

lemma wh_lock_preopens: "wh_preopens (fst (snd (wh_lock_exclusive fs t fd s))) = wh_preopens t"
  by (auto simp: wh_lock_exclusive_def Let_def case_prod_beta split: option.split)

lemma exec_wfile_frame: "wfile_frame st (snd (exec_wfile fs c st))"
  by (cases c)
    (auto simp: wfile_frame_def win_file_defs Let_def case_prod_beta wh_open_preopens wh_close_preopens
      wh_lock_preopens split: sum.split option.split dest: fmem.wr_length)

lemma sync_directory_frames: "win_fs_frames fs f \<Longrightarrow> f (snd (sync_directory fs path s)) = f s"
  by (simp add: sync_directory_def Let_def case_prod_beta win_fs_frames_simps wf_keeps_simps [OF win_fs_frames_simps(6)])

lemma exec_wfile_frames:
  assumes "win_fs_frames fs f"
  shows "f (kernel (os (snd (exec_wfile fs c st)))) = f (kernel (os st))"
proof -
  note frames = win_fs_frames_simps [OF assms]
  have drop: "f (wf_drop fs x s) = f s" for x s by (cases x) (simp_all add: wf_drop_def frames)
  show ?thesis
    by (cases c)
      (simp_all add: win_file_defs wh_open_def wh_close_def wh_sync_parent_def wh_lock_exclusive_def
        Let_def case_prod_beta frames drop sync_directory_frames [OF assms] wh_plain_keep [OF frames(6)]
        split: sum.split option.split)
qed

subsection \<open>The invariant and the accounting of handles\<close>

definition wfiles_wf :: "'h win_files \<Rightarrow> bool" where
  "wfiles_wf t \<longleftrightarrow>
     fd_wf GUEST_FD_BASE (wh_next_fd t) (wh_files t) \<and> dom (wh_lock_paths t) = dom (wh_files t)"

text \<open>The open files and the handles of the named objects that the table owns.\<close>

definition wowned :: "'h win_files \<Rightarrow> ('h + raw_handle) set" where
  "wowned t = Inl ` ran (wh_files t) \<union> Inr ` lock_handle ` ran (wh_locks t)"

definition wfile_inv :: "('k \<Rightarrow> ('h + raw_handle) set) \<Rightarrow> 'h win_files \<times> 'k \<Rightarrow> bool" where
  "wfile_inv handles ts \<longleftrightarrow>
     wfiles_wf (fst ts) \<and> wowned (fst ts) \<subseteq> handles (snd ts) \<and>
     (\<forall>a b h. wh_files (fst ts) a = Some h \<longrightarrow> wh_files (fst ts) b = Some h \<longrightarrow> a = b)"

lemma wfiles_wf_insert: "wfiles_wf t \<Longrightarrow> wh_insert t (h, p) = (fd, t') \<Longrightarrow> wfiles_wf t'"
  by (drule wh_insert_effect) (simp add: wfiles_wf_def fd_wf_insert)

lemma wfiles_wf_remove: "wfiles_wf t \<Longrightarrow> wh_remove t fd = Inr (h, t') \<Longrightarrow> wfiles_wf t'"
  by (drule wh_remove_effect) (simp add: wfiles_wf_def fd_wf_delete)

text \<open>In a table without duplicates, an insertion removes the displaced value and nothing else.\<close>

lemma ran_upd_inj:
  assumes "\<And>a b x. m a = Some x \<Longrightarrow> m b = Some x \<Longrightarrow> a = b"
  shows "ran (m(k \<mapsto> v)) = insert v (ran m - set_option (m k))"
proof (intro set_eqI iffI)
  fix y assume "y \<in> ran (m(k \<mapsto> v))"
  then obtain a where "(if a = k then Some v else m a) = Some y" by (auto simp: ran_def fun_upd_def)
  then show "y \<in> insert v (ran m - set_option (m k))" using assms [of a y k] by (auto simp: ran_def split: if_splits)
qed (auto simp: ran_def)

lemma displaced_sets:
  assumes "H' = insert x H - D" "N' = insert x (N - D)" "N \<subseteq> H" "D \<subseteq> N" "x \<notin> H"
  shows "N' \<subseteq> H' \<and> H' - N' = H - N"
  unfolding assms(1,2) using assms(3-5) by blast

lemma wfile_inv_step:
  assumes "wfile_step handles ts ts'" "wfile_inv handles ts"
  shows "wfile_inv handles ts' \<and> handles (snd ts') - wowned (fst ts') = handles (snd ts) - wowned (fst ts)"
  using assms(1)
proof cases
  case (wkeep s' s t)
  with assms(2) show ?thesis by (simp add: wfile_inv_def)
next
  case (wadd h s t p fd t' s')
  note ins = wh_insert_effect [OF wadd(4)]
  from assms(2) wadd have wf: "wfiles_wf t'" by (auto simp: wfile_inv_def intro: wfiles_wf_insert)
  have inj: "wh_files t a = Some x \<Longrightarrow> wh_files t b = Some x \<Longrightarrow> a = b" for a b x
    using assms(2) wadd by (simp add: wfile_inv_def)
  have new: "h \<notin> ran (wh_files t)" using assms(2) wadd by (auto simp: wfile_inv_def wowned_def)
  have "wh_files t a \<noteq> Some h" for a using new by (auto simp: ran_def)
  then have inj': "wh_files t' a = Some x \<Longrightarrow> wh_files t' b = Some x \<Longrightarrow> a = b" for a b x
    using ins inj by (auto split: if_splits)
  have "ran (wh_files t') = insert h (ran (wh_files t) - set_option (wh_files t (wh_next_fd t)))"
    using ran_upd_inj [of "wh_files t" "wh_next_fd t" h] inj ins by simp
  then have w: "wowned t' = insert (Inl h) (wowned t - Inl ` set_option (wh_files t (wh_next_fd t)))"
    using ins by (auto simp: wowned_def)
  have sub: "wowned t \<subseteq> handles s" using assms(2) wadd by (simp add: wfile_inv_def)
  have d: "Inl ` set_option (wh_files t (wh_next_fd t)) \<subseteq> wowned t" by (auto simp: wowned_def ran_def)
  have "wowned t' \<subseteq> handles s' \<and> handles s' - wowned t' = handles s - wowned t"
    by (rule displaced_sets [OF wadd(5) w sub d wadd(3)])
  with wf inj' show ?thesis unfolding wfile_inv_def wadd(1,2) fst_conv snd_conv by blast
next
  case (wdrop t fd h t' s' s)
  note rem = wh_remove_effect [OF wdrop(3)]
  from assms(2) wdrop have wf: "wfiles_wf t'" by (auto simp: wfile_inv_def intro: wfiles_wf_remove)
  have "wh_files t = (wh_files t')(fd \<mapsto> h)" "wh_files t' fd = None" using rem by auto
  then have ran: "ran (wh_files t) = insert h (ran (wh_files t'))" by (metis ran_map_upd)
  have "h \<notin> ran (wh_files t')"
    using assms(2) wdrop rem by (auto simp: wfile_inv_def ran_def split: if_splits)
  with ran rem have "wowned t = insert (Inl h) (wowned t')" "Inl h \<notin> wowned t'" by (auto simp: wowned_def)
  with assms(2) wdrop rem wf show ?thesis by (auto simp: wfile_inv_def split: if_splits)
next
  case (wlock t p x s s')
  then have "wowned (t\<lparr>wh_locks := (wh_locks t)(p \<mapsto> \<lparr>lock_handle = x\<rparr>)\<rparr>) = insert (Inr x) (wowned t)"
    by (simp add: wowned_def)
  with assms(2) wlock show ?thesis by (auto simp: wfile_inv_def wfiles_wf_def)
qed

lemma wh_map_preopens_table: "wh_new d ps cwd = Inr t \<Longrightarrow>
   wh_next_fd t = GUEST_FD_BASE \<and> wh_files t = Map.empty \<and> wh_lock_paths t = Map.empty \<and> wh_locks t = Map.empty"
  by (auto simp: wh_new_def Let_def split: if_splits sum.splits)

lemma win_files_start:
  assumes "wh_new d ps cwd = Inr t"
  shows "wfile_inv handles (t, s)" "wowned t = {}"
  using wh_map_preopens_table [OF assms] by (simp_all add: wfile_inv_def wfiles_wf_def fd_wf_empty wowned_def)

subsection \<open>Descriptors that were closed\<close>

definition wdead_file :: "i32 \<Rightarrow> 'h win_files \<Rightarrow> bool" where
  "wdead_file fd t \<longleftrightarrow> sint fd < sint (wh_next_fd t) \<and> wh_files t fd = None \<and> wh_lock_paths t fd = None"

lemma wdead_file_step:
  assumes "wfile_step handles ts ts'" "wdead_file fd (fst ts)"
  shows "wdead_file fd (fst ts')"
  using assms(1)
proof cases
  case (wadd h s t p fd' t' s')
  from wadd(1) assms(2) have d: "sint fd < sint (wh_next_fd t)" "wh_files t fd = None" "wh_lock_paths t fd = None"
    by (simp_all add: wdead_file_def)
  then have "fd \<noteq> wh_next_fd t" by auto
  moreover have "sint (wh_next_fd t) \<le> sint (i32_saturating_succ (wh_next_fd t))"
    using sint_i32_bounds(2) [of "wh_next_fd t"] by (auto simp: sint_saturating_succ simp del: sint_i32_bounds)
  ultimately show ?thesis using wh_insert_effect [OF wadd(4)] wadd(2) d by (simp add: wdead_file_def)
next
  case (wdrop t fd' h t' s' s)
  then show ?thesis using wh_remove_effect [OF wdrop(3)] assms(2) by (simp add: wdead_file_def)
qed (use assms(2) in \<open>simp_all add: wdead_file_def\<close>)

lemma exec_wfile_unknown:
  assumes "file_call_fd c = Some fd" "wh_files (files st) fd = None" "wh_lock_paths (files st) fd = None"
  shows "\<exists>e. (e = EBADF \<or> e = EINVAL \<or> e = EFAULT) \<and>
    (exec_wfile fs c st = (Return (I32 (neg_errno e)), st) \<or>
     exec_wfile fs c st = (Return (I64 (scast (neg_errno e))), st))"
  using assms neg_errno_neg [of EBADF]
  by (cases c)
    (auto simp: win_file_defs wh_get_def wh_remove_def wh_close_def wh_pread_def wh_pwrite_def wh_seek_def
      wh_truncate_def wh_sync_def wh_lock_exclusive_def as_i32_def as_i64_def files_checked_len_eq
      split: sum.split option.split dest!: checked_len_Inl fmem.rd_Inl_errno)

subsection \<open>Results\<close>

lemma is_guest_win_io_errno [simp]: "is_guest_errno (win_io_errno err)"
  by (simp add: win_io_errno_def from_windows_error_range split: option.split)

lemma win_resolve_in_Inl: "win_resolve_in ps n = Inl e \<Longrightarrow> e = ENOTCAPABLE"
  by (induction ps) (auto split: option.splits)

lemma wh_resolve_Inl: "wh_resolve t p = Inl e \<Longrightarrow> is_guest_errno e"
  by (auto simp: wh_resolve_def split: sum.splits dest: normalize_Inl_errno win_resolve_in_Inl)

lemma win_file_failures:
  "wh_get t fd = Inl e \<Longrightarrow> is_guest_errno e"
  "wh_remove t fd = Inl e \<Longrightarrow> is_guest_errno e"
  "win_seek_from fs off w = Inl e \<Longrightarrow> is_guest_errno e"
  "wh_resolve_parent t p = Inl e \<Longrightarrow> is_guest_errno e"
  by (auto simp: wh_get_def wh_remove_def win_seek_from_def wh_resolve_parent_def
      split: option.splits if_splits sum.splits dest: wh_resolve_Inl)

lemmas win_file_errnos =
  win_file_failures wh_resolve_Inl read_cstr_Inl file_failures(4) file_failures(5) file_failures(6)

lemma fd_wf_nonneg: "fd_wf GUEST_FD_BASE n m \<Longrightarrow> 0 \<le> sint n"
  by (auto simp: fd_wf_def GUEST_FD_BASE_def)

lemma wh_open_reply: "wfiles_wf t \<Longrightarrow> reply_ok (fst (wh_open fs t path flags mode s))"
  by (auto simp: wh_open_def wh_insert_def Let_def case_prod_beta wfiles_wf_def reply_ok_nonneg
      split: sum.split dest: win_file_errnos fd_wf_nonneg)

lemma wh_replies:
  "reply_ok (fst (wh_close fs t fd s))"
  "reply_ok (fst (fst (wh_pread fs t fd buf off s)))"
  "reply_ok (fst (wh_pwrite fs t fd buf off s))"
  "reply_ok (fst (wh_truncate fs t fd n s))"
  "reply_ok (fst (wh_sync fs t fd b s))"
  "reply_ok (fst (wh_sync_parent fs t path s))"
  "reply_ok (fst (wh_lock_exclusive fs t fd s))"
  by (auto simp: wh_close_def wh_pread_def wh_pwrite_def wh_truncate_def wh_sync_def wh_sync_parent_def
      wh_lock_exclusive_def win_unit_reply_def Let_def case_prod_beta
      split: sum.split option.split dest: win_file_errnos reply_ok_i32_of_usize)

lemma wh_seek_reply: "val_ok (Return (I64 (fst (wh_seek fs t fd off w s))))"
  by (auto simp: wh_seek_def case_prod_beta val_ok_seek simp del: val_ok.simps
      split: sum.split option.split dest: win_file_errnos sint_i64_of_u64)

lemma exec_wfile_reply: "wfiles_wf (files st) \<Longrightarrow> val_ok (fst (exec_wfile fs c st))"
  using wh_seek_reply
  by (cases c)
    (auto simp: win_file_defs Let_def case_prod_beta wh_open_reply wh_replies simp del: val_ok.simps(2)
      split: sum.split option.split dest: win_file_errnos)

end
