(* ===== verification/Windows_Runtime.thy ===== *)
theory Windows_Runtime
  imports Host_Runtime Windows_Socket_Results Windows_File_Safety
begin

text \<open>
  The whole host on Windows: the interpretation of \<open>host_components\<close> by the modules of the Windows
  build, the absence of panics, and what holds of the state that only this build has: the start of
  Winsock, the status flags of sockets, and the file locks.
\<close>

subsection \<open>The platform\<close>

definition win_platform_ok ::
    "'k win_sys \<Rightarrow> ('h, 'k) win_fs \<Rightarrow> ('k \<Rightarrow> raw_sock set) \<Rightarrow> ('k \<Rightarrow> ('h + raw_handle) set) \<Rightarrow> bool" where
  "win_platform_ok win fs opens handles \<longleftrightarrow>
     winsock_laws win opens \<and> win_handle_laws fs handles \<and> ws_frames win handles \<and> win_fs_frames fs opens"

type_synonym ('h, 'k) win_host = "(win_socket, 'h win_files, 'k win_os) app_state"

text \<open>On its own Windows touches neither the host's handles nor the process's \<open>WINSOCK\<close>.\<close>

definition win_ambient ::
    "('k \<Rightarrow> raw_sock set) \<Rightarrow> ('k \<Rightarrow> ('h + raw_handle) set) \<Rightarrow> 'k win_os \<Rightarrow> 'k win_os \<Rightarrow> bool" where
  "win_ambient opens handles w w' \<longleftrightarrow>
     opens (kernel w') = opens (kernel w) \<and> handles (kernel w') = handles (kernel w) \<and> winsock w' = winsock w"

interpretation win_host: host_components "win_platform_ok win fs opens handles" "exec_wsock win" "exec_wfile fs"
  "win_ambient opens handles" raw_socket "win_opens opens" "win_opens handles"
  "\<lambda>tw. wfile_inv handles (fst tw, kernel (snd tw))" wowned wh_preopens wdead_file
  for win :: "'k win_sys" and fs :: "('h, 'k) win_fs" and opens handles
proof
  fix st :: "('h, 'k) win_host" and c fc s s' t fd
  show "import_frame st (snd (exec_wsock win c st))" by (rule exec_wsock_frame)
  show "offline (snd (exec_wsock win c st))" if "offline st" using that by (rule exec_wsock_offline)
  show "sockets (snd (exec_wfile fs fc st)) = sockets st"
    "network_allowed (snd (exec_wfile fs fc st)) = network_allowed st"
    "shutdown_requested (snd (exec_wfile fs fc st)) = shutdown_requested st"
    "wh_preopens (files (snd (exec_wfile fs fc st))) = wh_preopens (files st)"
    using exec_wfile_frame [of st fs fc] by (simp_all add: wfile_frame_def)
  show "opens (kernel s') = opens (kernel s) \<and> handles (kernel s') = handles (kernel s)"
    if "win_ambient opens handles s s'"
    using that by (simp add: win_ambient_def)
  show "wfile_inv handles (fst (t, s'), kernel (snd (t, s')))"
    if "handles (kernel s') = handles (kernel s)" "wfile_inv handles (fst (t, s), kernel (snd (t, s)))"
    using that by (simp add: wfile_inv_def)
  assume "win_platform_ok win fs opens handles"
  then have L: "winsock_laws win opens" "win_handle_laws fs handles" "ws_frames win handles" "win_fs_frames fs opens"
    by (simp_all add: win_platform_ok_def)
  show "table_step raw_socket (win_opens opens) st (fst (exec_wsock win c st)) (snd (exec_wsock win c st))"
    by (rule exec_wsock_step [OF L(1)])
  show "handles (kernel (os (snd (exec_wsock win c st)))) = handles (kernel (os st))"
    by (rule exec_wsock_frames [OF L(3)])
  show "opens (kernel (os (snd (exec_wfile fs fc st)))) = opens (kernel (os st))"
    by (rule exec_wfile_frames [OF L(4)])
  have step: "wfile_step handles (wfile_part st) (wfile_part (snd (exec_wfile fs fc st)))"
    by (rule exec_wfile_step [OF L(2)])
  let ?st' = "snd (exec_wfile fs fc st)"
  show "wfile_inv handles (fst (files ?st', os ?st'), kernel (snd (files ?st', os ?st'))) \<and>
      handles (kernel (os ?st')) - wowned (files ?st') = handles (kernel (os st)) - wowned (files st)"
    if "wfile_inv handles (fst (files st, os st), kernel (snd (files st, os st)))"
    using wfile_inv_step [OF step] that by simp
  show "wdead_file fd (files (snd (exec_wfile fs fc st)))" if "wdead_file fd (files st)"
    using wdead_file_step [OF step] that by simp
qed

abbreviation win_step :: "'k win_sys \<Rightarrow> ('h, 'k) win_fs \<Rightarrow> ('k \<Rightarrow> raw_sock set) \<Rightarrow>
    ('k \<Rightarrow> ('h + raw_handle) set) \<Rightarrow> bool \<Rightarrow> ('h, 'k) win_host \<Rightarrow> ('h, 'k) win_host \<Rightarrow> bool" where
  "win_step win fs opens handles \<equiv> host_step (exec_wsock win) (exec_wfile fs) (win_ambient opens handles)"

abbreviation win_run :: "'k win_sys \<Rightarrow> ('h, 'k) win_fs \<Rightarrow> ('k \<Rightarrow> raw_sock set) \<Rightarrow>
    ('k \<Rightarrow> ('h + raw_handle) set) \<Rightarrow> bool \<Rightarrow> ('h, 'k) win_host \<Rightarrow> ('h, 'k) win_host \<Rightarrow> bool" where
  "win_run win fs opens handles \<equiv> host_run (exec_wsock win) (exec_wfile fs) (win_ambient opens handles)"

subsection \<open>No import panics\<close>

text \<open>A positioned read reports at most as many bytes as the buffer holds.\<close>

definition win_read_counts :: "('h, 'k) win_fs \<Rightarrow> bool" where
  "win_read_counts fs \<longleftrightarrow>
     (\<forall>h n off s k bs. fst (wf_seek_read fs h n off s) = Inr (k, bs) \<longrightarrow> k \<le> n)"

lemma wh_pread_slice:
  assumes "win_read_counts fs" "0 < sint (fst (fst (wh_pread fs t fd buf off s)))"
  shows "unat (fst (fst (wh_pread fs t fd buf off s))) \<le> length (snd (fst (wh_pread fs t fd buf off s)))"
proof -
  have neg: "\<not> 0 < sint (neg_errno e)" if "is_guest_errno e" for e
    using neg_errno_neg [OF that] by simp
  from assms(2) neg obtain h where h: "wh_get t fd = Inr h"
    by (cases "wh_get t fd") (auto simp: wh_pread_def dest: win_file_errnos(1))
  obtain r s' where r: "wf_seek_read fs h (length buf) off s = (r, s')" by (rule prod.exhaust)
  from assms(2) neg h r obtain k bs rc where k: "r = Inr (k, bs)" "i32_of_usize k = Some rc"
    by (cases r; cases "i32_of_usize (fst (projr r))") (auto simp: wh_pread_def)
  have "k \<le> length buf" using assms(1) r k(1) unfolding win_read_counts_def by (metis fst_conv)
  moreover have "unat rc = k" using k(2) by (auto simp: i32_of_usize_def unat_of_nat split: if_splits)
  ultimately show ?thesis using h r k by (simp add: wh_pread_def)
qed

lemma exec_wfile_no_panic:
  assumes "win_read_counts fs"
  shows "fst (exec_wfile fs c st) \<noteq> Panic"
proof (cases c)
  case (F_pread fd p l off)
  show ?thesis
    using wh_pread_slice [OF assms]
    by (auto simp: F_pread wimport_pread_def Let_def case_prod_beta slice_to_def not_le split: sum.split)
qed (auto simp: win_file_defs Let_def case_prod_beta split: sum.split option.split)

lemma win_step_no_panic:
  assumes "winsock_results win" "win_read_counts fs" "win_step win fs opens handles panics st st'"
  shows "win_step win fs opens handles False st st'"
  using assms(3)
proof cases
  case (socket_call c r)
  then have "r \<noteq> Panic" using exec_wsock_no_panic [OF assms(1), of c st] by simp
  with socket_call show ?thesis by (auto intro: host_step.socket_call)
next
  case (file_call fc v)
  then have "v \<noteq> Panic" using exec_wfile_no_panic [OF assms(2), of fc st] by simp
  with file_call show ?thesis by (auto intro: host_step.file_call)
qed (auto intro: host_step.intros(3-))

lemma win_run_no_panic:
  assumes "winsock_results win" "win_read_counts fs" "win_run win fs opens handles panics st st'"
  shows "win_run win fs opens handles False st st'"
  using assms(3) by (induction rule: rtranclp_induct) (auto dest: win_step_no_panic [OF assms(1,2)])

subsection \<open>Winsock, status flags and locks over time\<close>

lemma win_inv_step:
  assumes "win_step win fs opens handles panics st st'" "win_inv st"
  shows "win_inv st'"
  using assms(1)
proof cases
  case (socket_call c r)
  with exec_wsock_win_inv [OF assms(2), of win c] show ?thesis by simp
next
  case (file_call fc v)
  with exec_wfile_frame [of st fs fc] show ?thesis by (intro win_inv_same [OF assms(2)]) (simp_all add: wfile_frame_def)
qed (auto simp: import_request_shutdown_def import_shutdown_requested_def win_ambient_def
    intro!: win_inv_same [OF assms(2)])

lemma win_inv_run:
  assumes "win_run win fs opens handles panics st st'" "win_inv st"
  shows "win_inv st'"
  using assms by (induction rule: rtranclp_induct) (auto intro: win_inv_step)

lemma win_inv_start: "winsock s = None \<Longrightarrow> win_inv (initial_state cli t m s)"
  by (simp add: win_inv_def initial_state_def hs_new_def)

text \<open>A file lock that was taken is held from then on.\<close>

lemma wfile_step_locks:
  assumes "wfile_step handles ts ts'"
  shows "wh_locks (fst ts) \<subseteq>\<^sub>m wh_locks (fst ts')"
  using assms
proof cases
  case (wadd h s t p fd t' s')
  then show ?thesis using wh_insert_effect [OF wadd(4)] by simp
next
  case (wdrop t fd h t' s' s)
  then show ?thesis using wh_remove_effect [OF wdrop(3)] by simp
qed (auto simp: map_le_def)

lemma win_step_locks:
  assumes "win_step win fs opens handles panics st st'" "win_platform_ok win fs opens handles"
  shows "wh_locks (files st) \<subseteq>\<^sub>m wh_locks (files st')"
proof -
  have "wh_locks (files st) \<subseteq>\<^sub>m wh_locks (files (snd (exec_wfile fs fc st)))" for fc
    using wfile_step_locks [OF exec_wfile_step, of fs handles st fc] assms(2) by (simp add: win_platform_ok_def)
  with win_host.step_files [OF assms] show ?thesis by (auto simp: map_le_def)
qed

lemma win_run_locks:
  assumes "win_run win fs opens handles panics st st'" "win_platform_ok win fs opens handles"
  shows "wh_locks (files st) \<subseteq>\<^sub>m wh_locks (files st')"
  using assms(1) by (induction rule: rtranclp_induct) (auto intro: map_le_trans dest: win_step_locks [OF _ assms(2)])

subsection \<open>Closed descriptors\<close>

lemma closed_wsocket_dead:
  assumes "sockets_wf (sockets st)" "hs_sockets (sockets st) fd = Some v" "fd \<noteq> i32_MAX"
  shows "dead_socket fd (snd (wimport_close win fd st))"
  using assms fd_wf_below [of SOCKET_FD_BASE "hs_next_fd (sockets st)" "hs_sockets (sockets st)" fd]
  by (simp add: dead_socket_def wimport_close_def ws_remove_def case_prod_beta sockets_wf_def)

lemma closed_wfile_dead:
  assumes "wfiles_wf (files st)" "wh_files (files st) fd = Some h" "fd \<noteq> i32_MAX"
  shows "wdead_file fd (files (snd (wimport_file_close fs fd st)))"
  using assms fd_wf_below [of GUEST_FD_BASE "wh_next_fd (files st)" "wh_files (files st)" fd]
  by (simp add: wdead_file_def wimport_file_close_def wh_close_def wh_remove_def case_prod_beta wfiles_wf_def)

end
