(* ===== verification/Windows_Sample.thy ===== *)
theory Windows_Sample
  imports Windows_Runtime
begin

text \<open>
  A small Windows host at which the hypotheses about the platform are discharged: the constants of
  \<open>windows_sys\<close> and an operating system whose state is the open sockets, files and raw handles, the
  named objects, and the last error code.  Nothing but the witnesses of the properties uses it.
\<close>

subsection \<open>Constants\<close>

primrec wsa_code :: "wsa_error \<Rightarrow> i32" where
  "wsa_code WSAEINTR = 10004"
| "wsa_code WSAEBADF = 10009"
| "wsa_code WSAEACCES = 10013"
| "wsa_code WSAEFAULT = 10014"
| "wsa_code WSAEINVAL = 10022"
| "wsa_code WSAEMFILE = 10024"
| "wsa_code WSAEWOULDBLOCK = 10035"
| "wsa_code WSAEINPROGRESS = 10036"
| "wsa_code WSAEALREADY = 10037"
| "wsa_code WSAENOTSOCK = 10038"
| "wsa_code WSAEDESTADDRREQ = 10039"
| "wsa_code WSAEMSGSIZE = 10040"
| "wsa_code WSAEPROTOTYPE = 10041"
| "wsa_code WSAENOPROTOOPT = 10042"
| "wsa_code WSAEPROTONOSUPPORT = 10043"
| "wsa_code WSAESOCKTNOSUPPORT = 10044"
| "wsa_code WSAEOPNOTSUPP = 10045"
| "wsa_code WSAEPFNOSUPPORT = 10046"
| "wsa_code WSAEAFNOSUPPORT = 10047"
| "wsa_code WSAEADDRINUSE = 10048"
| "wsa_code WSAEADDRNOTAVAIL = 10049"
| "wsa_code WSAENETDOWN = 10050"
| "wsa_code WSAENETUNREACH = 10051"
| "wsa_code WSAENETRESET = 10052"
| "wsa_code WSAECONNABORTED = 10053"
| "wsa_code WSAECONNRESET = 10054"
| "wsa_code WSAENOBUFS = 10055"
| "wsa_code WSAEISCONN = 10056"
| "wsa_code WSAENOTCONN = 10057"
| "wsa_code WSAESHUTDOWN = 10058"
| "wsa_code WSAETIMEDOUT = 10060"
| "wsa_code WSAECONNREFUSED = 10061"
| "wsa_code WSAEHOSTDOWN = 10064"
| "wsa_code WSAEHOSTUNREACH = 10065"

primrec ws_const :: "ws_name \<Rightarrow> i32" where
  "ws_const W_AF_INET = 2"
| "ws_const W_AF_INET6 = 23"
| "ws_const W_SOCK_STREAM = 1"
| "ws_const W_SOCK_DGRAM = 2"
| "ws_const W_SOL_SOCKET = 0xffff"
| "ws_const W_SO_REUSEADDR = 4"
| "ws_const W_SO_ERROR = 0x1007"
| "ws_const W_SO_KEEPALIVE = 8"
| "ws_const W_SO_RCVTIMEO = 0x1006"
| "ws_const W_SO_SNDTIMEO = 0x1005"
| "ws_const W_IP_TOS = 3"
| "ws_const W_IPV6_V6ONLY = 27"
| "ws_const W_FIONBIO = - 2147195266"
| "ws_const W_SOCKET_ERROR = - 1"

primrec ws_poll_bit :: "ws_event \<Rightarrow> i16" where
  "ws_poll_bit W_POLLIN = 0x0300"
| "ws_poll_bit W_POLLPRI = 0x0400"
| "ws_poll_bit W_POLLOUT = 0x0010"
| "ws_poll_bit W_POLLERR = 0x0001"
| "ws_poll_bit W_POLLHUP = 0x0002"
| "ws_poll_bit W_POLLNVAL = 0x0004"

primrec wfs_const :: "wfs_name \<Rightarrow> u32" where
  "wfs_const W_GENERIC_WRITE = 0x40000000"
| "wfs_const W_FILE_SHARE_READ = 1"
| "wfs_const W_FILE_SHARE_WRITE = 2"
| "wfs_const W_FILE_SHARE_DELETE = 4"
| "wfs_const W_OPEN_EXISTING = 3"
| "wfs_const W_FILE_FLAG_BACKUP_SEMANTICS = 0x02000000"
| "wfs_const W_PAGE_READWRITE = 4"
| "wfs_const W_ERROR_ALREADY_EXISTS = 183"

subsection \<open>The operating system\<close>

record sample_kernel =
  sk_open :: "raw_sock list"
  sk_files :: "nat list"
  sk_raws :: "raw_handle list"
  sk_objects :: "u16 list list"
  sk_error :: i32

definition sk_init :: sample_kernel where
  "sk_init = \<lparr>sk_open = [], sk_files = [], sk_raws = [], sk_objects = [], sk_error = 0\<rparr>"

text \<open>The first number of a pool that is not in use.\<close>

definition fresh_in :: "'a list \<Rightarrow> 'a list \<Rightarrow> 'a \<Rightarrow> 'a" where
  "fresh_in pool used none = (case find (\<lambda>x. x \<notin> set used) pool of Some x \<Rightarrow> x | None \<Rightarrow> none)"

lemma fresh_in_fresh: "fresh_in pool used none \<noteq> none \<Longrightarrow> fresh_in pool used none \<notin> set used"
  by (simp add: fresh_in_def split: option.splits) (auto simp: find_Some_iff)

definition sk_socket :: "sample_kernel \<Rightarrow> raw_sock \<times> sample_kernel" where
  "sk_socket s =
     (let x = fresh_in [100, 101, 102] (sk_open s) (- 1)
      in if x = - 1 then (x, s\<lparr>sk_error := 10024\<rparr>) else (x, s\<lparr>sk_open := x # sk_open s\<rparr>))"

text \<open>Socket 101 cannot be made non-blocking; a successful close resets the last error.\<close>

definition sample_win :: "sample_kernel win_sys" where
  "sample_win =
    \<lparr>wsc = ws_const, ws_event = ws_poll_bit, ws_err = wsa_code, ws_INVALID_SOCKET = - 1,
     ws_last_error = sk_error, ws_startup = (\<lambda>_ s. (0, s)),
     ws_socket = (\<lambda>_ _ _ s. sk_socket s),
     ws_ioctlsocket = (\<lambda>r _ _ s. if r = 101 then (- 1, s\<lparr>sk_error := 10022\<rparr>) else (0, s)),
     ws_closesocket = (\<lambda>r s. (0, s\<lparr>sk_open := removeAll r (sk_open s), sk_error := 0\<rparr>)),
     ws_bind = (\<lambda>_ _ s. (0, s)), ws_listen = (\<lambda>_ _ s. (0, s)),
     ws_accept = (\<lambda>_ n s. let (x, s) = sk_socket s in ((x, take (nat (sint n)) ([2, 0] @ replicate 14 1), 16), s)),
     ws_connect = (\<lambda>_ _ s. (- 1, s\<lparr>sk_error := 10061\<rparr>)),
     ws_getsockname = (\<lambda>_ _ s. ((0, [], 0), s)), ws_getpeername = (\<lambda>_ _ s. ((0, [], 0), s)),
     ws_setsockopt = (\<lambda>_ _ _ _ s. (0, s)),
     ws_getsockopt = (\<lambda>_ _ _ _ s. ((0, [0, 0, 0, 0], 4), s)),
     ws_send = (\<lambda>_ _ _ s. (0, s)), ws_recv = (\<lambda>_ n _ s. ((if sint n < 0 then - 1 else 0, []), s)),
     ws_sendto = (\<lambda>_ _ _ _ s. (0, s)), ws_recvfrom = (\<lambda>_ n _ _ s. ((if sint n < 0 then - 1 else 0, [], [], 0), s)),
     ws_shutdown = (\<lambda>_ _ s. (0, s)),
     ws_WSAPoll = (\<lambda>fds _ s. if fds = [] then ((- 1, []), s\<lparr>sk_error := 10022\<rparr>) else ((1, map wp_events fds), s))\<rparr>"

definition sample_wfs :: "(nat, sample_kernel) win_fs" where
  "sample_wfs =
    \<lparr>wfc = wfs_const, wf_INVALID_HANDLE_VALUE = - 1, wf_SEEK_SET = 0, wf_SEEK_CUR = 1, wf_SEEK_END = 2,
     wf_last_error = sk_error,
     wf_open = (\<lambda>_ _ s. let x = fresh_in [1, 2, 3] (sk_files s) 0
       in if x = 0 then (Inl (OsError 4), s) else (Inr x, s\<lparr>sk_files := x # sk_files s\<rparr>)),
     wf_close = (\<lambda>h s. s\<lparr>sk_files := removeAll h (sk_files s)\<rparr>),
     wf_canonicalize = (\<lambda>p _. Inr p),
     wf_seek_read = (\<lambda>_ n _ s. (Inr (n, replicate n 5), s)),
     wf_seek_write = (\<lambda>_ bs _ s. (Inr (length bs), s)),
     wf_seek = (\<lambda>_ _ s. (Inr 0, s)), wf_set_len = (\<lambda>_ _ s. (Inr (), s)),
     wf_sync_all = (\<lambda>_ s. (Inr (), s)), wf_sync_data = (\<lambda>_ s. (Inr (), s)),
     wf_encode_wide = (\<lambda>_. []), wf_uppercase_utf16 = (\<lambda>p. replicate (length p) 65),
     wf_CreateFileW = (\<lambda>_ _ _ _ _ s. let x = fresh_in [200, 201, 202] (sk_raws s) (- 1)
       in if x = - 1 then (x, s) else (x, s\<lparr>sk_raws := x # sk_raws s\<rparr>)),
     wf_FlushFileBuffers = (\<lambda>_ s. (1, s)),
     wf_CreateFileMappingW = (\<lambda>_ _ _ _ name s. let x = fresh_in [200, 201, 202] (sk_raws s) 0
       in if x = 0 then (0, s\<lparr>sk_error := 8\<rparr>)
          else (x, s\<lparr>sk_raws := x # sk_raws s, sk_objects := name # sk_objects s,
                     sk_error := (if name \<in> set (sk_objects s) then 183 else 0)\<rparr>)),
     wf_CloseHandle = (\<lambda>x s. s\<lparr>sk_raws := removeAll x (sk_raws s)\<rparr>)\<rparr>"

definition sk_opens :: "sample_kernel \<Rightarrow> raw_sock set" where
  "sk_opens s = set (sk_open s)"

definition sk_handles :: "sample_kernel \<Rightarrow> (nat + raw_handle) set" where
  "sk_handles s = Inl ` set (sk_files s) \<union> Inr ` set (sk_raws s)"

subsection \<open>It keeps the promises\<close>

lemma sk_socket_opens: "ws_opens_one sample_win sk_opens s (fst (sk_socket s)) (snd (sk_socket s))"
  using fresh_in_fresh [of "[100, 101, 102]" "sk_open s" "- 1"]
  by (simp add: ws_opens_one_def sk_socket_def sample_win_def sk_opens_def Let_def)

lemma sk_socket_handles: "sk_handles (snd (sk_socket s)) = sk_handles s"
  by (simp add: sk_socket_def sk_handles_def Let_def)

lemma sample_ws_keeps: "ws_keeps sample_win sk_opens" "ws_keeps sample_win sk_handles"
  by (simp_all add: ws_keeps_def sample_win_def sk_opens_def sk_handles_def)

lemma sample_winsock_laws: "winsock_laws sample_win sk_opens"
proof -
  have "ws_socket sample_win d t p s = sk_socket s" for d t p s by (simp add: sample_win_def)
  moreover have "fst (fst (ws_accept sample_win r n s)) = fst (sk_socket s)"
      "snd (ws_accept sample_win r n s) = snd (sk_socket s)" for r n s
    by (simp_all add: sample_win_def case_prod_beta)
  moreover have "sk_opens (snd (ws_closesocket sample_win r s)) = sk_opens s - {r}" for r s
    by (auto simp: sample_win_def sk_opens_def)
  ultimately show ?thesis by (simp add: winsock_laws_def sk_socket_opens sample_ws_keeps)
qed

lemma sample_ws_frames: "ws_frames sample_win sk_handles"
proof -
  have "sk_handles (snd (ws_socket sample_win d t p s)) = sk_handles s" for d t p s
    by (simp add: sample_win_def sk_socket_handles)
  moreover have "sk_handles (snd (ws_accept sample_win r n s)) = sk_handles s" for r n s
    by (simp add: sample_win_def case_prod_beta sk_socket_handles)
  moreover have "sk_handles (snd (ws_closesocket sample_win r s)) = sk_handles s" for r s
    by (simp add: sample_win_def sk_handles_def)
  ultimately show ?thesis using sample_ws_keeps(2) by (simp add: ws_frames_def)
qed

lemma sample_winsock_results: "winsock_results sample_win"
  by (simp add: winsock_results_def ws_int_result_def sample_win_def)

lemma sample_win_handle_laws: "win_handle_laws sample_wfs sk_handles"
proof -
  have "opens_file sk_handles s (wf_open sample_wfs opts p s)" for opts p s
    using fresh_in_fresh [of "[1, 2, 3]" "sk_files s" 0]
    by (auto simp: opens_file_def sample_wfs_def sk_handles_def Let_def)
  moreover have "opens_raw (wf_INVALID_HANDLE_VALUE sample_wfs) sk_handles s (wf_CreateFileW sample_wfs n a b c d s)"
      for n a b c d s
    using fresh_in_fresh [of "[200, 201, 202]" "sk_raws s" "- 1"]
    by (auto simp: opens_raw_def sample_wfs_def sk_handles_def Let_def)
  moreover have "opens_raw 0 sk_handles s (wf_CreateFileMappingW sample_wfs x a b c n s)" for x a b c n s
    using fresh_in_fresh [of "[200, 201, 202]" "sk_raws s" 0]
    by (auto simp: opens_raw_def sample_wfs_def sk_handles_def Let_def)
  moreover have "sk_handles (wf_close sample_wfs h s) = sk_handles s - {Inl h}"
      "sk_handles (wf_CloseHandle sample_wfs x s) = sk_handles s - {Inr x}" for h x s
    by (auto simp: sample_wfs_def sk_handles_def)
  moreover have "wf_keeps sample_wfs sk_handles" by (simp add: wf_keeps_def sample_wfs_def)
  ultimately show ?thesis by (simp add: win_handle_laws_def)
qed

lemma sample_win_fs_frames: "win_fs_frames sample_wfs sk_opens"
proof -
  have "wf_keeps sample_wfs sk_opens" by (simp add: wf_keeps_def sample_wfs_def)
  then show ?thesis by (simp add: win_fs_frames_def sample_wfs_def sk_opens_def Let_def)
qed

lemma sample_win_platform: "win_platform_ok sample_win sample_wfs sk_opens sk_handles"
  using sample_winsock_laws sample_win_handle_laws sample_ws_frames sample_win_fs_frames
  by (simp add: win_platform_ok_def)

lemma sample_win_read_counts: "win_read_counts sample_wfs"
  by (simp add: win_read_counts_def sample_wfs_def)

subsection \<open>Sample states\<close>

definition sample_wcli :: cli where
  "sample_wcli = \<lparr>show_embedded_source = False, no_default_preopen = False, no_inherit_env = False,
     no_network = False, preopens = [\<lparr>pre_host = [RootDir, Normal ''srv''], pre_guest = ''/data''\<rparr>],
     env = [], guest_args = [''--console'']\<rparr>"

abbreviation sample_cwd :: win_path where
  "sample_cwd \<equiv> [WPrefix (Disk CHR ''D''), WRootDir, WNormal ''srv'']"

definition sample_wfiles :: "nat win_files" where
  "sample_wfiles = \<lparr>wh_next_fd = GUEST_FD_BASE, wh_files = Map.empty, wh_lock_paths = Map.empty,
     wh_locks = Map.empty, wh_preopens = [\<lparr>wpm_guest = ''.'', wpm_host = sample_cwd\<rparr>]\<rparr>"

definition sample_whost :: "bytes \<Rightarrow> (nat, sample_kernel) win_host" where
  "sample_whost data = \<lparr>memory = PlainMemory data, files = sample_wfiles, sockets = hs_new,
     network_allowed = True, shutdown_requested = False, os = \<lparr>winsock = None, kernel = sk_init\<rparr>\<rparr>"

definition sample_wsocket :: win_socket where
  "sample_wsocket = \<lparr>raw_socket = 100, ws_guest_domain = 2, ws_host_domain = 2, status_flags = 0\<rparr>"

text \<open>A host with one socket, guest descriptor 10000.\<close>

definition sample_wlistener :: "bytes \<Rightarrow> (nat, sample_kernel) win_host" where
  "sample_wlistener data = (sample_whost data)
     \<lparr>sockets := \<lparr>hs_next_fd = 10001, hs_sockets = [10000 \<mapsto> sample_wsocket]\<rparr>,
      os := \<lparr>winsock = Some (Inr ()), kernel = sk_init\<lparr>sk_open := [100]\<rparr>\<rparr>\<rparr>"

lemma sample_wh_new: "wh_new False [] (Inr sample_cwd) = Inr sample_wfiles"
  by (simp add: wh_new_def normalize_guest_path_def starts_with_def sample_wfiles_def)

lemma sample_wlistener_wf: "sockets_wf (sockets (sample_wlistener data))"
  by (auto simp: sample_wlistener_def sockets_wf_def fd_wf_def SOCKET_FD_BASE_def)

end
