(* ===== verification/Windows_Socket_Properties.thy ===== *)
theory Windows_Socket_Properties
  imports Windows_Socket_Function Windows_Sample
begin

text \<open>
  The properties of the socket imports on Windows, with their witnesses at the sample host.
\<close>

subsection \<open>Timeouts\<close>

text \<open>
  A socket timeout becomes the number of milliseconds meant, rounded up and limited to what
  Windows takes: for every number of seconds an \<open>i64\<close> holds, negative ones included, no step of the
  conversion overflows.
\<close>

theorem timeout_exact:
  assumes "- (2 ^ 63) \<le> s" "s < 2 ^ 63" "- (2 ^ 63) \<le> u" "u \<le> 2 ^ 63 - 1000"
  shows "guest_timeout_to_windows (timeval s u) =
    to_le_bytes 4 (word_of_int (max 0 (min 4294967295 (s * 1000 + (u + 999) div 1000))) :: u32)"
  using guest_timeout_eq [OF assms] by (simp add: timeout_millis_def)

theorem timeout_exact_witness:
  "guest_timeout_to_windows (timeval (2 ^ 63 - 1) 1) = to_le_bytes 4 (0xffffffff :: u32)"
  using timeout_exact [of "2 ^ 63 - 1" 1] by simp

lemma u32_bytes_inj: "to_le_bytes 4 a = to_le_bytes 4 b \<longleftrightarrow> a = (b :: u32)"
proof
  assume "to_le_bytes 4 a = to_le_bytes 4 b"
  then have "(from_le_bytes (to_le_bytes 4 a) :: u32) = from_le_bytes (to_le_bytes 4 b)" by (rule arg_cong)
  then show "a = b" by (simp add: from_to_le_bytes_word)
qed simp

text \<open>
  C28: a timeout of at least zero that is well formed (fewer than a million microseconds) is read back
  by the guest as at least what it set and less than a millisecond more, as long as it is at most the
  4294967.295 seconds that Windows can hold; a longer one is read back as these.  A timeout that is not
  zero never becomes zero, which Winsock takes for no timeout at all.
\<close>

theorem timeout_round_trip:
  assumes "0 \<le> s" "s < 2 ^ 63" "0 \<le> u" "u < 1000000"
  shows "\<exists>s' u'. windows_timeout_to_guest (guest_timeout_to_windows (timeval s u)) 16 = timeval s' u' \<and>
    0 \<le> u' \<and> u' < 1000000 \<and>
    (if s * 1000000 + u \<le> 4294967295000
     then s * 1000000 + u \<le> s' * 1000000 + u' \<and> s' * 1000000 + u' < s * 1000000 + u + 1000
     else s' = 4294967 \<and> u' = 295000) \<and>
    (0 < s * 1000000 + u \<longrightarrow> guest_timeout_to_windows (timeval s u) \<noteq> to_le_bytes 4 (0 :: u32))"
proof -
  define n where "n = timeout_millis s u"
  have eq: "n = min 4294967295 (s * 1000 + (u + 999) div 1000)"
    using assms unfolding n_def timeout_millis_def by (intro max_absorb2) simp
  then have n: "0 \<le> n" "n < 2 ^ 32" using assms by (simp_all add: min_def)
  have w: "guest_timeout_to_windows (timeval s u) = to_le_bytes 4 (word_of_int n :: u32)"
    unfolding n_def using assms by (intro guest_timeout_eq) simp_all
  have g: "windows_timeout_to_guest (guest_timeout_to_windows (timeval s u)) 16 =
      timeval (n div 1000) (n mod 1000 * 1000)"
    unfolding w using n by (intro windows_timeout_eq) simp_all
  have total: "n div 1000 * 1000000 + n mod 1000 * 1000 = n * 1000"
    using div_mult_mod_eq [of n 1000] by linarith
  have bounds: "if s * 1000000 + u \<le> 4294967295000
     then s * 1000000 + u \<le> n * 1000 \<and> n * 1000 < s * 1000000 + u + 1000 else n = 4294967295"
    unfolding eq using assms by (simp add: min_def) linarith
  have pos: "word_of_int n \<noteq> (0 :: u32)" if "0 < s * 1000000 + u"
  proof
    assume "word_of_int n = (0 :: u32)"
    then have "uint (word_of_int n :: u32) = 0" by simp
    then have "n = 0" using n by (simp add: unsigned_of_int take_bit_int_eq_self)
    with that bounds show False by (simp split: if_splits)
  qed
  show ?thesis
    unfolding g using bounds total pos
    by (intro exI [of _ "n div 1000"] exI [of _ "n mod 1000 * 1000"]) (auto simp: w u32_bytes_inj split: if_splits)
qed

theorem timeout_round_trip_witness:
  "(\<exists>s' u'. windows_timeout_to_guest (guest_timeout_to_windows (timeval 0 1)) 16 = timeval s' u' \<and> s' * 1000000 + u' < 1001) \<and>
   windows_timeout_to_guest (guest_timeout_to_windows (timeval 5000000 0)) 16 = timeval 4294967 295000"
  using timeout_round_trip [of 0 1] timeout_round_trip [of 5000000 0] by auto

subsection \<open>Polling\<close>

text \<open>
  C18: a successful \<open>poll\<close> asked Winsock for exactly the sockets of the guest's array, entry by entry,
  with the events in Winsock's encoding, and stored what Winsock answered, in the guest's encoding,
  in the \<open>revents\<close> field of each entry; an entry with a negative descriptor gets 0, and no other byte
  of the guest's memory changed.  The memory is at most 2 GiB large, so that no pointer of the array is
  negative, and Winsock leaves a code that is not zero whenever it fails.
\<close>

theorem win_poll_reports:
  assumes "wimport_poll win p n t st = (Return r, st')" "0 \<le> sint r"
    "mem_view (memory st) = Some data" "length data \<le> 2147483648" "ws_poll_failure_law win"
  shows "\<exists>entries stored data'.
    list_all2 (win_poll_entry win (sockets st))
      (chunks_exact8 (subslice data (nat (sint p)) (nat (sint p) + 8 * nat (sint n)))) entries \<and>
    ws_WSAPoll win (map snd entries) t (kernel (os st)) = ((r, stored), kernel (os st')) \<and>
    mem_view (memory st') = Some data' \<and>
    revents_stored data (nat (sint p))
      (map (guest_revents win) (zip (map fst entries) (fill (map (wp_revents \<circ> snd) entries) stored))) data'"
  using win_poll_Return [OF assms] by metis

theorem win_poll_reports_witness:
  "\<exists>st' data'. wimport_poll sample_win 0 1 0 (sample_wlistener [0x10, 0x27, 0, 0, 1, 0, 9, 9]) = (Return 1, st') \<and>
     mem_view (memory st') = Some data' \<and> length data' = 8"
proof -
  let ?st = "sample_wlistener [0x10, 0x27, 0, 0, 1, 0, 9, 9]"
  let ?call = "wimport_poll sample_win 0 1 0 ?st"
  have f: "fst ?call = Return 1"
    by (simp add: wimport_poll_def checked_poll_count_def usize_of_i32_def MAX_POLL_FDS_def read_guest_def checked_range_eq
        len_ok_def MAX_IO_LEN_def subslice_def ws_get_def sample_win_def fill_def write_guest_def i32_of_usize_def
        Let_def sample_wlistener_def sample_whost_def sample_wsocket_def guest_poll_events_to_windows_def guest_poll_consts)
  from f have e: "?call = (Return 1, snd ?call)" by (simp add: prod_eq_iff)
  have m: "mem_view (memory ?st) = Some [0x10, 0x27, 0, 0, 1, 0, 9, 9]"
    by (simp add: sample_wlistener_def sample_whost_def)
  have l: "ws_poll_failure_law sample_win" by (simp add: ws_poll_failure_law_def sample_win_def)
  have "\<exists>data'. mem_view (memory (snd ?call)) = Some data' \<and> length data' = 8"
    using win_poll_reports [OF e _ m _ l] by (auto simp: revents_stored_def)
  with e show ?thesis by blast
qed

text \<open>
  Of the events a guest asks for, the three that exist in both encodings survive the translation to
  Winsock and back, and no other is added.
\<close>

theorem poll_events_round_trip:
  assumes "ws_events_ok win"
  shows "windows_poll_events_to_guest win (guest_poll_events_to_windows win e) = e AND 7"
  using assms by (rule poll_events_there_and_back)

lemma sample_events_ok: "ws_events_ok sample_win"
proof -
  have "ws_poll_bit a \<noteq> 0" for a by (cases a) simp_all
  moreover have "a \<noteq> b \<longrightarrow> ws_poll_bit a AND ws_poll_bit b = 0" for a b by (cases a; cases b) simp_all
  ultimately show ?thesis by (simp add: ws_events_ok_def sample_win_def)
qed

theorem poll_events_round_trip_witness:
  "windows_poll_events_to_guest sample_win (guest_poll_events_to_windows sample_win 0x0d) = 5"
  using poll_events_round_trip [OF sample_events_ok, of "0x0d"] by simp

subsection \<open>Connections\<close>

text \<open>
  A successful \<open>accept\<close> returns the next guest descriptor, maps it to the accepted socket with the
  domains and the blocking mode of the listening socket, and stores the length of the address,
  which fits the guest's buffer.
\<close>

theorem win_accept_registers:
  assumes "wimport_accept win fd ap lp st = (Return r, st')" "0 \<le> sint r"
    "hs_sockets (sockets st) fd = Some v" "read_u32 (memory st) lp = Inr n"
    "ws_accept win (raw_socket v) n (kernel (os st)) = ((raw, stored, m), s)" "raw \<noteq> ws_INVALID_SOCKET win"
  shows "r = hs_next_fd (sockets st) \<and>
    hs_sockets (sockets st') r = Some \<lparr>raw_socket = raw, ws_guest_domain = ws_guest_domain v,
      ws_host_domain = ws_host_domain v, status_flags = status_flags v\<rparr> \<and>
    0 \<le> sint m \<and> nat (sint m) \<le> unat n \<and> read_u32 (memory st') lp = Inr m"
  using win_accept_success [OF assms] by blast

lemma sample_win_accept:
  "ws_accept sample_win 100 n (sk_init\<lparr>sk_open := [100]\<rparr>) =
     ((101, take (nat (sint n)) ([2, 0] @ replicate 14 1), 16), sk_init\<lparr>sk_open := [101, 100]\<rparr>)"
  by (simp add: sample_win_def sk_socket_def fresh_in_def sk_init_def)

definition sample_waccept_memory :: bytes where
  "sample_waccept_memory = [16, 0, 0, 0] @ replicate 16 0"

lemma sample_len_16: "read_u32 (PlainMemory sample_waccept_memory) 0 = Inr 16"
  by (simp add: read_u32_def read_guest_def checked_range_eq len_ok_def MAX_IO_LEN_def subslice_def
      sample_waccept_memory_def)

lemma sample_wlistener_simps [simp]:
  "memory (sample_wlistener data) = PlainMemory data"
  "hs_sockets (sockets (sample_wlistener data)) = [10000 \<mapsto> sample_wsocket]"
  "hs_next_fd (sockets (sample_wlistener data)) = 10001"
  "kernel (os (sample_wlistener data)) = sk_init\<lparr>sk_open := [100]\<rparr>"
  "winsock (os (sample_wlistener data)) = Some (Inr ())"
  "network_allowed (sample_wlistener data)"
  "raw_socket sample_wsocket = 100" "ws_guest_domain sample_wsocket = 2"
  "ws_host_domain sample_wsocket = 2" "status_flags sample_wsocket = 0"
  by (simp_all add: sample_wlistener_def sample_whost_def sample_wsocket_def)

theorem win_accept_registers_witness:
  "\<exists>st'. wimport_accept sample_win 10000 4 0 (sample_wlistener sample_waccept_memory) = (Return 10001, st') \<and>
     map_option raw_socket (hs_sockets (sockets st') 10001) = Some 101 \<and> read_u32 (memory st') 0 = Inr 16"
proof -
  let ?st = "sample_wlistener sample_waccept_memory"
  let ?call = "wimport_accept sample_win 10000 4 0 ?st"
  have inv: "ws_INVALID_SOCKET sample_win = - 1" by (simp add: sample_win_def)
  have q: "read_sockaddr_len (PlainMemory sample_waccept_memory) 0 = Inr 16"
    using read_sockaddr_len_ok [OF sample_len_16] by (simp add: MAX_IO_LEN_def)
  have len: "length sample_waccept_memory = 20" by (simp add: sample_waccept_memory_def)
  have "fst ?call = Return 10001"
    by (simp add: wimport_accept_def ws_get_def q inv sample_win_accept ws_insert_def fill_def slice_to_def
        i32_as_usize_nonneg len write_guest_def write_guest_u32_def checked_range_eq len_ok_def MAX_IO_LEN_def i32_of_usize_def Let_def)
  then have e: "?call = (Return 10001, snd ?call)" by (simp add: prod_eq_iff)
  from win_accept_registers [OF e, of sample_wsocket 16] sample_len_16 sample_win_accept [of 16] inv
  have "map_option raw_socket (hs_sockets (sockets (snd ?call)) 10001) = Some 101 \<and> read_u32 (memory (snd ?call)) 0 = Inr 16"
    by simp
  with e show ?thesis by blast
qed

text \<open>
  When Winsock reports a length that does not fit the guest's buffer, \<open>accept\<close> answers \<open>EIO\<close>
  and closes the accepted socket: no socket is open that was not before, nothing else changes.
\<close>

theorem win_accept_oversized_closes:
  assumes "winsock_laws win opens" "hs_sockets (sockets st) fd = Some v" "read_u32 (memory st) lp = Inr n"
    "unat n \<le> MAX_IO_LEN" "ws_accept win (raw_socket v) n (kernel (os st)) = ((raw, stored, m), s)"
    "raw \<noteq> ws_INVALID_SOCKET win" "sint m < 0 \<or> unat n < nat (sint m)"
  shows "\<exists>s'. wimport_accept win fd ap lp st = (Return (neg_errno EIO), set_kernel st s') \<and>
    opens s' = opens (kernel (os st))"
proof -
  have "raw \<notin> opens (kernel (os st))" "opens s = insert raw (opens (kernel (os st)))"
    using winsock_laws_accept [OF assms(1,5)] assms(6) by (simp_all add: ws_opens_one_def)
  then have "opens (snd (ws_closesocket win raw s)) = opens (kernel (os st))"
    by (simp add: winsock_laws_close [OF assms(1)])
  with win_accept_oversized [OF assms(2-)] show ?thesis by blast
qed

theorem win_accept_oversized_closes_witness:
  "fst (wimport_accept sample_win 10000 4 0 (sample_wlistener [4, 0, 0, 0, 0, 0, 0, 0])) = Return (neg_errno EIO)"
proof -
  have l: "read_u32 (PlainMemory [4, 0, 0, 0, 0, 0, 0, 0]) 0 = Inr 4"
    by (simp add: read_u32_def read_guest_def checked_range_eq len_ok_def MAX_IO_LEN_def subslice_def)
  have i: "(101 :: raw_sock) \<noteq> ws_INVALID_SOCKET sample_win" by (simp add: sample_win_def)
  from win_accept_oversized_closes [OF sample_winsock_laws, of "sample_wlistener [4, 0, 0, 0, 0, 0, 0, 0]" 10000
      sample_wsocket 0 4 101 _ 16 _ 4] l i sample_win_accept [of 4]
  show ?thesis by (auto simp: MAX_IO_LEN_def)
qed

subsection \<open>Flags and pending errors\<close>

text \<open>
  After \<open>fcntl(F_SETFL, arg)\<close> succeeds, Winsock was asked for the blocking mode that \<open>arg\<close> names,
  \<open>F_GETFL\<close> reads back exactly \<open>O_NONBLOCK\<close> or nothing, and no other socket changed.
\<close>

theorem win_fcntl_round_trip:
  assumes "hs_sockets (sockets st) fd = Some v"
    "ws_ioctlsocket win (raw_socket v) (wsc win W_FIONBIO) (if arg AND GUEST_O_NONBLOCK \<noteq> 0 then 1 else 0)
       (kernel (os st)) = (rc, s)" "rc \<noteq> wsc win W_SOCKET_ERROR"
  shows "\<exists>st'. wimport_fcntl win fd GUEST_F_SETFL arg st = (Return 0, st') \<and> kernel (os st') = s \<and>
    wimport_fcntl win fd GUEST_F_GETFL any st' =
      (Return (if arg AND GUEST_O_NONBLOCK \<noteq> 0 then GUEST_O_NONBLOCK else 0), st') \<and>
    map_option raw_socket (hs_sockets (sockets st') fd) = Some (raw_socket v) \<and>
    (\<forall>other. other \<noteq> fd \<longrightarrow> hs_sockets (sockets st') other = hs_sockets (sockets st) other)"
  using assms by (rule win_fcntl_set_get)

theorem win_fcntl_round_trip_witness:
  "\<exists>st'. wimport_fcntl sample_win 10000 GUEST_F_SETFL 4 (sample_wlistener []) = (Return 0, st') \<and>
     wimport_fcntl sample_win 10000 GUEST_F_GETFL 0 st' = (Return 4, st')"
proof -
  have k: "ws_ioctlsocket sample_win 100 c v s = (0, s)" for c v s by (simp add: sample_win_def)
  have e: "(0 :: i32) \<noteq> wsc sample_win W_SOCKET_ERROR" by (simp add: sample_win_def)
  have "(4 :: i32) AND GUEST_O_NONBLOCK \<noteq> 0" by (simp add: GUEST_O_NONBLOCK_def)
  then show ?thesis
    using win_fcntl_round_trip [of "sample_wlistener []" 10000 sample_wsocket sample_win 4 0, OF _ _ e, of _ 0] k
    by (auto simp: GUEST_O_NONBLOCK_def)
qed

text \<open>
  C35: \<open>getsockopt(SO_ERROR)\<close> gives the guest 0 when no error is pending, and for each Winsock error that
  the code names the guest errno of that name; a code that it does not name becomes \<open>EIO\<close>.
\<close>

theorem win_so_error:
  assumes "wimport_getsockopt win fd level GUEST_SO_ERROR vp lp st = (Return 0, st')"
    "hs_sockets (sockets st) fd = Some v" "win_is_guest_socket_level level" "read_u32 (memory st) lp = Inr 4"
    "ws_getsockopt win (raw_socket v) (wsc win W_SOL_SOCKET) (wsc win W_SO_ERROR) 4 (kernel (os st))
       = ((rc, to_le_bytes 4 code, 4), s)"
    "rc \<noteq> wsc win W_SOCKET_ERROR" "sint vp + 4 \<le> sint lp \<or> sint lp + 4 \<le> sint vp"
    "inj (ws_err win)" "0 \<notin> range (ws_err win)"
  shows "(code = 0 \<longrightarrow> read_u32 (memory st') vp = Inr 0) \<and>
    (\<forall>e. code = ws_err win e \<longrightarrow> read_u32 (memory st') vp = Inr (guest_errno_of_wsa e))"
proof -
  have "ws_err win e \<noteq> 0" for e using assms(9) by (metis rangeI)
  then show ?thesis using win_so_error_value [OF assms(1-7)] socket_errno_name [OF assms(8)] by auto
qed

lemma wsa_code_inj: "inj wsa_code"
proof (rule injI)
  fix a b :: wsa_error assume "wsa_code a = wsa_code b" then show "a = b" by (cases a; cases b) simp_all
qed

lemma wsa_code_nonzero: "0 \<notin> range wsa_code"
proof
  assume "0 \<in> range wsa_code"
  then obtain e where "wsa_code e = 0" by (metis imageE)
  then show False by (cases e) simp_all
qed

theorem win_so_error_witness:
  "\<exists>st'. wimport_getsockopt sample_win 10000 1 GUEST_SO_ERROR 4 0 (sample_wlistener [4, 0, 0, 0, 1, 1, 1, 1]) = (Return 0, st') \<and>
     read_u32 (memory st') 4 = Inr 0"
proof -
  let ?st = "sample_wlistener [4, 0, 0, 0, 1, 1, 1, 1]"
  let ?call = "wimport_getsockopt sample_win 10000 1 GUEST_SO_ERROR 4 0 ?st"
  have z: "to_le_bytes 4 (0 :: i32) = [0, 0, 0, 0]" by (simp add: numeral_eq_Suc)
  have lvl: "win_is_guest_socket_level 1" by (simp add: win_is_guest_socket_level_def)
  have l: "read_u32 (PlainMemory [4, 0, 0, 0, 1, 1, 1, 1]) 0 = Inr 4"
    by (simp add: read_u32_def read_guest_def checked_range_eq len_ok_def MAX_IO_LEN_def subslice_def)
  have q: "read_sockaddr_len (PlainMemory [4, 0, 0, 0, 1, 1, 1, 1]) 0 = Inr 4"
    using read_sockaddr_len_ok [OF l] by (simp add: MAX_IO_LEN_def)
  have k: "ws_getsockopt sample_win r a b c s = ((0, [0, 0, 0, 0], 4), s)" for r a b c s
    by (simp add: sample_win_def)
  have c: "wsc sample_win W_SOCKET_ERROR = - 1" by (simp add: sample_win_def)
  have o: "option_result sample_win 1 GUEST_SO_ERROR 4 [0, 0, 0, 0] = [0, 0, 0, 0]"
    using option_result_so_error [OF lvl, of sample_win 0] by (simp add: z)
  have t: "\<not> is_guest_timeout 1 GUEST_SO_ERROR" by (simp add: is_guest_timeout_def guest_option_consts)
  have "fst ?call = Return 0"
    by (simp add: wimport_getsockopt_def ws_get_def q k c o t fill_def slice_to_def i32_as_usize_nonneg
        write_guest_def write_guest_u32_def checked_range_eq len_ok_def MAX_IO_LEN_def i32_of_usize_def case_prod_beta Let_def)
  then have e: "?call = (Return 0, snd ?call)" by (simp add: prod_eq_iff)
  have err: "inj (ws_err sample_win)" "0 \<notin> range (ws_err sample_win)"
    using wsa_code_inj wsa_code_nonzero by (simp_all add: sample_win_def)
  have "read_u32 (memory (snd ?call)) 4 = Inr 0"
    using win_so_error [OF e, of sample_wsocket 0 0 "sk_init\<lparr>sk_open := [100]\<rparr>"] lvl l k c err by (simp add: z)
  with e show ?thesis by blast
qed

text \<open>
  C36: a socket that cannot be made non-blocking is closed, and only then is the error code read.
  Closing may reset the code to 0, as Winsock documents for calls that succeed; the import then
  returns 0, which the guest takes for a socket with descriptor 0, and nothing is registered.
\<close>

theorem socket_failure_read_late:
  assumes "network_allowed st" "winsock (os st) = Some (Inr ())"
    "win_normalize_socket_type win ty = Inr \<lparr>nwt_ty = hty, nwt_nonblocking = True\<rparr>"
    "ws_socket win (win_normalize_socket_domain win d) hty p (kernel (os st)) = (raw, s1)"
    "raw \<noteq> ws_INVALID_SOCKET win"
    "ws_ioctlsocket win raw (wsc win W_FIONBIO) 1 s1 = (wsc win W_SOCKET_ERROR, s2)"
    "ws_last_error win (snd (ws_closesocket win raw s2)) = 0"
  shows "\<exists>st'. wimport_socket win d ty p st = (Return 0, st') \<and> sockets st' = sockets st"
  using win_socket_late_error [OF assms(1-6)] assms(7) by (simp add: neg_last_socket_errno_def neg_errno_def)

theorem socket_failure_read_late_witness:
  "fst (wimport_socket sample_win 2 0x801 0 (sample_wlistener [])) = Return 0"
proof -
  have ty: "win_normalize_socket_type sample_win 0x801 = Inr \<lparr>nwt_ty = 1, nwt_nonblocking = True\<rparr>"
    by (simp add: win_normalize_socket_type_def win_alt_consts sample_win_def Let_def)
  have s: "ws_socket sample_win d t p (sk_init\<lparr>sk_open := [100]\<rparr>) = (101, sk_init\<lparr>sk_open := [101, 100]\<rparr>)" for d t p
    by (simp add: sample_win_def sk_socket_def fresh_in_def sk_init_def)
  have i: "ws_ioctlsocket sample_win 101 c v x = (wsc sample_win W_SOCKET_ERROR, x\<lparr>sk_error := 10022\<rparr>)" for c v x
    by (simp add: sample_win_def)
  have c: "ws_last_error sample_win (snd (ws_closesocket sample_win r x)) = 0" for r x by (simp add: sample_win_def)
  have inv: "(101 :: raw_sock) \<noteq> ws_INVALID_SOCKET sample_win" by (simp add: sample_win_def)
  from socket_failure_read_late [OF _ _ ty _ inv i c, of "sample_wlistener []" 2 0] s show ?thesis by auto
qed

end
