(* ===== verification/Windows_File_Function.thy ===== *)
theory Windows_File_Function
  imports Windows_File_Safety
begin

text \<open>
  What the file imports compute on Windows: the host path a guest path resolves to, against the same
  specification on lists of names as on Unix, and the behaviour and the names of file locks.
\<close>

subsection \<open>Path resolution\<close>

definition wpreopens_ok :: "win_preopen list \<Rightarrow> bool" where
  "wpreopens_ok ps \<longleftrightarrow> list_all (\<lambda>p. normalize_guest_path (wpm_guest p) = Inr (wpm_guest p)) ps"

definition wpreopen_view :: "win_preopen \<Rightarrow> guest_view \<times> win_path" where
  "wpreopen_view p = (the (guest_view (wpm_guest p)), wpm_host p)"

text \<open>The first preopen whose names are a prefix decides; the remaining names are pushed one by one.\<close>

fun win_resolve_spec :: "(guest_view \<times> win_path) list \<Rightarrow> guest_view \<Rightarrow> win_path option" where
  "win_resolve_spec [] v = None"
| "win_resolve_spec ((g, host) # ps) v =
     (case preopen_match g v of
        Some ns \<Rightarrow> Some (fold (\<lambda>n path. win_push path n) ns host)
      | None \<Rightarrow> win_resolve_spec ps v)"

lemma win_join_suffix_eq: "win_join_suffix root s = fold (\<lambda>n path. win_push path n) (names_of s) root"
proof -
  have "fold (\<lambda>c path. if c \<noteq> '''' \<and> c \<noteq> ''.'' then win_push path c else path) cs r =
      fold (\<lambda>n path. win_push path n) (filter (\<lambda>c. c \<noteq> '''' \<and> c \<noteq> ''.'') cs) r" for cs r
    by (induction cs arbitrary: r) auto
  then show ?thesis by (simp add: win_join_suffix_def names_of_def)
qed

lemma win_resolve_in_spec:
  assumes "wpreopens_ok ps" "list_all good_name ns"
  shows "win_resolve_in ps (render a ns) =
     (case win_resolve_spec (map wpreopen_view ps) (a, ns) of None \<Rightarrow> Inl ENOTCAPABLE | Some h \<Rightarrow> Inr h)"
  using assms(1)
proof (induction ps)
  case (Cons p ps)
  from Cons.prems have n: "normalize_guest_path (wpm_guest p) = Inr (wpm_guest p)" by (simp add: wpreopens_ok_def)
  obtain ga gs where g: "guest_view (wpm_guest p) = Some (ga, gs)" "list_all good_name gs"
      "wpm_guest p = render ga gs"
    by (rule normalized_view [OF n])
  have m: "map_option names_of (preopen_suffix (wpm_guest p) (render a ns)) = preopen_match (ga, gs) (a, ns)"
    unfolding g(3) by (rule preopen_suffix_match [OF g(2) assms(2)])
  have ok: "wpreopens_ok ps" using Cons.prems by (simp add: wpreopens_ok_def)
  show ?case
  proof (cases "preopen_suffix (wpm_guest p) (render a ns)")
    case None
    with m ok Cons.IH g(1) show ?thesis by (simp add: wpreopen_view_def del: preopen_match.simps)
  next
    case (Some sfx)
    with m have "preopen_match (ga, gs) (a, ns) = Some (names_of sfx)" by simp
    with Some g(1) show ?thesis
      by (simp add: wpreopen_view_def win_join_suffix_eq del: preopen_match.simps)
  qed
qed simp

lemma wh_resolve_spec:
  assumes "wpreopens_ok (wh_preopens t)"
  shows "wh_resolve t path =
     (if path = '''' then Inl ENOENT
      else case Option.bind (guest_view path) (win_resolve_spec (map wpreopen_view (wh_preopens t))) of
        None \<Rightarrow> Inl ENOTCAPABLE | Some h \<Rightarrow> Inr h)"
proof (cases "guest_view path")
  case None
  then show ?thesis by (simp add: wh_resolve_def normalize_guest_path_eq)
next
  case (Some v)
  obtain a ns where v: "v = (a, ns)" by (cases v)
  with guest_view_ok [OF Some] have "list_all good_name ns" by simp
  with Some v show ?thesis
    by (simp add: wh_resolve_def normalize_guest_path_eq win_resolve_in_spec [OF assms] del: render.simps)
qed

lemma win_resolve_spec_Some:
  "win_resolve_spec ps v = Some h \<Longrightarrow>
   \<exists>g host ns. (g, host) \<in> set ps \<and> preopen_match g v = Some ns \<and> h = fold (\<lambda>n path. win_push path n) ns host"
proof (induction ps)
  case (Cons p ps)
  obtain g host where p: "p = (g, host)" by (cases p)
  show ?case
  proof (cases "preopen_match g v")
    case None
    with Cons p show ?thesis by auto
  next
    case (Some ns)
    with Cons.prems p show ?thesis by (intro exI [of _ g] exI [of _ host] exI [of _ ns]) auto
  qed
qed simp

lemma preopen_match_subset: "preopen_match g v = Some ns \<Longrightarrow> set ns \<subseteq> set (snd v)"
  by (cases g; cases v) (auto split: if_splits dest: in_set_dropD)

lemma fold_push_plain:
  "win_absolute path \<Longrightarrow> list_all plain_name ns \<Longrightarrow>
   fold (\<lambda>n path. win_push path n) ns path = path @ map WNormal ns"
  by (induction ns arbitrary: path) (simp_all add: win_push_plain win_absolute_append)

text \<open>With names that are plain on Windows, resolution stays below the preopened directory.\<close>

lemma wh_resolve_plain:
  assumes "wpreopens_ok (wh_preopens t)" "\<And>p. p \<in> set (wh_preopens t) \<Longrightarrow> win_absolute (wpm_host p)"
    "wh_resolve t path = Inr h" "guest_view path = Some (a, ns)" "list_all plain_name ns"
  shows "\<exists>p \<in> set (wh_preopens t). \<exists>ms. h = wpm_host p @ map WNormal ms \<and> list_all plain_name ms"
proof -
  from assms(3,4) have "win_resolve_spec (map wpreopen_view (wh_preopens t)) (a, ns) = Some h"
    by (auto simp: wh_resolve_spec [OF assms(1)] split: if_splits option.splits)
  from win_resolve_spec_Some [OF this] obtain g host ms where
    m: "(g, host) \<in> set (map wpreopen_view (wh_preopens t))" "preopen_match g (a, ns) = Some ms"
      "h = fold (\<lambda>n path. win_push path n) ms host" by blast
  then obtain p where p: "p \<in> set (wh_preopens t)" "host = wpm_host p" by (auto simp: wpreopen_view_def)
  from preopen_match_subset [OF m(2)] assms(5) have plain: "list_all plain_name ms" by (auto simp: list_all_iff)
  then show ?thesis using fold_push_plain [OF assms(2) [OF p(1)] plain] m(3) p by auto
qed

lemma wh_map_preopens_ok:
  "wh_map_preopens ps acc = Inr rs \<Longrightarrow> wpreopens_ok acc \<Longrightarrow> wpreopens_ok rs"
proof (induction ps acc rule: wh_map_preopens.induct)
  case (2 host guest ps acc)
  then show ?case
    by (cases "normalize_guest_path guest") (auto simp: wpreopens_ok_def normalize_idem)
qed simp

lemma dot_normal: "normalize_guest_path ''.'' = Inr ''.''"
  by (simp add: normalize_guest_path_def starts_with_def)

lemma wh_new_preopens:
  assumes "wh_new no_default ps cwd = Inr t"
  shows "wpreopens_ok (wh_preopens t)"
proof -
  from assms obtain front mapped where
    front: "front = (if no_default then [] else [\<lparr>wpm_guest = ''.'', wpm_host = projr cwd\<rparr>])"
    and m: "wh_map_preopens ps front = Inr mapped"
    and t: "wh_preopens t = sort_key (\<lambda>p. - int (length (wpm_guest p))) mapped"
    by (auto simp: wh_new_def Let_def dot_normal split: sum.splits if_splits)
  have "wpreopens_ok front" by (simp add: front wpreopens_ok_def dot_normal)
  from wh_map_preopens_ok [OF m this] show ?thesis by (simp add: t wpreopens_ok_def list_all_iff)
qed

text \<open>The table of a host started without \<^verbatim>\<open>--preopen\<close> options.\<close>

lemma wh_new_default:
  assumes "wh_new False [] (Inr cwd) = Inr t"
  shows "wh_preopens t = [\<lparr>wpm_guest = ''.'', wpm_host = cwd\<rparr>]"
  using assms by (auto simp: wh_new_def dot_normal)

lemma relative_name_view:
  assumes "CHR ''/'' \<notin> set n" "n \<noteq> ''''" "n \<noteq> ''.''" "n \<noteq> ''..''"
  shows "guest_view n = Some (False, [n])"
  using assms by (cases n) (auto simp: guest_view_def split_on_single starts_with_def)

lemma default_resolves_name:
  assumes "wh_new False [] (Inr cwd) = Inr t" "CHR ''/'' \<notin> set n" "n \<noteq> ''''" "n \<noteq> ''.''" "n \<noteq> ''..''"
  shows "wh_resolve t n = Inr (win_push cwd n)"
proof -
  have "guest_view ''.'' = Some (False, [])" by (simp add: guest_view_def starts_with_def)
  then show ?thesis
    using assms(3) by (simp add: wh_resolve_spec [OF wh_new_preopens [OF assms(1)]] wh_new_default [OF assms(1)]
        relative_name_view [OF assms(2-)] wpreopen_view_def)
qed

subsection \<open>File locks\<close>

lemma lock_again:
  assumes "wh_lock_paths t fd = Some p" "wh_locks t p \<noteq> None"
  shows "wh_lock_exclusive fs t fd s = (0, t, s)"
  using assms by (auto simp: wh_lock_exclusive_def)

text \<open>What the call answers, by the outcome of \<open>CreateFileMappingW\<close>.\<close>

lemma lock_first:
  assumes "wh_lock_paths t fd = Some p" "wh_locks t p = None" "wh_files t fd = Some h"
    "wf_CreateFileMappingW fs (wf_INVALID_HANDLE_VALUE fs) (wfc fs W_PAGE_READWRITE) 0 1 (windows_lock_name fs p) s = (x, s')"
  shows "wh_lock_exclusive fs t fd s =
    (if x = 0 then (neg_errno (from_windows_error (wf_last_error fs s')), t, s')
     else if wf_last_error fs s' = wfc fs W_ERROR_ALREADY_EXISTS then (neg_errno EAGAIN, t, wf_CloseHandle fs x s')
     else (0, t\<lparr>wh_locks := (wh_locks t)(p \<mapsto> \<lparr>lock_handle = x\<rparr>)\<rparr>, s'))"
  using assms by (simp add: wh_lock_exclusive_def win_io_errno_def last_os_error_def)

lemma lock_taken:
  assumes "wh_lock_exclusive fs t fd s = (0, t', s')"
  shows "\<exists>p. wh_lock_paths t fd = Some p \<and> wh_lock_paths t' = wh_lock_paths t \<and> wh_locks t' p \<noteq> None"
proof -
  have neg: "neg_errno e \<noteq> 0" if "is_guest_errno e" for e using neg_errno_neg [OF that] by auto
  show ?thesis
    using assms neg
    by (auto simp: wh_lock_exclusive_def Let_def case_prod_beta split: option.splits if_splits)
qed

subsection \<open>Names of locks\<close>

lemma hex_digit_inj: "i < 16 \<Longrightarrow> j < 16 \<Longrightarrow> hex_digit i = hex_digit j \<longleftrightarrow> i = j"
proof -
  have "distinct ''0123456789abcdef''" by simp
  moreover assume "i < 16" "j < 16"
  ultimately show ?thesis unfolding hex_digit_def by (subst nth_eq_iff_index_eq) simp_all
qed

lemma nibble_bound: "unat (x AND 15 :: u64) < 16"
proof -
  have "x AND 15 = take_bit 4 x" by (simp add: take_bit_eq_mask mask_eq_exp_minus_1)
  then have "unat (x AND 15) = take_bit 4 (unat x)" by (simp add: unsigned_take_bit_eq)
  then show ?thesis using take_bit_nat_less_exp [of 4 "unat x"] by simp
qed

text \<open>Sixteen hexadecimal digits determine the number.\<close>

lemma hex16_inj: "hex16 x = hex16 y \<longleftrightarrow> x = y"
proof
  assume "hex16 x = hex16 y"
  then have "\<forall>i \<in> {0..<16}. hex_digit (unat (drop_bit (4 * i) x AND 15)) = hex_digit (unat (drop_bit (4 * i) y AND 15))"
    by (simp add: hex16_def)
  then have n: "drop_bit (4 * i) x AND 15 = drop_bit (4 * i) y AND 15" if "i < 16" for i
    using that by (intro word_unat_eq_iff [THEN iffD2]) (simp add: hex_digit_inj nibble_bound)
  have m: "(15 :: u64) = mask 4" by (simp add: mask_eq_exp_minus_1)
  show "x = y"
  proof (rule bit_word_eqI)
    fix k :: nat
    assume "k < LENGTH(64)"
    then have "k div 4 < 16" by simp
    from n [OF this] have "bit (drop_bit (4 * (k div 4)) x AND 15) (k mod 4) = bit (drop_bit (4 * (k div 4)) y AND 15) (k mod 4)"
      by simp
    moreover have "k mod 4 < 64" by (rule order.strict_trans [OF mod_less_divisor]) simp_all
    ultimately show "bit x k = bit y k" using \<open>k < LENGTH(64)\<close> unfolding m by (simp add: bit_simps)
  qed
qed simp

lemma char_u16_inj: "(of_nat (of_char c) :: u16) = of_nat (of_char d) \<longleftrightarrow> c = d"
proof
  assume "(of_nat (of_char c) :: u16) = of_nat (of_char d)"
  then have "unat (of_nat (of_char c) :: u16) = unat (of_nat (of_char d) :: u16)" by simp
  moreover have "unat (of_nat (of_char e) :: u16) = of_char e" for e :: char
  proof -
    have "of_char e < (2 ^ 16 :: nat)" using nat_of_char_less_256 [of e] by (rule order.strict_trans) simp
    then show ?thesis by (simp add: unsigned_of_nat take_bit_nat_eq_self)
  qed
  ultimately show "c = d" by simp
qed simp

lemma lock_name_eq_iff:
  "windows_lock_name fs p = windows_lock_name fs q \<longleftrightarrow>
   lock_hash (wf_uppercase_utf16 fs p) = lock_hash (wf_uppercase_utf16 fs q)"
proof -
  have "inj (\<lambda>c. of_nat (of_char c) :: u16)" by (rule injI) (simp add: char_u16_inj)
  then show ?thesis unfolding windows_lock_name_def by (simp add: inj_map_eq_map hex16_inj)
qed

lemma lock_name_terminated:
  "length (windows_lock_name fs p) = 43" "last (windows_lock_name fs p) = 0"
  by (simp_all add: windows_lock_name_def hex16_def)

end
