(* ===== verification/Windows_Properties.thy ===== *)
theory Windows_Properties
  imports Windows_File_Function Windows_Socket_Function Windows_Sample
begin

text \<open>
  The properties of the host as a whole and of the file imports on Windows, with their witnesses at
  the sample host.
\<close>

subsection \<open>The host over time\<close>

text \<open>
  C2: in every state the Windows host can reach from its start, both descriptor tables are well
  formed, every socket, file and lock handle that a table holds is open, each raw socket and each
  file is held by one guest descriptor only, the preopened directories are those set up at the
  start, every socket's status flags are nothing or \<open>O_NONBLOCK\<close>, and a socket exists only
  once Winsock was started.
\<close>

theorem win_host_invariant:
  assumes "win_platform_ok win fs opens handles" "wh_new no_default ps cwd = Inr t" "winsock s = None"
    "win_run win fs opens handles panics (initial_state cli t m s) st"
  shows "sockets_wf (sockets st) \<and> wfiles_wf (files st) \<and>
    owned raw_socket (sockets st) \<subseteq> opens (kernel (os st)) \<and> wowned (files st) \<subseteq> handles (kernel (os st)) \<and>
    (\<forall>a b v w. hs_sockets (sockets st) a = Some v \<and> hs_sockets (sockets st) b = Some w \<and>
       raw_socket v = raw_socket w \<longrightarrow> a = b) \<and>
    (\<forall>a b h. wh_files (files st) a = Some h \<and> wh_files (files st) b = Some h \<longrightarrow> a = b) \<and>
    wh_preopens (files st) = wh_preopens t \<and>
    (\<forall>fd v. hs_sockets (sockets st) fd = Some v \<longrightarrow>
       (status_flags v = 0 \<or> status_flags v = GUEST_O_NONBLOCK) \<and> winsock (os st) = Some (Inr ()))"
proof -
  have start: "wfile_inv handles (fst (t, s), kernel (snd (t, s)))" "wowned t = {}"
    using win_files_start [OF assms(2)] by simp_all
  note inv = win_host.reached_inv [OF assms(4,1) start]
  have "win_inv st" by (rule win_inv_run [OF assms(4) win_inv_start [OF assms(3)]])
  then show ?thesis
    using inv unfolding sock_inv_def wfile_inv_def win_inv_def fst_conv snd_conv by blast
qed

definition sample_wstart :: "(nat, sample_kernel) win_host" where
  "sample_wstart = initial_state sample_wcli sample_wfiles (PlainMemory []) \<lparr>winsock = None, kernel = sk_init\<rparr>"

definition sample_wcreated :: "(nat, sample_kernel) win_host" where
  "sample_wcreated = snd (exec_wsock sample_win (C_socket 2 1 0) sample_wstart)"

lemma sample_win_run: "win_run sample_win sample_wfs sk_opens sk_handles True sample_wstart sample_wcreated"
  unfolding sample_wcreated_def
  by (rule r_into_rtranclp, rule host_step.socket_call [where r = "fst (exec_wsock sample_win (C_socket 2 1 0) sample_wstart)"
        and c = "C_socket 2 1 0"]) simp_all

theorem win_host_invariant_witness:
  "sockets_wf (sockets sample_wcreated) \<and> wfiles_wf (files sample_wcreated)"
  using win_host_invariant [OF sample_win_platform sample_wh_new _ sample_win_run [unfolded sample_wstart_def]] by simp

text \<open>
  C4: on Windows no import panics in any reachable state, and nothing is lost in any run: as long as
  the socket counter has not saturated, the sockets, files and handles that are open but not in a
  table are those that were open before the guest started.  This includes the handles of file locks
  and of flushed directories.
\<close>

theorem win_nothing_lost:
  assumes "win_platform_ok win fs opens handles" "winsock_results win" "win_read_counts fs"
    "wh_new no_default ps cwd = Inr t" "win_run win fs opens handles panics (initial_state cli t m s) st"
  shows "(\<forall>c. fst (exec_wsock win c st) \<noteq> Panic) \<and> (\<forall>fc. fst (exec_wfile fs fc st) \<noteq> Panic) \<and>
    (hs_next_fd (sockets st) \<noteq> i32_MAX \<longrightarrow>
       opens (kernel (os st)) - owned raw_socket (sockets st) = opens (kernel s) \<and>
       handles (kernel (os st)) - wowned (files st) = handles (kernel s))"
proof -
  have start: "wfile_inv handles (fst (t, s), kernel (snd (t, s)))" "wowned t = {}"
    using win_files_start [OF assms(4)] by simp_all
  show ?thesis
    using win_host.reached_stray [OF win_run_no_panic [OF assms(2,3,5)] assms(1) start]
      exec_wsock_no_panic [OF assms(2)] exec_wfile_no_panic [OF assms(3)] by blast
qed

lemma sample_wcreated_next: "hs_next_fd (sockets sample_wcreated) = 10001"
  by (simp add: sample_wcreated_def sample_wstart_def initial_state_def sample_wcli_def wimport_socket_def ensure_winsock_def
      sample_win_def win_normalize_socket_type_def win_alt_consts sk_socket_def fresh_in_def sk_init_def ws_insert_def
      hs_new_def SOCKET_FD_BASE_def i32_saturating_succ_def i32_MAX_def Let_def)

theorem win_nothing_lost_witness:
  "sk_opens (kernel (os sample_wcreated)) - owned raw_socket (sockets sample_wcreated) = {}"
proof -
  have "hs_next_fd (sockets sample_wcreated) \<noteq> i32_MAX" by (simp add: sample_wcreated_next i32_MAX_def)
  from win_nothing_lost [OF sample_win_platform sample_winsock_results sample_win_read_counts sample_wh_new
      sample_win_run [unfolded sample_wstart_def]] this
  show ?thesis by (simp add: sk_opens_def sk_init_def)
qed

text \<open>
  C32: in every state the Windows host can reach, each import answers, and its answer is a value
  that is not negative or the negation of a guest errno.
\<close>

theorem win_replies:
  assumes "win_platform_ok win fs opens handles" "winsock_results win" "win_read_counts fs"
    "wh_new no_default ps cwd = Inr t" "winsock s = None"
    "win_run win fs opens handles panics (initial_state cli t m s) st"
  shows "fst (exec_wsock win c st) \<noteq> Panic \<and> outcome_ok (fst (exec_wsock win c st)) \<and>
    fst (exec_wfile fs fc st) \<noteq> Panic \<and> val_ok (fst (exec_wfile fs fc st))"
proof -
  have start: "wfile_inv handles (fst (t, s), kernel (snd (t, s)))" "wowned t = {}"
    using win_files_start [OF assms(4)] by simp_all
  note inv = win_host.reached_inv [OF assms(6,1) start]
  have wf: "sockets_wf (sockets st)" "wfiles_wf (files st)" using inv by (simp_all add: sock_inv_def wfile_inv_def)
  have "win_inv st" by (rule win_inv_run [OF assms(6) win_inv_start [OF assms(5)]])
  then show ?thesis
    using exec_wsock_no_panic [OF assms(2)] exec_wsock_reply [OF assms(2) wf(1)]
      exec_wfile_no_panic [OF assms(3)] exec_wfile_reply [OF wf(2)] by blast
qed

theorem win_replies_witness: "outcome_ok (fst (exec_wsock sample_win (C_listen 10000 5) sample_wcreated))"
  using win_replies [OF sample_win_platform sample_winsock_results sample_win_read_counts sample_wh_new _
      sample_win_run [unfolded sample_wstart_def], of "C_listen 10000 5"] by simp

text \<open>
  C12: on Windows too a closed descriptor other than \<open>i32::MAX\<close>, which a saturated counter hands out
  again, stays closed.  After \<open>close\<close> of a socket and any further run every socket call that names it
  returns \<open>-EBADF\<close> and changes nothing; after \<open>close\<close> of a file and any further run every file call that
  names it, locking included, fails and changes nothing.  The tables are well formed, as in every
  reachable state.
\<close>

theorem win_closed_stay_closed:
  assumes "win_platform_ok win fs opens handles"
  shows "(sockets_wf (sockets st) \<and> sfd \<noteq> i32_MAX \<and> hs_sockets (sockets st) sfd = Some v \<and>
      win_run win fs opens handles panics (snd (wimport_close win sfd st)) st1 \<and> call_fd c = Some sfd \<longrightarrow>
    exec_wsock win c st1 = (Return (neg_errno EBADF), st1)) \<and>
    (wfiles_wf (files st) \<and> ffd \<noteq> i32_MAX \<and> wh_files (files st) ffd = Some h \<and>
      win_run win fs opens handles panics (snd (wimport_file_close fs ffd st)) st2 \<and> file_call_fd fc = Some ffd \<longrightarrow>
    (\<exists>e. (e = EBADF \<or> e = EINVAL \<or> e = EFAULT) \<and>
       (exec_wfile fs fc st2 = (Return (I32 (neg_errno e)), st2) \<or>
        exec_wfile fs fc st2 = (Return (I64 (scast (neg_errno e))), st2))))"
proof (intro conjI impI; elim conjE)
  assume h: "sockets_wf (sockets st)" "sfd \<noteq> i32_MAX" "hs_sockets (sockets st) sfd = Some v"
    "win_run win fs opens handles panics (snd (wimport_close win sfd st)) st1" "call_fd c = Some sfd"
  have "dead_socket sfd st1"
    by (rule win_host.run_dead(1) [OF h(4) assms closed_wsocket_dead [OF h(1,3,2)]])
  then have "hs_sockets (sockets st1) sfd = None" unfolding dead_socket_def by (rule conjunct2)
  with h(5) show "exec_wsock win c st1 = (Return (neg_errno EBADF), st1)" by (rule exec_wsock_unknown)
next
  assume h: "wfiles_wf (files st)" "ffd \<noteq> i32_MAX" "wh_files (files st) ffd = Some h"
    "win_run win fs opens handles panics (snd (wimport_file_close fs ffd st)) st2" "file_call_fd fc = Some ffd"
  have "wdead_file ffd (files st2)"
    by (rule win_host.run_dead(2) [OF h(4) assms closed_wfile_dead [OF h(1,3,2)]])
  then have "wh_files (files st2) ffd = None" "wh_lock_paths (files st2) ffd = None"
    unfolding wdead_file_def by (simp_all only:)
  with h(5) show "\<exists>e. (e = EBADF \<or> e = EINVAL \<or> e = EFAULT) \<and>
       (exec_wfile fs fc st2 = (Return (I32 (neg_errno e)), st2) \<or>
        exec_wfile fs fc st2 = (Return (I64 (scast (neg_errno e))), st2))"
    by (rule exec_wfile_unknown)
qed

definition sample_wboth :: "(nat, sample_kernel) win_host" where
  "sample_wboth = (sample_wlistener [])\<lparr>files := sample_wfiles
     \<lparr>wh_next_fd := 20001, wh_files := [20000 \<mapsto> 1], wh_lock_paths := [20000 \<mapsto> sample_cwd]\<rparr>\<rparr>"

lemma sample_wboth_ok:
  "sockets_wf (sockets sample_wboth)" "wfiles_wf (files sample_wboth)"
  "hs_next_fd (sockets sample_wboth) = 10001" "wh_next_fd (files sample_wboth) = 20001"
  "hs_sockets (sockets sample_wboth) 10000 = Some sample_wsocket" "wh_files (files sample_wboth) 20000 = Some 1"
  using sample_wlistener_wf [of "[]"]
  by (simp_all add: sample_wboth_def wfiles_wf_def fd_wf_def GUEST_FD_BASE_def) (simp_all add: sample_wlistener_def)

theorem win_closed_stay_closed_witness:
  "exec_wsock sample_win (C_listen 10000 5) (snd (wimport_close sample_win 10000 sample_wboth)) =
     (Return (neg_errno EBADF), snd (wimport_close sample_win 10000 sample_wboth)) \<and>
   (\<exists>r. exec_wfile sample_wfs (F_sync 20000 0) (snd (wimport_file_close sample_wfs 20000 sample_wboth)) =
     (Return r, snd (wimport_file_close sample_wfs 20000 sample_wboth)))"
proof -
  have n: "(10000 :: i32) \<noteq> i32_MAX" "(20000 :: i32) \<noteq> i32_MAX" by (simp_all add: i32_MAX_def)
  note closed = win_closed_stay_closed [OF sample_win_platform, of sample_wboth 10000 sample_wsocket True
      "snd (wimport_close sample_win 10000 sample_wboth)" "C_listen 10000 5" 20000 1
      "snd (wimport_file_close sample_wfs 20000 sample_wboth)" "F_sync 20000 0"]
  from closed [THEN conjunct1] closed [THEN conjunct2] show ?thesis
    using n sample_wboth_ok by auto
qed

text \<open>
  C16: started with \<^verbatim>\<open>--no-network\<close>, the Windows host never gives the guest a socket: in every reachable
  state the socket table is empty, creating a socket fails with \<open>ENETDOWN\<close> and reaches neither Winsock
  nor its start-up, and every other call that takes a descriptor fails with \<open>EBADF\<close>.  The one call that
  takes an array, \<open>poll\<close>, fails with \<open>EBADF\<close> when an entry has a non-negative descriptor; on any other
  array it hands Winsock entries with \<open>INVALID_SOCKET\<close> only.
\<close>

theorem win_no_network:
  assumes "no_network cli" "win_run win fs opens handles panics (initial_state cli t m s) st"
  shows "sockets st = hs_new \<and> wimport_socket win d ty p st = (Return (neg_errno ENETDOWN), st) \<and>
    (call_fd c = Some fd \<longrightarrow> exec_wsock win c st = (Return (neg_errno EBADF), st)) \<and>
    (checked_poll_count n = Inr k \<and> read_guest (memory st) ptr (of_nat (k * 8)) = Inr bs \<and>
       list_ex names_descriptor (chunks_exact8 bs) \<longrightarrow>
     wimport_poll win ptr n timeout st = (Return (neg_errno EBADF), st)) \<and>
    (win_poll_fds win (sockets st) chunks = Inr entries \<longrightarrow>
     list_all (\<lambda>(ignored, f). ignored \<and> wp_fd f = ws_INVALID_SOCKET win) entries)"
proof -
  have "offline (initial_state cli t m s)" using assms(1) by (simp add: offline_def initial_state_def)
  then have o: "offline st" using win_host.run_frame [OF assms(2)] by blast
  then have e: "sockets st = hs_new" by (simp add: offline_def)
  have "exec_wsock win c st = fail EBADF st" if "call_fd c = Some fd"
    using that by (intro exec_wsock_unknown) (simp_all add: e)
  moreover have "wimport_poll win ptr n timeout st = fail EBADF st"
    if "checked_poll_count n = Inr k" "read_guest (memory st) ptr (of_nat (k * 8)) = Inr bs"
      "list_ex names_descriptor (chunks_exact8 bs)"
    using that(1,2) win_poll_fds_none(1) [OF that(3), of win] by (simp add: wimport_poll_def e)
  ultimately show ?thesis
    using o win_poll_fds_none(2) [of win chunks entries] by (simp add: offline_def wimport_socket_def)
qed

theorem win_no_network_witness:
  "wimport_socket sample_win 2 1 0 (sample_wstart\<lparr>network_allowed := False\<rparr>) =
     (Return (neg_errno ENETDOWN), sample_wstart\<lparr>network_allowed := False\<rparr>)"
proof -
  have e: "sample_wstart\<lparr>network_allowed := False\<rparr> =
      initial_state (sample_wcli\<lparr>no_network := True\<rparr>) sample_wfiles (PlainMemory []) \<lparr>winsock = None, kernel = sk_init\<rparr>"
    by (simp add: sample_wstart_def initial_state_def)
  show ?thesis unfolding e
    by (rule win_no_network [OF _ rtranclp.rtrancl_refl, THEN conjunct2, THEN conjunct1]) simp
qed

subsection \<open>Paths\<close>

text \<open>
  C8: on Windows a guest path resolves to a preopened directory followed by plain names, provided
  that the preopened directories are absolute and that no name of the guest path contains a
  backslash or begins with a drive.
\<close>

theorem win_plain_paths_confined:
  assumes "wh_new no_default ps cwd = Inr t" "\<forall>p \<in> set (wh_preopens t). win_absolute (wpm_host p)"
    "wh_resolve t path = Inr h" "guest_view path = Some (a, ns)" "list_all plain_name ns"
  shows "\<exists>p \<in> set (wh_preopens t). \<exists>ms. h = wpm_host p @ map WNormal ms \<and> list_all plain_name ms"
  using assms(2) wh_resolve_plain [OF wh_new_preopens [OF assms(1)] _ assms(3-5)] by blast

theorem win_plain_paths_confined_witness:
  "\<exists>p \<in> set (wh_preopens sample_wfiles). \<exists>ms. win_push sample_cwd ''db'' = wpm_host p @ map WNormal ms \<and> list_all plain_name ms"
proof -
  have plain: "plain_name ''db''" by (simp add: plain_name_def good_name_def)
  have "guest_view ''db'' = Some (False, [''db''])" by (rule relative_name_view) simp_all
  moreover have "wh_resolve sample_wfiles ''db'' = Inr (win_push sample_cwd ''db'')"
    by (rule default_resolves_name [OF sample_wh_new]) simp_all
  moreover have "\<forall>p \<in> set (wh_preopens sample_wfiles). win_absolute (wpm_host p)"
    by (simp add: sample_wfiles_def win_absolute_def)
  ultimately show ?thesis using win_plain_paths_confined [OF sample_wh_new, of "''db''" _ False "[''db'']"] plain by simp
qed

text \<open>
  C9: with other names the preopened directory confines nothing.  In a host started without
  \<^verbatim>\<open>--preopen\<close> in a directory that is not the root of its drive and has no verbatim prefix, the guest name
  \<^verbatim>\<open>X:\name\<close> resolves to that file of drive \<open>X\<close>, and \<^verbatim>\<open>..\name\<close> to a file beside the current directory: the
  names contain no slash, so neither is seen as more than one name.  Unless \<open>name\<close> is the last name of
  the current directory itself, both files lie outside the only directory that was preopened.
\<close>

theorem win_default_escapes:
  assumes "wh_new False [] (Inr cwd) = Inr t" "cwd = WPrefix pre # WRootDir # map WNormal (ds @ [d])"
    "\<not> is_verbatim pre" "is_ascii_alphabetic x" "plain_name p" "p \<noteq> d"
  shows "\<exists>h h'. wh_resolve t (x # CHR '':'' # backslash # p) = Inr h \<and>
    win_collapse h = [WPrefix (Disk (to_ascii_uppercase x)), WRootDir, WNormal p] \<and> \<not> prefix cwd (win_collapse h) \<and>
    wh_resolve t (''..'' @ backslash # p) = Inr h' \<and>
    win_collapse h' = WPrefix pre # WRootDir # map WNormal (ds @ [p]) \<and> \<not> prefix cwd (win_collapse h')"
proof -
  let ?n = "x # CHR '':'' # backslash # p" and ?up = "''..'' @ backslash # p"
  let ?drive = "[WPrefix (Disk (to_ascii_uppercase x)), WRootDir, WNormal p]"
  have p: "CHR ''/'' \<notin> set p" "p \<noteq> []" using assms(5) by (simp_all add: plain_name_def good_name_def)
  have "wh_resolve t ?n = Inr (win_push cwd ?n)"
    using p alphabetic_not_separator [OF assms(4)] by (intro default_resolves_name [OF assms(1)]) auto
  moreover have "win_push cwd ?n = ?drive"
    using drive_name [OF assms(4)] drive_components [OF assms(4,5)] win_push_replaces [of ?n cwd] by simp
  moreover have "win_collapse ?drive = ?drive" using collapse_absolute [of _ "[p]"] by simp
  moreover have "\<not> prefix cwd ?drive" using assms(2,6) by (cases ds) (auto simp: Cons_eq_append_conv)
  moreover have "wh_resolve t ?up = Inr (win_push cwd ?up)"
    using p by (intro default_resolves_name [OF assms(1)]) simp_all
  moreover have "win_push cwd ?up = cwd @ [WParentDir, WNormal p]"
    using assms(2,3,5) by (intro win_push_dotdot) (simp_all add: win_absolute_def)
  moreover have "win_collapse (cwd @ [WParentDir, WNormal p]) = WPrefix pre # WRootDir # map WNormal (ds @ [p])"
    unfolding assms(2) by (rule collapse_sibling)
  moreover have "\<not> prefix cwd (WPrefix pre # WRootDir # map WNormal (ds @ [p]))" using assms(2,6) by simp
  ultimately show ?thesis by simp
qed

theorem win_default_escapes_witness:
  "\<exists>h. wh_resolve sample_wfiles (CHR ''c'' # CHR '':'' # backslash # ''pagefile'') = Inr h \<and>
     win_collapse h = [WPrefix (Disk CHR ''C''), WRootDir, WNormal ''pagefile''] \<and> \<not> prefix sample_cwd (win_collapse h)"
proof -
  have u: "char_of (67 :: nat) = CHR ''C''" by (simp only: char_of_eq_iff) simp
  have d: "is_ascii_alphabetic CHR ''c''" "to_ascii_uppercase CHR ''c'' = CHR ''C''"
    by (simp_all add: is_ascii_alphabetic_def to_ascii_uppercase_def u)
  have p: "plain_name ''pagefile''" by (simp add: plain_name_def good_name_def)
  from win_default_escapes [OF sample_wh_new _ _ d(1) p, of "Disk CHR ''D''" "[]" "''srv''"] d(2)
  show ?thesis by auto
qed

subsection \<open>File locks\<close>

text \<open>
  What Microsoft documents about named objects: creating one that exists opens it and leaves
  \<open>ERROR_ALREADY_EXISTS\<close> as the last error, creating a new one does not.
\<close>

definition named_object_laws :: "('h, 'k) win_fs \<Rightarrow> ('k \<Rightarrow> u16 list set) \<Rightarrow> bool" where
  "named_object_laws fs objects \<longleftrightarrow>
     (\<forall>x a b c n s. fst (wf_CreateFileMappingW fs x a b c n s) \<noteq> 0 \<longrightarrow>
        (wf_last_error fs (snd (wf_CreateFileMappingW fs x a b c n s)) = wfc fs W_ERROR_ALREADY_EXISTS \<longleftrightarrow> n \<in> objects s) \<and>
        n \<in> objects (snd (wf_CreateFileMappingW fs x a b c n s)))"

text \<open>
  C13: asked for a file lock that this host does not hold yet, on an open descriptor, \<open>lock_exclusive\<close>
  creates the named object of the file's path.  If the system fails to, the answer is that error; if
  some process holds an object of the name already, the answer is \<open>-EAGAIN\<close>; otherwise the lock is
  granted, the object exists and its handle is kept.  Without an open file the answer is \<open>-EBADF\<close>.
  Unless the lock is granted, the table is as it was and no handle stays open.
\<close>

theorem win_lock_excludes:
  assumes "named_object_laws fs objects" "win_handle_laws fs handles"
    "wh_lock_paths t fd = Some p" "wh_locks t p = None" "wh_lock_exclusive fs t fd s = (r, t', s')"
    "wf_CreateFileMappingW fs (wf_INVALID_HANDLE_VALUE fs) (wfc fs W_PAGE_READWRITE) 0 1 (windows_lock_name fs p) s = (x, u)"
  shows "r = (if wh_files t fd = None then neg_errno EBADF
       else if x = 0 then neg_errno (from_windows_error (wf_last_error fs u))
       else if windows_lock_name fs p \<in> objects s then neg_errno EAGAIN else 0) \<and>
    (r = 0 \<longrightarrow> windows_lock_name fs p \<notin> objects s \<and> windows_lock_name fs p \<in> objects s' \<and>
       t' = t\<lparr>wh_locks := (wh_locks t)(p \<mapsto> \<lparr>lock_handle = x\<rparr>)\<rparr> \<and> handles s' = insert (Inr x) (handles s)) \<and>
    (r \<noteq> 0 \<longrightarrow> sint r < 0 \<and> t' = t \<and> handles s' = handles s)"
proof (cases "wh_files t fd")
  case None
  with assms(3-5) neg_errno_neg [of EBADF] show ?thesis by (auto simp: wh_lock_exclusive_def)
next
  case (Some h)
  have one: "opens_raw 0 handles s (x, u)" using win_handle_laws_simps(3) [OF assms(2)] assms(6) by metis
  have obj: "x \<noteq> 0 \<Longrightarrow> (wf_last_error fs u = wfc fs W_ERROR_ALREADY_EXISTS \<longleftrightarrow> windows_lock_name fs p \<in> objects s) \<and>
      windows_lock_name fs p \<in> objects u"
    using assms(1,6) unfolding named_object_laws_def by (metis fst_conv snd_conv)
  have neg: "sint (neg_errno e) < 0 \<and> neg_errno e \<noteq> 0" if "is_guest_errno e" for e
    using neg_errno_neg [OF that] by auto
  have close: "handles (wf_CloseHandle fs x u) = handles u - {Inr x}" by (rule win_handle_laws_simps(5) [OF assms(2)])
  show ?thesis
    using assms(5) lock_first [OF assms(3,4) Some assms(6)] Some one obj close neg [of EAGAIN]
      neg [OF from_windows_error_range]
    by (auto simp: opens_raw_def split: if_splits)
qed

theorem win_lock_excludes_witness:
  "\<exists>s'. wh_lock_exclusive sample_wfs (files sample_wboth) 20000
     (sk_init\<lparr>sk_objects := [windows_lock_name sample_wfs sample_cwd]\<rparr>) = (neg_errno EAGAIN, files sample_wboth, s')"
proof -
  let ?s = "sk_init\<lparr>sk_objects := [windows_lock_name sample_wfs sample_cwd]\<rparr>"
  let ?call = "wh_lock_exclusive sample_wfs (files sample_wboth) 20000 ?s"
  let ?create = "wf_CreateFileMappingW sample_wfs (wf_INVALID_HANDLE_VALUE sample_wfs) (wfc sample_wfs W_PAGE_READWRITE) 0 1
    (windows_lock_name sample_wfs sample_cwd) ?s"
  have laws: "named_object_laws sample_wfs (\<lambda>s. set (sk_objects s))"
    by (simp add: named_object_laws_def sample_wfs_def Let_def)
  have f: "wh_lock_paths (files sample_wboth) 20000 = Some sample_cwd" "wh_locks (files sample_wboth) sample_cwd = None"
    by (simp_all add: sample_wboth_def sample_wfiles_def)
  have c: "?call = (fst ?call, fst (snd ?call), snd (snd ?call))" by simp
  have m: "?create = (200, snd ?create)" by (simp add: sample_wfs_def fresh_in_def sk_init_def Let_def)
  have held: "windows_lock_name sample_wfs sample_cwd \<in> set (sk_objects ?s)" by simp
  have "neg_errno EAGAIN \<noteq> 0" using neg_errno_neg [of EAGAIN] by auto
  with win_lock_excludes [OF laws sample_win_handle_laws f c m] held sample_wboth_ok(6)
  have "fst ?call = neg_errno EAGAIN" "fst (snd ?call) = files sample_wboth" by simp_all
  with c show ?thesis by metis
qed

text \<open>
  C14: file locks belong to the process.  Once a lock is granted, every descriptor of the same file
  gets it without a further call to the system, and the lock is held in every later state, after
  the descriptor it was taken on was closed as well.
\<close>

theorem win_lock_outlives_close:
  assumes "win_platform_ok win fs opens handles" "wimport_lock_exclusive fs fd st = (Return 0, st1)"
    "win_run win fs opens handles panics (snd (wimport_file_close fs fd st1)) st2"
    "wh_lock_paths (files st2) fd2 = wh_lock_paths (files st) fd"
  shows "wimport_lock_exclusive fs fd2 st2 = (Return 0, st2) \<and>
    (\<exists>p lock. wh_lock_paths (files st) fd = Some p \<and> wh_locks (files st1) p = Some lock \<and> wh_locks (files st2) p = Some lock)"
proof -
  obtain t' s' where l: "wh_lock_exclusive fs (files st) fd (kernel (os st)) = (0, t', s')" "files st1 = t'"
    using assms(2) by (auto simp: wimport_lock_exclusive_def case_prod_beta prod_eq_iff)
  from lock_taken [OF l(1)] obtain p lock where p: "wh_lock_paths (files st) fd = Some p" "wh_locks (files st1) p = Some lock"
    using l(2) by auto
  have "win_handle_laws fs handles" using assms(1) by (simp add: win_platform_ok_def)
  from wfile_step_locks [OF exec_wfile_step [OF this, of st1 "F_close fd"]]
  have "wh_locks (files st1) \<subseteq>\<^sub>m wh_locks (files (snd (wimport_file_close fs fd st1)))" by simp
  then have "wh_locks (files st1) \<subseteq>\<^sub>m wh_locks (files st2)"
    using win_run_locks [OF assms(3,1)] by (rule map_le_trans)
  then have lock: "wh_locks (files st2) p = Some lock" using p(2) by (metis domI map_le_def)
  then have "wh_lock_exclusive fs (files st2) fd2 (kernel (os st2)) = (0, files st2, kernel (os st2))"
    using assms(4) p(1) by (intro lock_again [of _ _ p]) simp_all
  then show ?thesis using p lock by (simp add: wimport_lock_exclusive_def)
qed

definition sample_wlocked :: "i32 outcome \<times> (nat, sample_kernel) win_host" where
  "sample_wlocked = wimport_lock_exclusive sample_wfs 20000
     (sample_wboth\<lparr>files := (files sample_wboth)
     \<lparr>wh_files := [20000 \<mapsto> 1, 20001 \<mapsto> 2], wh_lock_paths := [20000 \<mapsto> sample_cwd, 20001 \<mapsto> sample_cwd]\<rparr>\<rparr>)"

theorem win_lock_outlives_close_witness:
  "fst (wimport_lock_exclusive sample_wfs 20001 (snd (wimport_file_close sample_wfs 20000 (snd sample_wlocked)))) = Return 0"
proof -
  let ?st = "sample_wboth\<lparr>files := (files sample_wboth)
     \<lparr>wh_files := [20000 \<mapsto> 1, 20001 \<mapsto> 2], wh_lock_paths := [20000 \<mapsto> sample_cwd, 20001 \<mapsto> sample_cwd]\<rparr>\<rparr>"
  have r: "fst sample_wlocked = Return 0" and paths: "wh_lock_paths (files (snd sample_wlocked)) = [20000 \<mapsto> sample_cwd, 20001 \<mapsto> sample_cwd]"
    and opened: "wh_files (files (snd sample_wlocked)) = [20000 \<mapsto> 1, 20001 \<mapsto> 2]"
    by (simp_all add: sample_wlocked_def wimport_lock_exclusive_def wh_lock_exclusive_def sample_wboth_def sample_wfiles_def
        sample_wlistener_def sk_init_def sample_wfs_def fresh_in_def Let_def)
  have l: "wimport_lock_exclusive sample_wfs 20000 ?st = (Return 0, snd sample_wlocked)"
    using r unfolding sample_wlocked_def by (simp add: prod_eq_iff)
  have "wh_lock_paths (files (snd (wimport_file_close sample_wfs 20000 (snd sample_wlocked)))) 20001 = Some sample_cwd"
    by (simp add: wimport_file_close_def wh_close_def wh_remove_def case_prod_beta paths opened)
  then show ?thesis
    using win_lock_outlives_close [OF sample_win_platform l rtranclp.rtrancl_refl, of 20001] by simp
qed

end
