(* ===== verification/Build_Script.thy ===== *)
theory Build_Script
  imports Prelude
begin

text \<open>
  \<^verbatim>\<open>src/build.rs\<close>, which Cargo runs before it compiles the host: it puts the module that will be
  embedded into the build directory, checked for the magic bytes of WebAssembly when it is given by
  \<^verbatim>\<open>MYSQLD_WASM\<close>, and tells Cargo where it came from.  The environment variables, the file system and
  the \<open>wat\<close> crate are a parameter; a path is the text that \<open>display\<close> prints, and what the script
  prints is the list of its lines.  An \<open>expect\<close> or \<open>panic!\<close> that is reached is a \<open>Panic\<close>.
\<close>

record ('e, 'w) build_env =
  be_out_dir :: "string option"
  be_mysqld_wasm :: "string option"
  be_dev_fixture :: "string option"
  be_join :: "string \<Rightarrow> string \<Rightarrow> string"
  be_read :: "string \<Rightarrow> 'w \<Rightarrow> 'e + bytes"
  be_read_to_string :: "string \<Rightarrow> 'w \<Rightarrow> 'e + string"
  be_wat_parse_str :: "string \<Rightarrow> 'e + bytes"
  be_write :: "string \<Rightarrow> bytes \<Rightarrow> 'w \<Rightarrow> ('e + unit) \<times> 'w"

text \<open>The lines printed so far, and the file system.\<close>

type_synonym 'w build_state = "string list \<times> 'w"

definition wasm_magic :: bytes where
  "wasm_magic = [0x00, 0x61, 0x73, 0x6d]"

text \<open>\<open>validate_wasm\<close>: whether it returns; otherwise it panics.\<close>

definition validate_wasm :: "bytes \<Rightarrow> bool" where
  "validate_wasm wasm \<longleftrightarrow> take (length wasm_magic) wasm = wasm_magic"

definition build_main :: "('e, 'w) build_env \<Rightarrow> 'w \<Rightarrow> unit outcome \<times> 'w build_state" where
  "build_main be w =
     (let out = [''cargo:rerun-if-env-changed=MYSQLD_WASM'']
      in case be_out_dir be of
           None \<Rightarrow> (Panic, out, w)
         | Some out_dir \<Rightarrow>
            (let out_wasm = be_join be out_dir ''mysqld.wasm''
             in case be_mysqld_wasm be of
                  Some path \<Rightarrow>
                    (let out = out @ [''cargo:rerun-if-changed='' @ path]
                     in case be_read be path w of
                          Inl err \<Rightarrow> (Panic, out, w)
                        | Inr wasm \<Rightarrow>
                           if \<not> validate_wasm wasm then (Panic, out, w)
                           else
                             (case be_write be out_wasm wasm w of
                                (Inl err, w) \<Rightarrow> (Panic, out, w)
                              | (Inr _, w) \<Rightarrow>
                                  (Return (), out @ [''cargo:rustc-env=EMBEDDED_MYSQLD_WASM_SOURCE='' @ path], w)))
                | None \<Rightarrow>
                    if be_dev_fixture be \<noteq> None then
                      (let out = out @ [''cargo:rerun-if-changed=fixtures/dev-command.wat'']
                       in case be_read_to_string be ''fixtures/dev-command.wat'' w of
                            Inl err \<Rightarrow> (Panic, out, w)
                          | Inr wat \<Rightarrow>
                             (case be_wat_parse_str be wat of
                                Inl err \<Rightarrow> (Panic, out, w)
                              | Inr wasm \<Rightarrow>
                                 (case be_write be out_wasm wasm w of
                                    (Inl err, w) \<Rightarrow> (Panic, out, w)
                                  | (Inr _, w) \<Rightarrow>
                                      (Return (),
                                       out @ [''cargo:rustc-env=EMBEDDED_MYSQLD_WASM_SOURCE=fixtures/dev-command.wat''], w))))
                    else (Panic, out, w)))"

subsection \<open>What a build embeds\<close>

text \<open>The source of the embedded module and its bytes, if there is one.\<close>

definition build_source :: "('e, 'w) build_env \<Rightarrow> 'w \<Rightarrow> (string \<times> bytes) option" where
  "build_source be w =
     (case be_mysqld_wasm be of
        Some path \<Rightarrow>
          (case be_read be path w of Inl _ \<Rightarrow> None
           | Inr wasm \<Rightarrow> if take 4 wasm = wasm_magic then Some (path, wasm) else None)
      | None \<Rightarrow>
          if be_dev_fixture be = None then None
          else case be_read_to_string be ''fixtures/dev-command.wat'' w of Inl _ \<Rightarrow> None
            | Inr wat \<Rightarrow>
               (case be_wat_parse_str be wat of Inl _ \<Rightarrow> None | Inr wasm \<Rightarrow> Some (''fixtures/dev-command.wat'', wasm)))"

lemma validate_wasm_eq: "validate_wasm wasm \<longleftrightarrow> take 4 wasm = wasm_magic"
  by (simp add: validate_wasm_def wasm_magic_def numeral_eq_Suc)

lemma build_main_eq:
  "(\<exists>st. build_main be w = (Return (), st)) \<longleftrightarrow>
   (\<exists>dir path wasm. be_out_dir be = Some dir \<and> build_source be w = Some (path, wasm) \<and>
      fst (be_write be (be_join be dir ''mysqld.wasm'') wasm w) = Inr ())"
  by (auto simp: build_main_def build_source_def validate_wasm_eq Let_def case_prod_beta
      split: option.splits sum.splits)

lemma build_main_result:
  assumes "build_main be w = (Return (), out, w')"
  shows "\<exists>dir path wasm. be_out_dir be = Some dir \<and> build_source be w = Some (path, wasm) \<and>
    be_write be (be_join be dir ''mysqld.wasm'') wasm w = (Inr (), w') \<and>
    last out = ''cargo:rustc-env=EMBEDDED_MYSQLD_WASM_SOURCE='' @ path"
  using assms
  by (auto simp: build_main_def build_source_def validate_wasm_eq Let_def case_prod_beta prod_eq_iff
      split: option.splits sum.splits if_splits)

text \<open>
  C40: the build succeeds exactly when Cargo gives it a directory, there is a module to embed (the
  file \<^verbatim>\<open>MYSQLD_WASM\<close> names, if it begins with the magic bytes of WebAssembly, or the fixture if the
  variable is not set and the feature is on) and it can be written; it then has written that module
  as \<^verbatim>\<open>mysqld.wasm\<close> and named its source in the last line for Cargo.  In every other case it panics.
\<close>

theorem build_embeds:
  "(fst (build_main be w) = Return () \<longleftrightarrow>
     (\<exists>dir path wasm. be_out_dir be = Some dir \<and> build_source be w = Some (path, wasm) \<and>
        fst (be_write be (be_join be dir ''mysqld.wasm'') wasm w) = Inr ())) \<and>
   (\<forall>out w'. build_main be w = (Return (), out, w') \<longrightarrow>
     (\<exists>dir path wasm. be_out_dir be = Some dir \<and> build_source be w = Some (path, wasm) \<and>
        be_write be (be_join be dir ''mysqld.wasm'') wasm w = (Inr (), w') \<and>
        last out = ''cargo:rustc-env=EMBEDDED_MYSQLD_WASM_SOURCE='' @ path))"
proof -
  have "fst (build_main be w) = Return () \<longleftrightarrow> (\<exists>st. build_main be w = (Return (), st))"
    by (cases "build_main be w") auto
  then show ?thesis using build_main_eq [of be w] build_main_result [of be w] by auto
qed

definition sample_build :: "(unit, bytes option) build_env" where
  "sample_build = \<lparr>be_out_dir = Some ''out'', be_mysqld_wasm = Some ''m.wasm'', be_dev_fixture = None,
     be_join = (\<lambda>d n. d @ ''/'' @ n), be_read = (\<lambda>_ _. Inr [0, 0x61, 0x73, 0x6d, 1]),
     be_read_to_string = (\<lambda>_ _. Inl ()), be_wat_parse_str = (\<lambda>_. Inl ()),
     be_write = (\<lambda>_ bs _. (Inr (), Some bs))\<rparr>"

theorem build_embeds_witness:
  "fst (build_main sample_build None) = Return () \<and> snd (snd (build_main sample_build None)) = Some [0, 0x61, 0x73, 0x6d, 1]"
proof -
  have src: "build_source sample_build None = Some (''m.wasm'', [0, 0x61, 0x73, 0x6d, 1])"
    by (simp add: build_source_def sample_build_def wasm_magic_def)
  have wr: "be_write sample_build p bs x = (Inr (), Some bs)" for p bs x by (simp add: sample_build_def)
  have r: "fst (build_main sample_build None) = Return ()"
    using build_embeds [of sample_build None, THEN conjunct1] src wr by (simp add: sample_build_def)
  obtain out w' where b: "build_main sample_build None = (Return (), out, w')"
    using r by (metis prod.collapse)
  with build_embeds [of sample_build None, THEN conjunct2, rule_format, OF b] src wr r show ?thesis by auto
qed

end
