(* ===== verification/Spec2Isabelle.thy ===== *)
theory Spec2Isabelle
  imports Guest_Properties Socket_Properties File_Properties Host_Runtime Startup_Facts
    Windows_Socket_Properties Windows_Properties Build_Script
begin

text \<open>
  A verification development for the Rust host of this repository, which embeds a MySQL server
  compiled to WebAssembly and runs it under Wasmtime.

  \<^bold>\<open>The program.\<close>  The guest is a threaded WASI module.  Besides the WASI functions, which are
  third-party code, the host gives it two modules of imports of its own:
  \<^verbatim>\<open>waasmtime_mysql_files\<close> (\<^verbatim>\<open>src/src/host_files.rs\<close>: positioned file access, synchronisation and locks
  on host files below preopened directories) and \<^verbatim>\<open>waasmtime_mysql_sockets\<close>
  (\<^verbatim>\<open>src/src/host_sockets.rs\<close> on Unix, \<^verbatim>\<open>src/src/host_sockets_windows.rs\<close> on Windows: BSD sockets), and
  the shutdown flag and thread creation of \<^verbatim>\<open>src/src/main.rs\<close>.  The imports share a table of open
  files and a table of sockets, each behind a mutex, between all guest threads; they read and write
  the guest's memory; they answer with a value or with a negated errno of the guest's ABI
  (\<^verbatim>\<open>src/src/guest_errno.rs\<close>).

  \<^bold>\<open>The theories.\<close>
  \<^item> \<open>Prelude\<close>: machine integers, results, panics and the parts of the Rust library the host uses.
  \<^item> \<open>Guest_Errno\<close>: the constants and translations of \<^verbatim>\<open>guest_errno.rs\<close>; the locale
    \<open>errno_translation\<close>, interpreted for both translations.
  \<^item> \<open>Guest_Memory\<close>: \<open>checked_range\<close>, \<open>read_guest\<close>, \<open>write_guest\<close>, \<open>read_cstr\<close> and their companions
    of both import modules; the locale \<open>guest_memory\<close>, what the imports rely on, interpreted for the
    helpers of the sockets and for those of the files.
  \<^item> \<open>Fd_Table\<close>: the locale \<open>fd_table\<close>, the contract of a descriptor table, with what follows for any
    sequence of insertions and removals; interpreted by the socket tables of both platforms and by the
    file table.
  \<^item> \<open>App_State\<close>: \<open>AppState\<close>, with the calling instance's memory and the operating system, generic in the
    entries of the socket table, the file table and the operating system.
  \<^item> \<open>Socket_Table\<close>, \<open>Socket_Steps\<close>, \<open>Poll_Array\<close>: what both platforms share: \<open>HostSocketsInner\<close>, the calls a
    guest makes, the step relation that every socket import keeps to (ownership of raw sockets, the
    frame, replies), and the array of \<open>poll\<close>.
  \<^item> \<open>Unix_Platform\<close>: the constants and system calls of the \<open>libc\<close> crate as a parameter, a record
    \<open>unix_sys\<close>, and the laws POSIX documents for descriptors.
  \<^item> \<open>Host_Sockets\<close>, \<open>Socket_Imports\<close>: the socket table, the helpers and the seventeen imports of
    \<^verbatim>\<open>host_sockets.rs\<close> on Unix, one definition per function or closure.
  \<^item> \<open>Socket_Safety\<close>, \<open>Socket_Function\<close>, \<open>Socket_Properties\<close>: what the socket imports keep (table,
    raw descriptors, frame, replies), what they compute, and the properties.
  \<^item> \<open>Guest_Path\<close>, \<open>Path_Resolution\<close>: \<open>normalize_guest_path\<close>, \<open>join_suffix\<close>, and the specification of
    path resolution on lists of names that \<open>HostFiles::resolve\<close> refines.
  \<^item> \<open>Cli\<close>: the options and the parsers of \<^verbatim>\<open>--preopen\<close> and \<^verbatim>\<open>--env\<close> values of \<^verbatim>\<open>main.rs\<close>.
  \<^item> \<open>Host_Files\<close>, \<open>File_Imports\<close>, \<open>File_Safety\<close>, \<open>File_Function\<close>, \<open>File_Properties\<close>: \<open>HostFiles\<close> on
    Unix over a parameter \<open>fs_sys\<close> for \<open>std::fs\<close>, the nine imports, what they keep and compute, and the
    properties.
  \<^item> \<open>Startup\<close>, \<open>Startup_Facts\<close>: \<open>run\<close>, \<open>main\<close>, the WASI configuration, the linker, the imported
    memories, threads and signals of \<^verbatim>\<open>main.rs\<close>, over a parameter \<open>wasm_api\<close> for Wasmtime.
  \<^item> \<open>Host_Runtime\<close>: the whole host as a step relation \<open>host_step\<close> over interleaved imports, guest
    stores, steps of the operating system and signals.  Its locale \<open>host_components\<close> states what the two
    import modules promise and proves the invariants of the host once; it is interpreted here for the
    Unix imports (\<open>unix_host\<close>) and in \<open>Windows_Runtime\<close> for the Windows imports (\<open>win_host\<close>).
  \<^item> \<open>Windows_Platform\<close>, \<open>Windows_Sockets\<close>, \<open>Windows_Socket_Imports\<close>: Winsock as a parameter \<open>win_sys\<close>, and the
    socket table, the helpers and the seventeen imports of \<^verbatim>\<open>host_sockets_windows.rs\<close>;
    \<open>Windows_Socket_Safety\<close>, \<open>Windows_Socket_Results\<close>, \<open>Windows_Socket_Function\<close> and
    \<open>Windows_Socket_Properties\<close>: what they keep, what they answer, what they compute, and the properties.
  \<^item> \<open>Windows_Path\<close>, \<open>Windows_Files\<close>, \<open>Windows_File_Imports\<close>: paths as \<open>std::path\<close> parses and joins them on
    Windows (prefixes, drives, both separators), \<open>HostFiles\<close> on Windows over a parameter \<open>win_fs\<close> for
    \<open>std::fs\<close> and the Win32 calls, with the directory flush and the lock on a named object, and the nine
    imports; \<open>Windows_File_Safety\<close>, \<open>Windows_File_Function\<close>: what they keep and compute.
  \<^item> \<open>Windows_Runtime\<close>, \<open>Windows_Properties\<close>: the host on Windows over time, and the properties.
  \<^item> \<open>Build_Script\<close>: \<^verbatim>\<open>build.rs\<close>, which checks and embeds the module, with its property.
  \<^item> \<open>Guest_Properties\<close> and this theory: the properties of memory and errno, and those that span
    components.  \<open>Unix_Sample\<close> and \<open>Windows_Sample\<close> are small platforms at which hypotheses are
    discharged.

  \<^bold>\<open>What is shown.\<close>  Over all interleavings the tables stay well formed, descriptors are never reused and
  a closed descriptor stays closed (\<open>i32::MAX\<close> apart, where the counters saturate), and no raw descriptor or file handle is lost; without network
  permission no socket comes into being; the file imports open plain names below the
  preopened directories only (and \<open>sync_parent\<close> a parent of one that begins with another), and path resolution implements its specification; memory access is
  within bounds and the same for shared and unshared memories; each import's result is a value or a
  guest errno; on Windows moreover no import panics, file locks exclude other processes, and paths are
  confined as long as no name contains a backslash or a drive; what \<open>poll\<close>, \<open>accept\<close>, \<open>recv\<close>, \<open>fcntl\<close>, \<open>open\<close>, \<open>pread\<close> and \<open>pwrite\<close> hand to the guest is
  what the platform answered; threads share the main instance's memories and get distinct ids; a build embeds
  the module it was given, after checking its magic bytes.  Six properties state behaviour the code
  does not intend or its comments do not describe: \<open>so_error_none_reads_EIO\<close>, \<open>accept_truncated_panics\<close>,
  \<open>one_char_preopen_shadowed\<close>, \<open>win_default_escapes\<close>, \<open>socket_failure_read_late\<close> and
  \<open>win_lock_outlives_close\<close>.

  \<^bold>\<open>Modelling.\<close>  A Rust \<open>i32\<close> is a \<open>32 word\<close> read with \<open>sint\<close>; arithmetic that wraps in the release
  build wraps in the model (the pointer sum of \<open>poll\<close>, the thread counter), saturating arithmetic
  saturates.  A \<open>usize\<close> is a natural number below \<open>2 ^ 64\<close>, and byte orders are little-endian, as on
  every supported host.  Every early return is a branch, and an out-of-range slice is the outcome
  \<open>Panic\<close>.  An import takes effect as one step: its accesses to the tables are single operations under
  the mutex, and the memory it sees is the memory at its call.  A host path is its list of components,
  of \<open>std::path\<close> on the platform at hand; on Windows the preopened directories and the current
  directory are arguments of \<open>wh_new\<close>, since a \<open>PathBuf\<close> of the command line is parsed by that platform's
  rules.
  All loops of the modelled code run over finite lists, so every definition is a total function and no
  fuel is needed.  Code outside the repository is a parameter, with its documented behaviour as named
  hypotheses (\<open>raw_fd_laws\<close>, \<open>handle_laws\<close>, \<open>reads_back\<close>, \<open>fcntl_flags_law\<close>, \<open>linker_laws\<close>,
  \<open>signal_hook_laws\<close>; on Windows \<open>winsock_laws\<close>, \<open>winsock_results\<close>, \<open>ws_poll_failure_law\<close>, \<open>ws_events_ok\<close>, \<open>win_handle_laws\<close>,
  \<open>win_read_counts\<close>, \<open>named_object_laws\<close>), each with a sample instance.

  \<^bold>\<open>Not modelled.\<close>  The branches for platforms that are neither Unix nor Windows, which answer \<open>ENOSYS\<close>;
  the WASI imports, Wasmtime's execution of the guest and the argument parser, which are third-party;
  poisoned mutexes; what the host prints to the terminal; the unit tests of \<^verbatim>\<open>host_files.rs\<close>; the C shims,
  patches and scripts.
\<close>

subsection \<open>A sample platform\<close>

lemma sample_platform: "platform_ok sample_sys sample_fs sample_opens sample_handles"
proof -
  have open1: "so_handles (snd (open_fresh s)) = so_handles s" for s
    by (simp add: open_fresh_def Let_def)
  have "sys_frames sample_sys sample_handles"
    unfolding sys_frames_def
    by (simp add: sample_sys_def sample_handles_def open1 case_prod_beta sample_fcntl_def)
  moreover have "fs_frames sample_fs sample_opens"
    unfolding fs_frames_def by (simp add: sample_fs_def sample_opens_def)
  ultimately show ?thesis
    using sample_raw_fd_laws sample_handle_laws by (simp add: platform_ok_def)
qed

definition sample_start :: "bool \<Rightarrow> (nat, sample_os) unix_host" where
  "sample_start offline_flag = initial_state (sample_cli\<lparr>no_network := offline_flag\<rparr>)
     (projr (hf_new sample_cli (Inr [RootDir, Normal ''home'']))) (SharedMem (replicate 8 0)) sample_init"

definition sample_socket_created :: "(nat, sample_os) unix_host" where
  "sample_socket_created = snd (exec_sock sample_sys (C_socket 1 6 0) (sample_start False))"

lemma hf_new_network: "hf_new (cli\<lparr>no_network := b\<rparr>) cwd = hf_new cli cwd"
  by (cases cwd) (simp_all add: hf_new_def)

lemma sample_hf_new:
  "hf_new (sample_cli\<lparr>no_network := b\<rparr>) (Inr [RootDir, Normal ''home'']) =
     Inr (projr (hf_new sample_cli (Inr [RootDir, Normal ''home''])) :: nat host_files)"
  by (simp add: hf_new_network sample_new)

subsection \<open>The invariant of the host\<close>

text \<open>
  C1: in every state the host can reach from its start, whatever calls the guest threads interleave
  and whatever the operating system answers, both descriptor tables are well formed, every raw
  descriptor and file handle a table holds is open and held by one guest descriptor only, and the
  preopened directories are those set up at the start.
\<close>

theorem host_invariant:
  assumes "platform_ok sys fs opens handles" "hf_new cli cwd = Inr t"
    "unix_run sys fs opens handles panics (initial_state cli t m s) st"
  shows "sockets_wf (sockets st) \<and> files_wf (files st) \<and>
    owned raw_fd (sockets st) \<subseteq> opens (os st) \<and> owned_files (files st) \<subseteq> handles (os st) \<and>
    (\<forall>a b v w. hs_sockets (sockets st) a = Some v \<and> hs_sockets (sockets st) b = Some w \<and> raw_fd v = raw_fd w \<longrightarrow> a = b) \<and>
    (\<forall>a b h. hf_files (files st) a = Some h \<and> hf_files (files st) b = Some h \<longrightarrow> a = b) \<and>
    hf_preopens (files st) = hf_preopens t"
  using unix_host.reached_inv [OF assms(3,1) unix_files_start [OF assms(2)]]
  unfolding sock_inv_def file_inv_def fst_conv snd_conv by blast

lemma sample_run:
  "unix_run sample_sys sample_fs sample_opens sample_handles False (sample_start False) sample_socket_created"
proof (rule r_into_rtranclp)
  have "fst (exec_sock sample_sys (C_socket 1 6 0) (sample_start False)) \<noteq> Panic"
    by (auto simp: import_socket_def Let_def case_prod_beta split: sum.split)
  then show "host_step (exec_sock sample_sys) (exec_file sample_sys sample_fs)
      (unix_ambient sample_opens sample_handles) False (sample_start False) sample_socket_created"
    unfolding sample_socket_created_def by (intro host_step.socket_call [OF prod.collapse [symmetric]]) simp
qed

theorem host_invariant_witness:
  "sockets_wf (sockets sample_socket_created) \<and> files_wf (files sample_socket_created)"
  using host_invariant [OF sample_platform sample_hf_new sample_run [unfolded sample_start_def]] by blast

text \<open>
  C3: no descriptor is lost.  In every run in which no import panics and the socket counter has not
  saturated, the raw descriptors and file handles that are open but not in a table are those that
  were open before the guest started: what an import opened is in a table or was closed again.
\<close>

theorem nothing_lost:
  assumes "platform_ok sys fs opens handles" "hf_new cli cwd = Inr t"
    "unix_run sys fs opens handles False (initial_state cli t m s) st" "hs_next_fd (sockets st) \<noteq> i32_MAX"
  shows "opens (os st) - owned raw_fd (sockets st) = opens s \<and> handles (os st) - owned_files (files st) = handles s"
  using unix_host.reached_stray [OF assms(3,1) unix_files_start [OF assms(2)] assms(4)] by blast

lemma sample_created_next: "hs_next_fd (sockets sample_socket_created) = 10001"
  by (simp add: sample_socket_created_def sample_start_def import_socket_def initial_state_def sample_cli_def
      normalize_socket_type_def host_socket_flag_mask_def has_host_sock_cloexec_def has_host_sock_nonblock_def
      wasi_socket_consts configure_socket_type_flags_def hs_insert_def hs_new_def SOCKET_FD_BASE_def
      i32_saturating_succ_def i32_MAX_def sample_sys_def open_fresh_def fresh_fd_def sample_init_def Let_def)

theorem nothing_lost_witness:
  "sample_opens (os sample_socket_created) - owned raw_fd (sockets sample_socket_created) = {} \<and>
   hs_next_fd (sockets sample_socket_created) = 10001"
proof -
  have "hs_next_fd (sockets sample_socket_created) \<noteq> i32_MAX"
    by (simp add: sample_created_next i32_MAX_def)
  from nothing_lost [OF sample_platform sample_hf_new sample_run [unfolded sample_start_def] this]
  show ?thesis by (simp add: sample_created_next sample_opens_def sample_init_def)
qed

subsection \<open>Descriptors over time\<close>

text \<open>
  Whatever sequence of insertions and removals the guest threads make, the descriptors a table
  hands out count up one by one from its counter, so none is handed out twice, as long as the
  counter stays below \<open>i32::MAX\<close>; for the socket table and for the file table.
\<close>

theorem descriptors_never_reused:
  assumes "sint (hs_next_fd t) + int (count_inserts ops) \<le> 2147483647"
    "sint (hf_next_fd u) + int (count_inserts fops) \<le> 2147483647"
  shows "map sint (fst (fd_run hs_insert_socket hs_remove t ops)) =
      map (\<lambda>i. sint (hs_next_fd t) + int i) [0..<count_inserts ops] \<and>
    distinct (fst (fd_run hs_insert_socket hs_remove t ops)) \<and>
    map sint (fst (fd_run hf_insert hf_remove u fops)) =
      map (\<lambda>i. sint (hf_next_fd u) + int i) [0..<count_inserts fops] \<and>
    distinct (fst (fd_run hf_insert hf_remove u fops))"
  using sockt.run_issues(1) [OF assms(1)] sockt.run_distinct [OF assms(1)]
    filet.run_issues(1) [OF assms(2)] filet.run_distinct [OF assms(2)] by blast

theorem descriptors_never_reused_witness:
  "distinct (fst (fd_run hs_insert_socket hs_remove hs_new
     [FdInsert \<lparr>raw_fd = 3, guest_domain = 1, host_domain = 2\<rparr>, FdRemove 10000,
      FdInsert \<lparr>raw_fd = 3, guest_domain = 1, host_domain = 2\<rparr>])) \<and>
   distinct (fst (fd_run hf_insert hf_remove sample_files [FdInsert 1, FdRemove 20000, FdInsert 2]))"
  using descriptors_never_reused [of hs_new "[FdInsert \<lparr>raw_fd = 3, guest_domain = 1, host_domain = 2\<rparr>,
      FdRemove 10000, FdInsert \<lparr>raw_fd = 3, guest_domain = 1, host_domain = 2\<rparr>]"
      sample_files "[FdInsert 1, FdRemove 20000, FdInsert 2]"]
  by (simp add: hs_new_def SOCKET_FD_BASE_def sample_files_def GUEST_FD_BASE_def)

text \<open>
  C10: a socket descriptor other than \<open>i32::MAX\<close> that was closed stays closed.  After any further run
  of the host, however many sockets it opens, every call that names the descriptor returns \<open>-EBADF\<close> and
  changes nothing, so it never reaches another connection.  (\<open>i32::MAX\<close> is the descriptor a saturated
  counter hands out again and again.)  The table is well formed, as in every reachable state.
\<close>

theorem closed_socket_stays_closed:
  assumes "platform_ok sys fs opens handles" "sockets_wf (sockets st)" "fd \<noteq> i32_MAX"
    "hs_sockets (sockets st) fd = Some v"
    "unix_run sys fs opens handles panics (snd (import_close sys fd st)) st'" "call_fd c = Some fd"
  shows "exec_sock sys c st' = (Return (neg_errno EBADF), st')"
proof -
  have "dead_socket fd st'"
    by (rule unix_host.run_dead(1) [OF assms(5,1) closed_socket_dead [OF assms(2,4,3)]])
  then have "hs_sockets (sockets st') fd = None" unfolding dead_socket_def by (rule conjunct2)
  with assms(6) show ?thesis by (rule exec_sock_unknown)
qed

definition sample_two :: "(nat, sample_os) unix_host" where
  "sample_two = (sample_host [])\<lparr>sockets := sample_table\<rparr>"

theorem closed_socket_stays_closed_witness:
  "exec_sock sample_sys (C_listen 10000 5) (snd (import_close sample_sys 10000 sample_two)) =
     (Return (neg_errno EBADF), snd (import_close sample_sys 10000 sample_two))"
  by (rule closed_socket_stays_closed [OF sample_platform, of sample_two 10000
        "\<lparr>raw_fd = 3, guest_domain = 1, host_domain = 2\<rparr>" True])
    (simp_all add: sample_two_def sample_table_wf i32_MAX_def)

text \<open>
  C11: the same for a file descriptor other than \<open>i32::MAX\<close>: after \<open>close\<close> and any further run, every
  file call that names it fails and changes nothing.
\<close>

theorem closed_file_stays_closed:
  assumes "platform_ok sys fs opens handles" "files_wf (files st)" "fd \<noteq> i32_MAX"
    "hf_files (files st) fd = Some h"
    "unix_run sys fs opens handles panics (snd (import_file_close fs fd st)) st'" "file_call_fd c = Some fd"
  shows "\<exists>e. (e = EBADF \<or> e = EINVAL \<or> e = EFAULT) \<and>
    (exec_file sys fs c st' = (Return (I32 (neg_errno e)), st') \<or>
     exec_file sys fs c st' = (Return (I64 (scast (neg_errno e))), st'))"
proof -
  have "dead_file fd (files st')"
    by (rule unix_host.run_dead(2) [OF assms(5,1) closed_file_dead [OF assms(2,4,3)]])
  then have "hf_files (files st') fd = None" unfolding dead_file_def by (rule conjunct2)
  with assms(6) show ?thesis by (rule exec_file_unknown)
qed

definition sample_open_file :: "(nat, sample_os) unix_host" where
  "sample_open_file = (sample_host [])\<lparr>files := sample_files\<lparr>hf_next_fd := 20001, hf_files := [20000 \<mapsto> 1]\<rparr>\<rparr>"

theorem closed_file_stays_closed_witness:
  "\<exists>r. exec_file sample_sys sample_fs (F_sync 20000 0) (snd (import_file_close sample_fs 20000 sample_open_file)) =
     (Return r, snd (import_file_close sample_fs 20000 sample_open_file))"
proof -
  have wf: "files_wf (files sample_open_file)"
    by (simp add: sample_open_file_def files_wf_def fd_wf_def GUEST_FD_BASE_def)
  have f: "(20000 :: i32) \<noteq> i32_MAX" "hf_files (files sample_open_file) 20000 = Some 1"
    by (simp_all add: sample_open_file_def i32_MAX_def)
  from closed_file_stays_closed [OF sample_platform wf f rtranclp.rtrancl_refl, of "F_sync 20000 0"]
  show ?thesis by auto
qed

text \<open>
  Socket and file descriptors never coincide while fewer than 10000 sockets have been created:
  the guest can tell the two kinds apart by the number.
\<close>

theorem descriptor_spaces_disjoint:
  assumes "sockets_wf (sockets st)" "files_wf (files st)" "sint (hs_next_fd (sockets st)) \<le> 20000"
  shows "dom (hs_sockets (sockets st)) \<inter> dom (hf_files (files st)) = {}"
proof -
  have nm: "hs_next_fd (sockets st) \<noteq> i32_MAX" using assms(3) by (auto simp: i32_MAX_iff)
  have "sint fd < 20000" if "fd \<in> dom (hs_sockets (sockets st))" for fd
  proof -
    have "sint fd < sint (hs_next_fd (sockets st))"
      using assms(1) that nm unfolding sockets_wf_def fd_wf_def by blast
    with assms(3) show ?thesis by linarith
  qed
  moreover have "20000 \<le> sint fd" if "fd \<in> dom (hf_files (files st))" for fd
  proof -
    have "sint GUEST_FD_BASE \<le> sint fd" using assms(2) that unfolding files_wf_def fd_wf_def by blast
    then show ?thesis by (simp add: GUEST_FD_BASE_def)
  qed
  ultimately show ?thesis by (meson disjoint_iff not_less)
qed

theorem descriptor_spaces_disjoint_witness:
  "dom (hs_sockets (sockets sample_two)) \<inter> dom (hf_files (files sample_two)) = {}"
  by (rule descriptor_spaces_disjoint)
    (simp_all add: sample_two_def sample_table_wf sample_host_def sample_files_def files_wf_def fd_wf_empty)

subsection \<open>Permissions\<close>

text \<open>
  C15: started with \<^verbatim>\<open>--no-network\<close>, the host never gives the guest a socket.  In every reachable
  state the socket table is empty, creating a socket fails with \<open>ENETDOWN\<close> without reaching the
  kernel, and every other call that takes a descriptor fails with \<open>EBADF\<close>.  The one call that takes an
  array, \<open>poll\<close>, fails with \<open>EBADF\<close> when an entry has a non-negative descriptor; on any other array it
  asks the kernel about negative descriptors only, which \<open>poll(2)\<close> ignores.
\<close>

theorem no_network_no_sockets:
  assumes "no_network cli" "unix_run sys fs opens handles panics (initial_state cli t m s) st"
  shows "sockets st = hs_new \<and> import_socket sys d ty p st = (Return (neg_errno ENETDOWN), st) \<and>
    (call_fd c = Some fd \<longrightarrow> exec_sock sys c st = (Return (neg_errno EBADF), st)) \<and>
    (checked_poll_count n = Inr k \<and> read_guest (memory st) ptr (of_nat (k * 8)) = Inr bs \<and>
       list_ex names_descriptor (chunks_exact8 bs) \<longrightarrow>
     import_poll sys ptr n timeout st = (Return (neg_errno EBADF), st)) \<and>
    (poll_host_fds (sockets st) chunks = Inr host_fds \<longrightarrow> list_all (\<lambda>f. sint (pfd_fd f) < 0) host_fds)"
proof -
  have "offline (initial_state cli t m s)" using assms(1) by (simp add: offline_def initial_state_def)
  then have o: "offline st" using unix_host.run_frame [OF assms(2)] by blast
  then have e: "sockets st = hs_new" by (simp add: offline_def)
  have "exec_sock sys c st = (Return (neg_errno EBADF), st)" if "call_fd c = Some fd"
    using that by (intro exec_sock_unknown) (simp_all add: e)
  moreover have "import_poll sys ptr n timeout st = (Return (neg_errno EBADF), st)"
    if "checked_poll_count n = Inr k" "read_guest (memory st) ptr (of_nat (k * 8)) = Inr bs"
      "list_ex names_descriptor (chunks_exact8 bs)"
    using that(1,2) poll_host_fds_none(1) [OF that(3)] by (simp add: import_poll_def e)
  ultimately show ?thesis
    using o poll_host_fds_none(2) [of chunks host_fds] by (simp add: offline_def import_socket_def)
qed

theorem no_network_no_sockets_witness:
  "import_socket sample_sys 1 6 0 (sample_start True) = (Return (neg_errno ENETDOWN), sample_start True) \<and>
   import_poll sample_sys 0 1 0 (sample_start True) = (Return (neg_errno EBADF), sample_start True)"
proof -
  have mem: "memory (sample_start True) = SharedMem (replicate 8 0)" by (simp add: sample_start_def initial_state_def)
  have k: "checked_poll_count 1 = Inr 1" by (simp add: checked_poll_count_def usize_of_i32_def MAX_POLL_FDS_def)
  have r: "read_guest (memory (sample_start True)) 0 (of_nat (1 * 8)) = Inr (replicate 8 0)"
    by (simp add: mem smem.rd_view mem_load_def checked_range_eq len_ok_def MAX_IO_LEN_def subslice_def)
  have n: "list_ex names_descriptor (chunks_exact8 (replicate 8 0))"
    by (simp add: names_descriptor_def numeral_eq_Suc subslice_def)
  have "no_network (sample_cli\<lparr>no_network := True\<rparr>)" by simp
  note closed = no_network_no_sockets [where sys = sample_sys and fs = sample_fs and opens = sample_opens and
      handles = sample_handles and panics = True and st = "sample_start True" and d = 1 and ty = 6 and p = 0 and n = 1 and
      k = 1 and ptr = 0 and bs = "replicate 8 0" and timeout = 0, OF this, unfolded sample_start_def,
      OF rtranclp.rtrancl_refl, folded sample_start_def]
  from closed [THEN conjunct2, THEN conjunct1] closed [THEN conjunct2, THEN conjunct2, THEN conjunct2, THEN conjunct1] k r n
  show ?thesis by blast
qed

text \<open>
  C38: the WASI context and the host file table grant the same host directories: the current
  directory unless \<^verbatim>\<open>--no-default-preopen\<close> is given, and the directories of the \<^verbatim>\<open>--preopen\<close>
  options, each of which is a directory; WASI gets network access exactly when \<^verbatim>\<open>--no-network\<close> is
  absent.
\<close>

theorem grants_agree:
  assumes "build_wasi he cli = Inr calls" "hf_new cli (he_current_dir he) = Inr t"
  shows "fst ` set (granted_dirs calls) = pm_host ` set (hf_preopens t) \<and>
    (\<forall>(h, g) \<in> set (granted_dirs calls). he_is_dir he h) \<and>
    (network_calls calls = [] \<longleftrightarrow> no_network cli)"
  using same_grants [OF assms] build_wasi_Inr(2,3) [OF assms(1)] by simp

definition sample_env :: host_env where
  "sample_env = \<lparr>he_current_dir = Inr [RootDir, Normal ''home''], he_is_dir = (\<lambda>_. True),
     he_preopened_dir = (\<lambda>_ _. Inr ())\<rparr>"

theorem grants_agree_witness:
  "\<exists>calls t. build_wasi sample_env sample_cli = Inr calls \<and> hf_new sample_cli (he_current_dir sample_env) = Inr (t :: nat host_files) \<and>
     fst ` set (granted_dirs calls) = pm_host ` set (hf_preopens t)"
proof -
  have "\<not> isl (build_wasi sample_env sample_cli)"
    by (simp add: build_wasi_def sample_env_def sample_cli_def preopen_dir_def context_err_def)
  then obtain calls where c: "build_wasi sample_env sample_cli = Inr calls"
    by (cases "build_wasi sample_env sample_cli") auto
  have "he_current_dir sample_env = Inr [RootDir, Normal ''home'']" by (simp add: sample_env_def)
  then obtain t :: "nat host_files" where t: "hf_new sample_cli (he_current_dir sample_env) = Inr t" by (simp add: sample_new)
  from grants_agree [OF c t] c t show ?thesis by blast
qed

subsection \<open>Threads, memories, shutdown, exit\<close>

text \<open>
  C37: the shared memories a thread's instance gets are those of the main instance.  The main
  instance binds every memory its module imports, once per name; binding the collected shared
  memories in the linker of a thread gives each of them the same memory there, and no other name
  a memory.
\<close>

theorem threads_share_memories:
  assumes "linker_laws api bound" "define_imported_memories api w = (Inr memories, w')"
    "define_shared_memories api memories v = (Inr (), v')"
  shows "(\<forall>m \<in> set memories. bound v' (ism_key m) = Some (ism_memory m) \<and> bound w' (ism_key m) = Some (ism_memory m)) \<and>
    distinct (map ism_key memories) \<and>
    (\<forall>i \<in> set (api_imports api w). imp_ty i \<noteq> OtherExtern \<longrightarrow> bound w' (imp_key i) \<noteq> None) \<and>
    (\<forall>k. k \<notin> ism_key ` set memories \<longrightarrow> bound v' k = bound v k)"
proof -
  have "mems_ok bound {} [] w" by (simp add: mems_ok_def)
  from define_memories_ok [OF assms(1) assms(2) [unfolded define_imported_memories_def] this] obtain seen where
    ok: "mems_ok bound seen memories w'" "imp_key ` {i \<in> set (api_imports api w). imp_ty i \<noteq> OtherExtern} \<subseteq> seen"
    by blast
  then have d: "distinct (map ism_key memories)" "seen \<subseteq> dom (bound w')"
      "\<forall>m \<in> set memories. bound w' (ism_key m) = Some (ism_memory m)" by (simp_all add: mems_ok_def)
  with define_shared_memories_bound [OF assms(1,3) d(1)] ok(2) show ?thesis by blast
qed

text \<open>A world that records the bindings; creating a memory numbers it.\<close>

definition sample_api :: "(nat, nat, nat \<times> (string \<times> string \<rightharpoonup> nat)) wasm_api" where
  "sample_api =
    \<lparr>api_engine_new = (\<lambda>_. rreturn ()), api_module_from_binary = rreturn (), api_register = (\<lambda>_ _. rreturn ()),
     api_linker_new = id, api_link_wasi = rreturn (), api_func_wrap = (\<lambda>_ _. rreturn ()),
     api_func_wrap_spawn = (\<lambda>_ _ _. rreturn ()),
     api_store_new = (\<lambda>_. id),
     api_imports = (\<lambda>_. [\<lparr>imp_module = ''env'', imp_name = ''memory'',
        imp_ty = Memory \<lparr>mt_shared = True, mt_min = 1, mt_max = Some 2\<rparr>\<rparr>]),
     api_shared_memory_new = (\<lambda>ty (n, b). (Inr n, (Suc n, b))),
     api_memory_new = (\<lambda>ty (n, b). (Inr n, (Suc n, b))),
     api_define = (\<lambda>m nm x (n, b). (Inr (), (n, b((m, nm) \<mapsto> x)))),
     api_unknown_imports_as_traps = rreturn (), api_instantiate = rreturn (),
     api_get_typed_func = (\<lambda>_. rreturn ()),
     api_call = (\<lambda>_ w. (Inl \<lparr>err_context = [], err_exit = Some 3\<rparr>, w))\<rparr>"

lemma sample_linker_laws: "linker_laws sample_api snd"
  by (simp add: linker_laws_def sample_api_def case_prod_beta)

theorem threads_share_memories_witness:
  "\<exists>memories v'. memories = [\<lparr>ism_module = ''env'', ism_name = ''memory'', ism_memory = 0\<rparr>] \<and>
     define_shared_memories sample_api memories (7, Map.empty) = (Inr (), v') \<and>
     snd v' (''env'', ''memory'') = Some 0"
proof -
  let ?ms = "[\<lparr>ism_module = ''env'', ism_name = ''memory'', ism_memory = 0 :: nat\<rparr>]"
  have m: "define_imported_memories sample_api (0, Map.empty) = (Inr ?ms, (1, [(''env'', ''memory'') \<mapsto> 0]))"
    by (simp add: define_imported_memories_def sample_api_def rbind_def rthen_def rcontext_def rreturn_def context_err_def)
  have t: "define_shared_memories sample_api ?ms (7, Map.empty) = (Inr (), (7, [(''env'', ''memory'') \<mapsto> 0]))"
    by (simp add: sample_api_def rbind_def rthen_def rreturn_def)
  from threads_share_memories [OF sample_linker_laws m t] t show ?thesis by (auto simp: ism_key_def)
qed

text \<open>
  C39: thread ids are not reused.  Over up to \<open>2 ^ 32\<close> spawns, from any value of the counter and with
  any pattern of failures, no positive reply occurs twice; every other reply is \<open>-EAGAIN\<close>.
\<close>

theorem thread_ids_distinct:
  assumes "length spawned \<le> 2 ^ 32" "i < length spawned" "j < length spawned" "i \<noteq> j"
    "0 < sint (spawn_all next_id spawned ! i)"
  shows "spawn_all next_id spawned ! i \<noteq> spawn_all next_id spawned ! j"
  using spawn_all_distinct [OF assms] by blast

theorem thread_ids_distinct_witness:
  "spawn_all 1 [True, False, True] ! 0 \<noteq> spawn_all 1 [True, False, True] ! 2"
  by (rule thread_ids_distinct) (simp_all add: spawn_wasi_thread_def)

text \<open>
  The first interrupt or termination signal only asks for a shutdown; an interrupt after a
  shutdown was asked for, by a signal or by the guest, ends the process with status 1, and a
  termination signal never does.
\<close>

theorem second_interrupt_exits:
  assumes "signal_hook_laws deliver"
  shows "deliver registered_actions sg flag = (if sg = SIGINT \<and> flag then (Some 1, True) else (None, True))"
  using assms by (rule deliver_registered)

fun sample_deliver :: "(signal \<times> signal_action) list \<Rightarrow> signal \<Rightarrow> bool \<Rightarrow> i32 option \<times> bool" where
  "sample_deliver [] sg flag = (None, flag)"
| "sample_deliver ((other, act) # rest) sg flag =
     (if other \<noteq> sg then sample_deliver rest sg flag
      else case act of SetFlag \<Rightarrow> sample_deliver rest sg True
        | ConditionalShutdown status \<Rightarrow> if flag then (Some status, flag) else sample_deliver rest sg flag)"

theorem second_interrupt_exits_witness:
  "sample_deliver registered_actions SIGINT False = (None, True) \<and>
   sample_deliver registered_actions SIGINT True = (Some 1, True)"
proof -
  have "signal_hook_laws sample_deliver" by (simp add: signal_hook_laws_def)
  from second_interrupt_exits [OF this] show ?thesis by simp
qed

text \<open>
  A requested shutdown is never taken back: in every later state the flag is set and the guest's
  query answers 1.
\<close>

theorem shutdown_is_final:
  assumes "unix_run sys fs opens handles panics (snd (import_request_shutdown st)) st'"
  shows "shutdown_requested st' \<and> import_shutdown_requested st' = (Return 1, st')"
  using unix_host.run_frame [OF assms] by (simp add: import_request_shutdown_def import_shutdown_requested_def)

theorem shutdown_is_final_witness:
  "shutdown_requested (snd (import_request_shutdown (sample_start False)))"
  using shutdown_is_final [of sample_sys sample_fs sample_opens sample_handles True "sample_start False"
      "snd (import_request_shutdown (sample_start False))"] by simp

text \<open>
  The process exits with 0 when the guest returns, with the guest's own exit status when it is
  between 0 and 255, and with 1 for any other status and for every other error.
\<close>

theorem exit_status:
  "unat (fst (main api he cli w)) =
     (case fst (run api he cli w) of
        Inr _ \<Rightarrow> 0
      | Inl err \<Rightarrow> (case err_exit err of None \<Rightarrow> 1
          | Some st \<Rightarrow> if 0 \<le> sint st \<and> sint st < 256 then nat (sint st) else 1))"
  by (rule main_status)

end
